(* ===== verification/Prelude.thy ===== *)
theory Prelude
  imports Main "HOL-Library.Finite_Map" "HOL-Library.List_Lexorder" "HOL-Library.Char_ord"
    "HOL-Library.Multiset"
begin

text \<open>
  Shared ground of the development: Go maps as finite maps, the order in which a Go
  \<open>range\<close> statement visits a map, error values, namespaced names as map keys, and the lemma
  collections the component theories fill.

  A Go map is a finite map \<open>('k, 'v) fmap\<close>: \<open>m[k]\<close> with the comma-ok form is
  \<open>fmlookup m k\<close>, \<open>m[k] = v\<close> is \<open>fmupd k v m\<close>, \<open>delete(m, k)\<close> is \<open>fmdrop k m\<close>.
  The order of a \<open>range\<close> over a map is left open by the language.  It is an argument of the
  definitions that iterate: a function from the set of keys to the sequence in which they are
  visited, of which only \<open>range_order\<close> is known.
\<close>

named_theorems tracker_simps \<open>equations of the tracker's operations\<close>

section \<open>Errors\<close>

text \<open>A Go \<open>error\<close> result is \<open>None\<close> for nil and \<open>Some msg\<close> for a non-nil error.\<close>

type_synonym go_error = "string option"

section \<open>Iteration over maps\<close>

definition range_order :: "('k fset \<Rightarrow> 'k list) \<Rightarrow> bool" where
  "range_order ord \<longleftrightarrow> (\<forall>A. distinct (ord A) \<and> set (ord A) = fset A)"

definition range_values :: "('k fset \<Rightarrow> 'k list) \<Rightarrow> ('k, 'v) fmap \<Rightarrow> 'v list" where
  "range_values ord m = map (\<lambda>k. the (fmlookup m k)) (ord (fmdom m))"

lemma range_orderD: "range_order ord \<Longrightarrow> distinct (ord A)" "range_order ord \<Longrightarrow> set (ord A) = fset A"
  by (simp_all add: range_order_def)

lemma set_range_values:
  "range_order ord \<Longrightarrow> set (range_values ord m) = fmran' m"
  by (force simp: range_values_def range_orderD fmran'_def image_iff fmlookup_dom_iff)

lemma length_range_values: "range_order ord \<Longrightarrow> length (range_values ord m) = fcard (fmdom m)"
  by (simp add: range_values_def fcard.rep_eq range_orderD flip: distinct_card)

lemma range_order_sorted [simp]: "range_order (\<lambda>A. sorted_list_of_fset A)"
  by (simp add: range_order_def sorted_list_of_fset.rep_eq)

section \<open>Namespaced names\<close>

record NamespacedName =
  nn_Namespace :: string
  nn_Name :: string

abbreviation nn :: "string \<Rightarrow> string \<Rightarrow> NamespacedName" where
  "nn ns n \<equiv> \<lparr>nn_Namespace = ns, nn_Name = n\<rparr>"

text \<open>Names are ordered by namespace, then by name, so that sets of them have a sorted list.\<close>

instantiation NamespacedName_ext :: (linorder) linorder
begin

definition less_eq_NamespacedName_ext ::
  "'a NamespacedName_scheme \<Rightarrow> 'a NamespacedName_scheme \<Rightarrow> bool" where
  "less_eq_NamespacedName_ext x y \<longleftrightarrow>
     nn_Namespace x < nn_Namespace y \<or> nn_Namespace x = nn_Namespace y \<and>
     (nn_Name x < nn_Name y \<or> nn_Name x = nn_Name y \<and>
      NamespacedName.more x \<le> NamespacedName.more y)"

definition less_NamespacedName_ext ::
  "'a NamespacedName_scheme \<Rightarrow> 'a NamespacedName_scheme \<Rightarrow> bool" where
  "less_NamespacedName_ext x y \<longleftrightarrow> x \<le> y \<and> \<not> y \<le> x"

instance
  by standard (auto simp: less_eq_NamespacedName_ext_def less_NamespacedName_ext_def)

end

end
