(* ===== verification/Go_Lib.thy ===== *)
theory Go_Lib
  imports Prelude
begin

text \<open>
  What the program uses of the Go standard library, as executable functions on byte strings:
  \<open>strings.HasPrefix\<close>, \<open>TrimPrefix\<close>, \<open>HasSuffix\<close>, \<open>Split\<close> on a one-byte separator and
  \<open>TrimSpace\<close>; \<open>filepath.Join\<close>; \<open>strconv.ParseBool\<close> and \<open>Atoi\<close>; \<open>sort.Slice\<close>; and the verbs
  \<open>%t\<close> and \<open>%x\<close> of \<open>fmt.Sprintf\<close>.  A Go string is a sequence of bytes, so a
  \<open>char\<close> here is a byte.
\<close>

section \<open>Prefixes and suffixes\<close>

definition HasPrefix :: "string \<Rightarrow> string \<Rightarrow> bool" where
  "HasPrefix s p \<longleftrightarrow> take (length p) s = p"

definition TrimPrefix :: "string \<Rightarrow> string \<Rightarrow> string" where
  "TrimPrefix s p = (if HasPrefix s p then drop (length p) s else s)"

definition HasSuffix :: "string \<Rightarrow> string \<Rightarrow> bool" where
  "HasSuffix s p \<longleftrightarrow> length p \<le> length s \<and> drop (length s - length p) s = p"

lemma HasPrefix_append [simp]: "HasPrefix (p @ s) p"
  by (simp add: HasPrefix_def)

lemma TrimPrefix_append [simp]: "TrimPrefix (p @ s) p = s"
  by (simp add: TrimPrefix_def)

lemma HasPrefix_iff: "HasPrefix s p \<longleftrightarrow> (\<exists>t. s = p @ t)"
  by (metis HasPrefix_append HasPrefix_def append_take_drop_id)

lemma HasSuffix_iff: "HasSuffix s p \<longleftrightarrow> (\<exists>t. s = t @ p)"
  by (auto simp: HasSuffix_def) (metis append_take_drop_id)

section \<open>Splitting\<close>

fun Split :: "string \<Rightarrow> char \<Rightarrow> string list" where
  "Split [] c = [[]]"
| "Split (x # xs) c =
     (if x = c then [] # Split xs c
      else case Split xs c of [] \<Rightarrow> [[x]] | w # ws \<Rightarrow> (x # w) # ws)"

lemma Split_nonempty [simp]: "Split s c \<noteq> []"
  by (cases s) (auto split: list.splits)

lemma Split_no_sep: "w \<in> set (Split s c) \<Longrightarrow> c \<notin> set w"
  by (induction s arbitrary: w) (auto split: if_splits list.splits)

lemma Split_single: "c \<notin> set s \<Longrightarrow> Split s c = [s]"
  by (induction s) auto

lemma Split_append_sep: "c \<notin> set s \<Longrightarrow> Split (s @ c # t) c = s # Split t c"
  by (induction s) (auto split: list.splits)

section \<open>Paths\<close>

text \<open>\<open>filepath.Clean\<close> and \<open>Join\<close> on Unix: element by element, with \<open>..\<close> cancelling the one before.\<close>

definition path_element :: "bool \<Rightarrow> string \<Rightarrow> string list \<Rightarrow> string list" where
  "path_element rooted e acc =
     (if e = [] \<or> e = ''.'' then acc
      else if e = ''..''
      then (if acc \<noteq> [] \<and> last acc \<noteq> ''..'' then butlast acc else if rooted then acc else acc @ [e])
      else acc @ [e])"

fun join_slash :: "string list \<Rightarrow> string" where
  "join_slash [] = []"
| "join_slash [e] = e"
| "join_slash (e # es) = e @ ''/'' @ join_slash es"

definition path_Clean :: "string \<Rightarrow> string" where
  "path_Clean p =
     (if p = [] then ''.''
      else
        (let rooted = (hd p = CHR ''/'');
             out = join_slash (fold (path_element rooted) (Split p (CHR ''/'')) [])
         in if rooted then ''/'' @ out else if out = [] then ''.'' else out))"

definition path_Join :: "string list \<Rightarrow> string" where
  "path_Join elems =
     (case filter (\<lambda>e. e \<noteq> []) elems of [] \<Rightarrow> [] | es \<Rightarrow> path_Clean (join_slash es))"

section \<open>White space\<close>

text \<open>
  The encodings in UTF-8 of the runes for which \<open>unicode.IsSpace\<close> holds: the six ASCII ones,
  U+0085, U+00A0, U+1680, U+2000 to U+200A, U+2028, U+2029, U+202F, U+205F and U+3000.
\<close>

definition space_runes :: "string list" where
  "space_runes =
    [[CHR 0x09], [CHR 0x0A], [CHR 0x0B], [CHR 0x0C], [CHR 0x0D], [CHR 0x20],
     [CHR 0xC2, CHR 0x85], [CHR 0xC2, CHR 0xA0], [CHR 0xE1, CHR 0x9A, CHR 0x80],
     [CHR 0xE2, CHR 0x80, CHR 0x80], [CHR 0xE2, CHR 0x80, CHR 0x81],
     [CHR 0xE2, CHR 0x80, CHR 0x82], [CHR 0xE2, CHR 0x80, CHR 0x83],
     [CHR 0xE2, CHR 0x80, CHR 0x84], [CHR 0xE2, CHR 0x80, CHR 0x85],
     [CHR 0xE2, CHR 0x80, CHR 0x86], [CHR 0xE2, CHR 0x80, CHR 0x87],
     [CHR 0xE2, CHR 0x80, CHR 0x88], [CHR 0xE2, CHR 0x80, CHR 0x89],
     [CHR 0xE2, CHR 0x80, CHR 0x8A], [CHR 0xE2, CHR 0x80, CHR 0xA8],
     [CHR 0xE2, CHR 0x80, CHR 0xA9], [CHR 0xE2, CHR 0x80, CHR 0xAF],
     [CHR 0xE2, CHR 0x81, CHR 0x9F], [CHR 0xE3, CHR 0x80, CHR 0x80]]"

function trim_runes :: "string list \<Rightarrow> string \<Rightarrow> string" where
  "trim_runes rs s =
     (case find (\<lambda>r. r \<noteq> [] \<and> HasPrefix s r) rs of
        None \<Rightarrow> s
      | Some r \<Rightarrow> trim_runes rs (drop (length r) s))"
  by pat_completeness auto
termination
  by (relation "measure (\<lambda>(rs, s). length s)") (auto simp: find_Some_iff HasPrefix_iff)

declare trim_runes.simps [simp del]

definition TrimSpace :: "string \<Rightarrow> string" where
  "TrimSpace s = rev (trim_runes (map rev space_runes) (rev (trim_runes space_runes s)))"

lemma trim_runes_fix: "find (\<lambda>r. r \<noteq> [] \<and> HasPrefix (trim_runes rs s) r) rs = None"
proof (induction rs s rule: trim_runes.induct)
  case (1 rs s)
  show ?case
    by (cases "find (\<lambda>r. r \<noteq> [] \<and> HasPrefix s r) rs")
      (simp_all add: trim_runes.simps [of rs s] "1.IH")
qed

lemma trim_runes_suffix: "\<exists>t. s = t @ trim_runes rs s"
proof (induction rs s rule: trim_runes.induct)
  case (1 rs s)
  show ?case
  proof (cases "find (\<lambda>r. r \<noteq> [] \<and> HasPrefix s r) rs")
    case None
    then show ?thesis by (simp add: trim_runes.simps [of rs s])
  next
    case (Some r)
    from "1.IH" [OF this] obtain t where "drop (length r) s = t @ trim_runes rs (drop (length r) s)"
      by blast
    then have "s = (take (length r) s @ t) @ trim_runes rs (drop (length r) s)"
      by (metis append.assoc append_take_drop_id)
    moreover have "trim_runes rs s = trim_runes rs (drop (length r) s)"
      using Some by (simp add: trim_runes.simps [of rs s])
    ultimately show ?thesis by metis
  qed
qed

lemma set_TrimSpace: "set (TrimSpace s) \<subseteq> set s"
proof -
  obtain t where "s = t @ trim_runes space_runes s"
    using trim_runes_suffix by blast
  moreover obtain u where "rev (trim_runes space_runes s) = u @
      trim_runes (map rev space_runes) (rev (trim_runes space_runes s))"
    using trim_runes_suffix by blast
  ultimately show ?thesis
    unfolding TrimSpace_def by (metis UnCI set_append set_rev subsetI)
qed

section \<open>Booleans and integers\<close>

definition ParseBool :: "string \<Rightarrow> bool option" where
  "ParseBool s =
     (if s \<in> {''1'', ''t'', ''T'', ''true'', ''TRUE'', ''True''} then Some True
      else if s \<in> {''0'', ''f'', ''F'', ''false'', ''FALSE'', ''False''} then Some False
      else None)"

definition show_bool :: "bool \<Rightarrow> string" where
  "show_bool b = (if b then ''true'' else ''false'')"

lemma ParseBool_show [simp]: "ParseBool (show_bool b) = Some b"
  by (simp add: ParseBool_def show_bool_def)

definition is_digit :: "char \<Rightarrow> bool" where
  "is_digit c \<longleftrightarrow> 48 \<le> (of_char c :: nat) \<and> (of_char c :: nat) \<le> 57"

fun digits_value :: "int \<Rightarrow> string \<Rightarrow> int" where
  "digits_value acc [] = acc"
| "digits_value acc (c # cs) = digits_value (10 * acc + (of_char c - 48)) cs"

text \<open>\<open>strconv.Atoi\<close>: an optional sign, at least one decimal digit, and a 64-bit range check.\<close>

definition Atoi :: "string \<Rightarrow> int option" where
  "Atoi s =
     (let (neg, ds) = (case s of
            c # cs \<Rightarrow> if c = CHR ''-'' then (True, cs)
                      else if c = CHR ''+'' then (False, cs) else (False, s)
          | [] \<Rightarrow> (False, s));
          v = (if neg then - digits_value 0 ds else digits_value 0 ds)
      in if ds \<noteq> [] \<and> list_all is_digit ds \<and> - (2 ^ 63) \<le> v \<and> v < 2 ^ 63 then Some v else None)"

section \<open>Hexadecimal\<close>

definition hex_digit :: "nat \<Rightarrow> char" where
  "hex_digit n = (if n < 10 then char_of (48 + n) else char_of (87 + n))"

definition hex_byte :: "nat \<Rightarrow> string" where
  "hex_byte b = [hex_digit (b div 16), hex_digit (b mod 16)]"

definition hex_string :: "nat list \<Rightarrow> string" where
  "hex_string bs = concat (map hex_byte bs)"

lemma length_hex_string [simp]: "length (hex_string bs) = 2 * length bs"
  by (induction bs) (auto simp: hex_string_def hex_byte_def)

section \<open>sort.Slice\<close>

text \<open>
  \<open>sort.Slice(x, less)\<close> permutes \<open>x\<close> so that no element is less than the one before it.
  It is not stable; the callers here sort slices whose initial order is itself left open (it
  comes from a map or from a list the API server returned), so the insertion sort below, run on
  every initial order, yields every result the library may yield.
\<close>

fun sort_insert :: "('a \<Rightarrow> 'a \<Rightarrow> bool) \<Rightarrow> 'a \<Rightarrow> 'a list \<Rightarrow> 'a list" where
  "sort_insert lt x [] = [x]"
| "sort_insert lt x (y # ys) = (if lt y x then y # sort_insert lt x ys else x # y # ys)"

fun sort_slice :: "('a \<Rightarrow> 'a \<Rightarrow> bool) \<Rightarrow> 'a list \<Rightarrow> 'a list" where
  "sort_slice lt [] = []"
| "sort_slice lt (x # xs) = sort_insert lt x (sort_slice lt xs)"

lemma mset_sort_insert [simp]: "mset (sort_insert lt x ys) = add_mset x (mset ys)"
  by (induction ys) auto

lemma mset_sort_slice [simp]: "mset (sort_slice lt xs) = mset xs"
  by (induction xs) auto

lemma set_sort_insert [simp]: "set (sort_insert lt x ys) = insert x (set ys)"
  by (metis mset_sort_insert set_mset_add_mset_insert set_mset_mset)

lemma set_sort_slice [simp]: "set (sort_slice lt xs) = set xs"
  by (metis mset_sort_slice set_mset_mset)

lemma length_sort_slice [simp]: "length (sort_slice lt xs) = length xs"
  by (metis mset_sort_slice size_mset)

lemma distinct_sort_slice [simp]: "distinct (sort_slice lt xs) = distinct xs"
  by (metis mset_eq_imp_distinct_iff mset_sort_slice)

text \<open>
  The contract a comparison must meet for \<open>sort.Slice\<close> to sort: a strict weak order.
  Each comparison the program passes is an interpretation of it.
\<close>

locale slice_order =
  fixes lt :: "'a \<Rightarrow> 'a \<Rightarrow> bool"
  assumes less_asym: "lt x y \<Longrightarrow> \<not> lt y x"
    and not_less_trans: "\<not> lt x y \<Longrightarrow> \<not> lt y z \<Longrightarrow> \<not> lt x z"
begin

lemma sorted_sort_insert:
  "sorted_wrt (\<lambda>x y. \<not> lt y x) ys \<Longrightarrow> sorted_wrt (\<lambda>x y. \<not> lt y x) (sort_insert lt x ys)"
proof (induction ys)
  case Nil
  then show ?case by simp
next
  case (Cons y ys)
  show ?case
  proof (cases "lt y x")
    case True
    with Cons show ?thesis by (auto dest: less_asym)
  next
    case False
    with Cons.prems have "\<not> lt z x" if "z \<in> set ys" for z
      using that not_less_trans by (metis list.set_intros(2) sorted_wrt.simps(2))
    with Cons.prems False show ?thesis by auto
  qed
qed

lemma sorted_sort_slice: "sorted_wrt (\<lambda>x y. \<not> lt y x) (sort_slice lt xs)"
  by (induction xs) (auto intro: sorted_sort_insert)

lemma hd_sort_slice:
  assumes "x \<in> set xs"
  shows "\<not> lt x (hd (sort_slice lt xs))"
proof (cases "sort_slice lt xs")
  case Nil
  with assms show ?thesis by (metis empty_iff empty_set set_sort_slice)
next
  case (Cons y ys)
  moreover have "x \<in> set (sort_slice lt xs)" using assms by simp
  moreover have "\<not> lt y y" using less_asym by blast
  ultimately show ?thesis using sorted_sort_slice [of xs] by auto
qed

lemma sorted_wrt_unique:
  "set xs = set ys \<Longrightarrow> distinct xs \<Longrightarrow> distinct ys \<Longrightarrow> sorted_wrt lt xs \<Longrightarrow> sorted_wrt lt ys \<Longrightarrow> xs = ys"
proof (induction xs arbitrary: ys)
  case Nil
  then show ?case by simp
next
  case (Cons x xs)
  then obtain y zs where ys: "ys = y # zs" by (cases ys) auto
  have "x = y"
  proof (rule ccontr)
    assume "x \<noteq> y"
    with Cons.prems(1) ys have "x \<in> set zs" "y \<in> set xs" by auto
    with Cons.prems(4,5) ys show False by (auto dest: less_asym)
  qed
  with Cons.prems ys have "set xs = set zs" by auto
  with Cons ys \<open>x = y\<close> show ?case by auto
qed

lemma sorted_wrt_total:
  assumes "\<And>x y. x \<in> set zs \<Longrightarrow> y \<in> set zs \<Longrightarrow> x \<noteq> y \<Longrightarrow> lt x y \<or> lt y x"
    and "distinct zs" and "sorted_wrt (\<lambda>x y. \<not> lt y x) zs"
  shows "sorted_wrt lt zs"
  using assms
proof (induction zs)
  case Nil
  then show ?case by simp
next
  case (Cons a zs)
  then have "sorted_wrt lt zs" by simp
  moreover have "lt a z" if "z \<in> set zs" for z
    using that Cons.prems by (metis distinct.simps(2) list.set_intros sorted_wrt.simps(2))
  ultimately show ?case by simp
qed

text \<open>
  With a comparison that is total on distinct elements the initial order does not matter.
\<close>

lemma sort_slice_order_free:
  assumes "set xs = set ys" "distinct xs" "distinct ys"
    and "\<And>x y. x \<in> set xs \<Longrightarrow> y \<in> set xs \<Longrightarrow> x \<noteq> y \<Longrightarrow> lt x y \<or> lt y x"
  shows "sort_slice lt xs = sort_slice lt ys"
  using assms by (intro sorted_wrt_unique sorted_wrt_total sorted_sort_slice) auto

end

end
