(* ===== verification/Sha256.thy ===== *)
theory Sha256
  imports Go_Lib "HOL-Library.Word"
begin

unbundle bit_operations_syntax

text \<open>
  \<open>crypto/sha256\<close> of the Go standard library, as FIPS 180-4 defines it: the digest of a byte
  string as 32 bytes, executable.  The program uses it as \<open>sha256.New\<close>, a sequence of
  \<open>Write\<close>s and \<open>Sum(nil)\<close>, so a hasher is the byte string written so far, and
  \<open>fmt.Sprintf("%x", sum)[:16]\<close> is \<open>short_hex\<close>.
\<close>

section \<open>Constants\<close>

text \<open>
  The standard takes the first 32 bits of the fractional parts of the cube roots of the first 64
  primes and of the square roots of the first eight; \<open>int_root k n\<close> is the integer part of the
  \<open>k\<close>-th root, found bit by bit below \<open>2 ^ 38\<close>, and the conversion to a word drops the integer
  part of the scaled root.
\<close>

definition int_root :: "nat \<Rightarrow> int \<Rightarrow> int" where
  "int_root k n = foldl (\<lambda>r b. if (r + 2 ^ b) ^ k \<le> n then r + 2 ^ b else r) 0 (rev [0..<38])"

definition root_fraction :: "nat \<Rightarrow> int \<Rightarrow> 32 word" where
  "root_fraction k p = word_of_int (int_root k (p * 2 ^ (32 * k)))"

definition sha_primes :: "int list" where
  "sha_primes =
    [2, 3, 5, 7, 11, 13, 17, 19, 23, 29, 31, 37, 41, 43, 47, 53,
     59, 61, 67, 71, 73, 79, 83, 89, 97, 101, 103, 107, 109, 113, 127, 131,
     137, 139, 149, 151, 157, 163, 167, 173, 179, 181, 191, 193, 197, 199, 211, 223,
     227, 229, 233, 239, 241, 251, 257, 263, 269, 271, 277, 281, 283, 293, 307, 311]"

definition sha_k :: "32 word list" where
  "sha_k = map (root_fraction 3) sha_primes"

definition sha_h0 :: "32 word list" where
  "sha_h0 = map (root_fraction 2) (take 8 sha_primes)"

section \<open>Compression\<close>

definition rotr32 :: "nat \<Rightarrow> 32 word \<Rightarrow> 32 word" where
  "rotr32 n x = drop_bit n x OR push_bit (32 - n) x"

definition big_sigma0 :: "32 word \<Rightarrow> 32 word" where
  "big_sigma0 x = rotr32 2 x XOR rotr32 13 x XOR rotr32 22 x"

definition big_sigma1 :: "32 word \<Rightarrow> 32 word" where
  "big_sigma1 x = rotr32 6 x XOR rotr32 11 x XOR rotr32 25 x"

definition small_sigma0 :: "32 word \<Rightarrow> 32 word" where
  "small_sigma0 x = rotr32 7 x XOR rotr32 18 x XOR drop_bit 3 x"

definition small_sigma1 :: "32 word \<Rightarrow> 32 word" where
  "small_sigma1 x = rotr32 17 x XOR rotr32 19 x XOR drop_bit 10 x"

definition sha_ch :: "32 word \<Rightarrow> 32 word \<Rightarrow> 32 word \<Rightarrow> 32 word" where
  "sha_ch x y z = (x AND y) XOR (NOT x AND z)"

definition sha_maj :: "32 word \<Rightarrow> 32 word \<Rightarrow> 32 word \<Rightarrow> 32 word" where
  "sha_maj x y z = (x AND y) XOR (x AND z) XOR (y AND z)"

text \<open>
  The message schedule keeps the last sixteen words, the oldest first; one round consumes the
  oldest and appends the next.
\<close>

fun next_word :: "32 word list \<Rightarrow> 32 word" where
  "next_word ws = small_sigma1 (ws ! 14) + ws ! 9 + small_sigma0 (ws ! 1) + ws ! 0"

fun sha_round :: "32 word \<Rightarrow> 32 word \<Rightarrow> 32 word list \<Rightarrow> 32 word list" where
  "sha_round k w [a, b, c, d, e, f, g, h] =
     (let t1 = h + big_sigma1 e + sha_ch e f g + k + w;
          t2 = big_sigma0 a + sha_maj a b c
      in [t1 + t2, a, b, c, d + t1, e, f, g])"
| "sha_round k w s = s"

fun sha_rounds :: "32 word list \<Rightarrow> 32 word list \<Rightarrow> 32 word list \<Rightarrow> 32 word list" where
  "sha_rounds [] ws s = s"
| "sha_rounds (k # ks) ws s =
     (case ws of [] \<Rightarrow> s
      | w # rest \<Rightarrow> sha_rounds ks (rest @ [next_word ws]) (sha_round k w s))"

definition sha_block :: "32 word list \<Rightarrow> 32 word list \<Rightarrow> 32 word list" where
  "sha_block hs ws = map2 (+) hs (sha_rounds sha_k ws hs)"

section \<open>Padding and the digest\<close>

fun be_word :: "nat list \<Rightarrow> 32 word" where
  "be_word bs = foldl (\<lambda>acc b. 256 * acc + of_nat b) 0 bs"

fun le_bytes :: "nat \<Rightarrow> nat \<Rightarrow> nat list" where
  "le_bytes 0 n = []"
| "le_bytes (Suc k) n = (n mod 256) # le_bytes k (n div 256)"

definition word_bytes :: "32 word \<Rightarrow> nat list" where
  "word_bytes w = map (\<lambda>i. unat (drop_bit i w AND 255)) [24, 16, 8, 0]"

definition sha_pad :: "nat list \<Rightarrow> nat list" where
  "sha_pad bs = bs @ [128] @ replicate ((119 - length bs mod 64) mod 64) 0 @ rev (le_bytes 8 (8 * length bs))"

fun chunks :: "nat \<Rightarrow> 'a list \<Rightarrow> 'a list list" where
  "chunks n xs = (if n = 0 \<or> xs = [] then [] else take n xs # chunks n (drop n xs))"

declare chunks.simps [simp del]

definition sha_words :: "nat list \<Rightarrow> 32 word list list" where
  "sha_words bs = map (\<lambda>block. map be_word (chunks 4 block)) (chunks 64 (sha_pad bs))"

definition sum256 :: "string \<Rightarrow> nat list" where
  "sum256 s = concat (map word_bytes (foldl sha_block sha_h0 (sha_words (map of_char s))))"

definition short_hex :: "string \<Rightarrow> string" where
  "short_hex s = take 16 (hex_string (sum256 s))"

section \<open>Lengths\<close>

lemma length_sha_round: "length s = 8 \<Longrightarrow> length (sha_round k w s) = 8"
  by (induction k w s rule: sha_round.induct) (auto simp: Let_def)

lemma length_sha_rounds: "length s = 8 \<Longrightarrow> length (sha_rounds ks ws s) = 8"
  by (induction ks ws s rule: sha_rounds.induct) (auto simp: length_sha_round split: list.splits)

lemma length_sha_block: "length hs = 8 \<Longrightarrow> length (sha_block hs ws) = 8"
  by (simp add: sha_block_def length_sha_rounds)

lemma length_sha_blocks: "length hs = 8 \<Longrightarrow> length (foldl sha_block hs bs) = 8"
  by (induction bs arbitrary: hs) (auto simp: length_sha_block)

lemma length_concat_word_bytes: "length (concat (map word_bytes ws)) = 4 * length ws"
  by (induction ws) (auto simp: word_bytes_def)

lemma length_sum256 [simp]: "length (sum256 s) = 32"
  by (simp add: sum256_def length_concat_word_bytes length_sha_blocks sha_h0_def sha_primes_def)

lemma length_short_hex [simp]: "length (short_hex s) = 16"
  by (simp add: short_hex_def)

end
