(* ===== verification/Api_Types.thy ===== *)
theory Api_Types
  imports Sha256
begin

text \<open>
  The custom resources of \<open>api/v1alpha1\<close> (\<open>modelvalidation_types.go\<close>,
  \<open>telemetryconfig_types.go\<close>) and the parts of the Kubernetes object metadata they carry,
  with the two methods that have logic: \<open>GetAuthMethod\<close> and \<open>GetConfigHash\<close>.

  A pointer field is an \<open>option\<close>; a Go map field is a finite map (nil and empty maps behave
  alike in every read the program makes, and every write is guarded); times are the numbers a
  \<open>metav1.Time\<close> stands for; a \<open>resource.Quantity\<close> is the canonical string its \<open>String\<close>
  method returns.
\<close>

section \<open>Object metadata\<close>

type_synonym timestamp = int
type_synonym labels = "(string, string) fmap"
type_synonym Quantity = string

record ObjectMeta =
  om_Name :: string
  om_Namespace :: string
  om_UID :: string
  om_Generation :: int
  om_CreationTimestamp :: timestamp
  om_DeletionTimestamp :: "timestamp option"
  om_Labels :: labels
  om_Annotations :: "(string, string) fmap"
  om_Finalizers :: "string list"

record ResourceRequirements =
  rr_Requests :: "(string, Quantity) fmap"
  rr_Limits :: "(string, Quantity) fmap"

record Condition =
  cond_Type :: string
  cond_Status :: string
  cond_ObservedGeneration :: int
  cond_LastTransitionTime :: timestamp
  cond_Reason :: string
  cond_Message :: string

definition ResourceCPU :: string where "ResourceCPU = ''cpu''"
definition ResourceMemory :: string where "ResourceMemory = ''memory''"

section \<open>ModelValidation\<close>

record Model =
  m_Path :: string
  m_SignaturePath :: string
  m_IgnorePaths :: "string list"
  m_IgnoreGitPaths :: "bool option"
  m_IgnoreUnsignedFiles :: "bool option"
  m_AllowSymlinks :: "bool option"

record SigstoreConfig =
  sc_CertificateIdentity :: string
  sc_CertificateOidcIssuer :: string

record PkiConfig =
  pc_CertificateAuthority :: string

record PublicKeyConfig =
  pk_KeyPath :: string

record ClientTrustConfig =
  ct_TrustConfigPath :: string

record ValidationConfig =
  vc_SigstoreConfig :: "SigstoreConfig option"
  vc_PkiConfig :: "PkiConfig option"
  vc_PublicKeyConfig :: "PublicKeyConfig option"
  vc_ClientTrustConfig :: "ClientTrustConfig option"

record ContinuousValidation =
  cv_Enabled :: bool
  cv_Interval :: string

record ModelValidationSpec =
  mvs_Model :: Model
  mvs_Config :: ValidationConfig
  mvs_ImagePullPolicy :: string
  mvs_ContinuousValidation :: "ContinuousValidation option"
  mvs_Resources :: "ResourceRequirements option"

record PodTrackingInfo =
  pti_Name :: string
  pti_UID :: string
  pti_InjectedAt :: timestamp

record ModelValidationStatus =
  st_Conditions :: "Condition list"
  st_InjectedPodCount :: "32 word"
  st_UninjectedPodCount :: "32 word"
  st_OrphanedPodCount :: "32 word"
  st_AuthMethod :: string
  st_InjectedPods :: "PodTrackingInfo list"
  st_UninjectedPods :: "PodTrackingInfo list"
  st_OrphanedPods :: "PodTrackingInfo list"
  st_LastUpdated :: timestamp

record ModelValidation =
  mv_Meta :: ObjectMeta
  mv_Spec :: ModelValidationSpec
  mv_Status :: ModelValidationStatus

abbreviation mv_Config :: "ModelValidation \<Rightarrow> ValidationConfig" where
  "mv_Config mv \<equiv> mvs_Config (mv_Spec mv)"

text \<open>The admission rule of the CRD: exactly one validation method is given.\<close>

definition exactly_one_method :: "ValidationConfig \<Rightarrow> bool" where
  "exactly_one_method vc \<longleftrightarrow>
     length (filter (\<lambda>x. x) [vc_SigstoreConfig vc \<noteq> None, vc_PkiConfig vc \<noteq> None,
                             vc_PublicKeyConfig vc \<noteq> None]) = 1"

section \<open>Authentication method\<close>

definition GetAuthMethod :: "ModelValidation \<Rightarrow> string" where
  "GetAuthMethod mv =
     (if vc_SigstoreConfig (mv_Config mv) \<noteq> None then ''sigstore''
      else if vc_PkiConfig (mv_Config mv) \<noteq> None then ''pki''
      else if vc_PublicKeyConfig (mv_Config mv) \<noteq> None then ''public-key''
      else ''unknown'')"

section \<open>Configuration hash\<close>

text \<open>A hasher is the byte string written to it; each \<open>Write\<close> appends.\<close>

definition ValidationConfig_bytes :: "ValidationConfig \<Rightarrow> string" where
  "ValidationConfig_bytes vc =
     (case vc_SigstoreConfig vc of
        Some sc \<Rightarrow> ''sigstore'' @ sc_CertificateIdentity sc @ sc_CertificateOidcIssuer sc
      | None \<Rightarrow>
        (case vc_PkiConfig vc of
           Some pc \<Rightarrow> ''pki'' @ pc_CertificateAuthority pc
         | None \<Rightarrow>
           (case vc_PublicKeyConfig vc of
              Some pk \<Rightarrow> ''publickey'' @ pk_KeyPath pk
            | None \<Rightarrow> []))) @
     (case vc_ClientTrustConfig vc of
        Some ct \<Rightarrow> ''clienttrust'' @ ct_TrustConfigPath ct
      | None \<Rightarrow> [])"

definition ValidationConfig_GetConfigHash :: "ValidationConfig \<Rightarrow> string" where
  "ValidationConfig_GetConfigHash vc = short_hex (ValidationConfig_bytes vc)"

definition resource_bytes :: "string \<Rightarrow> string \<Rightarrow> (string, Quantity) fmap \<Rightarrow> string" where
  "resource_bytes tag r m = (case fmlookup m r of Some q \<Rightarrow> tag @ q | None \<Rightarrow> [])"

definition ModelValidation_bytes :: "ModelValidation \<Rightarrow> string" where
  "ModelValidation_bytes mv =
     ValidationConfig_GetConfigHash (mv_Config mv) @
     mvs_ImagePullPolicy (mv_Spec mv) @
     (case mvs_ContinuousValidation (mv_Spec mv) of
        Some cv \<Rightarrow>
          (if cv_Enabled cv then ''continuous-enabled'' @ cv_Interval cv
           else ''continuous-disabled'')
      | None \<Rightarrow> []) @
     (case mvs_Resources (mv_Spec mv) of
        Some rr \<Rightarrow>
          ''resources'' @
          resource_bytes ''req-cpu:'' ResourceCPU (rr_Requests rr) @
          resource_bytes ''req-mem:'' ResourceMemory (rr_Requests rr) @
          resource_bytes ''lim-cpu:'' ResourceCPU (rr_Limits rr) @
          resource_bytes ''lim-mem:'' ResourceMemory (rr_Limits rr)
      | None \<Rightarrow> [])"

definition GetConfigHash :: "ModelValidation \<Rightarrow> string" where
  "GetConfigHash mv = short_hex (ModelValidation_bytes mv)"

section \<open>Lemmas\<close>

lemma length_GetConfigHash [simp]:
  "length (GetConfigHash mv) = 16" "length (ValidationConfig_GetConfigHash vc) = 16"
  by (simp_all add: GetConfigHash_def ValidationConfig_GetConfigHash_def)

lemma GetConfigHash_nonempty [simp]: "GetConfigHash mv \<noteq> []"
  using length_GetConfigHash(1) [of mv] by (metis list.size(3) zero_neq_numeral)

lemma GetAuthMethod_nonempty [simp]: "GetAuthMethod mv \<noteq> []"
  by (simp add: GetAuthMethod_def)

lemma exactly_one_cases:
  assumes "exactly_one_method vc"
  obtains (Sigstore) sc where "vc_SigstoreConfig vc = Some sc" "vc_PkiConfig vc = None"
      "vc_PublicKeyConfig vc = None"
  | (Pki) pc where "vc_SigstoreConfig vc = None" "vc_PkiConfig vc = Some pc"
      "vc_PublicKeyConfig vc = None"
  | (PublicKey) pk where "vc_SigstoreConfig vc = None" "vc_PkiConfig vc = None"
      "vc_PublicKeyConfig vc = Some pk"
  using assms by (auto simp: exactly_one_method_def split: if_splits)

text \<open>
  The hash reads the fields one after the other without a separator, so it does not see where
  the identity ends and the issuer begins; and it does not read the model.
\<close>

lemma config_hash_boundary:
  "GetConfigHash (mv\<lparr>mv_Spec := (mv_Spec mv)\<lparr>mvs_Config :=
     (mv_Config mv)\<lparr>vc_SigstoreConfig := Some \<lparr>sc_CertificateIdentity = a @ b, sc_CertificateOidcIssuer = c\<rparr>\<rparr>\<rparr>\<rparr>) =
   GetConfigHash (mv\<lparr>mv_Spec := (mv_Spec mv)\<lparr>mvs_Config :=
     (mv_Config mv)\<lparr>vc_SigstoreConfig := Some \<lparr>sc_CertificateIdentity = a, sc_CertificateOidcIssuer = b @ c\<rparr>\<rparr>\<rparr>\<rparr>)"
  by (simp add: GetConfigHash_def ModelValidation_bytes_def ValidationConfig_GetConfigHash_def
      ValidationConfig_bytes_def)

lemma config_hash_ignores_model:
  "GetConfigHash (mv\<lparr>mv_Spec := (mv_Spec mv)\<lparr>mvs_Model := m\<rparr>\<rparr>) = GetConfigHash mv"
  by (simp add: GetConfigHash_def ModelValidation_bytes_def)

section \<open>TelemetryConfig\<close>

record LabelSelectorRequirement =
  lsr_Key :: string
  lsr_Operator :: string
  lsr_Values :: "string list"

record LabelSelector =
  ls_MatchLabels :: labels
  ls_MatchExpressions :: "LabelSelectorRequirement list"

record EnvVar =
  ev_Name :: string
  ev_Value :: string

record TracingConfig =
  tr_Enabled :: bool
  tr_Endpoint :: string
  tr_Insecure :: "bool option"
  tr_Sampler :: string
  tr_SamplerArg :: string
  tr_Env :: "EnvVar list"

record TelemetryConfigSpec =
  tcs_NamespaceSelector :: "LabelSelector option"
  tcs_Selector :: "LabelSelector option"
  tcs_Tracing :: TracingConfig

record TelemetryConfigStatus =
  tct_MatchedNamespaceCount :: "32 word"
  tct_MatchedModelValidationCount :: "32 word"
  tct_LastApplied :: timestamp
  tct_Conditions :: "Condition list"

record TelemetryConfig =
  tc_Meta :: ObjectMeta
  tc_Spec :: TelemetryConfigSpec
  tc_Status :: TelemetryConfigStatus

end
