(* ===== verification/K8s_Objects.thy ===== *)
theory K8s_Objects
  imports Api_Types
begin

text \<open>
  The Kubernetes objects the operator reads and writes (pods, containers, namespaces), the
  outcome of a call on the API client, the constants of \<open>internal/constants\<close>, and the
  interface of the finalizer helpers of controller-runtime.  Of the Kubernetes types only the
  fields the program reads or sets are kept.
\<close>

section \<open>Pods\<close>

record VolumeMount =
  vm_Name :: string
  vm_MountPath :: string
  vm_SubPath :: string
  vm_ReadOnly :: bool

record Probe =
  pr_Path :: string
  pr_Port :: int
  pr_InitialDelaySeconds :: int
  pr_PeriodSeconds :: int

record SecurityContext =
  sec_RunAsNonRoot :: "bool option"
  sec_ReadOnlyRootFilesystem :: "bool option"
  sec_AllowPrivilegeEscalation :: "bool option"
  sec_SeccompProfile :: "string option"
  sec_CapabilitiesDrop :: "string list"

record Container =
  c_Name :: string
  c_Image :: string
  c_ImagePullPolicy :: string
  c_Command :: "string list"
  c_Args :: "string list"
  c_VolumeMounts :: "VolumeMount list"
  c_RestartPolicy :: "string option"
  c_ReadinessProbe :: "Probe option"
  c_LivenessProbe :: "Probe option"
  c_Resources :: ResourceRequirements
  c_Env :: "EnvVar list"
  c_SecurityContext :: "SecurityContext option"

record Volume =
  v_Name :: string
  v_EmptyDirSizeLimit :: "Quantity option"

record PodSpec =
  ps_InitContainers :: "Container list"
  ps_Containers :: "Container list"
  ps_Volumes :: "Volume list"

record Pod =
  pod_Meta :: ObjectMeta
  pod_Spec :: PodSpec

abbreviation pod_Name :: "Pod \<Rightarrow> string" where "pod_Name p \<equiv> om_Name (pod_Meta p)"
abbreviation pod_Namespace :: "Pod \<Rightarrow> string" where "pod_Namespace p \<equiv> om_Namespace (pod_Meta p)"
abbreviation pod_UID :: "Pod \<Rightarrow> string" where "pod_UID p \<equiv> om_UID (pod_Meta p)"
abbreviation pod_Labels :: "Pod \<Rightarrow> labels" where "pod_Labels p \<equiv> om_Labels (pod_Meta p)"
abbreviation pod_Annotations :: "Pod \<Rightarrow> labels" where
  "pod_Annotations p \<equiv> om_Annotations (pod_Meta p)"
abbreviation pod_Finalizers :: "Pod \<Rightarrow> string list" where
  "pod_Finalizers p \<equiv> om_Finalizers (pod_Meta p)"

text \<open>Reading a missing key of a Go \<open>map[string]string\<close> yields the empty string.\<close>

definition map_get :: "(string, string) fmap \<Rightarrow> string \<Rightarrow> string" where
  "map_get m k = (case fmlookup m k of Some v \<Rightarrow> v | None \<Rightarrow> [])"

section \<open>Client calls\<close>

datatype client_error = NotFound | ApiError string

type_synonym 'a client_result = "client_error + 'a"

section \<open>Constants\<close>

definition ModelValidationDomain :: string where
  "ModelValidationDomain = ''validation.ml.sigstore.dev''"
definition ModelValidationLabel :: string where
  "ModelValidationLabel = ModelValidationDomain @ ''/ml''"
definition IgnoreNamespaceLabel :: string where
  "IgnoreNamespaceLabel = ModelValidationDomain @ ''/ignore''"
definition ModelValidationFinalizer :: string where
  "ModelValidationFinalizer = ModelValidationDomain @ ''/finalizer''"
definition InjectedAnnotationKey :: string where
  "InjectedAnnotationKey = ModelValidationDomain @ ''/injected-at''"
definition AuthMethodAnnotationKey :: string where
  "AuthMethodAnnotationKey = ModelValidationDomain @ ''/auth-method''"
definition ConfigHashAnnotationKey :: string where
  "ConfigHashAnnotationKey = ModelValidationDomain @ ''/config-hash''"
definition IgnorePathsAnnotationKey :: string where
  "IgnorePathsAnnotationKey = ModelValidationDomain @ ''/ignore-paths''"
definition IgnoreGitPathsAnnotationKey :: string where
  "IgnoreGitPathsAnnotationKey = ModelValidationDomain @ ''/ignore-git-paths''"
definition IgnoreUnsignedFilesAnnotationKey :: string where
  "IgnoreUnsignedFilesAnnotationKey = ModelValidationDomain @ ''/ignore-unsigned-files''"
definition AllowSymlinksAnnotationKey :: string where
  "AllowSymlinksAnnotationKey = ModelValidationDomain @ ''/allow-symlinks''"
definition ContinuousValidationAnnotationKey :: string where
  "ContinuousValidationAnnotationKey = ModelValidationDomain @ ''/continuous-validation''"
definition IgnoreNamespaceValue :: string where
  "IgnoreNamespaceValue = ''true''"

definition ModelValidationInitContainerName :: string where
  "ModelValidationInitContainerName = ''model-validation''"
definition ModelValidationSidecarContainerName :: string where
  "ModelValidationSidecarContainerName = ''model-validation-sidecar''"

text \<open>
  The annotation keys are distinct; proofs use these facts and keep the keys folded.
\<close>

lemma annotation_keys_distinct [simp]:
  "InjectedAnnotationKey \<noteq> AuthMethodAnnotationKey"
  "AuthMethodAnnotationKey \<noteq> InjectedAnnotationKey"
  "InjectedAnnotationKey \<noteq> ConfigHashAnnotationKey"
  "ConfigHashAnnotationKey \<noteq> InjectedAnnotationKey"
  "AuthMethodAnnotationKey \<noteq> ConfigHashAnnotationKey"
  "ConfigHashAnnotationKey \<noteq> AuthMethodAnnotationKey"
  "ContinuousValidationAnnotationKey \<noteq> InjectedAnnotationKey"
  "ContinuousValidationAnnotationKey \<noteq> AuthMethodAnnotationKey"
  "ContinuousValidationAnnotationKey \<noteq> ConfigHashAnnotationKey"
  "InjectedAnnotationKey \<noteq> ContinuousValidationAnnotationKey"
  "AuthMethodAnnotationKey \<noteq> ContinuousValidationAnnotationKey"
  "ConfigHashAnnotationKey \<noteq> ContinuousValidationAnnotationKey"
  by (simp_all add: InjectedAnnotationKey_def AuthMethodAnnotationKey_def
      ConfigHashAnnotationKey_def ContinuousValidationAnnotationKey_def)

section \<open>Finalizer helpers\<close>

text \<open>
  \<open>controllerutil.ContainsFinalizer\<close>, \<open>AddFinalizer\<close> and \<open>RemoveFinalizer\<close> belong to
  controller-runtime.  The definitions that call them take them as an argument, as functions
  on the list of finalizers of the object; \<open>finalizer_laws\<close> is their documented contract.
\<close>

record finalizer_lib =
  ContainsFinalizer :: "string list \<Rightarrow> string \<Rightarrow> bool"
  AddFinalizer :: "string list \<Rightarrow> string \<Rightarrow> string list"
  RemoveFinalizer :: "string list \<Rightarrow> string \<Rightarrow> string list"

locale finalizer_laws =
  fixes F :: finalizer_lib
  assumes contains_add: "ContainsFinalizer F (AddFinalizer F fs x) y \<longleftrightarrow> y = x \<or> ContainsFinalizer F fs y"
    and contains_remove:
      "ContainsFinalizer F (RemoveFinalizer F fs x) y \<longleftrightarrow> y \<noteq> x \<and> ContainsFinalizer F fs y"
    and add_present: "ContainsFinalizer F fs x \<Longrightarrow> AddFinalizer F fs x = fs"
begin

lemma add_idem: "AddFinalizer F (AddFinalizer F fs x) x = AddFinalizer F fs x"
  by (simp add: add_present contains_add)

lemma remove_contains: "\<not> ContainsFinalizer F (RemoveFinalizer F fs x) x"
  by (simp add: contains_remove)

end

definition list_finalizers :: finalizer_lib where
  "list_finalizers =
    \<lparr>ContainsFinalizer = (\<lambda>fs x. x \<in> set fs),
     AddFinalizer = (\<lambda>fs x. if x \<in> set fs then fs else fs @ [x]),
     RemoveFinalizer = (\<lambda>fs x. removeAll x fs)\<rparr>"

interpretation fin: finalizer_laws list_finalizers
  by unfold_locales (auto simp: list_finalizers_def)

end
