(* ===== verification/Metrics.thy ===== *)
theory Metrics
  imports Prelude
begin

text \<open>
  \<open>internal/metrics\<close>: the recording functions of \<open>metrics.go\<close> and \<open>otel.go\<close>.  The
  Prometheus and OpenTelemetry libraries are outside the repository, so a recording function
  yields the calls it makes on their instruments, in order; an operation of the program yields
  the concatenation of what it records.  \<open>gauge\<close> and \<open>counter\<close> read such a trace: the last
  value set, and the sum of what was added.
\<close>

datatype instrument =
    ModelValidationPodCounts | PodStateTransitionsTotal | StatusUpdatesTotal
  | ConfigurationDriftEventsTotal | ModelValidationCRsTotal | StatusUpdateDuration
  | QueueSize | RetryAttemptsTotal
  | WebhookMutations | WebhookDuration | ReconcileCount | ReconcileDuration

datatype metric_call =
    GaugeSet instrument "string list" int
  | CounterAdd instrument "string list" int
  | HistogramObserve instrument "string list" int

section \<open>Label values\<close>

definition PodStateInjected :: string where [simp]: "PodStateInjected = ''injected''"
definition PodStateUninjected :: string where [simp]: "PodStateUninjected = ''uninjected''"
definition PodStateOrphaned :: string where [simp]: "PodStateOrphaned = ''orphaned''"
definition StatusUpdateSuccess :: string where [simp]: "StatusUpdateSuccess = ''success''"
definition StatusUpdateFailure :: string where [simp]: "StatusUpdateFailure = ''failure''"

section \<open>Declaration and registration\<close>

text \<open>
  The Prometheus instruments are declared with their kind and the names of their labels, and
  registered in \<open>init\<close>; the last four are OpenTelemetry instruments, made by \<open>SetupOTelMetrics\<close>.
  Registering an instrument twice panics, and so does recording with another number of label
  values than were declared.
\<close>

datatype instrument_kind = Gauge | Counter | Histogram

fun declared_kind :: "instrument \<Rightarrow> instrument_kind" where
  "declared_kind ModelValidationPodCounts = Gauge"
| "declared_kind ModelValidationCRsTotal = Gauge"
| "declared_kind QueueSize = Gauge"
| "declared_kind StatusUpdateDuration = Histogram"
| "declared_kind WebhookDuration = Histogram"
| "declared_kind ReconcileDuration = Histogram"
| "declared_kind _ = Counter"

fun declared_labels :: "instrument \<Rightarrow> string list" where
  "declared_labels ModelValidationPodCounts = [''namespace'', ''model_validation'', ''pod_state'']"
| "declared_labels PodStateTransitionsTotal = [''namespace'', ''model_validation'', ''from_state'', ''to_state'']"
| "declared_labels StatusUpdatesTotal = [''namespace'', ''model_validation'', ''result'']"
| "declared_labels ConfigurationDriftEventsTotal = [''namespace'', ''model_validation'', ''drift_type'']"
| "declared_labels ModelValidationCRsTotal = [''namespace'']"
| "declared_labels StatusUpdateDuration = [''namespace'', ''model_validation'', ''result'']"
| "declared_labels QueueSize = []"
| "declared_labels RetryAttemptsTotal = [''namespace'', ''model_validation'']"
| "declared_labels WebhookMutations = [''namespace'', ''result'']"
| "declared_labels WebhookDuration = [''namespace'', ''result'']"
| "declared_labels ReconcileCount = [''controller'', ''result'']"
| "declared_labels ReconcileDuration = [''controller'', ''result'']"

definition registered_instruments :: "instrument list" where
  "registered_instruments =
     [ModelValidationPodCounts, PodStateTransitionsTotal, StatusUpdatesTotal, ConfigurationDriftEventsTotal,
      ModelValidationCRsTotal, StatusUpdateDuration, QueueSize, RetryAttemptsTotal]"

section \<open>Recording functions\<close>

definition RecordPodCount :: "string \<Rightarrow> string \<Rightarrow> string \<Rightarrow> int \<Rightarrow> metric_call list" where
  "RecordPodCount ns mv podState n = [GaugeSet ModelValidationPodCounts [ns, mv, podState] n]"

definition RecordPodStateTransition ::
  "string \<Rightarrow> string \<Rightarrow> string \<Rightarrow> string \<Rightarrow> metric_call list" where
  "RecordPodStateTransition ns mv fromState toState =
     [CounterAdd PodStateTransitionsTotal [ns, mv, fromState, toState] 1]"

definition RecordStatusUpdate :: "string \<Rightarrow> string \<Rightarrow> string \<Rightarrow> metric_call list" where
  "RecordStatusUpdate ns mv result = [CounterAdd StatusUpdatesTotal [ns, mv, result] 1]"

definition RecordConfigurationDrift :: "string \<Rightarrow> string \<Rightarrow> string \<Rightarrow> metric_call list" where
  "RecordConfigurationDrift ns mv driftType =
     [CounterAdd ConfigurationDriftEventsTotal [ns, mv, driftType] 1]"

definition RecordModelValidationCR :: "string \<Rightarrow> int \<Rightarrow> metric_call list" where
  "RecordModelValidationCR ns n = [GaugeSet ModelValidationCRsTotal [ns] n]"

definition RecordStatusUpdateDuration ::
  "string \<Rightarrow> string \<Rightarrow> string \<Rightarrow> int \<Rightarrow> metric_call list" where
  "RecordStatusUpdateDuration ns mv result d = [HistogramObserve StatusUpdateDuration [ns, mv, result] d]"

definition SetQueueSize :: "int \<Rightarrow> metric_call list" where
  "SetQueueSize n = [GaugeSet QueueSize [] n]"

definition RecordRetryAttempt :: "string \<Rightarrow> string \<Rightarrow> metric_call list" where
  "RecordRetryAttempt ns mv = [CounterAdd RetryAttemptsTotal [ns, mv] 1]"

definition RecordMultiplePodStateTransitions ::
  "string \<Rightarrow> string \<Rightarrow> string \<Rightarrow> string \<Rightarrow> int \<Rightarrow> metric_call list" where
  "RecordMultiplePodStateTransitions ns mv fromState toState n =
     (if n > 0 then [CounterAdd PodStateTransitionsTotal [ns, mv, fromState, toState] n] else [])"

text \<open>The OpenTelemetry instruments are nil until \<open>SetupOTelMetrics\<close> has run.\<close>

definition RecordWebhookMutation :: "bool \<Rightarrow> string \<Rightarrow> string \<Rightarrow> int \<Rightarrow> metric_call list" where
  "RecordWebhookMutation ready ns result d =
     (if \<not> ready then []
      else [CounterAdd WebhookMutations [ns, result] 1, HistogramObserve WebhookDuration [ns, result] d])"

definition RecordReconcile :: "bool \<Rightarrow> string \<Rightarrow> string \<Rightarrow> int \<Rightarrow> metric_call list" where
  "RecordReconcile ready controller result d =
     (if \<not> ready then []
      else [CounterAdd ReconcileCount [controller, result] 1,
            HistogramObserve ReconcileDuration [controller, result] d])"

section \<open>Reading a trace\<close>

fun gauge :: "instrument \<Rightarrow> string list \<Rightarrow> metric_call list \<Rightarrow> int option" where
  "gauge i ls [] = None"
| "gauge i ls (c # cs) =
     (case gauge i ls cs of
        Some v \<Rightarrow> Some v
      | None \<Rightarrow> (case c of GaugeSet j ks v \<Rightarrow> if j = i \<and> ks = ls then Some v else None | _ \<Rightarrow> None))"

fun counter :: "instrument \<Rightarrow> string list \<Rightarrow> metric_call list \<Rightarrow> int" where
  "counter i ls [] = 0"
| "counter i ls (c # cs) =
     (case c of CounterAdd j ks v \<Rightarrow> if j = i \<and> ks = ls then v else 0 | _ \<Rightarrow> 0) + counter i ls cs"

lemma gauge_append [simp]:
  "gauge i ls (xs @ ys) = (case gauge i ls ys of Some v \<Rightarrow> Some v | None \<Rightarrow> gauge i ls xs)"
  by (induction xs) (auto split: option.splits metric_call.splits)

lemma counter_append [simp]: "counter i ls (xs @ ys) = counter i ls xs + counter i ls ys"
  by (induction xs) auto

lemmas record_defs =
  RecordPodCount_def RecordPodStateTransition_def RecordStatusUpdate_def
  RecordConfigurationDrift_def RecordModelValidationCR_def RecordStatusUpdateDuration_def
  SetQueueSize_def RecordRetryAttempt_def RecordMultiplePodStateTransitions_def
  RecordWebhookMutation_def RecordReconcile_def

end
