(* ===== verification/Telemetry.thy ===== *)
theory Telemetry
  imports K8s_Objects Metrics "HOL-Library.Product_Lexorder"
begin

text \<open>
  Telemetry configurations: the choice of the one that applies to a ModelValidation
  (\<open>internal/webhooks/telemetry.go\<close>) and the controller that keeps their status
  (\<open>internal/controller/telemetryconfig_controller.go\<close>).  The conversion and evaluation of label
  selectors belong to apimachinery: the argument \<open>sel\<close> is \<open>None\<close> for a selector that
  \<open>LabelSelectorAsSelector\<close> rejects and otherwise the predicate of \<open>Matches\<close>.
\<close>

type_synonym selector_lib = "LabelSelector \<Rightarrow> (labels \<Rightarrow> bool) option"

section \<open>Choosing a configuration\<close>

definition selectorSpecificity :: "LabelSelector option \<Rightarrow> int" where
  "selectorSpecificity sel =
     (case sel of None \<Rightarrow> 0
      | Some s \<Rightarrow> int (fcard (fmdom (ls_MatchLabels s))) + int (length (ls_MatchExpressions s)))"

text \<open>A selector that is absent matches; one that is invalid or does not match skips the item.\<close>

definition selector_accepts :: "selector_lib \<Rightarrow> LabelSelector option \<Rightarrow> labels \<Rightarrow> bool" where
  "selector_accepts sel s ls =
     (case s of None \<Rightarrow> True
      | Some s' \<Rightarrow> (case sel s' of None \<Rightarrow> False | Some matches \<Rightarrow> matches ls))"

record candidate =
  cand_tc :: TelemetryConfig
  cand_specificity :: int

definition tc_candidate :: "TelemetryConfig \<Rightarrow> candidate" where
  "tc_candidate tc =
     \<lparr>cand_tc = tc,
      cand_specificity = selectorSpecificity (tcs_NamespaceSelector (tc_Spec tc)) +
        selectorSpecificity (tcs_Selector (tc_Spec tc))\<rparr>"

definition tc_applies :: "selector_lib \<Rightarrow> ObjectMeta \<Rightarrow> ModelValidation \<Rightarrow> TelemetryConfig \<Rightarrow> bool" where
  "tc_applies sel namespace mv tc \<longleftrightarrow>
     tr_Enabled (tcs_Tracing (tc_Spec tc)) \<and>
     selector_accepts sel (tcs_NamespaceSelector (tc_Spec tc)) (om_Labels namespace) \<and>
     selector_accepts sel (tcs_Selector (tc_Spec tc)) (om_Labels (mv_Meta mv))"

definition candidate_key :: "candidate \<Rightarrow> string" where
  "candidate_key c = om_Namespace (tc_Meta (cand_tc c)) @ ''/'' @ om_Name (tc_Meta (cand_tc c))"

definition candidate_less :: "string \<Rightarrow> candidate \<Rightarrow> candidate \<Rightarrow> bool" where
  "candidate_less targetNS ci cj =
     (if cand_specificity ci \<noteq> cand_specificity cj then cand_specificity ci > cand_specificity cj
      else
        (let iSameNS = (om_Namespace (tc_Meta (cand_tc ci)) = targetNS);
             jSameNS = (om_Namespace (tc_Meta (cand_tc cj)) = targetNS)
         in if iSameNS \<noteq> jSameNS then iSameNS else candidate_key ci < candidate_key cj))"

definition findMatchingTelemetryConfig ::
  "selector_lib \<Rightarrow> TelemetryConfig list client_result \<Rightarrow> ObjectMeta \<Rightarrow> ModelValidation \<Rightarrow>
   client_error + TelemetryConfig option" where
  "findMatchingTelemetryConfig sel listed namespace mv =
     (case listed of
        Inl err \<Rightarrow> Inl err
      | Inr items \<Rightarrow>
          (if items = [] then Inr None
           else
             (let candidates = map tc_candidate (filter (tc_applies sel namespace mv) items)
              in if candidates = [] then Inr None
                 else Inr (Some (cand_tc (hd (sort_slice (candidate_less (om_Name namespace)) candidates)))))))"

section \<open>Environment variables\<close>

definition telemetryEnvVars :: "TelemetryConfig option \<Rightarrow> EnvVar list" where
  "telemetryEnvVars tc =
     (case tc of
        None \<Rightarrow> []
      | Some tc \<Rightarrow>
          (let tracing = tcs_Tracing (tc_Spec tc)
           in if \<not> tr_Enabled tracing then []
              else
                [\<lparr>ev_Name = ''OTEL_SERVICE_NAME'', ev_Value = ''validation-agent''\<rparr>,
                 \<lparr>ev_Name = ''OTEL_EXPORTER_OTLP_ENDPOINT'', ev_Value = tr_Endpoint tracing\<rparr>] @
                (case tr_Insecure tracing of
                   Some b \<Rightarrow> [\<lparr>ev_Name = ''OTEL_EXPORTER_OTLP_INSECURE'', ev_Value = show_bool b\<rparr>]
                 | None \<Rightarrow> []) @
                (if tr_Sampler tracing \<noteq> []
                 then [\<lparr>ev_Name = ''OTEL_TRACES_SAMPLER'', ev_Value = tr_Sampler tracing\<rparr>] else []) @
                (if tr_SamplerArg tracing \<noteq> []
                 then [\<lparr>ev_Name = ''OTEL_TRACES_SAMPLER_ARG'', ev_Value = tr_SamplerArg tracing\<rparr>] else []) @
                tr_Env tracing))"

section \<open>The controller\<close>

text \<open>\<open>reconcileResult\<close> of \<open>helpers.go\<close>, on whether there was an error.\<close>

definition reconcileResult :: "bool \<Rightarrow> string" where
  "reconcileResult failed = (if failed then ''error'' else ''success'')"

fun setCondition :: "Condition list \<Rightarrow> Condition \<Rightarrow> Condition list" where
  "setCondition [] cond = [cond]"
| "setCondition (existing # rest) cond =
     (if cond_Type existing = cond_Type cond then cond # rest else existing # setCondition rest cond)"

datatype telemetry_error = TelemetryClient client_error | InvalidSelector

text \<open>The two counts differ only in what is listed and in the selector; \<open>int32\<close> wraps.\<close>

definition countMatchedNamespaces ::
  "selector_lib \<Rightarrow> ObjectMeta list client_result \<Rightarrow> TelemetryConfig \<Rightarrow> telemetry_error + 32 word" where
  "countMatchedNamespaces sel listed tc =
     (case listed of
        Inl err \<Rightarrow> Inl (TelemetryClient err)
      | Inr items \<Rightarrow>
          (case tcs_NamespaceSelector (tc_Spec tc) of
             None \<Rightarrow> Inr (word_of_nat (length items))
           | Some s \<Rightarrow>
               (case sel s of
                  None \<Rightarrow> Inl InvalidSelector
                | Some matches \<Rightarrow>
                    Inr (foldl (\<lambda>count ns. if matches (om_Labels ns) then count + 1 else count) 0 items))))"

definition countMatchedModelValidations ::
  "selector_lib \<Rightarrow> ModelValidation list client_result \<Rightarrow> TelemetryConfig \<Rightarrow> telemetry_error + 32 word" where
  "countMatchedModelValidations sel listed tc =
     (case listed of
        Inl err \<Rightarrow> Inl (TelemetryClient err)
      | Inr items \<Rightarrow>
          (case tcs_Selector (tc_Spec tc) of
             None \<Rightarrow> Inr (word_of_nat (length items))
           | Some s \<Rightarrow>
               (case sel s of
                  None \<Rightarrow> Inl InvalidSelector
                | Some matches \<Rightarrow>
                    Inr (foldl (\<lambda>count mv. if matches (om_Labels (mv_Meta mv)) then count + 1 else count)
                           0 items))))"

record telemetry_env =
  te_get :: "TelemetryConfig client_result"
  te_namespaces :: "ObjectMeta list client_result"
  te_modelValidations :: "ModelValidation list client_result"
  te_now :: timestamp
  te_update :: "TelemetryConfig \<Rightarrow> client_error option"
  te_elapsed :: int
  te_metrics_ready :: bool

text \<open>The reconciliation without its deferred metric: the error, and the object written, if any.\<close>

definition telemetry_reconcile ::
  "selector_lib \<Rightarrow> telemetry_env \<Rightarrow> telemetry_error option \<times> TelemetryConfig option" where
  "telemetry_reconcile sel E =
     (case te_get E of
        Inl NotFound \<Rightarrow> (None, None)
      | Inl err \<Rightarrow> (Some (TelemetryClient err), None)
      | Inr tc \<Rightarrow>
          if om_DeletionTimestamp (tc_Meta tc) \<noteq> None then (None, None)
          else
            (case countMatchedNamespaces sel (te_namespaces E) tc of
               Inl err \<Rightarrow> (Some err, None)
             | Inr nsCount \<Rightarrow>
                 (case countMatchedModelValidations sel (te_modelValidations E) tc of
                    Inl err \<Rightarrow> (Some err, None)
                  | Inr mvCount \<Rightarrow>
                      (let readyCond = \<lparr>cond_Type = ''Ready'', cond_Status = ''True'',
                             cond_ObservedGeneration = om_Generation (tc_Meta tc),
                             cond_LastTransitionTime = te_now E, cond_Reason = ''SelectorsEvaluated'',
                             cond_Message = ''Selectors evaluated successfully''\<rparr>;
                           tc' = tc\<lparr>tc_Status := \<lparr>tct_MatchedNamespaceCount = nsCount,
                             tct_MatchedModelValidationCount = mvCount, tct_LastApplied = te_now E,
                             tct_Conditions = setCondition (tct_Conditions (tc_Status tc)) readyCond\<rparr>\<rparr>
                       in (map_option TelemetryClient (te_update E tc'), Some tc')))))"

definition TelemetryConfig_Reconcile ::
  "selector_lib \<Rightarrow> telemetry_env \<Rightarrow> telemetry_error option \<times> TelemetryConfig option \<times> metric_call list" where
  "TelemetryConfig_Reconcile sel E =
     (let (err, written) = telemetry_reconcile sel E
      in (err, written, RecordReconcile (te_metrics_ready E) ''telemetryconfig''
            (reconcileResult (err \<noteq> None)) (te_elapsed E)))"

text \<open>
  Both watch mappings, from namespaces and from ModelValidations, list the configurations and
  enqueue each.
\<close>

definition mapToTelemetryConfigs :: "TelemetryConfig list client_result \<Rightarrow> NamespacedName list" where
  "mapToTelemetryConfigs listed =
     (case listed of
        Inl _ \<Rightarrow> []
      | Inr items \<Rightarrow> map (\<lambda>tc. nn (om_Namespace (tc_Meta tc)) (om_Name (tc_Meta tc))) items)"

section \<open>The order of candidates\<close>

text \<open>The comparison is the lexicographic order of a rank, smallest first.\<close>

definition candidate_rank :: "string \<Rightarrow> candidate \<Rightarrow> int \<times> nat \<times> string" where
  "candidate_rank targetNS c =
     (- cand_specificity c, if om_Namespace (tc_Meta (cand_tc c)) = targetNS then 0 else 1, candidate_key c)"

lemma candidate_less_rank: "candidate_less ns x y \<longleftrightarrow> candidate_rank ns x < candidate_rank ns y"
  by (auto simp: candidate_less_def candidate_rank_def Let_def less_prod_def)

interpretation cands: slice_order "candidate_less targetNS" for targetNS
  by unfold_locales (simp_all add: candidate_less_rank not_less)

lemma candidate_less_total:
  "candidate_key x \<noteq> candidate_key y \<Longrightarrow> candidate_less ns x y \<or> candidate_less ns y x"
  unfolding candidate_less_rank by (auto simp: candidate_rank_def neq_iff)

lemma findMatching_iff:
  "findMatchingTelemetryConfig sel (Inr items) namespace mv =
     Inr (if filter (tc_applies sel namespace mv) items = [] then None
          else Some (cand_tc (hd (sort_slice (candidate_less (om_Name namespace))
            (map tc_candidate (filter (tc_applies sel namespace mv) items))))))"
  by (auto simp: findMatchingTelemetryConfig_def Let_def)

lemma hd_sort_slice_in: "xs \<noteq> [] \<Longrightarrow> hd (sort_slice lt xs) \<in> set xs"
  by (metis hd_in_set length_0_conv length_sort_slice set_sort_slice)

section \<open>Counting\<close>

lemma foldl_count:
  "foldl (\<lambda>count x. if P x then count + 1 else count) (c :: 32 word) xs =
     c + word_of_nat (length (filter P xs))"
  by (induction xs arbitrary: c) auto

lemma setCondition_types:
  "cond_Type ` set (setCondition cs c) = insert (cond_Type c) (cond_Type ` set cs)"
  by (induction cs) auto

lemma setCondition_distinct:
  "distinct (map cond_Type cs) \<Longrightarrow> distinct (map cond_Type (setCondition cs c))"
proof (induction cs)
  case (Cons d cs)
  have "cond_Type d \<notin> cond_Type ` set (setCondition cs c)" if "cond_Type d \<noteq> cond_Type c"
    using that Cons.prems by (simp add: setCondition_types)
  with Cons show ?case by auto
qed simp

lemma setCondition_others:
  "cond_Type d \<noteq> cond_Type c \<Longrightarrow> d \<in> set (setCondition cs c) \<longleftrightarrow> d \<in> set cs"
  by (induction cs) auto

lemma setCondition_in: "c \<in> set (setCondition cs c)"
  by (induction cs) auto

text \<open>The status a reconciliation writes, from what it reads.\<close>

definition accepted :: "selector_lib \<Rightarrow> LabelSelector option \<Rightarrow> labels list \<Rightarrow> nat" where
  "accepted sel s lss = length (filter (selector_accepts sel s) lss)"

definition evaluated_status ::
  "selector_lib \<Rightarrow> ObjectMeta list \<Rightarrow> ModelValidation list \<Rightarrow> timestamp \<Rightarrow> TelemetryConfig \<Rightarrow> TelemetryConfigStatus" where
  "evaluated_status sel nss mvs now tc =
     \<lparr>tct_MatchedNamespaceCount = word_of_nat (accepted sel (tcs_NamespaceSelector (tc_Spec tc)) (map om_Labels nss)),
      tct_MatchedModelValidationCount =
        word_of_nat (accepted sel (tcs_Selector (tc_Spec tc)) (map (\<lambda>mv. om_Labels (mv_Meta mv)) mvs)),
      tct_LastApplied = now,
      tct_Conditions = setCondition (tct_Conditions (tc_Status tc))
        \<lparr>cond_Type = ''Ready'', cond_Status = ''True'', cond_ObservedGeneration = om_Generation (tc_Meta tc),
         cond_LastTransitionTime = now, cond_Reason = ''SelectorsEvaluated'',
         cond_Message = ''Selectors evaluated successfully''\<rparr>\<rparr>"

lemma countNamespaces_accepted:
  "countMatchedNamespaces sel (Inr nss) tc = Inr n \<Longrightarrow>
     n = word_of_nat (accepted sel (tcs_NamespaceSelector (tc_Spec tc)) (map om_Labels nss))"
  by (cases "tcs_NamespaceSelector (tc_Spec tc)"; cases "sel (the (tcs_NamespaceSelector (tc_Spec tc)))")
    (simp_all add: countMatchedNamespaces_def selector_accepts_def foldl_count accepted_def filter_map comp_def)

lemma countModelValidations_accepted:
  "countMatchedModelValidations sel (Inr mvs) tc = Inr n \<Longrightarrow>
     n = word_of_nat (accepted sel (tcs_Selector (tc_Spec tc)) (map (\<lambda>mv. om_Labels (mv_Meta mv)) mvs))"
  by (cases "tcs_Selector (tc_Spec tc)"; cases "sel (the (tcs_Selector (tc_Spec tc)))")
    (simp_all add: countMatchedModelValidations_def selector_accepts_def foldl_count accepted_def filter_map comp_def)

lemma reconcile_written:
  assumes "telemetry_reconcile sel E = (err, Some w)"
  obtains tc nss mvs where "te_get E = Inr tc" "te_namespaces E = Inr nss" "te_modelValidations E = Inr mvs"
    "om_DeletionTimestamp (tc_Meta tc) = None" "w = tc\<lparr>tc_Status := evaluated_status sel nss mvs (te_now E) tc\<rparr>"
proof -
  from assms obtain tc nss mvs n m where get: "te_get E = Inr tc" "om_DeletionTimestamp (tc_Meta tc) = None"
    and lists: "te_namespaces E = Inr nss" "te_modelValidations E = Inr mvs"
    and counts: "countMatchedNamespaces sel (Inr nss) tc = Inr n" "countMatchedModelValidations sel (Inr mvs) tc = Inr m"
    and w: "w = tc\<lparr>tc_Status := (evaluated_status sel nss mvs (te_now E) tc)
      \<lparr>tct_MatchedNamespaceCount := n, tct_MatchedModelValidationCount := m\<rparr>\<rparr>"
    by (auto simp: telemetry_reconcile_def Let_def countMatchedNamespaces_def countMatchedModelValidations_def
        evaluated_status_def split: sum.splits client_error.splits if_splits)
  have "w = tc\<lparr>tc_Status := evaluated_status sel nss mvs (te_now E) tc\<rparr>"
    using w countNamespaces_accepted [OF counts(1)] countModelValidations_accepted [OF counts(2)]
    by (simp add: evaluated_status_def)
  with that get lists show thesis by blast
qed

section \<open>Properties\<close>

text \<open>Applicable configurations, as candidates.\<close>

definition applicable ::
  "selector_lib \<Rightarrow> ObjectMeta \<Rightarrow> ModelValidation \<Rightarrow> TelemetryConfig list \<Rightarrow> TelemetryConfig list" where
  "applicable sel namespace mv items = filter (tc_applies sel namespace mv) items"

lemma findMatching_applicable:
  "findMatchingTelemetryConfig sel (Inr items) namespace mv =
     Inr (if applicable sel namespace mv items = [] then None
          else Some (cand_tc (hd (sort_slice (candidate_less (om_Name namespace))
            (map tc_candidate (applicable sel namespace mv items))))))"
  by (simp add: findMatching_iff applicable_def)

definition sample_tc :: "string \<Rightarrow> string \<Rightarrow> LabelSelector option \<Rightarrow> TelemetryConfig" where
  "sample_tc ns name s =
     \<lparr>tc_Meta = \<lparr>om_Name = name, om_Namespace = ns, om_UID = name, om_Generation = 1, om_CreationTimestamp = 0,
        om_DeletionTimestamp = None, om_Labels = fmempty, om_Annotations = fmempty, om_Finalizers = []\<rparr>,
      tc_Spec = \<lparr>tcs_NamespaceSelector = None, tcs_Selector = s,
        tcs_Tracing = \<lparr>tr_Enabled = True, tr_Endpoint = ''otel:4317'', tr_Insecure = None, tr_Sampler = [],
          tr_SamplerArg = [], tr_Env = []\<rparr>\<rparr>,
      tc_Status = \<lparr>tct_MatchedNamespaceCount = 0, tct_MatchedModelValidationCount = 0, tct_LastApplied = 0,
        tct_Conditions = []\<rparr>\<rparr>"

lemma sample_tc_applies [simp]: "tc_applies sel namespace mv (sample_tc ns name None)"
  by (simp add: tc_applies_def sample_tc_def selector_accepts_def)

text \<open>A selector library for label pairs, and a labelled ModelValidation, for the instances below.\<close>

definition match_labels :: selector_lib where
  "match_labels s =
     (if ls_MatchExpressions s = []
      then Some (\<lambda>ls. \<forall>k \<in> fset (fmdom (ls_MatchLabels s)). fmlookup ls k = fmlookup (ls_MatchLabels s) k)
      else None)"

definition team_selector :: LabelSelector where
  "team_selector = \<lparr>ls_MatchLabels = fmupd ''team'' ''ml'' fmempty, ls_MatchExpressions = []\<rparr>"

definition labelled_meta :: ObjectMeta where
  "labelled_meta = \<lparr>om_Name = ''prod'', om_Namespace = ''prod'', om_UID = ''m1'', om_Generation = 1,
     om_CreationTimestamp = 0, om_DeletionTimestamp = None, om_Labels = fmupd ''team'' ''ml'' fmempty,
     om_Annotations = fmempty, om_Finalizers = []\<rparr>"

definition labelled_mv :: ModelValidation where
  "labelled_mv = \<lparr>mv_Meta = labelled_meta,
     mv_Spec = \<lparr>mvs_Model = \<lparr>m_Path = ''/data'', m_SignaturePath = ''/data.sig'', m_IgnorePaths = [],
         m_IgnoreGitPaths = None, m_IgnoreUnsignedFiles = None, m_AllowSymlinks = None\<rparr>,
       mvs_Config = \<lparr>vc_SigstoreConfig = None, vc_PkiConfig = None, vc_PublicKeyConfig = Some \<lparr>pk_KeyPath = ''/k''\<rparr>,
         vc_ClientTrustConfig = None\<rparr>,
       mvs_ImagePullPolicy = [], mvs_ContinuousValidation = None, mvs_Resources = None\<rparr>,
     mv_Status = \<lparr>st_Conditions = [], st_InjectedPodCount = 0, st_UninjectedPodCount = 0, st_OrphanedPodCount = 0,
       st_AuthMethod = [], st_InjectedPods = [], st_UninjectedPods = [], st_OrphanedPods = [], st_LastUpdated = 0\<rparr>\<rparr>"



text \<open>
  The choice does not depend on the order in which the configurations are listed, as long
  as their namespaces and names differ.
\<close>

theorem telemetry_choice_order_free:
  assumes "set items = set items'" "distinct items" "distinct items'"
    and "inj_on (\<lambda>tc. candidate_key (tc_candidate tc)) (set items)"
  shows "findMatchingTelemetryConfig sel (Inr items) namespace mv =
    findMatchingTelemetryConfig sel (Inr items') namespace mv"
proof -
  have inj: "inj_on tc_candidate A" for A by (auto simp: inj_on_def tc_candidate_def)
  have "sort_slice (candidate_less (om_Name namespace)) (map tc_candidate (applicable sel namespace mv items)) =
      sort_slice (candidate_less (om_Name namespace)) (map tc_candidate (applicable sel namespace mv items'))"
  proof (rule cands.sort_slice_order_free)
    fix x y
    assume "x \<in> set (map tc_candidate (applicable sel namespace mv items))"
      "y \<in> set (map tc_candidate (applicable sel namespace mv items))" "x \<noteq> y"
    then have "candidate_key x \<noteq> candidate_key y"
      using assms(4) by (auto simp: applicable_def inj_on_def)
    then show "candidate_less (om_Name namespace) x y \<or> candidate_less (om_Name namespace) y x"
      by (rule candidate_less_total)
  qed (use assms(1-3) in \<open>auto simp: applicable_def distinct_map inj\<close>)
  moreover have "applicable sel namespace mv items = [] \<longleftrightarrow> applicable sel namespace mv items' = []"
    using assms(1) by (simp add: applicable_def filter_empty_conv)
  ultimately show ?thesis by (simp add: findMatching_applicable)
qed

theorem telemetry_choice_order_free_witness:
  "findMatchingTelemetryConfig match_labels (Inr [sample_tc ''prod'' ''a'' None, sample_tc ''prod'' ''b'' None]) labelled_meta labelled_mv =
   findMatchingTelemetryConfig match_labels (Inr [sample_tc ''prod'' ''b'' None, sample_tc ''prod'' ''a'' None]) labelled_meta labelled_mv"
proof (rule telemetry_choice_order_free)
  show "inj_on (\<lambda>tc. candidate_key (tc_candidate tc))
      (set [sample_tc ''prod'' ''a'' None, sample_tc ''prod'' ''b'' None])"
    by (simp add: candidate_key_def tc_candidate_def sample_tc_def)
qed (auto simp: sample_tc_def)

text \<open>
  A reconciliation that writes a status writes the numbers of namespaces and of
  ModelValidations the selectors accept (all of them when there is no selector), as 32-bit
  integers, and a Ready condition, which replaces the one before and leaves conditions of other
  types; it writes nothing for a configuration that is gone, is being deleted, has an invalid
  selector, or could not be read.
\<close>

theorem telemetry_status_counts:
  assumes "telemetry_reconcile sel E = (err, Some w)"
  shows "\<exists>tc nss mvs. te_get E = Inr tc \<and> te_namespaces E = Inr nss \<and> te_modelValidations E = Inr mvs \<and>
    om_DeletionTimestamp (tc_Meta tc) = None \<and> tc_Meta w = tc_Meta tc \<and> tc_Spec w = tc_Spec tc \<and>
    tct_MatchedNamespaceCount (tc_Status w) =
      word_of_nat (accepted sel (tcs_NamespaceSelector (tc_Spec tc)) (map om_Labels nss)) \<and>
    tct_MatchedModelValidationCount (tc_Status w) =
      word_of_nat (accepted sel (tcs_Selector (tc_Spec tc)) (map (\<lambda>mv. om_Labels (mv_Meta mv)) mvs)) \<and>
    (\<exists>c \<in> set (tct_Conditions (tc_Status w)). cond_Type c = ''Ready'' \<and> cond_Status c = ''True'' \<and>
       cond_ObservedGeneration c = om_Generation (tc_Meta tc)) \<and>
    (\<forall>c. cond_Type c \<noteq> ''Ready'' \<longrightarrow>
       (c \<in> set (tct_Conditions (tc_Status w)) \<longleftrightarrow> c \<in> set (tct_Conditions (tc_Status tc))))"
proof -
  obtain tc nss mvs where r: "te_get E = Inr tc" "te_namespaces E = Inr nss" "te_modelValidations E = Inr mvs"
    "om_DeletionTimestamp (tc_Meta tc) = None"
    and w: "w = tc\<lparr>tc_Status := evaluated_status sel nss mvs (te_now E) tc\<rparr>"
    using assms by (rule reconcile_written)
  then show ?thesis
    by (auto simp: evaluated_status_def setCondition_others intro: bexI [OF _ setCondition_in])
qed

definition sample_telemetry_env :: telemetry_env where
  "sample_telemetry_env = \<lparr>te_get = Inr (sample_tc ''prod'' ''a'' None),
     te_namespaces = Inr [tc_Meta (sample_tc [] ''prod'' None)], te_modelValidations = Inr [], te_now = 5,
     te_update = (\<lambda>_. None), te_elapsed = 1, te_metrics_ready = True\<rparr>"

theorem telemetry_status_counts_witness:
  "\<exists>w. telemetry_reconcile match_labels sample_telemetry_env = (None, Some w) \<and>
     tct_MatchedNamespaceCount (tc_Status w) = 1"
proof -
  obtain w where w: "telemetry_reconcile match_labels sample_telemetry_env = (None, Some w)"
    by (simp add: telemetry_reconcile_def sample_telemetry_env_def sample_tc_def countMatchedNamespaces_def
        countMatchedModelValidations_def Let_def)
  have "tct_MatchedNamespaceCount (tc_Status w) = 1"
    using telemetry_status_counts [OF w]
    by (auto simp: sample_telemetry_env_def accepted_def selector_accepts_def) (simp add: sample_tc_def)
  with w show ?thesis by blast
qed

end
