(* ===== verification/Pod_Webhook.thy ===== *)
theory Pod_Webhook
  imports Telemetry Go_Lib
begin

text \<open>
  \<open>internal/webhooks/pod_webhook.go\<close> and \<open>version.go\<close>: the mutating webhook that injects the
  validation container into labelled pods, with its helpers in the order of the file.  What the
  API server returns, the decoder, the current time and the JSON encoder are arguments.
\<close>

section \<open>Sidecar support of the cluster\<close>

datatype version_error =
    DiscoveryClientFailed string
  | ServerVersionFailed string
  | BadMajor string
  | BadMinor string

text \<open>
  \<open>dc\<close> and \<open>serverVersion\<close> are the results of the two discovery calls, the second the major and
  the minor version as the server writes them.
\<close>

definition NativeSidecarSupport ::
  "string option \<Rightarrow> string + (string \<times> string) \<Rightarrow> version_error + bool" where
  "NativeSidecarSupport dc serverVersion =
     (case dc of
        Some err \<Rightarrow> Inl (DiscoveryClientFailed err)
      | None \<Rightarrow>
          (case serverVersion of
             Inl err \<Rightarrow> Inl (ServerVersionFailed err)
           | Inr (majorStr, minorRaw) \<Rightarrow>
               (case Atoi majorStr of
                  None \<Rightarrow> Inl (BadMajor majorStr)
                | Some major \<Rightarrow>
                    (let minorStr = takeWhile is_digit minorRaw
                     in case Atoi minorStr of
                          None \<Rightarrow> Inl (BadMinor minorRaw)
                        | Some minor \<Rightarrow> Inr (major > 1 \<or> major = 1 \<and> minor \<ge> 28)))))"

section \<open>Annotations\<close>

definition parseBoolAnnotation :: "(string, string) fmap \<Rightarrow> string \<Rightarrow> bool option" where
  "parseBoolAnnotation annotations key =
     (case fmlookup annotations key of
        Some raw \<Rightarrow> ParseBool (TrimSpace raw)
      | None \<Rightarrow> None)"

definition annotation_paths :: "string \<Rightarrow> string list" where
  "annotation_paths s = filter (\<lambda>p. p \<noteq> []) (map TrimSpace (Split s CHR '',''))"

definition mergeModelWithAnnotations :: "Model \<Rightarrow> (string, string) fmap \<Rightarrow> Model" where
  "mergeModelWithAnnotations model annotations =
     (let merged = model;
          merged =
            (case fmlookup annotations IgnorePathsAnnotationKey of
               Some ignorePathsStr \<Rightarrow>
                 (if ignorePathsStr \<noteq> [] \<and> annotation_paths ignorePathsStr \<noteq> []
                  then merged\<lparr>m_IgnorePaths := annotation_paths ignorePathsStr\<rparr> else merged)
             | None \<Rightarrow> merged);
          merged =
            (case parseBoolAnnotation annotations IgnoreGitPathsAnnotationKey of
               Some val \<Rightarrow> merged\<lparr>m_IgnoreGitPaths := Some val\<rparr> | None \<Rightarrow> merged);
          merged =
            (case parseBoolAnnotation annotations IgnoreUnsignedFilesAnnotationKey of
               Some val \<Rightarrow> merged\<lparr>m_IgnoreUnsignedFiles := Some val\<rparr> | None \<Rightarrow> merged);
          merged =
            (case parseBoolAnnotation annotations AllowSymlinksAnnotationKey of
               Some val \<Rightarrow> merged\<lparr>m_AllowSymlinks := Some val\<rparr> | None \<Rightarrow> merged)
      in merged)"

section \<open>Arguments\<close>

definition validationConfigToArgs :: "ValidationConfig \<Rightarrow> Model \<Rightarrow> string list" where
  "validationConfigToArgs cfg model =
     (let signature = ''--signature='' @ m_SignaturePath model;
          method_args =
            (case vc_SigstoreConfig cfg of
               Some sc \<Rightarrow>
                 [''sigstore'', signature, ''--identity'', sc_CertificateIdentity sc,
                  ''--identity_provider'', sc_CertificateOidcIssuer sc]
             | None \<Rightarrow>
               (case vc_PublicKeyConfig cfg of
                  Some pk \<Rightarrow> [''key'', signature, ''--public_key'', pk_KeyPath pk]
                | None \<Rightarrow>
                  (case vc_PkiConfig cfg of
                     Some pc \<Rightarrow> [''certificate'', signature, ''--certificate_chain'', pc_CertificateAuthority pc]
                   | None \<Rightarrow> [])))
      in if method_args = [] then []
         else method_args @
           (case vc_ClientTrustConfig cfg of
              Some ct \<Rightarrow> [''--trust_config'', ct_TrustConfigPath ct] | None \<Rightarrow> []) @
           concat (map (\<lambda>p. [''--ignore-paths'', p]) (m_IgnorePaths model)) @
           (case m_IgnoreGitPaths model of
              Some b \<Rightarrow> [if b then ''--ignore-git-paths'' else ''--no-ignore-git-paths''] | None \<Rightarrow> []) @
           (case m_IgnoreUnsignedFiles model of
              Some b \<Rightarrow> [if b then ''--ignore_unsigned_files'' else ''--no-ignore_unsigned_files'']
            | None \<Rightarrow> []) @
           (if m_AllowSymlinks model = Some True then [''--allow_symlinks''] else []))"

section \<open>Paths and mounts\<close>

definition collectNeededPaths :: "Model \<Rightarrow> ValidationConfig \<Rightarrow> string list" where
  "collectNeededPaths model cfg =
     [m_Path model] @
     (if m_SignaturePath model \<noteq> [] then [m_SignaturePath model] else []) @
     (case vc_PkiConfig cfg of
        Some pc \<Rightarrow> if pc_CertificateAuthority pc \<noteq> [] then [pc_CertificateAuthority pc] else []
      | None \<Rightarrow> []) @
     (case vc_PublicKeyConfig cfg of
        Some pk \<Rightarrow> if pk_KeyPath pk \<noteq> [] then [pk_KeyPath pk] else []
      | None \<Rightarrow> []) @
     (case vc_ClientTrustConfig cfg of
        Some ct \<Rightarrow> if ct_TrustConfigPath ct \<noteq> [] then [ct_TrustConfigPath ct] else []
      | None \<Rightarrow> [])"

definition mount_needed :: "string list \<Rightarrow> string \<Rightarrow> bool" where
  "mount_needed neededPaths mountPath \<longleftrightarrow>
     (let prefix = (if HasSuffix mountPath ''/'' then mountPath else mountPath @ ''/'')
      in list_ex (\<lambda>p. HasPrefix p prefix \<or> p = mountPath) neededPaths)"

text \<open>The inner loop over the mounts; \<open>seen\<close> are the mount paths already taken.\<close>

fun filter_mounts :: "string list \<Rightarrow> VolumeMount list \<Rightarrow> string list \<Rightarrow> VolumeMount list" where
  "filter_mounts neededPaths [] seen = []"
| "filter_mounts neededPaths (m # ms) seen =
     (if vm_MountPath m \<in> set seen \<or> vm_MountPath m = ''/'' then filter_mounts neededPaths ms seen
      else if mount_needed neededPaths (vm_MountPath m)
      then m\<lparr>vm_ReadOnly := True\<rparr> # filter_mounts neededPaths ms (vm_MountPath m # seen)
      else filter_mounts neededPaths ms seen)"

definition filterVolumeMounts :: "Container list \<Rightarrow> string list \<Rightarrow> VolumeMount list" where
  "filterVolumeMounts containers neededPaths =
     filter_mounts neededPaths (concat (map c_VolumeMounts containers)) []"

section \<open>Containers\<close>

definition restrictedSecurityContext :: SecurityContext where
  "restrictedSecurityContext =
     \<lparr>sec_RunAsNonRoot = Some True, sec_ReadOnlyRootFilesystem = Some True,
      sec_AllowPrivilegeEscalation = Some False, sec_SeccompProfile = Some ''RuntimeDefault'',
      sec_CapabilitiesDrop = [''ALL'']\<rparr>"

definition readiness_probe :: Probe where
  "readiness_probe = \<lparr>pr_Path = ''/ready'', pr_Port = 8080, pr_InitialDelaySeconds = 5, pr_PeriodSeconds = 10\<rparr>"

definition liveness_probe :: Probe where
  "liveness_probe = \<lparr>pr_Path = ''/healthz'', pr_Port = 8080, pr_InitialDelaySeconds = 10, pr_PeriodSeconds = 30\<rparr>"

definition default_resources :: ResourceRequirements where
  "default_resources =
     \<lparr>rr_Requests = fmupd ResourceMemory ''128Mi'' (fmupd ResourceCPU ''100m'' fmempty),
      rr_Limits = fmupd ResourceMemory ''512Mi'' (fmupd ResourceCPU ''1'' fmempty)\<rparr>"

definition no_resources :: ResourceRequirements where
  "no_resources = \<lparr>rr_Requests = fmempty, rr_Limits = fmempty\<rparr>"

definition continuous_enabled :: "ModelValidation \<Rightarrow> bool" where
  "continuous_enabled mv =
     (case mvs_ContinuousValidation (mv_Spec mv) of Some cv \<Rightarrow> cv_Enabled cv | None \<Rightarrow> False)"

definition agent_interval :: "ModelValidation \<Rightarrow> string" where
  "agent_interval mv =
     (case mvs_ContinuousValidation (mv_Spec mv) of
        Some cv \<Rightarrow> if cv_Interval cv \<noteq> [] then cv_Interval cv else ''5m''
      | None \<Rightarrow> ''5m'')"

text \<open>
  The container and the pod, whose annotations the function may extend.  \<open>agentImage\<close> is
  \<open>constants.ModelValidationAgentImage\<close>, which the operator's flags set.
\<close>

definition buildValidationContainer ::
  "string \<Rightarrow> ModelValidation \<Rightarrow> string list \<Rightarrow> VolumeMount list \<Rightarrow> Pod \<Rightarrow> TelemetryConfig option \<Rightarrow> bool \<Rightarrow>
   Container \<times> Pod" where
  "buildValidationContainer agentImage mv args vm pp tc nativeSidecarSupport =
     (let imagePullPolicy = (if mvs_ImagePullPolicy (mv_Spec mv) \<noteq> [] then mvs_ImagePullPolicy (mv_Spec mv)
                             else ''Always'');
          container = \<lparr>c_Name = ModelValidationInitContainerName, c_Image = agentImage,
            c_ImagePullPolicy = imagePullPolicy, c_Command = [''/usr/local/bin/validation-agent''],
            c_Args = args, c_VolumeMounts = vm, c_RestartPolicy = None, c_ReadinessProbe = None,
            c_LivenessProbe = None, c_Resources = no_resources, c_Env = [], c_SecurityContext = None\<rparr>;
          container =
            (if continuous_enabled mv \<and> nativeSidecarSupport
             then container\<lparr>c_RestartPolicy := Some ''Always'',
                    c_Args := (''--interval='' @ agent_interval mv) # args,
                    c_ReadinessProbe := Some readiness_probe, c_LivenessProbe := Some liveness_probe\<rparr>
             else container);
          pp = (if continuous_enabled mv
                then pp\<lparr>pod_Meta := (pod_Meta pp)\<lparr>om_Annotations :=
                       fmupd ContinuousValidationAnnotationKey ''true'' (pod_Annotations pp)\<rparr>\<rparr>
                else pp);
          container = container\<lparr>c_Resources :=
            (case mvs_Resources (mv_Spec mv) of Some rr \<Rightarrow> rr | None \<Rightarrow> default_resources)\<rparr>;
          container = container\<lparr>c_Env := c_Env container @ telemetryEnvVars tc\<rparr>
      in (container\<lparr>c_SecurityContext := Some restrictedSecurityContext\<rparr>, pp))"

definition buildLegacySidecarContainer ::
  "string \<Rightarrow> ModelValidation \<Rightarrow> string list \<Rightarrow> VolumeMount list \<Rightarrow> Container" where
  "buildLegacySidecarContainer agentImage mv args vm =
     \<lparr>c_Name = ModelValidationSidecarContainerName, c_Image = agentImage,
      c_ImagePullPolicy = (if mvs_ImagePullPolicy (mv_Spec mv) \<noteq> [] then mvs_ImagePullPolicy (mv_Spec mv)
                           else ''Always''),
      c_Command = [''/usr/local/bin/validation-agent''],
      c_Args = (''--interval='' @ agent_interval mv) # ''--skip-initial'' # args,
      c_VolumeMounts = vm, c_RestartPolicy = None,
      c_ReadinessProbe = Some readiness_probe, c_LivenessProbe = Some liveness_probe,
      c_Resources = (case mvs_Resources (mv_Spec mv) of Some rr \<Rightarrow> rr | None \<Rightarrow> default_resources),
      c_Env = [], c_SecurityContext = Some restrictedSecurityContext\<rparr>"

section \<open>The handler\<close>

datatype webhook_error = DecodeError string | ClientError client_error | MarshalError string

text \<open>
  The response the handler builds: \<open>admission.Errored\<close> with a status code, \<open>admission.Allowed\<close>,
  or the patch from the raw object to the mutated pod.
\<close>

datatype webhook_response =
    Errored int webhook_error
  | Allowed string
  | PatchFromRaw Pod

record webhook_env =
  we_decode :: "string + Pod"
  we_namespace :: "ObjectMeta client_result"
  we_get_mv :: "NamespacedName \<Rightarrow> ModelValidation client_result"
  we_list_tc :: "TelemetryConfig list client_result"
  we_now :: string
  we_marshal :: "Pod \<Rightarrow> string option"
  we_agentImage :: string
  we_nativeSidecarSupport :: bool
  we_elapsed :: int
  we_metrics_ready :: bool

definition tuf_volume :: Volume where
  "tuf_volume = \<lparr>v_Name = ''sigstore-tuf-cache'', v_EmptyDirSizeLimit = Some ''10Mi''\<rparr>"

definition tuf_mount :: VolumeMount where
  "tuf_mount = \<lparr>vm_Name = ''sigstore-tuf-cache'', vm_MountPath = ''/.sigstore'', vm_SubPath = [], vm_ReadOnly = False\<rparr>"

definition already_injected :: "Pod \<Rightarrow> bool" where
  "already_injected pod \<longleftrightarrow>
     list_ex (\<lambda>c. c_Name c = ModelValidationInitContainerName) (ps_InitContainers (pod_Spec pod)) \<or>
     list_ex (\<lambda>c. c_Name c = ModelValidationSidecarContainerName) (ps_Containers (pod_Spec pod))"

text \<open>The mutation of the pod, once the handler has decided to inject.\<close>

definition verify_args :: "ModelValidation \<Rightarrow> Pod \<Rightarrow> string list" where
  "verify_args mv pod =
     (let mergedModel = mergeModelWithAnnotations (mvs_Model (mv_Spec mv)) (pod_Annotations pod)
      in ''verify'' # validationConfigToArgs (mv_Config mv) mergedModel @ [m_Path mergedModel])"

definition validation_mounts :: "ModelValidation \<Rightarrow> Pod \<Rightarrow> VolumeMount list" where
  "validation_mounts mv pod =
     (let mergedModel = mergeModelWithAnnotations (mvs_Model (mv_Spec mv)) (pod_Annotations pod);
          neededPaths = collectNeededPaths mergedModel (mv_Config mv);
          vm = filterVolumeMounts (ps_Containers (pod_Spec pod)) neededPaths
      in if vc_SigstoreConfig (mv_Config mv) \<noteq> None then vm @ [tuf_mount] else vm)"

definition inject :: "finalizer_lib \<Rightarrow> selector_lib \<Rightarrow> webhook_env \<Rightarrow> ObjectMeta \<Rightarrow> ModelValidation \<Rightarrow> Pod \<Rightarrow> Pod" where
  "inject F sel E ns mv pod =
     (let args = verify_args mv pod;
          annotations = fmupd ConfigHashAnnotationKey (GetConfigHash mv)
            (fmupd AuthMethodAnnotationKey (GetAuthMethod mv)
            (fmupd InjectedAnnotationKey (we_now E) (pod_Annotations pod)));
          pp = pod\<lparr>pod_Meta := (pod_Meta pod)
                 \<lparr>om_Finalizers := AddFinalizer F (pod_Finalizers pod) ModelValidationFinalizer,
                  om_Annotations := annotations\<rparr>\<rparr>;
          tc = (case findMatchingTelemetryConfig sel (we_list_tc E) ns mv of
                  Inl _ \<Rightarrow> None | Inr tc \<Rightarrow> tc);
          useLegacySidecar = (continuous_enabled mv \<and> \<not> we_nativeSidecarSupport E);
          vm = validation_mounts mv pod;
          pp = (if vc_SigstoreConfig (mv_Config mv) \<noteq> None
                then pp\<lparr>pod_Spec := (pod_Spec pp)\<lparr>ps_Volumes := ps_Volumes (pod_Spec pp) @ [tuf_volume]\<rparr>\<rparr>
                else pp);
          (container, pp) = buildValidationContainer (we_agentImage E) mv args vm pp tc
                              (we_nativeSidecarSupport E);
          pp = pp\<lparr>pod_Spec := (pod_Spec pp)
                 \<lparr>ps_InitContainers := ps_InitContainers (pod_Spec pp) @ [container]\<rparr>\<rparr>;
          pp = (if useLegacySidecar
                then pp\<lparr>pod_Spec := (pod_Spec pp)
                       \<lparr>ps_Containers := ps_Containers (pod_Spec pp) @
                          [buildLegacySidecarContainer (we_agentImage E) mv args vm]\<rparr>\<rparr>
                else pp)
      in pp)"

definition handle :: "finalizer_lib \<Rightarrow> selector_lib \<Rightarrow> webhook_env \<Rightarrow> webhook_response" where
  "handle F sel E =
     (case we_decode E of
        Inl err \<Rightarrow> Errored 400 (DecodeError err)
      | Inr pod \<Rightarrow>
          (case we_namespace E of
             Inl err \<Rightarrow> Errored 500 (ClientError err)
           | Inr ns \<Rightarrow>
               if map_get (om_Labels ns) IgnoreNamespaceLabel = IgnoreNamespaceValue
               then Allowed ''namespace ignored''
               else
                 (let label = fmlookup (pod_Labels pod) ModelValidationLabel
                  in if label = None \<or> label = Some []
                     then Allowed ''no ModelValidation label found, no action needed''
                     else
                       (case we_get_mv E (nn (pod_Namespace pod) (the label)) of
                          Inl err \<Rightarrow> Errored 400 (ClientError err)
                        | Inr mv \<Rightarrow>
                            if already_injected pod then Allowed ''validation exists, no action needed''
                            else
                              (let pp = inject F sel E ns mv pod
                               in case we_marshal E pp of
                                    Some err \<Rightarrow> Errored 500 (MarshalError err)
                                  | None \<Rightarrow> PatchFromRaw pp)))))"

text \<open>
  \<open>webhookResult\<close> reads the response the admission library makes of it: the code of its result,
  if it has one, and whether it carries a patch.
\<close>

record AdmissionResponse =
  ar_ResultCode :: "int option"
  ar_HasPatchType :: bool

definition webhookResult :: "AdmissionResponse \<Rightarrow> string" where
  "webhookResult resp =
     (case ar_ResultCode resp of
        None \<Rightarrow> ''success''
      | Some code \<Rightarrow>
          if code \<ge> 200 \<and> code < 300
          then (if ar_HasPatchType resp then ''success'' else ''skipped'')
          else ''error'')"

definition Handle ::
  "finalizer_lib \<Rightarrow> selector_lib \<Rightarrow> (webhook_response \<Rightarrow> AdmissionResponse) \<Rightarrow> string \<Rightarrow> webhook_env \<Rightarrow>
   webhook_response \<times> metric_call list" where
  "Handle F sel admission reqNamespace E =
     (let resp = handle F sel E
      in (resp, RecordWebhookMutation (we_metrics_ready E) reqNamespace
            (webhookResult (admission resp)) (we_elapsed E)))"

end
