(* ===== verification/Validation.thy ===== *)
theory Validation
  imports Go_Lib
begin

text \<open>
  \<open>internal/validation\<close>: the configuration of a validation, the parser of its command line
  (\<open>parse.go\<close>) and the three validators (\<open>validate.go\<close>).  The signature verification itself is
  the model-signing library: an argument \<open>model_signing\<close> with its constructors and its
  \<open>Verify\<close>.
\<close>

section \<open>Configuration\<close>

record Config =
  cfg_Method :: string
  cfg_ModelPath :: string
  cfg_SignaturePath :: string
  cfg_Identity :: string
  cfg_IdentityProvider :: string
  cfg_PublicKeyPath :: string
  cfg_CertificateChainPath :: string
  cfg_TrustConfigPath :: string
  cfg_IgnorePaths :: "string list"
  cfg_IgnoreGitPaths :: "bool option"
  cfg_IgnoreUnsignedFiles :: "bool option"
  cfg_AllowSymlinks :: "bool option"

definition empty_Config :: "string \<Rightarrow> Config" where
  "empty_Config method =
     \<lparr>cfg_Method = method, cfg_ModelPath = [], cfg_SignaturePath = [], cfg_Identity = [],
      cfg_IdentityProvider = [], cfg_PublicKeyPath = [], cfg_CertificateChainPath = [],
      cfg_TrustConfigPath = [], cfg_IgnorePaths = [], cfg_IgnoreGitPaths = None,
      cfg_IgnoreUnsignedFiles = None, cfg_AllowSymlinks = None\<rparr>"

section \<open>Parsing\<close>

datatype parse_error =
    TooFewArguments nat
  | ExpectedVerify string
  | UnknownMethod string
  | RequiresValue string
  | UnexpectedArgument string nat
  | ModelPathRequired

definition signature_prefix :: string where "signature_prefix = ''--signature=''"

text \<open>The flags that take the next argument as their value, and the flags that take none.\<close>

definition value_flag :: "string \<Rightarrow> (string \<Rightarrow> Config \<Rightarrow> Config) option" where
  "value_flag arg =
     (if arg = ''--identity'' then Some (\<lambda>v. cfg_Identity_update (\<lambda>_. v))
      else if arg = ''--identity_provider'' then Some (\<lambda>v. cfg_IdentityProvider_update (\<lambda>_. v))
      else if arg = ''--public_key'' then Some (\<lambda>v. cfg_PublicKeyPath_update (\<lambda>_. v))
      else if arg = ''--certificate_chain'' then Some (\<lambda>v. cfg_CertificateChainPath_update (\<lambda>_. v))
      else if arg = ''--trust_config'' then Some (\<lambda>v. cfg_TrustConfigPath_update (\<lambda>_. v))
      else if arg = ''--ignore-paths'' then Some (\<lambda>v. cfg_IgnorePaths_update (\<lambda>ps. ps @ [v]))
      else None)"

definition switch_flag :: "string \<Rightarrow> (Config \<Rightarrow> Config) option" where
  "switch_flag arg =
     (if arg = ''--ignore-git-paths'' then Some (cfg_IgnoreGitPaths_update (\<lambda>_. Some True))
      else if arg = ''--no-ignore-git-paths'' then Some (cfg_IgnoreGitPaths_update (\<lambda>_. Some False))
      else if arg = ''--ignore_unsigned_files'' then Some (cfg_IgnoreUnsignedFiles_update (\<lambda>_. Some True))
      else if arg = ''--no-ignore_unsigned_files'' then Some (cfg_IgnoreUnsignedFiles_update (\<lambda>_. Some False))
      else if arg = ''--allow_symlinks'' then Some (cfg_AllowSymlinks_update (\<lambda>_. Some True))
      else None)"

text \<open>The loop over the arguments from position \<open>i\<close> on.\<close>

fun parse_flags :: "nat \<Rightarrow> string list \<Rightarrow> Config \<Rightarrow> parse_error + Config" where
  "parse_flags i [] cfg = Inr cfg"
| "parse_flags i (arg # rest) cfg =
     (if HasPrefix arg signature_prefix
      then parse_flags (i + 1) rest (cfg\<lparr>cfg_SignaturePath := TrimPrefix arg signature_prefix\<rparr>)
      else case value_flag arg of
        Some set_value \<Rightarrow>
          (case rest of
             [] \<Rightarrow> Inl (RequiresValue arg)
           | v # rest' \<Rightarrow> parse_flags (i + 2) rest' (set_value v cfg))
      | None \<Rightarrow>
          (case switch_flag arg of
             Some set_switch \<Rightarrow> parse_flags (i + 1) rest (set_switch cfg)
           | None \<Rightarrow>
               if rest \<noteq> [] then Inl (UnexpectedArgument arg i)
               else parse_flags (i + 1) rest (cfg\<lparr>cfg_ModelPath := arg\<rparr>)))"

definition ParseArgs :: "string list \<Rightarrow> parse_error + Config" where
  "ParseArgs args =
     (if length args < 3 then Inl (TooFewArguments (length args))
      else if args ! 0 \<noteq> ''verify'' then Inl (ExpectedVerify (args ! 0))
      else if args ! 1 \<notin> {''sigstore'', ''key'', ''certificate''} then Inl (UnknownMethod (args ! 1))
      else case parse_flags 2 (drop 2 args) (empty_Config (args ! 1)) of
        Inl err \<Rightarrow> Inl err
      | Inr cfg \<Rightarrow> if cfg_ModelPath cfg = [] then Inl ModelPathRequired else Inr cfg)"

section \<open>Validation\<close>

record CommonOptions =
  vo_ModelPath :: string
  vo_SignaturePath :: string
  vo_IgnorePaths :: "string list"
  vo_IgnoreGitPaths :: bool
  vo_IgnoreUnsignedFiles :: bool
  vo_AllowSymlinks :: bool

record SigstoreVerifierOptions = CommonOptions +
  so_Identity :: string
  so_IdentityProvider :: string
  so_TrustConfigPath :: string

record KeyVerifierOptions = CommonOptions +
  ko_PublicKeyPath :: string

record CertificateVerifierOptions = CommonOptions +
  co_CertificateChain :: "string list"

record VerifyResult =
  vr_Verified :: bool
  vr_Message :: string

record 'v model_signing =
  NewSigstoreVerifier :: "SigstoreVerifierOptions \<Rightarrow> string + 'v"
  NewKeyVerifier :: "KeyVerifierOptions \<Rightarrow> string + 'v"
  NewCertificateVerifier :: "CertificateVerifierOptions \<Rightarrow> string + 'v"
  Verify :: "'v \<Rightarrow> string + VerifyResult"

datatype validate_error =
    CreateVerifierFailed string string
  | VerificationFailed string
  | UnknownVerificationMethod string

definition Deref :: "bool option \<Rightarrow> bool \<Rightarrow> bool" where
  "Deref p d = (case p of Some b \<Rightarrow> b | None \<Rightarrow> d)"

text \<open>The result is the error; \<open>Inr\<close> carries the message that is logged on success.\<close>

definition run_verifier :: "'v model_signing \<Rightarrow> 'v \<Rightarrow> validate_error + string" where
  "run_verifier M verifier =
     (case Verify M verifier of
        Inl err \<Rightarrow> Inl (VerificationFailed err)
      | Inr result \<Rightarrow>
          if \<not> vr_Verified result then Inl (VerificationFailed (vr_Message result))
          else Inr (vr_Message result))"

definition validateSigstore :: "'v model_signing \<Rightarrow> Config \<Rightarrow> validate_error + string" where
  "validateSigstore M cfg =
     (let opts = \<lparr>vo_ModelPath = cfg_ModelPath cfg, vo_SignaturePath = cfg_SignaturePath cfg,
                  vo_IgnorePaths = cfg_IgnorePaths cfg,
                  vo_IgnoreGitPaths = Deref (cfg_IgnoreGitPaths cfg) False,
                  vo_IgnoreUnsignedFiles = Deref (cfg_IgnoreUnsignedFiles cfg) False,
                  vo_AllowSymlinks = Deref (cfg_AllowSymlinks cfg) False,
                  so_Identity = cfg_Identity cfg, so_IdentityProvider = cfg_IdentityProvider cfg,
                  so_TrustConfigPath = cfg_TrustConfigPath cfg\<rparr>
      in case NewSigstoreVerifier M opts of
        Inl err \<Rightarrow> Inl (CreateVerifierFailed ''sigstore'' err)
      | Inr verifier \<Rightarrow> run_verifier M verifier)"

definition validateKey :: "'v model_signing \<Rightarrow> Config \<Rightarrow> validate_error + string" where
  "validateKey M cfg =
     (let opts = \<lparr>vo_ModelPath = cfg_ModelPath cfg, vo_SignaturePath = cfg_SignaturePath cfg,
                  vo_IgnorePaths = cfg_IgnorePaths cfg,
                  vo_IgnoreGitPaths = Deref (cfg_IgnoreGitPaths cfg) False,
                  vo_IgnoreUnsignedFiles = Deref (cfg_IgnoreUnsignedFiles cfg) False,
                  vo_AllowSymlinks = Deref (cfg_AllowSymlinks cfg) False,
                  ko_PublicKeyPath = cfg_PublicKeyPath cfg\<rparr>
      in case NewKeyVerifier M opts of
        Inl err \<Rightarrow> Inl (CreateVerifierFailed ''key'' err)
      | Inr verifier \<Rightarrow> run_verifier M verifier)"

definition validateCertificate :: "'v model_signing \<Rightarrow> Config \<Rightarrow> validate_error + string" where
  "validateCertificate M cfg =
     (let certChain = (if cfg_CertificateChainPath cfg \<noteq> [] then [cfg_CertificateChainPath cfg] else []);
          opts = \<lparr>vo_ModelPath = cfg_ModelPath cfg, vo_SignaturePath = cfg_SignaturePath cfg,
                  vo_IgnorePaths = cfg_IgnorePaths cfg,
                  vo_IgnoreGitPaths = Deref (cfg_IgnoreGitPaths cfg) False,
                  vo_IgnoreUnsignedFiles = Deref (cfg_IgnoreUnsignedFiles cfg) False,
                  vo_AllowSymlinks = Deref (cfg_AllowSymlinks cfg) False,
                  co_CertificateChain = certChain\<rparr>
      in case NewCertificateVerifier M opts of
        Inl err \<Rightarrow> Inl (CreateVerifierFailed ''certificate'' err)
      | Inr verifier \<Rightarrow> run_verifier M verifier)"

definition Validate :: "'v model_signing \<Rightarrow> Config \<Rightarrow> validate_error option" where
  "Validate M cfg =
     (let result =
        (if cfg_Method cfg = ''sigstore'' then validateSigstore M cfg
         else if cfg_Method cfg = ''key'' then validateKey M cfg
         else if cfg_Method cfg = ''certificate'' then validateCertificate M cfg
         else Inl (UnknownVerificationMethod (cfg_Method cfg)))
      in case result of Inl err \<Rightarrow> Some err | Inr _ \<Rightarrow> None)"

section \<open>Lemmas on the parser\<close>

text \<open>A word that the loop takes as the model path when it comes last.\<close>

definition positional :: "string \<Rightarrow> bool" where
  "positional w \<longleftrightarrow> \<not> HasPrefix w signature_prefix \<and> value_flag w = None \<and> switch_flag w = None"

lemma positional_slash: "HasPrefix w ''/'' \<Longrightarrow> positional w"
  by (cases w) (simp_all add: HasPrefix_def positional_def signature_prefix_def value_flag_def switch_flag_def)

lemma value_flag_no_prefix: "value_flag f = Some g \<Longrightarrow> \<not> HasPrefix f signature_prefix"
  by (auto simp: value_flag_def signature_prefix_def HasPrefix_def split: if_splits)

lemma switch_flag_no_prefix: "switch_flag f = Some g \<Longrightarrow> \<not> HasPrefix f signature_prefix"
  by (auto simp: switch_flag_def signature_prefix_def HasPrefix_def split: if_splits)

lemma switch_flag_no_value: "switch_flag f = Some g \<Longrightarrow> value_flag f = None"
  unfolding switch_flag_def by (auto simp: value_flag_def split: if_splits)

lemma parse_signature:
  "parse_flags i ((signature_prefix @ p) # rest) cfg =
     parse_flags (i + 1) rest (cfg\<lparr>cfg_SignaturePath := p\<rparr>)"
  by simp

lemma parse_value:
  "value_flag f = Some g \<Longrightarrow> parse_flags i (f # v # rest) cfg = parse_flags (i + 2) rest (g v cfg)"
  by (simp add: value_flag_no_prefix)

lemma parse_switch:
  "switch_flag f = Some g \<Longrightarrow> parse_flags i (f # rest) cfg = parse_flags (i + 1) rest (g cfg)"
  by (simp add: switch_flag_no_prefix switch_flag_no_value)

lemma parse_path: "positional w \<Longrightarrow> parse_flags i [w] cfg = Inr (cfg\<lparr>cfg_ModelPath := w\<rparr>)"
  by (simp add: positional_def)

lemma value_flag_keeps_path: "value_flag f = Some g \<Longrightarrow> cfg_ModelPath (g v cfg) = cfg_ModelPath cfg"
  by (auto simp: value_flag_def split: if_splits)

lemma switch_flag_keeps_path: "switch_flag f = Some g \<Longrightarrow> cfg_ModelPath (g cfg) = cfg_ModelPath cfg"
  by (auto simp: switch_flag_def split: if_splits)

lemma value_flag_keeps_method: "value_flag f = Some g \<Longrightarrow> cfg_Method (g v cfg) = cfg_Method cfg"
  by (auto simp: value_flag_def split: if_splits)

lemma switch_flag_keeps_method: "switch_flag f = Some g \<Longrightarrow> cfg_Method (g cfg) = cfg_Method cfg"
  by (auto simp: switch_flag_def split: if_splits)

declare parse_flags.simps(2) [simp del]

text \<open>The only word that becomes the model path is the last one.\<close>

lemma parse_flags_path:
  "parse_flags i args cfg = Inr cfg' \<Longrightarrow>
     cfg_Method cfg' = cfg_Method cfg \<and>
     (cfg_ModelPath cfg' = cfg_ModelPath cfg \<or> args \<noteq> [] \<and> cfg_ModelPath cfg' = last args)"
proof (induction "length args" arbitrary: i args cfg rule: less_induct)
  case less
  show ?case
  proof (cases args)
    case Nil
    with less.prems show ?thesis by simp
  next
    case (Cons arg rest)
    have IH: "cfg_Method cfg' = cfg_Method c \<and>
        (cfg_ModelPath cfg' = cfg_ModelPath c \<or> as \<noteq> [] \<and> cfg_ModelPath cfg' = last as)"
      if "parse_flags n as c = Inr cfg'" "length as < length args" for n as c
      using less.hyps [OF that(2,1)] .
    consider (Sig) "HasPrefix arg signature_prefix" | (Value) g where "value_flag arg = Some g"
      | (Switch) g where "switch_flag arg = Some g" | (Path) "positional arg"
      unfolding positional_def by (metis not_None_eq)
    then show ?thesis
    proof cases
      case Sig
      then have "parse_flags (i + 1) rest (cfg\<lparr>cfg_SignaturePath := TrimPrefix arg signature_prefix\<rparr>) = Inr cfg'"
        using less.prems Cons by (simp add: parse_flags.simps(2))
      from IH [OF this] Cons show ?thesis by auto
    next
      case Value
      then obtain v rest' where r: "rest = v # rest'" "parse_flags (i + 2) rest' (g v cfg) = Inr cfg'"
        using less.prems Cons value_flag_no_prefix [OF Value] by (cases rest) (auto simp: parse_flags.simps(2))
      from IH [OF r(2)] r(1) Cons Value show ?thesis
        by (auto simp: value_flag_keeps_path value_flag_keeps_method)
    next
      case Switch
      then have "parse_flags (i + 1) rest (g cfg) = Inr cfg'"
        using less.prems unfolding Cons parse_switch [OF Switch] by simp
      from IH [OF this] Cons Switch show ?thesis
        by (auto simp: switch_flag_keeps_path switch_flag_keeps_method)
    next
      case Path
      then have "rest = []" using less.prems Cons by (auto simp: positional_def parse_flags.simps(2) split: if_splits)
      with Path less.prems Cons show ?thesis by (auto simp: parse_path)
    qed
  qed
qed

lemma ParseArgs_path:
  assumes "ParseArgs args = Inr cfg"
  shows "cfg_ModelPath cfg = last args \<and> last args \<noteq> [] \<and>
    cfg_Method cfg \<in> {''sigstore'', ''key'', ''certificate''}"
proof -
  obtain m where len: "\<not> length args < 3" and m: "args ! 1 = m" "m \<in> {''sigstore'', ''key'', ''certificate''}"
    and parsed: "parse_flags 2 (drop 2 args) (empty_Config m) = Inr cfg" and path: "cfg_ModelPath cfg \<noteq> []"
    using assms unfolding ParseArgs_def by (auto split: if_splits sum.splits)
  have "cfg_Method cfg = m \<and> cfg_ModelPath cfg = last (drop 2 args)"
    using parse_flags_path [OF parsed] path by (auto simp: empty_Config_def)
  moreover have "last (drop 2 args) = last args" using len by (intro last_drop) simp
  ultimately show ?thesis using m(2) path by simp
qed

end
