(* ===== verification/Agent.thy ===== *)
theory Agent
  imports Validation
begin

text \<open>
  \<open>cmd/validation-agent/main.go\<close>: the command line of the agent (Go's \<open>flag\<close> package with the
  three flags the agent declares), the main function as a start and a step relation over the
  events it waits for, the ready flag, and the two health handlers.  Logging and tracing are
  left out; the conversions of a duration and of an integer are arguments here, the former
  instantiated in \<open>Durations\<close>.
\<close>

section \<open>Command line\<close>

record AgentFlags =
  af_interval :: int
  af_healthPort :: int
  af_skipInitial :: bool

definition default_AgentFlags :: AgentFlags where
  "default_AgentFlags = \<lparr>af_interval = 0, af_healthPort = 8080, af_skipInitial = False\<rparr>"

record value_parsers =
  ParseDuration :: "string \<Rightarrow> int option"
  ParseInt :: "string \<Rightarrow> int option"

datatype flag_error =
    BadFlagSyntax string
  | UndefinedFlag string
  | NeedsArgument string
  | InvalidValue string string
  | HelpRequested

text \<open>The name of a flag and its value when it is given with an equals sign.\<close>

fun split_eq :: "string \<Rightarrow> string \<times> string option" where
  "split_eq [] = ([], None)"
| "split_eq (c # cs) =
     (if c = CHR ''='' then ([], Some cs)
      else case split_eq cs of (name, v) \<Rightarrow> (c # name, v))"

definition set_flag :: "value_parsers \<Rightarrow> string \<Rightarrow> string \<Rightarrow> AgentFlags \<Rightarrow> AgentFlags option" where
  "set_flag P name v fl =
     (if name = ''interval'' then map_option (\<lambda>d. fl\<lparr>af_interval := d\<rparr>) (ParseDuration P v)
      else if name = ''health-port'' then map_option (\<lambda>n. fl\<lparr>af_healthPort := n\<rparr>) (ParseInt P v)
      else map_option (\<lambda>b. fl\<lparr>af_skipInitial := b\<rparr>) (ParseBool v))"

text \<open>
  \<open>flag.Parse\<close>: flags up to the first argument that is not a flag, or up to a double dash; the
  rest are the positional arguments.
\<close>

fun flag_Parse ::
  "value_parsers \<Rightarrow> string list \<Rightarrow> AgentFlags \<Rightarrow> flag_error + (AgentFlags \<times> string list)" where
  "flag_Parse P [] fl = Inr (fl, [])"
| "flag_Parse P (s # args) fl =
     (if length s < 2 \<or> hd s \<noteq> CHR ''-'' then Inr (fl, s # args)
      else if s = ''--'' then Inr (fl, args)
      else
        (let name = (if s ! 1 = CHR ''-'' then drop 2 s else drop 1 s)
         in if name = [] \<or> hd name = CHR ''-'' \<or> hd name = CHR ''='' then Inl (BadFlagSyntax s)
            else case split_eq name of (n, val) \<Rightarrow>
              if n = ''skip-initial'' then
                (case set_flag P n (case val of Some v \<Rightarrow> v | None \<Rightarrow> ''true'') fl of
                   Some fl' \<Rightarrow> flag_Parse P args fl'
                 | None \<Rightarrow> Inl (InvalidValue n (case val of Some v \<Rightarrow> v | None \<Rightarrow> ''true'')))
              else if n = ''interval'' \<or> n = ''health-port'' then
                (case val of
                   Some v \<Rightarrow>
                     (case set_flag P n v fl of
                        Some fl' \<Rightarrow> flag_Parse P args fl' | None \<Rightarrow> Inl (InvalidValue v n))
                 | None \<Rightarrow>
                     (case args of
                        [] \<Rightarrow> Inl (NeedsArgument n)
                      | v # args' \<Rightarrow>
                          (case set_flag P n v fl of
                             Some fl' \<Rightarrow> flag_Parse P args' fl' | None \<Rightarrow> Inl (InvalidValue v n))))
              else if n = ''help'' \<or> n = ''h'' then Inl HelpRequested
              else Inl (UndefinedFlag n)))"

section \<open>Validation runs\<close>

datatype agent_error = ParseFailed parse_error | ValidationError validate_error

definition runValidation :: "'v model_signing \<Rightarrow> string list \<Rightarrow> agent_error option" where
  "runValidation M args =
     (case ParseArgs args of
        Inl err \<Rightarrow> Some (ParseFailed err)
      | Inr cfg \<Rightarrow> map_option ValidationError (Validate M cfg))"

section \<open>The main function\<close>

text \<open>The agent has exited with a code, or waits in the loop; \<open>ready\<close> is the flag of the probe.\<close>

datatype agent_phase = Exited nat | Looping

record agent_state =
  ag_phase :: agent_phase
  ag_ready :: bool

definition markReady :: "agent_state \<Rightarrow> agent_state" where
  "markReady s = s\<lparr>ag_ready := True\<rparr>"

text \<open>From the parsed flags to the loop or the exit; \<open>M\<close> is the library at that moment.\<close>

definition agent_start :: "AgentFlags \<Rightarrow> string list \<Rightarrow> 'v model_signing \<Rightarrow> agent_state" where
  "agent_start fl validationArgs M =
     (let s0 = \<lparr>ag_phase = Looping, ag_ready = False\<rparr>;
          after_initial =
            (if af_skipInitial fl then Inr (markReady s0)
             else case runValidation M validationArgs of
               Some err \<Rightarrow> if af_interval fl = 0 then Inl (s0\<lparr>ag_phase := Exited 1\<rparr>) else Inr s0
             | None \<Rightarrow> Inr (markReady s0))
      in case after_initial of
        Inl s \<Rightarrow> s
      | Inr s \<Rightarrow> if af_interval fl > 0 then s else s\<lparr>ag_phase := Exited 0\<rparr>)"

definition agent_main ::
  "value_parsers \<Rightarrow> string list \<Rightarrow> 'v model_signing \<Rightarrow> agent_state" where
  "agent_main P args M =
     (case flag_Parse P args default_AgentFlags of
        Inl HelpRequested \<Rightarrow> \<lparr>ag_phase = Exited 0, ag_ready = False\<rparr>
      | Inl _ \<Rightarrow> \<lparr>ag_phase = Exited 2, ag_ready = False\<rparr>
      | Inr (fl, validationArgs) \<Rightarrow> agent_start fl validationArgs M)"

text \<open>
  The events of the loop: a tick, with the library as it behaves then, and the signal that
  cancels the context.
\<close>

datatype 'v agent_event = Tick "'v model_signing" | Cancelled

inductive agent_step ::
  "string list \<Rightarrow> agent_state \<Rightarrow> 'v agent_event \<Rightarrow> agent_state \<Rightarrow> bool" for args where
  tick_ok: "ag_phase s = Looping \<Longrightarrow> runValidation M args = None \<Longrightarrow> agent_step args s (Tick M) (markReady s)"
| tick_failed: "ag_phase s = Looping \<Longrightarrow> runValidation M args = Some err \<Longrightarrow> agent_step args s (Tick M) s"
| cancelled: "ag_phase s = Looping \<Longrightarrow> agent_step args s Cancelled (s\<lparr>ag_phase := Exited 0\<rparr>)"

inductive_cases agent_step_tickE: "agent_step args s (Tick M) s'"
inductive_simps agent_step_simps: "agent_step args s (Tick M) s'" "agent_step args s Cancelled s'"

inductive agent_run ::
  "string list \<Rightarrow> agent_state \<Rightarrow> 'v agent_event list \<Rightarrow> agent_state \<Rightarrow> bool" for args where
  agent_run_nil: "agent_run args s [] s"
| agent_run_step: "agent_step args s e s' \<Longrightarrow> agent_run args s' es s'' \<Longrightarrow> agent_run args s (e # es) s''"

section \<open>Health handlers\<close>

definition healthz :: "agent_state \<Rightarrow> nat \<times> string" where
  "healthz s = (200, ''ok'')"

definition ready_handler :: "agent_state \<Rightarrow> nat \<times> string" where
  "ready_handler s = (if ag_ready s then (200, ''ready'') else (503, ''not ready''))"

section \<open>Lemmas\<close>

lemma flag_Parse_positional:
  "a = [] \<or> hd a \<noteq> CHR ''-'' \<Longrightarrow> flag_Parse P (a # args) fl = Inr (fl, a # args)"
  by auto

lemma split_eq_word: "CHR ''='' \<notin> set n \<Longrightarrow> split_eq (n @ CHR ''='' # v) = (n, Some v)"
  by (induction n) auto

lemma flag_Parse_interval:
  "flag_Parse P ((''--interval='' @ v) # args) fl =
     (case ParseDuration P v of
        Some d \<Rightarrow> flag_Parse P args (fl\<lparr>af_interval := d\<rparr>) | None \<Rightarrow> Inl (InvalidValue v ''interval''))"
  by (simp add: set_flag_def split: option.splits)

lemma flag_Parse_skip:
  "flag_Parse P (''--skip-initial'' # args) fl = flag_Parse P args (fl\<lparr>af_skipInitial := True\<rparr>)"
  by (simp add: set_flag_def ParseBool_def)

declare flag_Parse.simps(2) [simp del]

text \<open>Whether some event of a run was a successful validation.\<close>

fun validated :: "string list \<Rightarrow> 'v agent_event \<Rightarrow> bool" where
  "validated args (Tick M) = (runValidation M args = None)"
| "validated args Cancelled = False"

lemma agent_step_ready:
  "agent_step args s e s' \<Longrightarrow> ag_ready s' = (ag_ready s \<or> validated args e)"
  by (induction rule: agent_step.induct) (auto simp: markReady_def)

lemma agent_run_ready:
  "agent_run args s es s' \<Longrightarrow> ag_ready s' = (ag_ready s \<or> list_ex (validated args) es)"
  by (induction rule: agent_run.induct) (auto simp: agent_step_ready)

section \<open>Properties\<close>

text \<open>Two libraries: one accepts every model, one rejects every model.\<close>

definition accept_all :: "unit model_signing" where
  "accept_all = \<lparr>NewSigstoreVerifier = (\<lambda>_. Inr ()), NewKeyVerifier = (\<lambda>_. Inr ()),
     NewCertificateVerifier = (\<lambda>_. Inr ()), Verify = (\<lambda>_. Inr \<lparr>vr_Verified = True, vr_Message = ''ok''\<rparr>)\<rparr>"

definition reject_all :: "unit model_signing" where
  "reject_all = accept_all\<lparr>Verify := (\<lambda>_. Inr \<lparr>vr_Verified = False, vr_Message = ''bad signature''\<rparr>)\<rparr>"

text \<open>Parsers of flag values; the durations are whole seconds.\<close>

definition whole_seconds :: value_parsers where
  "whole_seconds = \<lparr>ParseDuration = (\<lambda>v. if HasSuffix v ''s'' then map_option (\<lambda>n. n * 1000000000) (Atoi (butlast v))
     else None), ParseInt = Atoi\<rparr>"

definition sample_cmd :: "string list" where
  "sample_cmd = [''verify'', ''key'', ''--signature=/m.sig'', ''--public_key'', ''/k'', ''/m'']"

lemma sample_cmd_parses:
  "ParseArgs sample_cmd = Inr ((empty_Config ''key'')\<lparr>cfg_SignaturePath := ''/m.sig'', cfg_PublicKeyPath := ''/k'',
     cfg_ModelPath := ''/m''\<rparr>)"
  by (simp add: sample_cmd_def ParseArgs_def parse_flags.simps(2) signature_prefix_def HasPrefix_def TrimPrefix_def
      value_flag_def switch_flag_def empty_Config_def)

lemma sample_validation:
  "runValidation accept_all sample_cmd = None" "runValidation reject_all sample_cmd \<noteq> None"
  by (simp_all add: runValidation_def sample_cmd_parses Validate_def validateKey_def run_verifier_def accept_all_def
      reject_all_def empty_Config_def)

text \<open>The verifier the library makes for a configuration, with the options of its method.\<close>

definition common_options :: "Config \<Rightarrow> CommonOptions" where
  "common_options cfg =
     \<lparr>vo_ModelPath = cfg_ModelPath cfg, vo_SignaturePath = cfg_SignaturePath cfg,
      vo_IgnorePaths = cfg_IgnorePaths cfg, vo_IgnoreGitPaths = Deref (cfg_IgnoreGitPaths cfg) False,
      vo_IgnoreUnsignedFiles = Deref (cfg_IgnoreUnsignedFiles cfg) False,
      vo_AllowSymlinks = Deref (cfg_AllowSymlinks cfg) False\<rparr>"

definition verifier_for :: "'v model_signing \<Rightarrow> Config \<Rightarrow> 'v option" where
  "verifier_for M cfg =
     (let made =
        (if cfg_Method cfg = ''sigstore'' then
           NewSigstoreVerifier M (CommonOptions.extend (common_options cfg)
             (SigstoreVerifierOptions.fields (cfg_Identity cfg) (cfg_IdentityProvider cfg) (cfg_TrustConfigPath cfg)))
         else if cfg_Method cfg = ''key'' then
           NewKeyVerifier M (CommonOptions.extend (common_options cfg)
             (KeyVerifierOptions.fields (cfg_PublicKeyPath cfg)))
         else if cfg_Method cfg = ''certificate'' then
           NewCertificateVerifier M (CommonOptions.extend (common_options cfg)
             (CertificateVerifierOptions.fields
               (if cfg_CertificateChainPath cfg = [] then [] else [cfg_CertificateChainPath cfg])))
         else Inl [])
      in case made of Inr v \<Rightarrow> Some v | Inl _ \<Rightarrow> None)"

lemma run_verifier_ok: "(\<exists>msg. run_verifier M v = Inr msg) \<longleftrightarrow> (\<exists>r. Verify M v = Inr r \<and> vr_Verified r)"
  by (auto simp: run_verifier_def split: sum.splits)

lemma verifier_parts:
  "(\<exists>msg. (case made of Inl err \<Rightarrow> Inl (CreateVerifierFailed name err) | Inr v \<Rightarrow> run_verifier M v) = Inr msg) \<longleftrightarrow>
     (\<exists>v r. (case made of Inr v \<Rightarrow> Some v | Inl _ \<Rightarrow> None) = Some v \<and> Verify M v = Inr r \<and> vr_Verified r)"
  by (cases made) (simp_all add: run_verifier_ok)

lemma Validate_ok:
  "Validate M cfg = None \<longleftrightarrow> (\<exists>v r. verifier_for M cfg = Some v \<and> Verify M v = Inr r \<and> vr_Verified r)"
proof -
  have none: "(case x of Inl err \<Rightarrow> Some err | Inr _ \<Rightarrow> None) = None \<longleftrightarrow> (\<exists>msg. x = Inr msg)"
    for x :: "validate_error + string" by (cases x) auto
  consider "cfg_Method cfg = ''sigstore''" | "cfg_Method cfg = ''key''" | "cfg_Method cfg = ''certificate''"
    | "cfg_Method cfg \<notin> {''sigstore'', ''key'', ''certificate''}" by blast
  then show ?thesis
    by cases (simp_all add: Validate_def verifier_for_def none validateSigstore_def validateKey_def
        validateCertificate_def verifier_parts common_options_def CommonOptions.extend_def
        SigstoreVerifierOptions.fields_def KeyVerifierOptions.fields_def CertificateVerifierOptions.fields_def)
qed

lemma validation_ok:
  "runValidation M args = None \<longleftrightarrow>
     (\<exists>cfg v r. ParseArgs args = Inr cfg \<and> verifier_for M cfg = Some v \<and> Verify M v = Inr r \<and> vr_Verified r)"
  by (simp add: runValidation_def Validate_ok split: sum.splits)

text \<open>
  C3: a validation passes only when the command line parses, the method is one of the three,
  the library builds a verifier for exactly the options of the command line, and that verifier
  reports the model as verified; every other outcome is an error.
\<close>

theorem validation_fails_closed:
  "runValidation M args = None \<longleftrightarrow>
     (\<exists>cfg v r. ParseArgs args = Inr cfg \<and> verifier_for M cfg = Some v \<and> Verify M v = Inr r \<and> vr_Verified r)"
  by (rule validation_ok)

text \<open>In one-shot mode the exit code is that of the validation.\<close>

lemma agent_start_once:
  assumes "af_interval fl = 0" "\<not> af_skipInitial fl"
  shows "agent_start fl args M =
    \<lparr>ag_phase = Exited (if runValidation M args = None then 0 else 1),
     ag_ready = (runValidation M args = None)\<rparr>"
  using assms by (auto simp: agent_start_def markReady_def Let_def split: option.splits)

text \<open>
  C38: in continuous mode without \<open>--skip-initial\<close> the readiness probe answers 200 exactly when
  the initial or some periodic validation has passed so far, and stays so; the liveness probe
  always answers 200.
\<close>

theorem ready_iff_validated:
  assumes "0 < af_interval fl" "\<not> af_skipInitial fl"
    and "agent_run args (agent_start fl args M) es s"
  shows "(fst (ready_handler s) = 200 \<longleftrightarrow> runValidation M args = None \<or> list_ex (validated args) es) \<and>
    fst (healthz s) = 200"
proof -
  have "ag_ready (agent_start fl args M) \<longleftrightarrow> runValidation M args = None"
    using assms(1,2) by (auto simp: agent_start_def markReady_def Let_def split: option.splits)
  with agent_run_ready [OF assms(3)] show ?thesis
    by (simp add: ready_handler_def healthz_def)
qed

theorem ready_iff_validated_witness:
  "\<exists>s. agent_run sample_cmd (agent_start (default_AgentFlags\<lparr>af_interval := 60\<rparr>) sample_cmd reject_all)
     [Tick accept_all] s \<and> ready_handler s = (200, ''ready'')"
proof -
  let ?s = "agent_start (default_AgentFlags\<lparr>af_interval := 60\<rparr>) sample_cmd reject_all"
  have "ag_phase ?s = Looping"
    using sample_validation(2) by (auto simp: agent_start_def default_AgentFlags_def)
  then have "agent_step sample_cmd ?s (Tick accept_all) (markReady ?s)"
    using sample_validation(1) by (rule tick_ok)
  then have r: "agent_run sample_cmd ?s [Tick accept_all] (markReady ?s)"
    by (rule agent_run_step) (rule agent_run_nil)
  have "fst (ready_handler (markReady ?s)) = 200"
    using ready_iff_validated [OF _ _ r] sample_validation by (simp add: default_AgentFlags_def)
  then have "ready_handler (markReady ?s) = (200, ''ready'')"
    by (simp add: ready_handler_def split: if_splits)
  with r show ?thesis by blast
qed

text \<open>
  C39: a negative interval fails open: the failed initial validation is not an exit, since the
  interval is not 0, the loop is not entered, since it is not positive, and the agent exits
  with 0.
\<close>

theorem negative_interval_exits_zero:
  assumes "af_interval fl < 0"
  shows "ag_phase (agent_start fl args M) = Exited 0"
  using assms by (auto simp: agent_start_def markReady_def Let_def split: option.splits)

theorem negative_interval_exits_zero_witness:
  "runValidation reject_all sample_cmd \<noteq> None \<and>
   ag_phase (agent_start (default_AgentFlags\<lparr>af_interval := -5\<rparr>) sample_cmd reject_all) = Exited 0"
  using negative_interval_exits_zero [of "default_AgentFlags\<lparr>af_interval := -5\<rparr>" sample_cmd reject_all]
    sample_validation(2) by simp

end
