(* ===== verification/Webhook_Properties.thy ===== *)
theory Webhook_Properties
  imports Pod_Webhook Agent
begin

text \<open>
  The properties of the injection webhook: the arguments it gives the agent and what the agent
  makes of them, the mounts, the mutation of the pod, the choice of a telemetry configuration.
\<close>

section \<open>Arguments and their parser\<close>

text \<open>The configuration the agent should get, by the precedence of \<open>validationConfigToArgs\<close>.\<close>

definition args_method :: "ValidationConfig \<Rightarrow> string option" where
  "args_method vc =
     (if vc_SigstoreConfig vc \<noteq> None then Some ''sigstore''
      else if vc_PublicKeyConfig vc \<noteq> None then Some ''key''
      else if vc_PkiConfig vc \<noteq> None then Some ''certificate''
      else None)"

definition method_config :: "ValidationConfig \<Rightarrow> Config \<Rightarrow> Config" where
  "method_config vc cfg =
     (case vc_SigstoreConfig vc of
        Some sc \<Rightarrow> cfg\<lparr>cfg_Identity := sc_CertificateIdentity sc, cfg_IdentityProvider := sc_CertificateOidcIssuer sc\<rparr>
      | None \<Rightarrow>
          (case vc_PublicKeyConfig vc of
             Some pk \<Rightarrow> cfg\<lparr>cfg_PublicKeyPath := pk_KeyPath pk\<rparr>
           | None \<Rightarrow>
               (case vc_PkiConfig vc of
                  Some pc \<Rightarrow> cfg\<lparr>cfg_CertificateChainPath := pc_CertificateAuthority pc\<rparr>
                | None \<Rightarrow> cfg)))"

definition expected_config :: "string \<Rightarrow> ValidationConfig \<Rightarrow> Model \<Rightarrow> Config" where
  "expected_config method vc model =
     (method_config vc (empty_Config method))
       \<lparr>cfg_SignaturePath := m_SignaturePath model,
        cfg_TrustConfigPath := (case vc_ClientTrustConfig vc of Some ct \<Rightarrow> ct_TrustConfigPath ct | None \<Rightarrow> []),
        cfg_IgnorePaths := m_IgnorePaths model,
        cfg_IgnoreGitPaths := m_IgnoreGitPaths model,
        cfg_IgnoreUnsignedFiles := m_IgnoreUnsignedFiles model,
        cfg_AllowSymlinks := (if m_AllowSymlinks model = Some True then Some True else None),
        cfg_ModelPath := m_Path model\<rparr>"

text \<open>The parts of the argument list, and what the parser does with each.\<close>

definition method_args :: "ValidationConfig \<Rightarrow> string list" where
  "method_args vc =
     (case vc_SigstoreConfig vc of
        Some sc \<Rightarrow> [''--identity'', sc_CertificateIdentity sc, ''--identity_provider'', sc_CertificateOidcIssuer sc]
      | None \<Rightarrow>
          (case vc_PublicKeyConfig vc of
             Some pk \<Rightarrow> [''--public_key'', pk_KeyPath pk]
           | None \<Rightarrow>
               (case vc_PkiConfig vc of Some pc \<Rightarrow> [''--certificate_chain'', pc_CertificateAuthority pc] | None \<Rightarrow> [])))"

definition trust_args :: "ValidationConfig \<Rightarrow> string list" where
  "trust_args vc = (case vc_ClientTrustConfig vc of Some ct \<Rightarrow> [''--trust_config'', ct_TrustConfigPath ct] | None \<Rightarrow> [])"

definition ignore_args :: "string list \<Rightarrow> string list" where
  "ignore_args ps = concat (map (\<lambda>p. [''--ignore-paths'', p]) ps)"

definition switch_args :: "string \<Rightarrow> string \<Rightarrow> bool option \<Rightarrow> string list" where
  "switch_args yes no b = (case b of Some b \<Rightarrow> [if b then yes else no] | None \<Rightarrow> [])"

definition symlink_args :: "bool option \<Rightarrow> string list" where
  "symlink_args b = (if b = Some True then [''--allow_symlinks''] else [])"

lemma validationConfigToArgs_parts:
  assumes "args_method vc = Some method"
  shows "validationConfigToArgs vc model =
    method # (signature_prefix @ m_SignaturePath model) # method_args vc @ trust_args vc @
    ignore_args (m_IgnorePaths model) @
    switch_args ''--ignore-git-paths'' ''--no-ignore-git-paths'' (m_IgnoreGitPaths model) @
    switch_args ''--ignore_unsigned_files'' ''--no-ignore_unsigned_files'' (m_IgnoreUnsignedFiles model) @
    symlink_args (m_AllowSymlinks model)"
  using assms
  by (auto simp: args_method_def validationConfigToArgs_def method_args_def trust_args_def ignore_args_def
      switch_args_def symlink_args_def signature_prefix_def Let_def split: option.splits if_splits)

lemma parse_method_args:
  "parse_flags i (method_args vc @ rest) cfg =
     parse_flags (i + length (method_args vc)) rest (method_config vc cfg)"
proof -
  note v = parse_value [where f = "''--identity''"] parse_value [where f = "''--identity_provider''"]
    parse_value [where f = "''--public_key''"] parse_value [where f = "''--certificate_chain''"]
  show ?thesis
    by (simp add: method_args_def method_config_def v value_flag_def split: option.splits)
qed

lemma parse_trust_args:
  "parse_flags i (trust_args vc @ rest) cfg =
     parse_flags (i + length (trust_args vc)) rest
       (case vc_ClientTrustConfig vc of Some ct \<Rightarrow> cfg\<lparr>cfg_TrustConfigPath := ct_TrustConfigPath ct\<rparr> | None \<Rightarrow> cfg)"
  using parse_value [where f = "''--trust_config''"]
  by (simp add: trust_args_def value_flag_def split: option.splits)

lemma parse_ignore_args:
  "parse_flags i (ignore_args ps @ rest) cfg =
     parse_flags (i + length (ignore_args ps)) rest (cfg\<lparr>cfg_IgnorePaths := cfg_IgnorePaths cfg @ ps\<rparr>)"
proof (induction ps arbitrary: i cfg)
  case Nil
  then show ?case by (simp add: ignore_args_def)
next
  case (Cons p ps)
  have upd: "cfg_IgnorePaths_update (\<lambda>ps. ps @ [p]) cfg = cfg\<lparr>cfg_IgnorePaths := cfg_IgnorePaths cfg @ [p]\<rparr>"
    by (cases cfg) simp
  have "parse_flags i (ignore_args (p # ps) @ rest) cfg =
      parse_flags (i + 2) (ignore_args ps @ rest) (cfg\<lparr>cfg_IgnorePaths := cfg_IgnorePaths cfg @ [p]\<rparr>)"
    using parse_value [where f = "''--ignore-paths''"] by (simp add: ignore_args_def value_flag_def upd)
  with Cons.IH show ?case by (simp add: ignore_args_def add.assoc)
qed

lemma parse_switch_args:
  assumes "switch_flag yes = Some (g True)" "switch_flag no = Some (g False)"
  shows "parse_flags i (switch_args yes no b @ rest) cfg =
     parse_flags (i + length (switch_args yes no b)) rest (case b of Some b \<Rightarrow> g b cfg | None \<Rightarrow> cfg)"
  using assms by (simp add: switch_args_def parse_switch split: option.splits)

lemma parse_git_args:
  "parse_flags i (switch_args ''--ignore-git-paths'' ''--no-ignore-git-paths'' b @ rest) cfg =
     parse_flags (i + length (switch_args ''--ignore-git-paths'' ''--no-ignore-git-paths'' b)) rest
       (case b of Some b \<Rightarrow> cfg\<lparr>cfg_IgnoreGitPaths := Some b\<rparr> | None \<Rightarrow> cfg)"
  by (rule parse_switch_args) (simp_all add: switch_flag_def)

lemma parse_unsigned_args:
  "parse_flags i (switch_args ''--ignore_unsigned_files'' ''--no-ignore_unsigned_files'' b @ rest) cfg =
     parse_flags (i + length (switch_args ''--ignore_unsigned_files'' ''--no-ignore_unsigned_files'' b)) rest
       (case b of Some b \<Rightarrow> cfg\<lparr>cfg_IgnoreUnsignedFiles := Some b\<rparr> | None \<Rightarrow> cfg)"
  by (rule parse_switch_args) (simp_all add: switch_flag_def)

lemma parse_symlink_args:
  "parse_flags i (symlink_args b @ rest) cfg =
     parse_flags (i + length (symlink_args b)) rest
       (if b = Some True then cfg\<lparr>cfg_AllowSymlinks := Some True\<rparr> else cfg)"
  using parse_switch [where f = "''--allow_symlinks''"] by (simp add: symlink_args_def switch_flag_def)

lemma parse_verify_args:
  assumes "args_method vc = Some method" and "positional (m_Path model)" "m_Path model \<noteq> []"
  shows "ParseArgs (''verify'' # validationConfigToArgs vc model @ [m_Path model]) =
    Inr (expected_config method vc model)"
proof -
  have "method \<in> {''sigstore'', ''key'', ''certificate''}"
    using assms(1) by (auto simp: args_method_def split: if_splits)
  moreover have "parse_flags 2 ((signature_prefix @ m_SignaturePath model) # method_args vc @ trust_args vc @
      ignore_args (m_IgnorePaths model) @
      switch_args ''--ignore-git-paths'' ''--no-ignore-git-paths'' (m_IgnoreGitPaths model) @
      switch_args ''--ignore_unsigned_files'' ''--no-ignore_unsigned_files'' (m_IgnoreUnsignedFiles model) @
      symlink_args (m_AllowSymlinks model) @ [m_Path model]) (empty_Config method) =
    Inr (expected_config method vc model)"
    unfolding parse_signature parse_method_args parse_trust_args parse_ignore_args parse_git_args
      parse_unsigned_args parse_symlink_args parse_path [OF assms(2)]
    by (auto simp: expected_config_def method_config_def empty_Config_def split: option.splits)
  ultimately show ?thesis
    using assms(3) by (simp add: ParseArgs_def validationConfigToArgs_parts [OF assms(1)] expected_config_def)
qed

lemma parsed_method:
  assumes "ParseArgs (''verify'' # validationConfigToArgs vc model @ [m_Path model]) = Inr cfg"
  shows "Some (cfg_Method cfg) = args_method vc"
proof (cases "args_method vc")
  case None
  then have "validationConfigToArgs vc model = []"
    by (simp add: args_method_def validationConfigToArgs_def split: if_splits)
  with assms show ?thesis by (simp add: ParseArgs_def)
next
  case (Some meth)
  from assms obtain rest where "parse_flags 2 rest (empty_Config meth) = Inr cfg"
    unfolding validationConfigToArgs_parts [OF Some] by (auto simp: ParseArgs_def split: if_splits sum.splits)
  then have "cfg_Method cfg = meth" using parse_flags_path by (fastforce simp: empty_Config_def)
  with Some show ?thesis by simp
qed

section \<open>Sample objects\<close>

definition sample_model :: Model where
  "sample_model = \<lparr>m_Path = ''/data/model'', m_SignaturePath = ''/data/model.sig'',
     m_IgnorePaths = [''/data/model/tmp''], m_IgnoreGitPaths = Some True, m_IgnoreUnsignedFiles = None,
     m_AllowSymlinks = None\<rparr>"

definition key_config :: ValidationConfig where
  "key_config = \<lparr>vc_SigstoreConfig = None, vc_PkiConfig = None,
     vc_PublicKeyConfig = Some \<lparr>pk_KeyPath = ''/keys/pub''\<rparr>, vc_ClientTrustConfig = None\<rparr>"

definition plain_meta :: "string \<Rightarrow> ObjectMeta" where
  "plain_meta name =
     \<lparr>om_Name = name, om_Namespace = ''prod'', om_UID = name, om_Generation = 1, om_CreationTimestamp = 7,
      om_DeletionTimestamp = None, om_Labels = fmupd ModelValidationLabel ''resnet'' fmempty,
      om_Annotations = fmempty, om_Finalizers = []\<rparr>"

definition model_validation :: "ContinuousValidation option \<Rightarrow> ModelValidation" where
  "model_validation cv =
     \<lparr>mv_Meta = plain_meta ''resnet'',
      mv_Spec = \<lparr>mvs_Model = sample_model, mvs_Config = key_config, mvs_ImagePullPolicy = [],
                 mvs_ContinuousValidation = cv, mvs_Resources = None\<rparr>,
      mv_Status = \<lparr>st_Conditions = [], st_InjectedPodCount = 0, st_UninjectedPodCount = 0,
                   st_OrphanedPodCount = 0, st_AuthMethod = [], st_InjectedPods = [],
                   st_UninjectedPods = [], st_OrphanedPods = [], st_LastUpdated = 0\<rparr>\<rparr>"

definition app_container :: Container where
  "app_container = \<lparr>c_Name = ''app'', c_Image = ''app:1'', c_ImagePullPolicy = [], c_Command = [], c_Args = [],
     c_VolumeMounts = [\<lparr>vm_Name = ''data'', vm_MountPath = ''/data'', vm_SubPath = [], vm_ReadOnly = False\<rparr>,
                       \<lparr>vm_Name = ''root'', vm_MountPath = ''/'', vm_SubPath = [], vm_ReadOnly = False\<rparr>],
     c_RestartPolicy = None, c_ReadinessProbe = None, c_LivenessProbe = None, c_Resources = no_resources,
     c_Env = [], c_SecurityContext = None\<rparr>"

definition app_pod :: Pod where
  "app_pod = \<lparr>pod_Meta = plain_meta ''web'',
     pod_Spec = \<lparr>ps_InitContainers = [], ps_Containers = [app_container], ps_Volumes = []\<rparr>\<rparr>"

lemma sample_positional [simp]: "positional ''/data/model''"
  by (rule positional_slash) (simp add: HasPrefix_def)

lemma sample_args [simp]: "args_method key_config = Some ''key''" "m_Path sample_model = ''/data/model''"
  by (simp_all add: args_method_def key_config_def sample_model_def)

lemma merge_none [simp]: "mergeModelWithAnnotations model fmempty = model"
  by (simp add: mergeModelWithAnnotations_def parseBoolAnnotation_def)

section \<open>Arguments\<close>

text \<open>
  C2: the arguments the webhook writes and the parser of the agent are inverse: from any
  validation configuration with a method and any model whose path is not itself a flag, the
  agent reads back the method, the values of that method, the signature path, the trust
  configuration, the ignored paths in order, the three switches and the model path.
\<close>

theorem args_round_trip:
  assumes "args_method vc = Some method" and "positional (m_Path model)" "m_Path model \<noteq> []"
  shows "ParseArgs (''verify'' # validationConfigToArgs vc model @ [m_Path model]) =
    Inr (expected_config method vc model)"
  by (rule parse_verify_args [OF assms])

theorem args_round_trip_witness:
  "ParseArgs (''verify'' # validationConfigToArgs key_config sample_model @ [''/data/model'']) =
     Inr (expected_config ''key'' key_config sample_model)"
  using args_round_trip [of key_config "''key''" sample_model] by simp

text \<open>
  Without a method, and whatever the path, the arguments are rejected: a configuration
  the webhook cannot translate never validates.
\<close>

theorem missing_method_fails_closed:
  assumes "args_method vc = None"
  shows "ParseArgs (''verify'' # validationConfigToArgs vc model @ [m_Path model]) = Inl (TooFewArguments 2) \<and>
    runValidation M (''verify'' # validationConfigToArgs vc model @ [m_Path model]) \<noteq> None"
  using assms
  by (simp add: args_method_def validationConfigToArgs_def ParseArgs_def runValidation_def
      split: if_splits)

theorem missing_method_fails_closed_witness:
  "runValidation accept_all (''verify'' # validationConfigToArgs
     \<lparr>vc_SigstoreConfig = None, vc_PkiConfig = None, vc_PublicKeyConfig = None, vc_ClientTrustConfig = None\<rparr>
     sample_model @ [m_Path sample_model]) \<noteq> None"
  using missing_method_fails_closed [of "\<lparr>vc_SigstoreConfig = None, vc_PkiConfig = None,
      vc_PublicKeyConfig = None, vc_ClientTrustConfig = None\<rparr>" sample_model accept_all]
  by (simp add: args_method_def)

text \<open>
  The parser takes no other argument for the model path than the last one, and no other
  method than the three it knows; so a path that looks like a flag is an error, never a
  validation of another model.
\<close>

lemma parsed_path_is_last:
  assumes "ParseArgs args = Inr cfg"
  shows "cfg_ModelPath cfg = last args \<and> cfg_ModelPath cfg \<noteq> [] \<and>
    cfg_Method cfg \<in> {''sigstore'', ''key'', ''certificate''} \<and> hd args = ''verify''"
proof -
  have "args ! 0 = ''verify''" "args \<noteq> []"
    using assms by (auto simp: ParseArgs_def split: if_splits)
  then show ?thesis using ParseArgs_path [OF assms] by (simp add: hd_conv_nth)
qed

definition reported_method :: "string \<Rightarrow> string" where
  "reported_method m =
     (if m = ''key'' then ''public-key'' else if m = ''certificate'' then ''pki'' else m)"

text \<open>
  The method the status reports and the method the agent runs are the same under the rule
  of the CRD that exactly one method is given; the order of the two functions differs, so with
  both a public key and a PKI configuration the status says PKI and the agent checks the key.
\<close>

theorem reported_method_agrees:
  "(exactly_one_method (mv_Config mv) \<longrightarrow>
      map_option reported_method (args_method (mv_Config mv)) = Some (GetAuthMethod mv)) \<and>
   (vc_SigstoreConfig (mv_Config mv) = None \<and> vc_PkiConfig (mv_Config mv) \<noteq> None \<and>
      vc_PublicKeyConfig (mv_Config mv) \<noteq> None \<longrightarrow>
      GetAuthMethod mv = ''pki'' \<and> args_method (mv_Config mv) = Some ''key'')"
  by (auto simp: exactly_one_method_def args_method_def GetAuthMethod_def reported_method_def split: if_splits)

theorem reported_method_agrees_witness: "GetAuthMethod (model_validation None) = ''public-key''"
  using reported_method_agrees [of "model_validation None"]
  by (simp add: model_validation_def key_config_def exactly_one_method_def args_method_def reported_method_def)

section \<open>Mounts\<close>

lemma filter_mounts_sound:
  "m \<in> set (filter_mounts paths ms seen) \<Longrightarrow>
     vm_ReadOnly m \<and> vm_MountPath m \<noteq> ''/'' \<and> vm_MountPath m \<notin> set seen \<and>
     mount_needed paths (vm_MountPath m) \<and> (\<exists>m' \<in> set ms. m = m'\<lparr>vm_ReadOnly := True\<rparr>)"
  by (induction paths ms seen rule: filter_mounts.induct) (fastforce split: if_splits)+

lemma filter_mounts_distinct: "distinct (map vm_MountPath (filter_mounts paths ms seen))"
proof (induction paths ms seen rule: filter_mounts.induct)
  case (2 paths m ms seen)
  then show ?case by (auto dest: filter_mounts_sound)
qed simp

lemma filter_mounts_complete:
  "m \<in> set ms \<Longrightarrow> vm_MountPath m \<noteq> ''/'' \<Longrightarrow> mount_needed paths (vm_MountPath m) \<Longrightarrow>
     vm_MountPath m \<in> set seen \<union> vm_MountPath ` set (filter_mounts paths ms seen)"
proof (induction paths ms seen rule: filter_mounts.induct)
  case (2 paths a ms seen)
  show ?case
  proof (cases "m = a")
    case True
    with 2 show ?thesis by auto
  next
    case False
    then have "m \<in> set ms" using "2.prems" by simp
    with 2 show ?thesis
      by (cases "vm_MountPath a \<in> set seen \<or> vm_MountPath a = ''/''";
          cases "mount_needed paths (vm_MountPath a)") auto
  qed
qed simp

text \<open>A path lies under a directory: it is the directory, or continues it after a slash.\<close>

definition lies_under :: "string \<Rightarrow> string \<Rightarrow> bool" where
  "lies_under path dir \<longleftrightarrow> path = dir \<or> (\<exists>rest. path = (if HasSuffix dir ''/'' then dir else dir @ ''/'') @ rest)"

lemma mount_needed_iff: "mount_needed paths dir \<longleftrightarrow> (\<exists>p \<in> set paths. lies_under p dir)"
  by (auto simp: mount_needed_def lies_under_def Let_def list_ex_iff HasPrefix_iff)



section \<open>The injected containers\<close>

lemma init_container_fields [simp]:
  "c_Name (fst (buildValidationContainer img mv args vm pp tc native)) = ModelValidationInitContainerName"
  "c_Image (fst (buildValidationContainer img mv args vm pp tc native)) = img"
  "c_VolumeMounts (fst (buildValidationContainer img mv args vm pp tc native)) = vm"
  "c_SecurityContext (fst (buildValidationContainer img mv args vm pp tc native)) = Some restrictedSecurityContext"
  "c_Args (fst (buildValidationContainer img mv args vm pp tc native)) =
     (if continuous_enabled mv \<and> native then (''--interval='' @ agent_interval mv) # args else args)"
  "c_RestartPolicy (fst (buildValidationContainer img mv args vm pp tc native)) =
     (if continuous_enabled mv \<and> native then Some ''Always'' else None)"
  "c_ReadinessProbe (fst (buildValidationContainer img mv args vm pp tc native)) =
     (if continuous_enabled mv \<and> native then Some readiness_probe else None)"
  "c_Env (fst (buildValidationContainer img mv args vm pp tc native)) = telemetryEnvVars tc"
  by (simp_all add: buildValidationContainer_def Let_def)

lemma build_pod:
  "snd (buildValidationContainer img mv args vm pp tc native) =
     (if continuous_enabled mv
      then pp\<lparr>pod_Meta := (pod_Meta pp)\<lparr>om_Annotations :=
             fmupd ContinuousValidationAnnotationKey ''true'' (pod_Annotations pp)\<rparr>\<rparr>
      else pp)"
  by (simp add: buildValidationContainer_def Let_def)

lemma build_container_pod:
  "fst (buildValidationContainer img mv args vm pp tc native) =
     fst (buildValidationContainer img mv args vm pp' tc native)"
  by (simp add: buildValidationContainer_def Let_def)

definition found_telemetry :: "selector_lib \<Rightarrow> webhook_env \<Rightarrow> ObjectMeta \<Rightarrow> ModelValidation \<Rightarrow> TelemetryConfig option" where
  "found_telemetry sel E ns mv =
     (case findMatchingTelemetryConfig sel (we_list_tc E) ns mv of Inl _ \<Rightarrow> None | Inr tc \<Rightarrow> tc)"

definition injected_container ::
  "selector_lib \<Rightarrow> webhook_env \<Rightarrow> ObjectMeta \<Rightarrow> ModelValidation \<Rightarrow> Pod \<Rightarrow> Container" where
  "injected_container sel E ns mv pod =
     fst (buildValidationContainer (we_agentImage E) mv (verify_args mv pod) (validation_mounts mv pod) pod
       (found_telemetry sel E ns mv) (we_nativeSidecarSupport E))"

lemma inject_fields:
  "ps_InitContainers (pod_Spec (inject F sel E ns mv pod)) =
     ps_InitContainers (pod_Spec pod) @ [injected_container sel E ns mv pod]"
  "ps_Containers (pod_Spec (inject F sel E ns mv pod)) =
     ps_Containers (pod_Spec pod) @
       (if continuous_enabled mv \<and> \<not> we_nativeSidecarSupport E
        then [buildLegacySidecarContainer (we_agentImage E) mv (verify_args mv pod) (validation_mounts mv pod)] else [])"
  "ps_Volumes (pod_Spec (inject F sel E ns mv pod)) =
     ps_Volumes (pod_Spec pod) @ (if vc_SigstoreConfig (mv_Config mv) \<noteq> None then [tuf_volume] else [])"
  "pod_Finalizers (inject F sel E ns mv pod) = AddFinalizer F (pod_Finalizers pod) ModelValidationFinalizer"
  "pod_Labels (inject F sel E ns mv pod) = pod_Labels pod"
  "pod_Name (inject F sel E ns mv pod) = pod_Name pod"
  "pod_Namespace (inject F sel E ns mv pod) = pod_Namespace pod"
  "pod_UID (inject F sel E ns mv pod) = pod_UID pod"
  by (simp_all add: inject_def Let_def case_prod_beta build_pod injected_container_def found_telemetry_def)
    (intro conjI impI build_container_pod)

lemma inject_annotations:
  "pod_Annotations (inject F sel E ns mv pod) =
     (if continuous_enabled mv then fmupd ContinuousValidationAnnotationKey ''true'' else id)
       (fmupd ConfigHashAnnotationKey (GetConfigHash mv)
         (fmupd AuthMethodAnnotationKey (GetAuthMethod mv)
           (fmupd InjectedAnnotationKey (we_now E) (pod_Annotations pod))))"
  by (simp add: inject_def Let_def case_prod_beta build_pod)

lemma inject_already: "already_injected (inject F sel E ns mv pod)"
  by (simp add: already_injected_def inject_fields injected_container_def)

text \<open>
  C34: the mutation only adds: the name, the namespace, the UID and the labels of the pod stay,
  and so do its containers, init containers, volumes and every annotation but the four of the
  operator; exactly one init container is appended, a sidecar container exactly when continuous
  validation is on and the cluster has no native sidecars, and the pod holds the finalizer.
\<close>

theorem injection_only_adds:
  assumes "finalizer_laws F" and "pp = inject F sel E ns mv pod"
  shows "pod_Name pp = pod_Name pod \<and> pod_Namespace pp = pod_Namespace pod \<and> pod_UID pp = pod_UID pod \<and>
    pod_Labels pp = pod_Labels pod \<and>
    (\<exists>c. ps_InitContainers (pod_Spec pp) = ps_InitContainers (pod_Spec pod) @ [c] \<and>
       c_Name c = ModelValidationInitContainerName) \<and>
    (\<exists>cs. ps_Containers (pod_Spec pp) = ps_Containers (pod_Spec pod) @ cs \<and>
       map c_Name cs = (if continuous_enabled mv \<and> \<not> we_nativeSidecarSupport E
                        then [ModelValidationSidecarContainerName] else [])) \<and>
    (\<exists>vs. ps_Volumes (pod_Spec pp) = ps_Volumes (pod_Spec pod) @ vs) \<and>
    (\<forall>key. key \<notin> {InjectedAnnotationKey, AuthMethodAnnotationKey, ConfigHashAnnotationKey,
        ContinuousValidationAnnotationKey} \<longrightarrow>
       fmlookup (pod_Annotations pp) key = fmlookup (pod_Annotations pod) key) \<and>
    fmlookup (pod_Annotations pp) ConfigHashAnnotationKey = Some (GetConfigHash mv) \<and>
    fmlookup (pod_Annotations pp) AuthMethodAnnotationKey = Some (GetAuthMethod mv) \<and>
    ContainsFinalizer F (pod_Finalizers pp) ModelValidationFinalizer"
  unfolding assms(2) inject_annotations
  by (simp add: inject_fields injected_container_def buildLegacySidecarContainer_def
      finalizer_laws.contains_add [OF assms(1)])

definition app_env :: webhook_env where
  "app_env = \<lparr>we_decode = Inr app_pod, we_namespace = Inr (plain_meta ''prod''),
     we_get_mv = (\<lambda>k. if k = nn ''prod'' ''resnet'' then Inr (model_validation None) else Inl NotFound),
     we_list_tc = Inr [], we_now = ''2025-01-01T00:00:00Z'', we_marshal = (\<lambda>_. None), we_agentImage = ''agent:1'',
     we_nativeSidecarSupport = True, we_elapsed = 1, we_metrics_ready = True\<rparr>"

lemma list_finalizer_laws: "finalizer_laws list_finalizers"
  by (rule fin.finalizer_laws_axioms)

theorem injection_only_adds_witness:
  "ContainsFinalizer list_finalizers (pod_Finalizers (inject list_finalizers match_labels app_env (plain_meta ''prod'')
     (model_validation None) app_pod)) ModelValidationFinalizer"
  using injection_only_adds [OF list_finalizer_laws refl, of match_labels app_env "plain_meta ''prod''"
      "model_validation None" app_pod] by blast



section \<open>The handler\<close>

definition ignored_namespace :: "ObjectMeta \<Rightarrow> bool" where
  "ignored_namespace ns \<longleftrightarrow> map_get (om_Labels ns) IgnoreNamespaceLabel = IgnoreNamespaceValue"

definition pod_label :: "Pod \<Rightarrow> string option" where
  "pod_label pod =
     (case fmlookup (pod_Labels pod) ModelValidationLabel of Some [] \<Rightarrow> None | x \<Rightarrow> x)"

text \<open>
  A pod is let through unchanged only when its namespace is ignored, it names no
  ModelValidation, or it already holds a container with one of the two names and the
  ModelValidation it names exists; a pod whose ModelValidation cannot be read is refused, and any
  other pod is answered with the patch that makes it the injected pod, or refused when that pod
  cannot be marshalled.
\<close>

theorem unpatched_only_when_exempt:
  assumes "we_decode E = Inr pod" "we_namespace E = Inr ns"
  shows "((\<exists>msg. handle F sel E = Allowed msg) \<longleftrightarrow>
      ignored_namespace ns \<or> pod_label pod = None \<or>
      (\<exists>name mv. pod_label pod = Some name \<and> we_get_mv E (nn (pod_Namespace pod) name) = Inr mv \<and>
         already_injected pod)) \<and>
    (\<forall>name err. \<not> ignored_namespace ns \<and> pod_label pod = Some name \<and>
       we_get_mv E (nn (pod_Namespace pod) name) = Inl err \<longrightarrow> handle F sel E = Errored 400 (ClientError err)) \<and>
    (\<forall>name mv. \<not> ignored_namespace ns \<and> pod_label pod = Some name \<and> \<not> already_injected pod \<and>
       we_get_mv E (nn (pod_Namespace pod) name) = Inr mv \<longrightarrow>
       handle F sel E = (let pp = inject F sel E ns mv pod
         in case we_marshal E pp of None \<Rightarrow> PatchFromRaw pp | Some err \<Rightarrow> Errored 500 (MarshalError err)))"
proof (cases "ignored_namespace ns \<or> pod_label pod = None")
  case True
  then show ?thesis
    using assms
    by (auto simp: handle_def Let_def ignored_namespace_def pod_label_def split: option.splits list.splits)
next
  case False
  then obtain name where name: "fmlookup (pod_Labels pod) ModelValidationLabel = Some name" "name \<noteq> []"
    by (auto simp: pod_label_def split: option.splits list.splits)
  then have "pod_label pod = Some name" by (simp add: pod_label_def split: list.splits)
  with False name show ?thesis
    using assms
    by (cases "we_get_mv E (nn (pod_Namespace pod) name)")
      (auto simp: handle_def Let_def ignored_namespace_def split: option.splits)
qed

theorem unpatched_only_when_exempt_witness:
  "\<not> (\<exists>msg. handle list_finalizers match_labels app_env = Allowed msg)"
proof -
  have "pod_label app_pod = Some ''resnet''" "\<not> already_injected app_pod"
    by (simp_all add: pod_label_def app_pod_def plain_meta_def already_injected_def app_container_def
        ModelValidationSidecarContainerName_def)
  moreover have "\<not> ignored_namespace (plain_meta ''prod'')"
    by (simp add: ignored_namespace_def plain_meta_def map_get_def IgnoreNamespaceValue_def
        IgnoreNamespaceLabel_def ModelValidationLabel_def ModelValidationDomain_def)
  ultimately show ?thesis
    using unpatched_only_when_exempt [of app_env app_pod "plain_meta ''prod''" list_finalizers match_labels]
    by (simp add: app_env_def)
qed

text \<open>
  C16: the webhook is idempotent: called on the pod it has patched, with the same namespace and
  the ModelValidation still there, it changes nothing.
\<close>

theorem webhook_idempotent:
  assumes "handle F sel E = PatchFromRaw pp"
    and "we_decode E' = Inr pp" "we_namespace E' = we_namespace E" "we_get_mv E' = we_get_mv E"
  shows "handle F sel E' = Allowed ''validation exists, no action needed''"
proof -
  from assms(1) obtain pod ns mv where E: "we_decode E = Inr pod" "we_namespace E = Inr ns"
    and ns: "map_get (om_Labels ns) IgnoreNamespaceLabel \<noteq> IgnoreNamespaceValue"
    and label: "fmlookup (pod_Labels pod) ModelValidationLabel \<notin> {None, Some []}"
    and mv: "we_get_mv E (nn (pod_Namespace pod) (the (fmlookup (pod_Labels pod) ModelValidationLabel))) = Inr mv"
    and pp: "pp = inject F sel E ns mv pod"
    by (auto simp: handle_def Let_def split: sum.splits if_splits option.splits)
  show ?thesis
    unfolding handle_def assms(2,3,4) E sum.case pp
    using ns label mv by (simp add: Let_def inject_fields inject_already)
qed

theorem webhook_idempotent_witness:
  "handle list_finalizers match_labels (app_env\<lparr>we_decode := Inr (inject list_finalizers match_labels app_env (plain_meta ''prod'')
     (model_validation None) app_pod)\<rparr>) = Allowed ''validation exists, no action needed''"
proof (rule webhook_idempotent)
  have "\<not> already_injected app_pod"
    by (simp add: app_pod_def already_injected_def app_container_def ModelValidationSidecarContainerName_def)
  then show "handle list_finalizers match_labels app_env =
      PatchFromRaw (inject list_finalizers match_labels app_env (plain_meta ''prod'') (model_validation None) app_pod)"
    by (simp add: handle_def app_env_def) (simp add: app_pod_def plain_meta_def map_get_def IgnoreNamespaceValue_def
        IgnoreNamespaceLabel_def ModelValidationLabel_def ModelValidationDomain_def Let_def)
qed (simp_all add: app_env_def)

end
