(* ===== verification/MV_Info.thy ===== *)
theory MV_Info
  imports Metrics Prelude
begin

text \<open>
  \<open>internal/tracker/model_validation_info.go\<close>: what the tracker knows of one ModelValidation,
  and the operations on it.  An operation returns the new record with the metric calls it
  makes.  \<open>mvi_wf\<close> is the invariant of the three pod maps; \<open>mvi_abs\<close> reads them as one map
  from UIDs to a pod and its category, which is the specification the operations are proved
  against.
\<close>

record PodInfo =
  pi_Name :: string
  pi_Namespace :: string
  pi_UID :: string
  pi_Timestamp :: int
  pi_ConfigHash :: string
  pi_AuthMethod :: string

type_synonym pods = "(string, PodInfo) fmap"

record ModelValidationInfo =
  mvi_Name :: string
  mvi_ConfigHash :: string
  mvi_AuthMethod :: string
  mvi_ObservedGeneration :: int
  mvi_InjectedPods :: pods
  mvi_UninjectedPods :: pods
  mvi_OrphanedPods :: pods

definition NewModelValidationInfo :: "string \<Rightarrow> string \<Rightarrow> string \<Rightarrow> int \<Rightarrow> ModelValidationInfo" where
  "NewModelValidationInfo name configHash authMethod observedGeneration =
     \<lparr>mvi_Name = name, mvi_ConfigHash = configHash, mvi_AuthMethod = authMethod,
      mvi_ObservedGeneration = observedGeneration,
      mvi_InjectedPods = fmempty, mvi_UninjectedPods = fmempty, mvi_OrphanedPods = fmempty\<rparr>"

definition getPodState :: "ModelValidationInfo \<Rightarrow> string \<Rightarrow> string" where
  "getPodState mvi uid =
     (if fmlookup (mvi_InjectedPods mvi) uid \<noteq> None then PodStateInjected
      else if fmlookup (mvi_OrphanedPods mvi) uid \<noteq> None then PodStateOrphaned
      else if fmlookup (mvi_UninjectedPods mvi) uid \<noteq> None then PodStateUninjected
      else [])"

definition RemovePod :: "string \<Rightarrow> ModelValidationInfo \<Rightarrow> bool \<times> ModelValidationInfo" where
  "RemovePod uid mvi =
     (if fmlookup (mvi_InjectedPods mvi) uid \<noteq> None
      then (True, mvi\<lparr>mvi_InjectedPods := fmdrop uid (mvi_InjectedPods mvi)\<rparr>)
      else if fmlookup (mvi_OrphanedPods mvi) uid \<noteq> None
      then (True, mvi\<lparr>mvi_OrphanedPods := fmdrop uid (mvi_OrphanedPods mvi)\<rparr>)
      else if fmlookup (mvi_UninjectedPods mvi) uid \<noteq> None
      then (True, mvi\<lparr>mvi_UninjectedPods := fmdrop uid (mvi_UninjectedPods mvi)\<rparr>)
      else (False, mvi))"

text \<open>
  \<open>movePodToState\<close> is given the target map by reference; here the caller passes the update
  of that map.
\<close>

definition movePodToState ::
  "PodInfo \<Rightarrow> string \<Rightarrow> ((pods \<Rightarrow> pods) \<Rightarrow> ModelValidationInfo \<Rightarrow> ModelValidationInfo) \<Rightarrow>
   ModelValidationInfo \<Rightarrow> ModelValidationInfo \<times> metric_call list" where
  "movePodToState p newState targetMap mvi =
     (let prevState = getPodState mvi (pi_UID p);
          mvi' = snd (RemovePod (pi_UID p) mvi)
      in (targetMap (fmupd (pi_UID p) p) mvi',
          if prevState \<noteq> [] \<and> prevState \<noteq> newState
          then RecordPodStateTransition (pi_Namespace p) (mvi_Name mvi) prevState newState
          else []))"

definition config_differs :: "PodInfo \<Rightarrow> string \<Rightarrow> string \<Rightarrow> bool" where
  "config_differs p configHash authMethod \<longleftrightarrow>
     pi_ConfigHash p \<noteq> [] \<and> pi_ConfigHash p \<noteq> configHash \<or>
     pi_AuthMethod p \<noteq> [] \<and> pi_AuthMethod p \<noteq> authMethod"

definition AddInjectedPod ::
  "PodInfo \<Rightarrow> ModelValidationInfo \<Rightarrow> ModelValidationInfo \<times> metric_call list" where
  "AddInjectedPod p mvi =
     (if config_differs p (mvi_ConfigHash mvi) (mvi_AuthMethod mvi)
      then movePodToState p PodStateOrphaned mvi_OrphanedPods_update mvi
      else movePodToState p PodStateInjected mvi_InjectedPods_update mvi)"

definition AddUninjectedPod ::
  "PodInfo \<Rightarrow> ModelValidationInfo \<Rightarrow> ModelValidationInfo \<times> metric_call list" where
  "AddUninjectedPod p mvi = movePodToState p PodStateUninjected mvi_UninjectedPods_update mvi"

text \<open>One iteration of the loop that moves the drifted pods.\<close>

definition orphan_pod :: "PodInfo \<Rightarrow> ModelValidationInfo \<Rightarrow> ModelValidationInfo" where
  "orphan_pod p mvi =
     mvi\<lparr>mvi_InjectedPods := fmdrop (pi_UID p) (mvi_InjectedPods mvi),
         mvi_OrphanedPods := fmupd (pi_UID p) p (mvi_OrphanedPods mvi)\<rparr>"

definition UpdateConfig ::
  "(string fset \<Rightarrow> string list) \<Rightarrow> string \<Rightarrow> string \<Rightarrow> int \<Rightarrow> ModelValidationInfo \<Rightarrow>
   PodInfo list \<times> ModelValidationInfo" where
  "UpdateConfig ord configHash authMethod observedGeneration mvi =
     (if mvi_ConfigHash mvi = configHash \<and> mvi_AuthMethod mvi = authMethod
      then ([], mvi\<lparr>mvi_ObservedGeneration := observedGeneration\<rparr>)
      else
        (let driftedPods = filter (\<lambda>p. config_differs p configHash authMethod)
                             (range_values ord (mvi_InjectedPods mvi));
             mvi' = mvi\<lparr>mvi_ConfigHash := configHash, mvi_AuthMethod := authMethod,
                        mvi_ObservedGeneration := observedGeneration\<rparr>
         in (driftedPods, fold orphan_pod driftedPods mvi')))"

definition GetAllPods :: "(string fset \<Rightarrow> string list) \<Rightarrow> ModelValidationInfo \<Rightarrow> PodInfo list" where
  "GetAllPods ord mvi =
     range_values ord (mvi_InjectedPods mvi) @ range_values ord (mvi_UninjectedPods mvi) @
     range_values ord (mvi_OrphanedPods mvi)"

section \<open>The invariant\<close>

text \<open>
  Every pod is filed under its own UID, in at most one of the three maps, and an injected pod
  carries no configuration that differs from the current one.
\<close>

definition keyed :: "pods \<Rightarrow> bool" where
  "keyed m \<longleftrightarrow> (\<forall>uid p. fmlookup m uid = Some p \<longrightarrow> pi_UID p = uid)"

definition disjoint_pods :: "ModelValidationInfo \<Rightarrow> bool" where
  "disjoint_pods mvi \<longleftrightarrow>
     (\<forall>uid. (fmlookup (mvi_InjectedPods mvi) uid = None \<or> fmlookup (mvi_OrphanedPods mvi) uid = None) \<and>
            (fmlookup (mvi_InjectedPods mvi) uid = None \<or> fmlookup (mvi_UninjectedPods mvi) uid = None) \<and>
            (fmlookup (mvi_OrphanedPods mvi) uid = None \<or> fmlookup (mvi_UninjectedPods mvi) uid = None))"

definition injected_consistent :: "ModelValidationInfo \<Rightarrow> bool" where
  "injected_consistent mvi \<longleftrightarrow>
     (\<forall>uid p. fmlookup (mvi_InjectedPods mvi) uid = Some p \<longrightarrow>
        \<not> config_differs p (mvi_ConfigHash mvi) (mvi_AuthMethod mvi))"

definition mvi_wf :: "ModelValidationInfo \<Rightarrow> bool" where
  "mvi_wf mvi \<longleftrightarrow>
     keyed (mvi_InjectedPods mvi) \<and> keyed (mvi_UninjectedPods mvi) \<and> keyed (mvi_OrphanedPods mvi) \<and>
     disjoint_pods mvi \<and> injected_consistent mvi"

lemma mvi_wf_New [simp]: "mvi_wf (NewModelValidationInfo n h a g)"
  by (simp add: mvi_wf_def NewModelValidationInfo_def keyed_def disjoint_pods_def injected_consistent_def)

section \<open>The specification\<close>

datatype category = Injected | Uninjected | Orphaned

fun category_state :: "category \<Rightarrow> string" where
  "category_state Injected = PodStateInjected"
| "category_state Uninjected = PodStateUninjected"
| "category_state Orphaned = PodStateOrphaned"

definition mvi_abs :: "ModelValidationInfo \<Rightarrow> string \<rightharpoonup> category \<times> PodInfo" where
  "mvi_abs mvi uid =
     (case fmlookup (mvi_InjectedPods mvi) uid of
        Some p \<Rightarrow> Some (Injected, p)
      | None \<Rightarrow>
        (case fmlookup (mvi_OrphanedPods mvi) uid of
           Some p \<Rightarrow> Some (Orphaned, p)
         | None \<Rightarrow>
           (case fmlookup (mvi_UninjectedPods mvi) uid of
              Some p \<Rightarrow> Some (Uninjected, p)
            | None \<Rightarrow> None)))"

text \<open>The category a pod belongs to: by its finalizer, then by its configuration.\<close>

definition classify :: "bool \<Rightarrow> PodInfo \<Rightarrow> string \<Rightarrow> string \<Rightarrow> category" where
  "classify finalizer p configHash authMethod =
     (if \<not> finalizer then Uninjected
      else if config_differs p configHash authMethod then Orphaned else Injected)"

definition spec_add ::
  "bool \<Rightarrow> PodInfo \<Rightarrow> string \<Rightarrow> string \<Rightarrow> (string \<rightharpoonup> category \<times> PodInfo) \<Rightarrow> (string \<rightharpoonup> category \<times> PodInfo)" where
  "spec_add finalizer p h a m = m(pi_UID p \<mapsto> (classify finalizer p h a, p))"

definition spec_drift ::
  "string \<Rightarrow> string \<Rightarrow> (string \<rightharpoonup> category \<times> PodInfo) \<Rightarrow> (string \<rightharpoonup> category \<times> PodInfo)" where
  "spec_drift h a m uid =
     (case m uid of
        Some (Injected, p) \<Rightarrow> Some (if config_differs p h a then Orphaned else Injected, p)
      | x \<Rightarrow> x)"

section \<open>The operations meet the specification\<close>

lemma mvi_wf_disjoint: "mvi_wf mvi \<Longrightarrow> disjoint_pods mvi"
  by (simp add: mvi_wf_def)

lemmas mvi_wf_defs = mvi_wf_def keyed_def disjoint_pods_def injected_consistent_def

lemma getPodState_abs:
  "getPodState mvi uid = (case mvi_abs mvi uid of Some (c, _) \<Rightarrow> category_state c | None \<Rightarrow> [])"
  by (auto simp: getPodState_def mvi_abs_def split: option.splits)

lemma category_state_inject [simp]: "category_state c = category_state d \<longleftrightarrow> c = d"
  by (cases c; cases d) auto

lemma category_state_nonempty [simp]: "category_state c \<noteq> []"
  by (cases c) auto

lemma mvi_abs_New [simp]: "mvi_abs (NewModelValidationInfo n h a g) uid = None"
  by (simp add: mvi_abs_def NewModelValidationInfo_def)

lemma mvi_abs_UID: "mvi_wf mvi \<Longrightarrow> mvi_abs mvi uid = Some (c, p) \<Longrightarrow> pi_UID p = uid"
  by (auto simp: mvi_wf_defs mvi_abs_def split: option.splits)

lemma mvi_abs_Injected: "mvi_abs mvi uid = Some (Injected, p) \<longleftrightarrow> fmlookup (mvi_InjectedPods mvi) uid = Some p"
  by (auto simp: mvi_abs_def split: option.splits)

lemma mvi_abs_Orphaned:
  assumes "disjoint_pods mvi"
  shows "mvi_abs mvi uid = Some (Orphaned, p) \<longleftrightarrow> fmlookup (mvi_OrphanedPods mvi) uid = Some p"
  using assms [unfolded disjoint_pods_def, rule_format, of uid]
  by (auto simp: mvi_abs_def split: option.splits)

lemma mvi_abs_Uninjected:
  assumes "disjoint_pods mvi"
  shows "mvi_abs mvi uid = Some (Uninjected, p) \<longleftrightarrow> fmlookup (mvi_UninjectedPods mvi) uid = Some p"
  using assms [unfolded disjoint_pods_def, rule_format, of uid]
  by (auto simp: mvi_abs_def split: option.splits)

lemma RemovePod_fields [simp]:
  "mvi_Name (snd (RemovePod uid mvi)) = mvi_Name mvi"
  "mvi_ConfigHash (snd (RemovePod uid mvi)) = mvi_ConfigHash mvi"
  "mvi_AuthMethod (snd (RemovePod uid mvi)) = mvi_AuthMethod mvi"
  "mvi_ObservedGeneration (snd (RemovePod uid mvi)) = mvi_ObservedGeneration mvi"
  by (simp_all add: RemovePod_def)

lemma RemovePod_found: "fst (RemovePod uid mvi) \<longleftrightarrow> mvi_abs mvi uid \<noteq> None"
  by (auto simp: RemovePod_def mvi_abs_def split: option.splits)

lemma RemovePod_not_found: "\<not> fst (RemovePod uid mvi) \<Longrightarrow> snd (RemovePod uid mvi) = mvi"
  by (simp add: RemovePod_def split: if_splits)

lemma RemovePod_abs:
  assumes "disjoint_pods mvi"
  shows "mvi_abs (snd (RemovePod uid mvi)) = (mvi_abs mvi)(uid := None)"
proof
  fix x
  show "mvi_abs (snd (RemovePod uid mvi)) x = ((mvi_abs mvi)(uid := None)) x"
    using assms [unfolded disjoint_pods_def, rule_format, of x]
    by (auto simp: RemovePod_def mvi_abs_def split: option.splits)
qed

lemma RemovePod_lookups:
  assumes "disjoint_pods mvi"
  shows "fmlookup (mvi_InjectedPods (snd (RemovePod uid mvi))) = (fmlookup (mvi_InjectedPods mvi))(uid := None)"
    "fmlookup (mvi_OrphanedPods (snd (RemovePod uid mvi))) = (fmlookup (mvi_OrphanedPods mvi))(uid := None)"
    "fmlookup (mvi_UninjectedPods (snd (RemovePod uid mvi))) = (fmlookup (mvi_UninjectedPods mvi))(uid := None)"
  using assms [unfolded disjoint_pods_def, rule_format, of uid]
  by (auto simp: RemovePod_def fun_eq_iff)

lemma RemovePod_wf: "mvi_wf mvi \<Longrightarrow> mvi_wf (snd (RemovePod uid mvi))"
  unfolding mvi_wf_def
  by (auto simp: RemovePod_lookups keyed_def disjoint_pods_def injected_consistent_def)

text \<open>The two operations that file a pod, as one: the finalizer decides between them.\<close>

definition file_pod :: "bool \<Rightarrow> PodInfo \<Rightarrow> ModelValidationInfo \<Rightarrow> ModelValidationInfo \<times> metric_call list" where
  "file_pod finalizer p mvi = (if finalizer then AddInjectedPod p mvi else AddUninjectedPod p mvi)"

lemmas file_pod_defs = file_pod_def AddInjectedPod_def AddUninjectedPod_def movePodToState_def Let_def

lemma file_pod_fields [simp]:
  "mvi_Name (fst (file_pod f p mvi)) = mvi_Name mvi"
  "mvi_ConfigHash (fst (file_pod f p mvi)) = mvi_ConfigHash mvi"
  "mvi_AuthMethod (fst (file_pod f p mvi)) = mvi_AuthMethod mvi"
  "mvi_ObservedGeneration (fst (file_pod f p mvi)) = mvi_ObservedGeneration mvi"
  by (simp_all add: file_pod_defs)

lemma file_pod_abs:
  assumes "disjoint_pods mvi"
  shows "mvi_abs (fst (file_pod f p mvi)) =
           spec_add f p (mvi_ConfigHash mvi) (mvi_AuthMethod mvi) (mvi_abs mvi)"
proof
  fix x
  show "mvi_abs (fst (file_pod f p mvi)) x =
      spec_add f p (mvi_ConfigHash mvi) (mvi_AuthMethod mvi) (mvi_abs mvi) x"
    using assms [unfolded disjoint_pods_def, rule_format, of x]
    by (auto simp: file_pod_defs mvi_abs_def spec_add_def classify_def RemovePod_lookups [OF assms]
        split: option.splits)
qed

lemma file_pod_wf: "mvi_wf mvi \<Longrightarrow> mvi_wf (fst (file_pod f p mvi))"
  unfolding mvi_wf_def
  by (auto simp: file_pod_defs RemovePod_lookups keyed_def disjoint_pods_def injected_consistent_def)

lemma file_pod_metrics:
  "snd (file_pod f p mvi) =
     (case mvi_abs mvi (pi_UID p) of
        Some (c, _) \<Rightarrow>
          (if c = classify f p (mvi_ConfigHash mvi) (mvi_AuthMethod mvi) then []
           else RecordPodStateTransition (pi_Namespace p) (mvi_Name mvi) (category_state c)
                  (category_state (classify f p (mvi_ConfigHash mvi) (mvi_AuthMethod mvi))))
      | None \<Rightarrow> [])"
  by (auto simp: file_pod_defs getPodState_abs classify_def split: option.splits;
      case_tac a; auto)

section \<open>Configuration updates\<close>

lemma orphan_fold_fields [simp]:
  "mvi_Name (fold orphan_pod ps mvi) = mvi_Name mvi"
  "mvi_ConfigHash (fold orphan_pod ps mvi) = mvi_ConfigHash mvi"
  "mvi_AuthMethod (fold orphan_pod ps mvi) = mvi_AuthMethod mvi"
  "mvi_ObservedGeneration (fold orphan_pod ps mvi) = mvi_ObservedGeneration mvi"
  "mvi_UninjectedPods (fold orphan_pod ps mvi) = mvi_UninjectedPods mvi"
  by (induction ps arbitrary: mvi) (auto simp: orphan_pod_def)

lemma orphan_fold_injected:
  "fmlookup (mvi_InjectedPods (fold orphan_pod ps mvi)) uid =
     (if uid \<in> pi_UID ` set ps then None else fmlookup (mvi_InjectedPods mvi) uid)"
  by (induction ps arbitrary: mvi) (auto simp: orphan_pod_def)

lemma orphan_fold_orphaned:
  "fmlookup (mvi_OrphanedPods (fold orphan_pod ps mvi)) =
     fmlookup (mvi_OrphanedPods mvi) ++ map_of (map (\<lambda>p. (pi_UID p, p)) (rev ps))"
proof (induction ps arbitrary: mvi)
  case Nil
  then show ?case by simp
next
  case (Cons p ps)
  have step: "fmlookup (mvi_OrphanedPods (orphan_pod p mvi)) =
      (fmlookup (mvi_OrphanedPods mvi))(pi_UID p \<mapsto> p)"
    by (simp add: orphan_pod_def fun_eq_iff)
  show ?case
    unfolding fold_simps Cons.IH step
    by (rule ext) (simp add: map_add_def split: option.splits)
qed

lemma map_of_range_values:
  assumes "keyed m" and ord: "range_order ord"
  shows "map_of (map (\<lambda>p. (pi_UID p, p)) (rev (filter P (range_values ord m)))) uid =
    (case fmlookup m uid of Some p \<Rightarrow> if P p then Some p else None | None \<Rightarrow> None)" (is "?l = ?r")
proof -
  have in_m: "fmlookup m (pi_UID x) = Some x" if "x \<in> set (range_values ord m)" for x
    using that assms by (auto simp: set_range_values fmran'_def keyed_def)
  have sound: "fmlookup m uid = Some x \<and> P x" if "?l = Some x" for x
    using map_of_SomeD [OF that] in_m by auto
  have complete: "?l \<noteq> None" if "fmlookup m uid = Some p" "P p" for p
  proof -
    have "p \<in> set (range_values ord m)"
      using that(1) by (auto simp: set_range_values [OF ord] fmran'_def)
    moreover have "pi_UID p = uid" using that(1) assms(1) by (simp add: keyed_def)
    ultimately have "uid \<in> fst ` set (map (\<lambda>p. (pi_UID p, p)) (rev (filter P (range_values ord m))))"
      using that(2) by force
    then show ?thesis by (simp only: map_of_eq_None_iff) simp
  qed
  show ?thesis
    using sound complete by (cases ?l) (force split: option.splits)+
qed

lemma drifted_UIDs:
  assumes "keyed m" "range_order ord"
  shows "pi_UID ` set (filter P (range_values ord m)) = {uid. \<exists>p. fmlookup m uid = Some p \<and> P p}"
  using assms by (force simp: set_range_values fmran'_def keyed_def)

lemma UpdateConfig_fields [simp]:
  "mvi_Name (snd (UpdateConfig ord h a g mvi)) = mvi_Name mvi"
  "mvi_ConfigHash (snd (UpdateConfig ord h a g mvi)) = h"
  "mvi_AuthMethod (snd (UpdateConfig ord h a g mvi)) = a"
  "mvi_ObservedGeneration (snd (UpdateConfig ord h a g mvi)) = g"
  by (auto simp: UpdateConfig_def Let_def)

lemma UpdateConfig_lookups:
  assumes wf: "mvi_wf mvi" and ord: "range_order ord"
  shows "fmlookup (mvi_InjectedPods (snd (UpdateConfig ord h a g mvi))) uid =
      (case fmlookup (mvi_InjectedPods mvi) uid of
         Some p \<Rightarrow> if config_differs p h a then None else Some p | None \<Rightarrow> None)" (is ?inj)
    and "fmlookup (mvi_OrphanedPods (snd (UpdateConfig ord h a g mvi))) uid =
      (case fmlookup (mvi_InjectedPods mvi) uid of
         Some p \<Rightarrow> if config_differs p h a then Some p else fmlookup (mvi_OrphanedPods mvi) uid
       | None \<Rightarrow> fmlookup (mvi_OrphanedPods mvi) uid)" (is ?orph)
    and "mvi_UninjectedPods (snd (UpdateConfig ord h a g mvi)) = mvi_UninjectedPods mvi" (is ?uninj)
proof -
  have k: "keyed (mvi_InjectedPods mvi)" and c: "injected_consistent mvi"
    using wf by (auto simp: mvi_wf_def)
  define ps where "ps = filter (\<lambda>p. config_differs p h a) (range_values ord (mvi_InjectedPods mvi))"
  have upd: "snd (UpdateConfig ord h a g mvi) =
      (if mvi_ConfigHash mvi = h \<and> mvi_AuthMethod mvi = a then mvi\<lparr>mvi_ObservedGeneration := g\<rparr>
       else fold orphan_pod ps (mvi\<lparr>mvi_ConfigHash := h, mvi_AuthMethod := a, mvi_ObservedGeneration := g\<rparr>))"
    by (simp add: UpdateConfig_def ps_def Let_def)
  have uids: "pi_UID ` set ps = {uid. \<exists>p. fmlookup (mvi_InjectedPods mvi) uid = Some p \<and> config_differs p h a}"
    unfolding ps_def by (rule drifted_UIDs [OF k ord])
  have look: "map_of (map (\<lambda>p. (pi_UID p, p)) (rev ps)) uid =
      (case fmlookup (mvi_InjectedPods mvi) uid of
         Some p \<Rightarrow> if config_differs p h a then Some p else None | None \<Rightarrow> None)"
    unfolding ps_def by (rule map_of_range_values [OF k ord])
  show ?inj
    using c by (auto simp: upd orphan_fold_injected uids injected_consistent_def split: option.splits)
  show ?orph
    using c by (auto simp: upd orphan_fold_orphaned map_add_def look injected_consistent_def
        simp del: map_map rev_map split: option.splits)
  show ?uninj
    by (simp add: UpdateConfig_def Let_def)
qed

lemma UpdateConfig_abs:
  assumes "mvi_wf mvi" and "range_order ord"
  shows "mvi_abs (snd (UpdateConfig ord h a g mvi)) = spec_drift h a (mvi_abs mvi)"
proof
  fix x
  show "mvi_abs (snd (UpdateConfig ord h a g mvi)) x = spec_drift h a (mvi_abs mvi) x"
    by (auto simp: mvi_abs_def spec_drift_def UpdateConfig_lookups [OF assms] split: option.splits)
qed

lemma UpdateConfig_wf:
  assumes "mvi_wf mvi" and "range_order ord"
  shows "mvi_wf (snd (UpdateConfig ord h a g mvi))"
proof -
  let ?m = "snd (UpdateConfig ord h a g mvi)"
  note look = UpdateConfig_lookups [OF assms]
  have k: "keyed (mvi_InjectedPods mvi)" "keyed (mvi_OrphanedPods mvi)" "keyed (mvi_UninjectedPods mvi)"
    and d: "disjoint_pods mvi" using assms(1) by (auto simp: mvi_wf_def)
  have "keyed (mvi_InjectedPods ?m)" "keyed (mvi_OrphanedPods ?m)" "keyed (mvi_UninjectedPods ?m)"
    using k by (auto simp: keyed_def look split: option.splits if_splits)
  moreover have "disjoint_pods ?m"
    unfolding disjoint_pods_def
  proof
    fix uid
    show "(fmlookup (mvi_InjectedPods ?m) uid = None \<or> fmlookup (mvi_OrphanedPods ?m) uid = None) \<and>
      (fmlookup (mvi_InjectedPods ?m) uid = None \<or> fmlookup (mvi_UninjectedPods ?m) uid = None) \<and>
      (fmlookup (mvi_OrphanedPods ?m) uid = None \<or> fmlookup (mvi_UninjectedPods ?m) uid = None)"
      using d [unfolded disjoint_pods_def, rule_format, of uid]
      by (auto simp: look split: option.splits)
  qed
  moreover have "injected_consistent ?m"
    by (auto simp: injected_consistent_def look split: option.splits if_splits)
  ultimately show ?thesis by (simp add: mvi_wf_def)
qed

lemma drifted_count:
  assumes "range_order ord" "mvi_ConfigHash mvi \<noteq> h \<or> mvi_AuthMethod mvi \<noteq> a" "keyed (mvi_InjectedPods mvi)"
  shows "length (fst (UpdateConfig ord h a g mvi)) =
    card {uid. \<exists>p. fmlookup (mvi_InjectedPods mvi) uid = Some p \<and> config_differs p h a}"
proof -
  let ?ks = "ord (fmdom (mvi_InjectedPods mvi))"
  let ?get = "\<lambda>k. the (fmlookup (mvi_InjectedPods mvi) k)"
  have "length (fst (UpdateConfig ord h a g mvi)) =
      length (filter (\<lambda>k. config_differs (?get k) h a) ?ks)"
    using assms(2) by (auto simp: UpdateConfig_def range_values_def filter_map comp_def Let_def)
  also have "\<dots> = card (set (filter (\<lambda>k. config_differs (?get k) h a) ?ks))"
    using assms(1) by (intro distinct_card [symmetric]) (simp add: range_orderD)
  also have "set (filter (\<lambda>k. config_differs (?get k) h a) ?ks) =
      {uid. \<exists>p. fmlookup (mvi_InjectedPods mvi) uid = Some p \<and> config_differs p h a}"
    using assms(1) by (auto simp: range_orderD fmlookup_dom_iff)
  finally show ?thesis .
qed

lemma set_GetAllPods:
  assumes "disjoint_pods mvi" "range_order ord"
  shows "set (GetAllPods ord mvi) = {p. \<exists>uid c. mvi_abs mvi uid = Some (c, p)}"
proof -
  have "(\<exists>uid c. mvi_abs mvi uid = Some (c, p)) \<longleftrightarrow>
      (\<exists>uid. fmlookup (mvi_InjectedPods mvi) uid = Some p \<or>
        fmlookup (mvi_UninjectedPods mvi) uid = Some p \<or> fmlookup (mvi_OrphanedPods mvi) uid = Some p)" for p
    by (metis (full_types) category.exhaust mvi_abs_Injected mvi_abs_Orphaned [OF assms(1)]
        mvi_abs_Uninjected [OF assms(1)])
  then show ?thesis
    by (auto simp: GetAllPods_def set_range_values [OF assms(2)] fmran'_def)
qed

end
