(* ===== verification/Pod_Mapping.thy ===== *)
theory Pod_Mapping
  imports Prelude
begin

text \<open>
  \<open>internal/tracker/pod_mapping.go\<close>: the two maps between pod names and UIDs.  Each method is
  a function on the record of the two maps.  The interface the status tracker relies on is the
  locale \<open>pod_registry\<close>, interpreted here on \<open>PodMapping\<close>.
\<close>

record PodMapping =
  nameToUID :: "(NamespacedName, string) fmap"
  uidToName :: "(string, NamespacedName) fmap"

definition NewPodMapping :: PodMapping where
  "NewPodMapping = \<lparr>nameToUID = fmempty, uidToName = fmempty\<rparr>"

definition removePod :: "NamespacedName \<Rightarrow> string \<Rightarrow> PodMapping \<Rightarrow> PodMapping" where
  "removePod name uid pm =
     pm\<lparr>nameToUID := fmdrop name (nameToUID pm), uidToName := fmdrop uid (uidToName pm)\<rparr>"

definition AddPod :: "NamespacedName \<Rightarrow> string \<Rightarrow> PodMapping \<Rightarrow> PodMapping" where
  "AddPod name uid pm =
     (let pm = removePod name uid pm
      in pm\<lparr>nameToUID := fmupd name uid (nameToUID pm),
            uidToName := fmupd uid name (uidToName pm)\<rparr>)"

definition GetUIDByName :: "NamespacedName \<Rightarrow> PodMapping \<Rightarrow> string option" where
  "GetUIDByName name pm = fmlookup (nameToUID pm) name"

definition GetNameByUID :: "string \<Rightarrow> PodMapping \<Rightarrow> NamespacedName option" where
  "GetNameByUID uid pm = fmlookup (uidToName pm) uid"

fun RemovePodsByName :: "NamespacedName list \<Rightarrow> PodMapping \<Rightarrow> PodMapping" where
  "RemovePodsByName [] pm = pm"
| "RemovePodsByName (name # names) pm =
     RemovePodsByName names
       (case fmlookup (nameToUID pm) name of Some uid \<Rightarrow> removePod name uid pm | None \<Rightarrow> pm)"

definition RemovePodByUID :: "string \<Rightarrow> PodMapping \<Rightarrow> bool \<times> PodMapping" where
  "RemovePodByUID uid pm =
     (case fmlookup (uidToName pm) uid of
        Some name \<Rightarrow> (True, removePod name uid pm)
      | None \<Rightarrow> (False, pm))"

definition GetAllPodNames ::
  "(NamespacedName fset \<Rightarrow> NamespacedName list) \<Rightarrow> PodMapping \<Rightarrow> NamespacedName list" where
  "GetAllPodNames ord pm = ord (fmdom (nameToUID pm))"

definition ClearPods :: "PodMapping \<Rightarrow> PodMapping" where
  "ClearPods pm = pm\<lparr>nameToUID := fmempty, uidToName := fmempty\<rparr>"

section \<open>The name map\<close>

lemma GetUIDByName_New [simp]: "GetUIDByName name NewPodMapping = None"
  by (simp add: GetUIDByName_def NewPodMapping_def)

lemma GetUIDByName_AddPod [simp]:
  "GetUIDByName name' (AddPod name uid pm) =
     (if name' = name then Some uid else GetUIDByName name' pm)"
  by (simp add: GetUIDByName_def AddPod_def removePod_def)

lemma GetUIDByName_removePod [simp]:
  "GetUIDByName name' (removePod name uid pm) = (if name' = name then None else GetUIDByName name' pm)"
  by (simp add: GetUIDByName_def removePod_def)

lemma GetUIDByName_RemovePodsByName [simp]:
  "GetUIDByName name (RemovePodsByName names pm) =
     (if name \<in> set names then None else GetUIDByName name pm)"
  by (induction names arbitrary: pm) (auto simp: GetUIDByName_def removePod_def split: option.splits)

text \<open>What the tracker relies on.\<close>

locale pod_registry =
  fixes new :: 'r
    and add :: "NamespacedName \<Rightarrow> string \<Rightarrow> 'r \<Rightarrow> 'r"
    and lookup :: "NamespacedName \<Rightarrow> 'r \<Rightarrow> string option"
    and remove :: "NamespacedName list \<Rightarrow> 'r \<Rightarrow> 'r"
  assumes lookup_new: "lookup n new = None"
    and lookup_add: "lookup n' (add n u r) = (if n' = n then Some u else lookup n' r)"
    and lookup_remove: "lookup n (remove ns r) = (if n \<in> set ns then None else lookup n r)"
begin

lemma lookup_add_remove: "lookup n' (remove [n] (add n u r)) = (if n' = n then None else lookup n' r)"
  by (simp add: lookup_add lookup_remove)

lemma lookup_adds:
  "lookup n (fold (\<lambda>(n, u). add n u) xs new) = map_of (rev xs) n"
  by (induction xs rule: rev_induct) (auto simp: lookup_new lookup_add)

end

interpretation pm: pod_registry NewPodMapping AddPod GetUIDByName RemovePodsByName
  by unfold_locales auto

section \<open>Agreement of the two maps\<close>

text \<open>
  \<open>pm_sound\<close>: the UID a name maps to is mapped back to the name, so no UID is reached from
  two names.  The converse, \<open>pm_complete\<close>, would make the two maps inverse to each other.
\<close>

definition pm_sound :: "PodMapping \<Rightarrow> bool" where
  "pm_sound pm \<longleftrightarrow>
     (\<forall>name uid. fmlookup (nameToUID pm) name = Some uid \<longrightarrow> fmlookup (uidToName pm) uid = Some name)"

definition pm_complete :: "PodMapping \<Rightarrow> bool" where
  "pm_complete pm \<longleftrightarrow>
     (\<forall>name uid. fmlookup (uidToName pm) uid = Some name \<longrightarrow> fmlookup (nameToUID pm) name = Some uid)"

lemma pm_sound_New [simp]: "pm_sound NewPodMapping"
  by (simp add: pm_sound_def NewPodMapping_def)

lemma pm_sound_removePod:
  assumes "pm_sound pm" and "fmlookup (nameToUID pm) name = Some uid"
  shows "pm_sound (removePod name uid pm)"
  using assms unfolding pm_sound_def removePod_def
  by (auto split: if_splits) (metis option.inject)

lemma pm_sound_RemovePodsByName: "pm_sound pm \<Longrightarrow> pm_sound (RemovePodsByName names pm)"
  by (induction names arbitrary: pm) (auto intro: pm_sound_removePod split: option.splits)

lemma pm_sound_RemovePodByUID: "pm_sound pm \<Longrightarrow> pm_sound (snd (RemovePodByUID uid pm))"
  by (auto simp: pm_sound_def removePod_def RemovePodByUID_def split: option.splits if_splits)

lemma pm_sound_AddPod:
  assumes "pm_sound pm" and "GetNameByUID uid pm \<in> {None, Some name}"
  shows "pm_sound (AddPod name uid pm)"
  using assms by (auto simp: pm_sound_def AddPod_def removePod_def GetNameByUID_def split: if_splits)

end
