(* ===== verification/Status_Tracker.thy ===== *)
theory Status_Tracker
  imports MV_Info Pod_Mapping K8s_Objects
begin

text \<open>
  \<open>internal/tracker/status_tracker.go\<close>: the state under the tracker's mutex and its
  operations.  A method takes the state at the moment it holds the lock and returns the new
  state with its effects in order: metric calls, calls on the debounced queue, and the start of
  the goroutine that seeds existing pods.  Every method takes the lock once, so an interleaving
  of methods is a sequence of operations (\<open>tracker_op\<close>, \<open>exec_op\<close>, \<open>exec_ops\<close>); what a
  call on the API client returned is an argument, since it was obtained outside the lock.
\<close>

section \<open>State and effects\<close>

record StatusTrackerImpl =
  modelValidations :: "(NamespacedName, ModelValidationInfo) fmap"
  mvNamespaces :: "(string, int) fmap"
  podMapping :: PodMapping

datatype effect =
    Record metric_call
  | QueueAdd NamespacedName
  | QueueRetry NamespacedName
  | QueueForget NamespacedName
  | QueueDone NamespacedName
  | SpawnSeed NamespacedName

abbreviation recorded :: "metric_call list \<Rightarrow> effect list" where
  "recorded cs \<equiv> map Record cs"

definition NewStatusTracker :: StatusTrackerImpl where
  "NewStatusTracker = \<lparr>modelValidations = fmempty, mvNamespaces = fmempty, podMapping = NewPodMapping\<rparr>"

text \<open>Reading a missing key of \<open>mvNamespaces\<close> yields zero.\<close>

definition ns_count :: "StatusTrackerImpl \<Rightarrow> string \<Rightarrow> int" where
  "ns_count st ns = (case fmlookup (mvNamespaces st) ns of Some n \<Rightarrow> n | None \<Rightarrow> 0)"

section \<open>ModelValidations\<close>

definition AddModelValidation ::
  "(string fset \<Rightarrow> string list) \<Rightarrow> ModelValidation \<Rightarrow> StatusTrackerImpl \<Rightarrow>
   StatusTrackerImpl \<times> effect list" where
  "AddModelValidation ord mv st =
     (let mvKey = nn (om_Namespace (mv_Meta mv)) (om_Name (mv_Meta mv));
          ns = nn_Namespace mvKey
      in case fmlookup (modelValidations st) mvKey of
        None \<Rightarrow>
          (let mvInfo = NewModelValidationInfo (om_Name (mv_Meta mv)) (GetConfigHash mv)
                          (GetAuthMethod mv) (om_Generation (mv_Meta mv));
               st' = st\<lparr>modelValidations := fmupd mvKey mvInfo (modelValidations st),
                        mvNamespaces := fmupd ns (ns_count st ns + 1) (mvNamespaces st)\<rparr>
           in (st', recorded (RecordModelValidationCR ns (ns_count st' ns)) @
                    [SpawnSeed mvKey, QueueAdd mvKey]))
      | Some mvi \<Rightarrow>
          if om_Generation (mv_Meta mv) \<noteq> mvi_ObservedGeneration mvi
          then (let (driftedPods, mvi') = UpdateConfig ord (GetConfigHash mv) (GetAuthMethod mv)
                                            (om_Generation (mv_Meta mv)) mvi
                in (st\<lparr>modelValidations := fmupd mvKey mvi' (modelValidations st)\<rparr>,
                    (if length driftedPods > 0
                     then recorded (RecordMultiplePodStateTransitions ns (nn_Name mvKey)
                            PodStateInjected PodStateOrphaned (int (length driftedPods)))
                     else []) @ [QueueAdd mvKey]))
          else (st, [QueueAdd mvKey]))"

definition collectPodsForCleanup :: "PodInfo list \<Rightarrow> NamespacedName list \<Rightarrow> NamespacedName list" where
  "collectPodsForCleanup allPods result = result @ map (\<lambda>p. nn (pi_Namespace p) (pi_Name p)) allPods"

definition RemoveModelValidation ::
  "(string fset \<Rightarrow> string list) \<Rightarrow> NamespacedName \<Rightarrow> StatusTrackerImpl \<Rightarrow>
   StatusTrackerImpl \<times> effect list" where
  "RemoveModelValidation ord mvKey st =
     (case fmlookup (modelValidations st) mvKey of
        None \<Rightarrow> (st, [])
      | Some mvInfo \<Rightarrow>
          (let ns = nn_Namespace mvKey;
               n = ns_count st ns - 1;
               (counts, gaugeCall) =
                 (if n \<le> 0 then (fmdrop ns (mvNamespaces st), RecordModelValidationCR ns 0)
                  else (fmupd ns n (mvNamespaces st), RecordModelValidationCR ns n));
               podsToCleanup = collectPodsForCleanup (GetAllPods ord mvInfo) []
           in (st\<lparr>modelValidations := fmdrop mvKey (modelValidations st),
                  mvNamespaces := counts,
                  podMapping := RemovePodsByName podsToCleanup (podMapping st)\<rparr>,
               recorded (gaugeCall @
                 RecordPodCount ns (nn_Name mvKey) PodStateInjected 0 @
                 RecordPodCount ns (nn_Name mvKey) PodStateUninjected 0 @
                 RecordPodCount ns (nn_Name mvKey) PodStateOrphaned 0))))"

definition IsModelValidationTracked :: "NamespacedName \<Rightarrow> StatusTrackerImpl \<Rightarrow> bool" where
  "IsModelValidationTracked mvKey st \<longleftrightarrow> fmlookup (modelValidations st) mvKey \<noteq> None"

definition GetObservedGeneration :: "NamespacedName \<Rightarrow> StatusTrackerImpl \<Rightarrow> int \<times> bool" where
  "GetObservedGeneration mvKey st =
     (case fmlookup (modelValidations st) mvKey of
        Some mvInfo \<Rightarrow> (mvi_ObservedGeneration mvInfo, True)
      | None \<Rightarrow> (0, False))"

section \<open>Pods\<close>

definition pod_info :: "Pod \<Rightarrow> PodInfo" where
  "pod_info pod =
     \<lparr>pi_Name = pod_Name pod, pi_Namespace = pod_Namespace pod, pi_UID = pod_UID pod,
      pi_Timestamp = om_CreationTimestamp (pod_Meta pod),
      pi_ConfigHash = map_get (pod_Annotations pod) ConfigHashAnnotationKey,
      pi_AuthMethod = map_get (pod_Annotations pod) AuthMethodAnnotationKey\<rparr>"

definition processPodEventCommon ::
  "finalizer_lib \<Rightarrow> Pod \<Rightarrow> NamespacedName \<Rightarrow> ModelValidationInfo \<Rightarrow> StatusTrackerImpl \<Rightarrow>
   StatusTrackerImpl \<times> effect list" where
  "processPodEventCommon F pod mvKey mvInfo st =
     (let hasOurFinalizer = ContainsFinalizer F (pod_Finalizers pod) ModelValidationFinalizer;
          podInfo = pod_info pod;
          podNamespacedName = nn (pod_Namespace pod) (pod_Name pod);
          (mvInfo', calls) =
            (if hasOurFinalizer then AddInjectedPod podInfo mvInfo else AddUninjectedPod podInfo mvInfo)
      in (st\<lparr>podMapping := AddPod podNamespacedName (pod_UID pod) (podMapping st),
             modelValidations := fmupd mvKey mvInfo' (modelValidations st)\<rparr>,
          recorded calls @ [QueueAdd mvKey]))"

text \<open>The label of a pod that names its ModelValidation, when it is present and not empty.\<close>

definition validation_label :: "Pod \<Rightarrow> string option" where
  "validation_label pod =
     (case fmlookup (pod_Labels pod) ModelValidationLabel of
        Some name \<Rightarrow> if name = [] then None else Some name
      | None \<Rightarrow> None)"

definition processSeedPodEvent ::
  "finalizer_lib \<Rightarrow> Pod \<Rightarrow> NamespacedName \<Rightarrow> StatusTrackerImpl \<Rightarrow>
   go_error \<times> StatusTrackerImpl \<times> effect list" where
  "processSeedPodEvent F pod mvKey st =
     (case validation_label pod of
        None \<Rightarrow> (None, st, [])
      | Some _ \<Rightarrow>
          (case fmlookup (modelValidations st) mvKey of
             Some mvInfo \<Rightarrow> (None, processPodEventCommon F pod mvKey mvInfo st)
           | None \<Rightarrow> (None, st, [])))"

definition ProcessPodEvent ::
  "finalizer_lib \<Rightarrow> Pod option \<Rightarrow> StatusTrackerImpl \<Rightarrow> go_error \<times> StatusTrackerImpl \<times> effect list" where
  "ProcessPodEvent F podp st =
     (case podp of
        None \<Rightarrow> (Some ''pod cannot be nil'', st, [])
      | Some pod \<Rightarrow>
          (case validation_label pod of
             None \<Rightarrow> (None, st, [])
           | Some modelValidationName \<Rightarrow>
               (let mvKey = nn (pod_Namespace pod) modelValidationName
                in case fmlookup (modelValidations st) mvKey of
                     Some mvInfo \<Rightarrow> (None, processPodEventCommon F pod mvKey mvInfo st)
                   | None \<Rightarrow> (None, st, []))))"

text \<open>
  Seeding: the loop over the listed pods, run without interleaving.  \<open>SeedPod\<close> below is one
  iteration, for runs in which other methods come in between.
\<close>

fun processSeedPods_loop ::
  "finalizer_lib \<Rightarrow> Pod list \<Rightarrow> NamespacedName \<Rightarrow> StatusTrackerImpl \<Rightarrow>
   nat \<times> StatusTrackerImpl \<times> effect list" where
  "processSeedPods_loop F [] mvKey st = (0, st, [])"
| "processSeedPods_loop F (pod # pods) mvKey st =
     (let (err, st1, effs1) = processSeedPodEvent F pod mvKey st;
          (errors, st2, effs2) = processSeedPods_loop F pods mvKey st1
      in ((if err = None then errors else Suc errors), st2, effs1 @ effs2))"

definition processSeedPods ::
  "finalizer_lib \<Rightarrow> Pod list \<Rightarrow> NamespacedName \<Rightarrow> StatusTrackerImpl \<Rightarrow>
   go_error \<times> StatusTrackerImpl \<times> effect list" where
  "processSeedPods F pods mvKey st =
     (let (errors, st', effs) = processSeedPods_loop F pods mvKey st
      in (if errors > 0 then Some ''failed to process pods'' else None, st', effs))"

definition seedExistingPods ::
  "finalizer_lib \<Rightarrow> Pod list client_result \<Rightarrow> NamespacedName \<Rightarrow> StatusTrackerImpl \<Rightarrow>
   client_error option \<times> StatusTrackerImpl \<times> effect list" where
  "seedExistingPods F listed mvKey st =
     (case listed of
        Inl err \<Rightarrow> (Some err, st, [])
      | Inr pods \<Rightarrow> (let (_, st', effs) = processSeedPods F pods mvKey st in (None, st', effs)))"

text \<open>
  The loop of \<open>removePodFromTrackingMapsUnsafe\<close> visits each ModelValidation once and
  independently, so its order does not matter.
\<close>

definition removePodFromTrackingMapsUnsafe ::
  "string \<Rightarrow> StatusTrackerImpl \<Rightarrow> NamespacedName fset \<times> StatusTrackerImpl" where
  "removePodFromTrackingMapsUnsafe podUID st =
     (fmdom (fmfilter (\<lambda>k. case fmlookup (modelValidations st) k of
                             Some mvInfo \<Rightarrow> fst (RemovePod podUID mvInfo) | None \<Rightarrow> False)
              (modelValidations st)),
      st\<lparr>modelValidations := fmmap (\<lambda>mvInfo. snd (RemovePod podUID mvInfo)) (modelValidations st)\<rparr>)"

definition RemovePodEvent ::
  "(NamespacedName fset \<Rightarrow> NamespacedName list) \<Rightarrow> string \<Rightarrow> StatusTrackerImpl \<Rightarrow>
   go_error \<times> StatusTrackerImpl \<times> effect list" where
  "RemovePodEvent nord podUID st =
     (let (updatedMVs, st') = removePodFromTrackingMapsUnsafe podUID st
      in (None, st', map QueueAdd (nord updatedMVs)))"

definition RemovePodByName ::
  "(NamespacedName fset \<Rightarrow> NamespacedName list) \<Rightarrow> NamespacedName \<Rightarrow> StatusTrackerImpl \<Rightarrow>
   go_error \<times> StatusTrackerImpl \<times> effect list" where
  "RemovePodByName nord podName st =
     (case GetUIDByName podName (podMapping st) of
        None \<Rightarrow> (None, st, [])
      | Some podUID \<Rightarrow>
          (let (updatedMVs, st') = removePodFromTrackingMapsUnsafe podUID st;
               st'' = st'\<lparr>podMapping := RemovePodsByName [podName] (podMapping st')\<rparr>
           in (None, st'', map QueueAdd (nord updatedMVs))))"

section \<open>Status updates\<close>

definition collectPodTrackingInfo ::
  "(string fset \<Rightarrow> string list) \<Rightarrow> pods \<Rightarrow> PodTrackingInfo list \<Rightarrow> PodTrackingInfo list" where
  "collectPodTrackingInfo ord pods result =
     result @ map (\<lambda>p. \<lparr>pti_Name = pi_Name p, pti_UID = pi_UID p, pti_InjectedAt = pi_Timestamp p\<rparr>)
                (range_values ord pods)"

definition name_less :: "PodTrackingInfo \<Rightarrow> PodTrackingInfo \<Rightarrow> bool" where
  "name_less x y \<longleftrightarrow> pti_Name x < pti_Name y"

definition tracked_list :: "(string fset \<Rightarrow> string list) \<Rightarrow> pods \<Rightarrow> PodTrackingInfo list" where
  "tracked_list ord pods = sort_slice name_less (collectPodTrackingInfo ord pods [])"

definition comparePodSlices :: "PodTrackingInfo list \<Rightarrow> PodTrackingInfo list \<Rightarrow> bool" where
  "comparePodSlices a b \<longleftrightarrow>
     list_all2 (\<lambda>x y. pti_Name x = pti_Name y \<and> pti_UID x = pti_UID y) a b"

definition statusEqual :: "ModelValidationStatus \<Rightarrow> ModelValidationStatus \<Rightarrow> bool" where
  "statusEqual a b \<longleftrightarrow>
     (if st_InjectedPodCount a \<noteq> st_InjectedPodCount b \<or>
         st_UninjectedPodCount a \<noteq> st_UninjectedPodCount b \<or>
         st_OrphanedPodCount a \<noteq> st_OrphanedPodCount b \<or>
         st_AuthMethod a \<noteq> st_AuthMethod b
      then False
      else comparePodSlices (st_InjectedPods a) (st_InjectedPods b) \<and>
           comparePodSlices (st_UninjectedPods a) (st_UninjectedPods b) \<and>
           comparePodSlices (st_OrphanedPods a) (st_OrphanedPods b))"

definition recordStatusUpdateResult :: "NamespacedName \<Rightarrow> string \<Rightarrow> int \<Rightarrow> effect list" where
  "recordStatusUpdateResult k result d =
     recorded (RecordStatusUpdate (nn_Namespace k) (nn_Name k) result @
               RecordStatusUpdateDuration (nn_Namespace k) (nn_Name k) result d)"

definition recordPodCounts :: "NamespacedName \<Rightarrow> nat \<Rightarrow> nat \<Rightarrow> nat \<Rightarrow> effect list" where
  "recordPodCounts k injected uninjected orphaned =
     recorded (RecordPodCount (nn_Namespace k) (nn_Name k) PodStateInjected (int injected) @
               RecordPodCount (nn_Namespace k) (nn_Name k) PodStateUninjected (int uninjected) @
               RecordPodCount (nn_Namespace k) (nn_Name k) PodStateOrphaned (int orphaned))"

datatype update_error =
    GetFailed client_error
  | ConfigurationDrift string string string string
  | UpdateFailed client_error

record update_env =
  ue_range :: "string fset \<Rightarrow> string list"
  ue_now :: timestamp
  ue_elapsed :: int
  ue_update :: "ModelValidation \<Rightarrow> client_error option"

definition new_status ::
  "update_env \<Rightarrow> ModelValidation \<Rightarrow> ModelValidationInfo \<Rightarrow> ModelValidationStatus" where
  "new_status E mv mvInfo =
     (let trackedPods = tracked_list (ue_range E) (mvi_InjectedPods mvInfo);
          uninjectedPods = tracked_list (ue_range E) (mvi_UninjectedPods mvInfo);
          orphanedPods = tracked_list (ue_range E) (mvi_OrphanedPods mvInfo)
      in \<lparr>st_Conditions = st_Conditions (mv_Status mv),
          st_InjectedPodCount = word_of_nat (length trackedPods),
          st_UninjectedPodCount = word_of_nat (length uninjectedPods),
          st_OrphanedPodCount = word_of_nat (length orphanedPods),
          st_AuthMethod = mvi_AuthMethod mvInfo,
          st_InjectedPods = trackedPods,
          st_UninjectedPods = uninjectedPods,
          st_OrphanedPods = orphanedPods,
          st_LastUpdated = ue_now E\<rparr>)"

text \<open>
  The result: the error, the object sent to the API server (if any), the new state and the
  effects.  \<open>got\<close> is what \<open>client.Get\<close> returned.
\<close>

definition doUpdateStatus ::
  "update_env \<Rightarrow> NamespacedName \<Rightarrow> ModelValidation client_result \<Rightarrow> StatusTrackerImpl \<Rightarrow>
   update_error option \<times> ModelValidation option \<times> StatusTrackerImpl \<times> effect list" where
  "doUpdateStatus E mvKey got st =
     (let failure = recordStatusUpdateResult mvKey StatusUpdateFailure (ue_elapsed E);
          success = recordStatusUpdateResult mvKey StatusUpdateSuccess (ue_elapsed E)
      in case got of
        Inl NotFound \<Rightarrow>
          (None, None, st\<lparr>modelValidations := fmdrop mvKey (modelValidations st)\<rparr>, failure)
      | Inl err \<Rightarrow> (Some (GetFailed err), None, st, failure)
      | Inr mv \<Rightarrow>
          (case fmlookup (modelValidations st) mvKey of
             None \<Rightarrow> (None, None, st, [])
           | Some mvInfo \<Rightarrow>
               (let trackedConfigHash = mvi_ConfigHash mvInfo;
                    trackedAuthMethod = mvi_AuthMethod mvInfo;
                    currentConfigHash = GetConfigHash mv;
                    currentAuthMethod = GetAuthMethod mv
                in if trackedConfigHash \<noteq> currentConfigHash \<or> trackedAuthMethod \<noteq> currentAuthMethod
                   then (Some (ConfigurationDrift trackedConfigHash currentConfigHash
                                trackedAuthMethod currentAuthMethod), None, st,
                         (if trackedConfigHash \<noteq> currentConfigHash
                          then recorded (RecordConfigurationDrift (nn_Namespace mvKey) (nn_Name mvKey)
                                 ''config_hash'') else []) @
                         (if trackedAuthMethod \<noteq> currentAuthMethod
                          then recorded (RecordConfigurationDrift (nn_Namespace mvKey) (nn_Name mvKey)
                                 ''auth_method'') else []) @ failure)
                   else
                     (let newStatus = new_status E mv mvInfo
                      in if statusEqual (mv_Status mv) newStatus
                         then (None, None, st, success)
                         else
                           (let mv' = mv\<lparr>mv_Status := newStatus\<rparr>
                            in case ue_update E mv' of
                                 Some err \<Rightarrow> (Some (UpdateFailed err), Some mv', st, failure)
                               | None \<Rightarrow>
                                   (None, Some mv', st,
                                    success @
                                    recordPodCounts mvKey (length (st_InjectedPods newStatus))
                                      (length (st_UninjectedPods newStatus))
                                      (length (st_OrphanedPods newStatus))))))))"

definition processNextUpdate ::
  "update_env \<Rightarrow> NamespacedName \<Rightarrow> bool \<Rightarrow> ModelValidation client_result \<Rightarrow> StatusTrackerImpl \<Rightarrow>
   StatusTrackerImpl \<times> effect list" where
  "processNextUpdate E mvKey shutdown got st =
     (if shutdown then (st, [])
      else
        (case doUpdateStatus E mvKey got st of
           (err, _, st', effs) \<Rightarrow>
             (st', effs @
               (if err \<noteq> None
                then recorded (RecordRetryAttempt (nn_Namespace mvKey) (nn_Name mvKey)) @ [QueueRetry mvKey]
                else [QueueForget mvKey]) @
               [QueueDone mvKey])))"

section \<open>Runs\<close>

datatype tracker_op =
    AddMV "string fset \<Rightarrow> string list" ModelValidation
  | RemoveMV "string fset \<Rightarrow> string list" NamespacedName
  | PodEvent "Pod option"
  | SeedPod Pod NamespacedName
  | PodGone "NamespacedName fset \<Rightarrow> NamespacedName list" string
  | PodNameGone "NamespacedName fset \<Rightarrow> NamespacedName list" NamespacedName
  | WorkerUpdate update_env NamespacedName bool "ModelValidation client_result"

fun exec_op :: "finalizer_lib \<Rightarrow> tracker_op \<Rightarrow> StatusTrackerImpl \<Rightarrow> StatusTrackerImpl \<times> effect list" where
  "exec_op F (AddMV ord mv) st = AddModelValidation ord mv st"
| "exec_op F (RemoveMV ord k) st = RemoveModelValidation ord k st"
| "exec_op F (PodEvent podp) st = snd (ProcessPodEvent F podp st)"
| "exec_op F (SeedPod pod k) st = snd (processSeedPodEvent F pod k st)"
| "exec_op F (PodGone nord uid) st = snd (RemovePodEvent nord uid st)"
| "exec_op F (PodNameGone nord name) st = snd (RemovePodByName nord name st)"
| "exec_op F (WorkerUpdate E k shutdown got) st = processNextUpdate E k shutdown got st"

fun exec_ops :: "finalizer_lib \<Rightarrow> tracker_op list \<Rightarrow> StatusTrackerImpl \<Rightarrow> StatusTrackerImpl \<times> effect list" where
  "exec_ops F [] st = (st, [])"
| "exec_ops F (x # xs) st =
     (let (st1, e1) = exec_op F x st; (st2, e2) = exec_ops F xs st1 in (st2, e1 @ e2))"

text \<open>
  The operations that can happen: a map is ranged over in some order of its keys, and seeding
  handles the pods the API server listed for the namespace and label of the ModelValidation.
\<close>

fun op_ok :: "tracker_op \<Rightarrow> bool" where
  "op_ok (AddMV ord mv) = range_order ord"
| "op_ok (RemoveMV ord k) = range_order ord"
| "op_ok (PodEvent podp) = True"
| "op_ok (SeedPod pod k) = (pod_Namespace pod = nn_Namespace k \<and>
     fmlookup (pod_Labels pod) ModelValidationLabel = Some (nn_Name k))"
| "op_ok (PodGone nord uid) = range_order nord"
| "op_ok (PodNameGone nord name) = range_order nord"
| "op_ok (WorkerUpdate E k shutdown got) = range_order (ue_range E)"

end
