(* ===== verification/Tracker_Invariants.thy ===== *)
theory Tracker_Invariants
  imports Status_Tracker
begin

text \<open>
  Facts about runs of the status tracker: an invariant of what is known of each ModelValidation
  is lifted to every interleaving of the tracker's methods once, in the locale
  \<open>info_invariant\<close>; the namespace counters are compared with the tracked resources; and every
  change of what is known is followed by an entry in the update queue.
\<close>

section \<open>The operations, simplified\<close>

lemma processPodEventCommon_alt [tracker_simps]:
  "processPodEventCommon F pod k info st =
     (st\<lparr>podMapping := AddPod (nn (pod_Namespace pod) (pod_Name pod)) (pod_UID pod) (podMapping st),
         modelValidations := fmupd k
           (fst (file_pod (ContainsFinalizer F (pod_Finalizers pod) ModelValidationFinalizer)
                  (pod_info pod) info)) (modelValidations st)\<rparr>,
      recorded (snd (file_pod (ContainsFinalizer F (pod_Finalizers pod) ModelValidationFinalizer)
                  (pod_info pod) info)) @ [QueueAdd k])"
  by (simp add: processPodEventCommon_def file_pod_def Let_def split: prod.splits)

lemma exec_ops_append:
  "exec_ops F (xs @ ys) st =
     (fst (exec_ops F ys (fst (exec_ops F xs st))),
      snd (exec_ops F xs st) @ snd (exec_ops F ys (fst (exec_ops F xs st))))"
  by (induction xs arbitrary: st) (auto simp: Let_def split: prod.splits)

lemma exec_ops_Cons: "fst (exec_ops F (x # xs) st) = fst (exec_ops F xs (fst (exec_op F x st)))"
  by (simp add: Let_def split: prod.splits)

lemma processNextUpdate_state [tracker_simps]:
  "fst (processNextUpdate E k shutdown got st) =
     (if \<not> shutdown \<and> got = Inl NotFound
      then st\<lparr>modelValidations := fmdrop k (modelValidations st)\<rparr> else st)"
  by (auto simp: processNextUpdate_def doUpdateStatus_def Let_def
      split: sum.splits client_error.splits option.splits)

lemma remove_lookup [simp]:
  "fmlookup (modelValidations (snd (removePodFromTrackingMapsUnsafe uid st))) k =
     map_option (\<lambda>i. snd (RemovePod uid i)) (fmlookup (modelValidations st) k)"
  by (simp add: removePodFromTrackingMapsUnsafe_def)

lemma removed_set [simp]:
  "k |\<in>| fst (removePodFromTrackingMapsUnsafe uid st) \<longleftrightarrow>
     (\<exists>i. fmlookup (modelValidations st) k = Some i \<and> fst (RemovePod uid i))"
  by (auto simp: removePodFromTrackingMapsUnsafe_def fmlookup_dom_iff split: option.splits)

lemma removePodFromTrackingMapsUnsafe_frame [simp]:
  "mvNamespaces (snd (removePodFromTrackingMapsUnsafe uid st)) = mvNamespaces st"
  "podMapping (snd (removePodFromTrackingMapsUnsafe uid st)) = podMapping st"
  "fmdom (modelValidations (snd (removePodFromTrackingMapsUnsafe uid st))) = fmdom (modelValidations st)"
  by (simp_all add: removePodFromTrackingMapsUnsafe_def)

lemma RemovePodEvent_alt [tracker_simps]:
  "RemovePodEvent nord uid st =
     (None, snd (removePodFromTrackingMapsUnsafe uid st),
      map QueueAdd (nord (fst (removePodFromTrackingMapsUnsafe uid st))))"
  by (simp add: RemovePodEvent_def split: prod.splits)

lemma RemovePodByName_alt [tracker_simps]:
  "RemovePodByName nord name st =
     (case GetUIDByName name (podMapping st) of
        None \<Rightarrow> (None, st, [])
      | Some uid \<Rightarrow>
          (None, (snd (removePodFromTrackingMapsUnsafe uid st))
                   \<lparr>podMapping := RemovePodsByName [name] (podMapping st)\<rparr>,
           map QueueAdd (nord (fst (removePodFromTrackingMapsUnsafe uid st)))))"
  by (cases "GetUIDByName name (podMapping st)") (simp_all add: RemovePodByName_def Let_def case_prod_beta
      del: RemovePodsByName.simps)

definition mv_key :: "ModelValidation \<Rightarrow> NamespacedName" where
  "mv_key mv = nn (om_Namespace (mv_Meta mv)) (om_Name (mv_Meta mv))"

lemma AddModelValidation_new [tracker_simps]:
  assumes "fmlookup (modelValidations st) (mv_key mv) = None"
  shows "AddModelValidation ord mv st =
     (st\<lparr>modelValidations := fmupd (mv_key mv) (NewModelValidationInfo (nn_Name (mv_key mv))
            (GetConfigHash mv) (GetAuthMethod mv) (om_Generation (mv_Meta mv))) (modelValidations st),
         mvNamespaces := fmupd (nn_Namespace (mv_key mv))
            (ns_count st (nn_Namespace (mv_key mv)) + 1) (mvNamespaces st)\<rparr>,
      recorded (RecordModelValidationCR (nn_Namespace (mv_key mv))
            (ns_count st (nn_Namespace (mv_key mv)) + 1)) @
      [SpawnSeed (mv_key mv), QueueAdd (mv_key mv)])"
  using assms by (simp add: AddModelValidation_def mv_key_def Let_def ns_count_def)

lemma AddModelValidation_known [tracker_simps]:
  assumes "fmlookup (modelValidations st) (mv_key mv) = Some i"
  shows "AddModelValidation ord mv st =
     (if om_Generation (mv_Meta mv) \<noteq> mvi_ObservedGeneration i
      then (st\<lparr>modelValidations := fmupd (mv_key mv) (snd (UpdateConfig ord (GetConfigHash mv)
                (GetAuthMethod mv) (om_Generation (mv_Meta mv)) i)) (modelValidations st)\<rparr>,
            recorded (RecordMultiplePodStateTransitions (nn_Namespace (mv_key mv)) (nn_Name (mv_key mv))
              PodStateInjected PodStateOrphaned
              (int (length (fst (UpdateConfig ord (GetConfigHash mv)
                (GetAuthMethod mv) (om_Generation (mv_Meta mv)) i))))) @ [QueueAdd (mv_key mv)])
      else (st, [QueueAdd (mv_key mv)]))"
  using assms
  by (auto simp: AddModelValidation_def mv_key_def Let_def RecordMultiplePodStateTransitions_def
      split: prod.splits)

section \<open>Lifting an invariant of one ModelValidation to all runs\<close>

definition all_infos :: "(NamespacedName \<Rightarrow> ModelValidationInfo \<Rightarrow> bool) \<Rightarrow> StatusTrackerImpl \<Rightarrow> bool" where
  "all_infos I st \<longleftrightarrow> (\<forall>k i. fmlookup (modelValidations st) k = Some i \<longrightarrow> I k i)"

locale info_invariant =
  fixes I :: "NamespacedName \<Rightarrow> ModelValidationInfo \<Rightarrow> bool"
  assumes I_new: "I k (NewModelValidationInfo (nn_Name k) h a g)"
    and I_update: "range_order ord \<Longrightarrow> I k i \<Longrightarrow> I k (snd (UpdateConfig ord h a g i))"
    and I_file: "I k i \<Longrightarrow> pi_Namespace p = nn_Namespace k \<Longrightarrow> I k (fst (file_pod f p i))"
    and I_remove: "I k i \<Longrightarrow> I k (snd (RemovePod uid i))"
begin

lemma new_tracker: "all_infos I NewStatusTracker"
  by (simp add: all_infos_def NewStatusTracker_def)

lemma add_inv: "range_order ord \<Longrightarrow> all_infos I st \<Longrightarrow> all_infos I (fst (AddModelValidation ord mv st))"
  by (cases "fmlookup (modelValidations st) (mv_key mv)")
    (auto simp: all_infos_def AddModelValidation_new AddModelValidation_known I_new I_update)

lemma common_inv:
  assumes "all_infos I st" "fmlookup (modelValidations st) k = Some i"
    and "pod_Namespace pod = nn_Namespace k"
  shows "all_infos I (fst (processPodEventCommon F pod k i st))"
  using assms by (auto simp: all_infos_def processPodEventCommon_alt pod_info_def intro!: I_file)

lemma removed_inv: "all_infos I st \<Longrightarrow> all_infos I (snd (removePodFromTrackingMapsUnsafe uid st))"
  by (auto simp: all_infos_def I_remove)

lemma exec_op_inv: "op_ok x \<Longrightarrow> all_infos I st \<Longrightarrow> all_infos I (fst (exec_op F x st))"
proof (cases x)
  case (RemoveMV ord k)
  assume "all_infos I st"
  with RemoveMV show ?thesis
    by (auto simp: all_infos_def RemoveModelValidation_def Let_def split: option.splits prod.splits)
next
  case (PodEvent podp)
  assume "all_infos I st"
  with PodEvent show ?thesis
    by (auto simp: ProcessPodEvent_def Let_def intro!: common_inv split: option.splits)
next
  case (SeedPod pod k)
  assume "op_ok x" "all_infos I st"
  with SeedPod show ?thesis
    by (auto simp: processSeedPodEvent_def intro!: common_inv split: option.splits)
next
  case (PodGone nord uid)
  assume "all_infos I st"
  with PodGone show ?thesis by (simp add: RemovePodEvent_alt removed_inv)
next
  case (PodNameGone nord name)
  assume "all_infos I st"
  then have "all_infos I (snd (removePodFromTrackingMapsUnsafe uid st))" for uid by (rule removed_inv)
  with PodNameGone \<open>all_infos I st\<close> show ?thesis
    by (auto simp: RemovePodByName_alt all_infos_def split: option.splits)
next
  case (WorkerUpdate E k shutdown got)
  assume "all_infos I st"
  with WorkerUpdate show ?thesis by (simp add: processNextUpdate_state all_infos_def)
qed (simp add: add_inv)

lemma exec_ops_inv: "list_all op_ok xs \<Longrightarrow> all_infos I st \<Longrightarrow> all_infos I (fst (exec_ops F xs st))"
  by (induction xs arbitrary: st) (auto simp del: exec_ops.simps(2) simp: exec_ops_Cons exec_op_inv)

lemma run_inv: "list_all op_ok xs \<Longrightarrow> all_infos I (fst (exec_ops F xs NewStatusTracker))"
  by (rule exec_ops_inv [OF _ new_tracker])

end

text \<open>
  The invariant of every tracked ModelValidation: its pod maps are well formed, it is filed
  under its own name, and the pods it knows are in its namespace.
\<close>

definition info_ok :: "NamespacedName \<Rightarrow> ModelValidationInfo \<Rightarrow> bool" where
  "info_ok k i \<longleftrightarrow> mvi_wf i \<and> mvi_Name i = nn_Name k \<and>
     (\<forall>uid c p. mvi_abs i uid = Some (c, p) \<longrightarrow> pi_Namespace p = nn_Namespace k)"

interpretation info: info_invariant info_ok
proof
  fix k h a g
  show "info_ok k (NewModelValidationInfo (nn_Name k) h a g)"
    by (simp add: info_ok_def) (simp add: NewModelValidationInfo_def)
next
  fix ord :: "string fset \<Rightarrow> string list" and k i h a g
  assume "range_order ord" "info_ok k i"
  then show "info_ok k (snd (UpdateConfig ord h a g i))"
    by (auto simp: info_ok_def UpdateConfig_wf UpdateConfig_abs spec_drift_def
        split: option.splits category.splits)
next
  fix k i and p :: PodInfo and f
  assume "info_ok k i" "pi_Namespace p = nn_Namespace k"
  then show "info_ok k (fst (file_pod f p i))"
    by (auto simp: info_ok_def file_pod_wf file_pod_abs mvi_wf_disjoint spec_add_def split: if_splits)
next
  fix k i uid
  assume "info_ok k i"
  then show "info_ok k (snd (RemovePod uid i))"
    by (auto simp: info_ok_def RemovePod_wf RemovePod_abs mvi_wf_disjoint split: if_splits)
qed

lemma all_infosD: "all_infos I st \<Longrightarrow> fmlookup (modelValidations st) k = Some i \<Longrightarrow> I k i"
  by (simp add: all_infos_def)

section \<open>Namespace counters\<close>

text \<open>\<open>tracked_in\<close> counts the ModelValidations of a namespace that are tracked.\<close>

definition tracked_in :: "StatusTrackerImpl \<Rightarrow> string \<Rightarrow> nat" where
  "tracked_in st ns = fcard (ffilter (\<lambda>k. nn_Namespace k = ns) (fmdom (modelValidations st)))"

definition counts_cover :: "StatusTrackerImpl \<Rightarrow> bool" where
  "counts_cover st \<longleftrightarrow> (\<forall>ns. int (tracked_in st ns) \<le> ns_count st ns)"

definition counts_exact :: "StatusTrackerImpl \<Rightarrow> bool" where
  "counts_exact st \<longleftrightarrow> (\<forall>ns. ns_count st ns = int (tracked_in st ns))"

fun deletes_on_not_found :: "tracker_op \<Rightarrow> bool" where
  "deletes_on_not_found (WorkerUpdate E k shutdown got) = (\<not> shutdown \<and> got = Inl NotFound)"
| "deletes_on_not_found _ = False"

lemma tracked_in_upd:
  assumes "fmdom (modelValidations st') = finsert k (fmdom (modelValidations st))"
  shows "tracked_in st' ns =
    tracked_in st ns + (if k |\<in>| fmdom (modelValidations st) \<or> nn_Namespace k \<noteq> ns then 0 else 1)"
proof -
  have "ffilter (\<lambda>k. nn_Namespace k = ns) (finsert k A) =
      (if nn_Namespace k = ns then finsert k (ffilter (\<lambda>k. nn_Namespace k = ns) A)
       else ffilter (\<lambda>k. nn_Namespace k = ns) A)" for A
    by auto
  then show ?thesis by (auto simp: tracked_in_def assms fcard_finsert_if)
qed

lemma tracked_in_drop:
  assumes "fmdom (modelValidations st') = fmdom (modelValidations st) |-| {|k|}"
  shows "tracked_in st' ns =
    tracked_in st ns - (if k |\<in>| fmdom (modelValidations st) \<and> nn_Namespace k = ns then 1 else 0)"
proof -
  have "ffilter (\<lambda>k. nn_Namespace k = ns) (A |-| {|k|}) = ffilter (\<lambda>k. nn_Namespace k = ns) A |-| {|k|}" for A
    by auto
  then show ?thesis by (auto simp: tracked_in_def assms fcard_fminus_fsingleton_if)
qed

lemma tracked_in_pos:
  "k |\<in>| fmdom (modelValidations st) \<Longrightarrow> nn_Namespace k = ns \<Longrightarrow> 0 < tracked_in st ns"
  by (metis (mono_tags, lifting) fcard_0_eq fempty_iff ffmember_filter gr0I tracked_in_def)

lemma tracked_in_same:
  "fmdom (modelValidations st') = fmdom (modelValidations st) \<Longrightarrow> tracked_in st' = tracked_in st"
  by (simp add: tracked_in_def fun_eq_iff)

lemma ns_count_same: "mvNamespaces st' = mvNamespaces st \<Longrightarrow> ns_count st' = ns_count st"
  by (simp add: ns_count_def fun_eq_iff)

text \<open>Every other operation leaves the counters and the set of tracked resources alone.\<close>

lemma common_frame:
  assumes "fmlookup (modelValidations st) k = Some i"
  shows "tracked_in (fst (processPodEventCommon F pod k i st)) = tracked_in st"
    "ns_count (fst (processPodEventCommon F pod k i st)) = ns_count st"
  by (rule tracked_in_same, simp add: processPodEventCommon_alt finsert_absorb [OF fmdomI [OF assms]])
    (rule ns_count_same, simp add: processPodEventCommon_alt)

lemma exec_op_frame:
  assumes "\<nexists>ord mv. x = AddMV ord mv" "\<nexists>ord k. x = RemoveMV ord k" "\<not> deletes_on_not_found x"
  shows "tracked_in (fst (exec_op F x st)) = tracked_in st \<and> ns_count (fst (exec_op F x st)) = ns_count st"
proof (cases x)
  case (PodEvent podp)
  then show ?thesis
    by (auto simp: ProcessPodEvent_def Let_def common_frame split: option.splits)
next
  case (SeedPod pod k)
  then show ?thesis by (auto simp: processSeedPodEvent_def common_frame split: option.splits)
next
  case (PodGone nord uid)
  then show ?thesis by (auto simp: RemovePodEvent_alt intro!: tracked_in_same ns_count_same)
next
  case (PodNameGone nord name)
  then show ?thesis
    by (auto simp: RemovePodByName_alt intro!: tracked_in_same ns_count_same split: option.splits)
next
  case (WorkerUpdate E k shutdown got)
  with assms(3) show ?thesis by (auto simp: processNextUpdate_state)
qed (use assms in auto)

lemma AddModelValidation_counts:
  "int (tracked_in (fst (AddModelValidation ord mv st)) ns) - ns_count (fst (AddModelValidation ord mv st)) ns =
    int (tracked_in st ns) - ns_count st ns"
proof (cases "fmlookup (modelValidations st) (mv_key mv)")
  case None
  let ?st' = "fst (AddModelValidation ord mv st)"
  have "fmdom (modelValidations ?st') = finsert (mv_key mv) (fmdom (modelValidations st))"
    by (simp add: AddModelValidation_new [OF None])
  moreover have "mv_key mv |\<notin>| fmdom (modelValidations st)"
    using None by (simp add: fmdom_notI)
  ultimately have "tracked_in ?st' ns = tracked_in st ns + (if nn_Namespace (mv_key mv) = ns then 1 else 0)"
    by (simp add: tracked_in_upd)
  moreover have "ns_count ?st' ns = ns_count st ns + (if nn_Namespace (mv_key mv) = ns then 1 else 0)"
    by (simp add: AddModelValidation_new [OF None] ns_count_def)
  ultimately show ?thesis by simp
next
  case (Some i)
  have "tracked_in (fst (AddModelValidation ord mv st)) = tracked_in st"
    by (rule tracked_in_same)
      (simp add: AddModelValidation_known [OF Some] finsert_absorb [OF fmdomI [OF Some]])
  moreover have "ns_count (fst (AddModelValidation ord mv st)) = ns_count st"
    by (rule ns_count_same) (simp add: AddModelValidation_known [OF Some])
  ultimately show ?thesis by simp
qed

lemma RemoveModelValidation_counts:
  fixes st ord k ns
  defines "st' \<equiv> fst (RemoveModelValidation ord k st)"
  assumes tracked: "k |\<in>| fmdom (modelValidations st)"
  shows "tracked_in st' ns = tracked_in st ns - (if nn_Namespace k = ns then 1 else 0)"
    and "ns_count st' ns =
      (if nn_Namespace k = ns then max 0 (ns_count st ns - 1) else ns_count st ns)"
proof -
  obtain i where i: "fmlookup (modelValidations st) k = Some i" using tracked by (rule fmdomE)
  show "tracked_in st' ns = tracked_in st ns - (if nn_Namespace k = ns then 1 else 0)"
    using tracked by (subst tracked_in_drop [of _ _ k])
      (auto simp: st'_def RemoveModelValidation_def i Let_def fmdom_drop)
  show "ns_count st' ns = (if nn_Namespace k = ns then max 0 (ns_count st ns - 1) else ns_count st ns)"
    by (auto simp: st'_def RemoveModelValidation_def i Let_def ns_count_def)
qed

lemma RemoveModelValidation_untracked:
  "k |\<notin>| fmdom (modelValidations st) \<Longrightarrow> RemoveModelValidation ord k st = (st, [])"
  by (auto simp: RemoveModelValidation_def fmdomI split: option.splits)

lemma exec_op_counts_cover:
  assumes "counts_cover st"
  shows "counts_cover (fst (exec_op F x st))"
proof (cases "(\<exists>ord mv. x = AddMV ord mv) \<or> (\<exists>ord k. x = RemoveMV ord k) \<or> deletes_on_not_found x")
  case False
  then show ?thesis using exec_op_frame [of x F st] assms by (auto simp: counts_cover_def)
next
  case True
  then consider (Add) ord mv where "x = AddMV ord mv" | (Remove) ord k where "x = RemoveMV ord k"
    | (Worker) "deletes_on_not_found x" by blast
  then show ?thesis
  proof cases
    case Add
    show ?thesis
      unfolding counts_cover_def
    proof
      fix ns
      show "int (tracked_in (fst (exec_op F x st)) ns) \<le> ns_count (fst (exec_op F x st)) ns"
        using assms [unfolded counts_cover_def, rule_format, of ns]
          AddModelValidation_counts [of ord mv st ns] Add by simp
    qed
  next
    case Remove
    show ?thesis
    proof (cases "k |\<in>| fmdom (modelValidations st)")
      case True
      show ?thesis
        unfolding counts_cover_def
      proof
        fix ns
        have "0 < tracked_in st ns" if "nn_Namespace k = ns"
          using tracked_in_pos [OF True that] .
        then show "int (tracked_in (fst (exec_op F x st)) ns) \<le> ns_count (fst (exec_op F x st)) ns"
          using assms [unfolded counts_cover_def, rule_format, of ns] Remove
          by (auto simp: RemoveModelValidation_counts [OF True] of_nat_diff)
      qed
    next
      case False
      with assms Remove show ?thesis by (simp add: RemoveModelValidation_untracked)
    qed
  next
    case Worker
    then obtain E k shutdown got where x: "x = WorkerUpdate E k shutdown got" "\<not> shutdown" "got = Inl NotFound"
      by (cases x) auto
    have "fmdom (modelValidations (fst (exec_op F x st))) = fmdom (modelValidations st) |-| {|k|}"
      by (simp add: x processNextUpdate_state)
    then have "tracked_in (fst (exec_op F x st)) ns \<le> tracked_in st ns" for ns
      by (simp add: tracked_in_drop)
    moreover have "ns_count (fst (exec_op F x st)) = ns_count st"
      by (rule ns_count_same) (simp add: x processNextUpdate_state)
    ultimately show ?thesis
      using assms by (simp add: counts_cover_def) (meson of_nat_mono order_trans)
  qed
qed

lemma exec_op_counts_exact:
  assumes "counts_exact st" and "\<not> deletes_on_not_found x"
  shows "counts_exact (fst (exec_op F x st))"
proof (cases "(\<exists>ord mv. x = AddMV ord mv) \<or> (\<exists>ord k. x = RemoveMV ord k)")
  case False
  then show ?thesis using exec_op_frame [of x F st] assms by (auto simp: counts_exact_def)
next
  case True
  then consider (Add) ord mv where "x = AddMV ord mv" | (Remove) ord k where "x = RemoveMV ord k" by blast
  then show ?thesis
  proof cases
    case Add
    show ?thesis
      unfolding counts_exact_def
    proof
      fix ns
      show "ns_count (fst (exec_op F x st)) ns = int (tracked_in (fst (exec_op F x st)) ns)"
        using assms(1) [unfolded counts_exact_def, rule_format, of ns]
          AddModelValidation_counts [of ord mv st ns] Add by simp
    qed
  next
    case Remove
    show ?thesis
    proof (cases "k |\<in>| fmdom (modelValidations st)")
      case True
      show ?thesis
        unfolding counts_exact_def
      proof
        fix ns
        have "0 < tracked_in st ns" if "nn_Namespace k = ns"
          using tracked_in_pos [OF True that] .
        then show "ns_count (fst (exec_op F x st)) ns = int (tracked_in (fst (exec_op F x st)) ns)"
          using assms(1) [unfolded counts_exact_def, rule_format, of ns] Remove
          by (auto simp: RemoveModelValidation_counts [OF True] of_nat_diff)
      qed
    next
      case False
      with assms Remove show ?thesis by (simp add: RemoveModelValidation_untracked)
    qed
  qed
qed

lemma counts_New [simp]: "counts_exact NewStatusTracker" "counts_cover NewStatusTracker"
proof -
  have "ffilter P {||} = {||}" for P :: "NamespacedName \<Rightarrow> bool" by auto
  then show "counts_exact NewStatusTracker" "counts_cover NewStatusTracker"
    by (simp_all add: counts_exact_def counts_cover_def tracked_in_def ns_count_def NewStatusTracker_def)
qed

lemma exec_ops_counts_cover: "counts_cover st \<Longrightarrow> counts_cover (fst (exec_ops F xs st))"
  by (induction xs arbitrary: st)
    (auto simp del: exec_ops.simps(2) simp: exec_ops_Cons exec_op_counts_cover)

lemma exec_ops_counts_exact:
  "counts_exact st \<Longrightarrow> list_all (\<lambda>x. \<not> deletes_on_not_found x) xs \<Longrightarrow> counts_exact (fst (exec_ops F xs st))"
  by (induction xs arbitrary: st)
    (auto simp del: exec_ops.simps(2) simp: exec_ops_Cons exec_op_counts_exact)

section \<open>The gauge of ModelValidations\<close>

text \<open>The metric calls of a run; the gauge of a namespace follows the counter.\<close>

fun metric_calls :: "effect list \<Rightarrow> metric_call list" where
  "metric_calls [] = []"
| "metric_calls (Record c # es) = c # metric_calls es"
| "metric_calls (_ # es) = metric_calls es"

lemma metric_calls_append [simp]: "metric_calls (xs @ ys) = metric_calls xs @ metric_calls ys"
  by (induction xs rule: metric_calls.induct) auto

lemma metric_calls_recorded [simp]: "metric_calls (recorded cs) = cs"
  by (induction cs) auto

lemma metric_calls_queued [simp]: "metric_calls (map QueueAdd ks) = []"
  by (induction ks) auto

definition cr_gauge :: "string \<Rightarrow> effect list \<Rightarrow> int option" where
  "cr_gauge ns es = gauge ModelValidationCRsTotal [ns] (metric_calls es)"

lemma cr_gauge_append [simp]:
  "cr_gauge ns (xs @ ys) = (case cr_gauge ns ys of Some v \<Rightarrow> Some v | None \<Rightarrow> cr_gauge ns xs)"
  by (auto simp: cr_gauge_def split: option.splits)

lemma cr_gauge_simps [simp]:
  "cr_gauge ns [] = None" "cr_gauge ns [QueueAdd k] = None" "cr_gauge ns [SpawnSeed k, QueueAdd k'] = None"
  "cr_gauge ns [QueueDone k] = None" "cr_gauge ns [QueueRetry k] = None" "cr_gauge ns [QueueForget k] = None"
  "cr_gauge ns (map QueueAdd ks) = None"
  "cr_gauge ns (recorded (RecordModelValidationCR m n)) = (if m = ns then Some n else None)"
  "cr_gauge ns (recorded (RecordRetryAttempt a b)) = None"
  "cr_gauge ns (recorded (RecordMultiplePodStateTransitions a b c d n)) = None"
  "cr_gauge ns (recorded (RecordConfigurationDrift a b c)) = None"
  "cr_gauge ns (recordStatusUpdateResult k r e) = None"
  "cr_gauge ns (recordPodCounts k x y z) = None"
  "cr_gauge ns (recorded (snd (file_pod f p i))) = None"
  "cr_gauge ns (recorded (RecordPodCount a b c n)) = None"
  by (auto simp: cr_gauge_def record_defs recordStatusUpdateResult_def recordPodCounts_def
      file_pod_metrics simp flip: map_append split: option.splits)

lemma doUpdateStatus_gauge:
  "cr_gauge ns (snd (snd (snd (doUpdateStatus E k got st)))) = None"
  by (auto simp: doUpdateStatus_def Let_def split: sum.splits client_error.splits option.splits)

lemma exec_op_gauge:
  "(case cr_gauge ns (snd (exec_op F x st)) of Some v \<Rightarrow> v | None \<Rightarrow> ns_count st ns) =
     ns_count (fst (exec_op F x st)) ns"
proof (cases x)
  case (AddMV ord mv)
  then show ?thesis
    by (cases "fmlookup (modelValidations st) (mv_key mv)")
      (auto simp: tracker_simps ns_count_def)
next
  case (RemoveMV ord k)
  then show ?thesis
    by (auto simp: RemoveModelValidation_def Let_def ns_count_def split: option.splits)
next
  case (PodEvent podp)
  then show ?thesis
    by (auto simp: ProcessPodEvent_def tracker_simps Let_def ns_count_def split: option.splits)
next
  case (SeedPod pod k)
  then show ?thesis
    by (auto simp: processSeedPodEvent_def tracker_simps ns_count_def split: option.splits)
next
  case (PodGone nord uid)
  then show ?thesis by (simp add: tracker_simps ns_count_def)
next
  case (PodNameGone nord name)
  then show ?thesis by (auto simp: tracker_simps ns_count_def split: option.splits)
next
  case (WorkerUpdate E k shutdown got)
  then show ?thesis
    using doUpdateStatus_gauge [where ns = ns and E = E and k = k and got = got and st = st]
    by (auto simp: processNextUpdate_state)
      (auto simp: processNextUpdate_def ns_count_def split: prod.splits)
qed

lemma exec_ops_gauge:
  "(case cr_gauge ns (snd (exec_ops F xs st)) of Some v \<Rightarrow> v | None \<Rightarrow> ns_count st ns) =
     ns_count (fst (exec_ops F xs st)) ns"
proof (induction xs arbitrary: st)
  case Nil
  then show ?case by simp
next
  case (Cons x xs)
  show ?case
    using Cons.IH [of "fst (exec_op F x st)"] exec_op_gauge [where ns = ns and F = F and x = x and st = st]
    by (auto simp: Let_def split: prod.splits option.splits)
qed

end
