(* ===== verification/Tracker_Behaviour.thy ===== *)
theory Tracker_Behaviour
  imports Tracker_Invariants
begin

text \<open>
  What each method of the status tracker does to what is tracked: where a pod is filed, what is
  left of it after its removal, which resources are queued for a status update, and that nothing
  changes without being queued.
\<close>

section \<open>The tracked view\<close>

text \<open>The category and information of a pod under a ModelValidation, for the whole tracker.\<close>

definition tracked_pod :: "StatusTrackerImpl \<Rightarrow> NamespacedName \<Rightarrow> string \<Rightarrow> (category \<times> PodInfo) option" where
  "tracked_pod st k uid =
     (case fmlookup (modelValidations st) k of Some i \<Rightarrow> mvi_abs i uid | None \<Rightarrow> None)"

definition tracker_wf :: "StatusTrackerImpl \<Rightarrow> bool" where
  "tracker_wf st \<longleftrightarrow> all_infos info_ok st"

lemma tracker_wf_run: "list_all op_ok xs \<Longrightarrow> tracker_wf (fst (exec_ops F xs NewStatusTracker))"
  by (simp add: tracker_wf_def info.run_inv)

lemma exec_op_wf: "op_ok x \<Longrightarrow> tracker_wf st \<Longrightarrow> tracker_wf (fst (exec_op F x st))"
  unfolding tracker_wf_def by (rule info.exec_op_inv)

lemma tracker_wf_info:
  "tracker_wf st \<Longrightarrow> fmlookup (modelValidations st) k = Some i \<Longrightarrow> mvi_wf i"
  "tracker_wf st \<Longrightarrow> fmlookup (modelValidations st) k = Some i \<Longrightarrow> disjoint_pods i"
  by (auto simp: tracker_wf_def all_infos_def info_ok_def mvi_wf_def)

section \<open>Pod events\<close>

text \<open>The category the tracker gives a pod under a ModelValidation it tracks.\<close>

definition pod_category :: "finalizer_lib \<Rightarrow> Pod \<Rightarrow> ModelValidationInfo \<Rightarrow> category" where
  "pod_category F pod i =
     classify (ContainsFinalizer F (pod_Finalizers pod) ModelValidationFinalizer) (pod_info pod)
       (mvi_ConfigHash i) (mvi_AuthMethod i)"

lemma pod_info_UID [simp]: "pi_UID (pod_info pod) = pod_UID pod"
  "pi_Name (pod_info pod) = pod_Name pod" "pi_Namespace (pod_info pod) = pod_Namespace pod"
  by (simp_all add: pod_info_def)

lemma common_tracked:
  assumes "tracker_wf st" "fmlookup (modelValidations st) k = Some i"
  shows "tracked_pod (fst (processPodEventCommon F pod k i st)) =
    (tracked_pod st)(k := (tracked_pod st k)(pod_UID pod \<mapsto> (pod_category F pod i, pod_info pod)))"
  using assms(2) file_pod_abs [OF tracker_wf_info(2) [OF assms]]
  by (auto simp: fun_eq_iff tracked_pod_def processPodEventCommon_alt spec_add_def pod_category_def)

lemma common_mapping:
  "GetUIDByName n (podMapping (fst (processPodEventCommon F pod k i st))) =
    (if n = nn (pod_Namespace pod) (pod_Name pod) then Some (pod_UID pod) else GetUIDByName n (podMapping st))"
  by (simp add: processPodEventCommon_alt pm.lookup_add)

lemma common_queues: "QueueAdd k \<in> set (snd (processPodEventCommon F pod k i st))"
  by (simp add: processPodEventCommon_alt)

section \<open>Pod removal\<close>

lemma removed_tracked:
  assumes "tracker_wf st"
  shows "tracked_pod (snd (removePodFromTrackingMapsUnsafe uid st)) k = (tracked_pod st k)(uid := None)"
proof (cases "fmlookup (modelValidations st) k")
  case None
  then show ?thesis by (auto simp: tracked_pod_def)
next
  case (Some i)
  then show ?thesis
    by (simp add: tracked_pod_def fun_eq_iff RemovePod_abs [OF tracker_wf_info(2) [OF assms Some]])
qed

lemma removed_holders:
  "k |\<in>| fst (removePodFromTrackingMapsUnsafe uid st) \<longleftrightarrow> tracked_pod st k uid \<noteq> None"
  by (auto simp: tracked_pod_def RemovePod_found split: option.splits)

lemma mset_queue_holders:
  assumes "range_order nord"
  shows "set (map QueueAdd (nord (fst (removePodFromTrackingMapsUnsafe uid st)))) =
      QueueAdd ` {k. tracked_pod st k uid \<noteq> None}"
    and "distinct (map QueueAdd (nord (fst (removePodFromTrackingMapsUnsafe uid st))))"
proof -
  show "set (map QueueAdd (nord (fst (removePodFromTrackingMapsUnsafe uid st)))) =
      QueueAdd ` {k. tracked_pod st k uid \<noteq> None}"
    unfolding set_map range_orderD [OF assms] using removed_holders by blast
  show "distinct (map QueueAdd (nord (fst (removePodFromTrackingMapsUnsafe uid st))))"
    using assms by (simp add: distinct_map range_orderD inj_on_def)
qed

section \<open>Nothing changes unnoticed\<close>

lemma changed_info_queued:
  assumes "fmlookup (modelValidations (fst (exec_op F x st))) k \<noteq> fmlookup (modelValidations st) k"
    and "k |\<in>| fmdom (modelValidations (fst (exec_op F x st)))" and "op_ok x"
  shows "QueueAdd k \<in> set (snd (exec_op F x st))"
proof (cases x)
  case (AddMV ord mv)
  with assms show ?thesis
    by (cases "fmlookup (modelValidations st) (mv_key mv)")
      (auto simp: tracker_simps split: if_splits)
next
  case (RemoveMV ord k')
  with assms show ?thesis
    by (auto simp: RemoveModelValidation_def Let_def split: option.splits if_splits prod.splits)
next
  case (PodEvent podp)
  with assms show ?thesis
    by (auto simp: ProcessPodEvent_def Let_def tracker_simps split: option.splits if_splits)
next
  case (SeedPod pod k')
  with assms show ?thesis
    by (auto simp: processSeedPodEvent_def tracker_simps split: option.splits if_splits)
next
  case (PodGone nord uid)
  have "k |\<in>| fst (removePodFromTrackingMapsUnsafe uid st)"
    using assms(1) PodGone RemovePod_not_found
    by (cases "fmlookup (modelValidations st) k") (auto simp: RemovePodEvent_alt)
  with PodGone assms(3) show ?thesis
    by (auto simp del: removed_set simp: tracker_simps range_orderD)
next
  case (PodNameGone nord name)
  then obtain uid where uid: "GetUIDByName name (podMapping st) = Some uid"
    using assms(1) by (cases "GetUIDByName name (podMapping st)") (auto simp: RemovePodByName_alt)
  have "k |\<in>| fst (removePodFromTrackingMapsUnsafe uid st)"
    using assms(1) PodNameGone RemovePod_not_found uid
    by (cases "fmlookup (modelValidations st) k") (auto simp: RemovePodByName_alt)
  with PodNameGone assms(3) uid show ?thesis
    by (auto simp del: removed_set simp: RemovePodByName_alt range_orderD)
next
  case (WorkerUpdate E k' shutdown got)
  with assms show ?thesis by (auto simp: tracker_simps split: if_splits)
qed

section \<open>The update worker\<close>

lemma processNextUpdate_outcome:
  "snd (processNextUpdate E k False got st) =
     snd (snd (snd (doUpdateStatus E k got st))) @
     (if fst (doUpdateStatus E k got st) \<noteq> None
      then [Record (CounterAdd RetryAttemptsTotal [nn_Namespace k, nn_Name k] 1), QueueRetry k]
      else [QueueForget k]) @ [QueueDone k]"
  by (simp add: processNextUpdate_def record_defs split: prod.splits)

fun on_queue :: "effect \<Rightarrow> bool" where
  "on_queue (Record c) = False"
| "on_queue _ = True"

lemma on_queue_recorded [simp]: "filter on_queue (recorded cs) = []"
  by (induction cs) auto

lemma update_queue_silent: "filter on_queue (snd (snd (snd (doUpdateStatus E k got st)))) = []"
  by (auto simp: doUpdateStatus_def Let_def recordStatusUpdateResult_def recordPodCounts_def
      simp del: map_append split: sum.splits client_error.splits option.splits)

end
