(* ===== verification/Status_Update.thy ===== *)
theory Status_Update
  imports Tracker_Behaviour
begin

text \<open>
  What a status update writes: the pods of each category, sorted by name, with their numbers;
  when it refuses to write; and that an update repeated on its own result writes nothing.
\<close>

section \<open>The sorted list of a pod map\<close>

interpretation names: slice_order name_less
  by unfold_locales (auto simp: name_less_def)

definition pod_entry :: "PodInfo \<Rightarrow> PodTrackingInfo" where
  "pod_entry p = \<lparr>pti_Name = pi_Name p, pti_UID = pi_UID p, pti_InjectedAt = pi_Timestamp p\<rparr>"

lemma collectPodTrackingInfo_entries:
  "collectPodTrackingInfo ord pods acc = acc @ map pod_entry (range_values ord pods)"
  by (simp add: collectPodTrackingInfo_def pod_entry_def)

lemma set_tracked_list: "range_order ord \<Longrightarrow> set (tracked_list ord pods) = pod_entry ` fmran' pods"
  by (simp add: tracked_list_def collectPodTrackingInfo_entries set_range_values)

lemma length_tracked_list: "range_order ord \<Longrightarrow> length (tracked_list ord pods) = fcard (fmdom pods)"
  by (simp add: tracked_list_def collectPodTrackingInfo_entries length_range_values)

lemma sorted_tracked_list: "sorted (map pti_Name (tracked_list ord pods))"
  using names.sorted_sort_slice [of "collectPodTrackingInfo ord pods []"]
  by (simp add: tracked_list_def sorted_map name_less_def not_less)

lemma distinct_tracked_list:
  assumes "range_order ord" "keyed pods"
  shows "distinct (map pti_UID (tracked_list ord pods))"
proof -
  have "map pti_UID (map pod_entry (range_values ord pods)) = ord (fmdom pods)"
    using assms
    by (auto simp: range_values_def pod_entry_def keyed_def range_orderD fmlookup_dom_iff
        intro!: map_idI)
  then have "distinct (map pti_UID (map pod_entry (range_values ord pods)))"
    using assms(1) by (simp add: range_orderD)
  moreover have "mset (map pti_UID (tracked_list ord pods)) = mset (map pti_UID (map pod_entry (range_values ord pods)))"
    by (simp only: tracked_list_def collectPodTrackingInfo_entries append_Nil mset_map mset_sort_slice)
  ultimately show ?thesis by (metis mset_eq_imp_distinct_iff)
qed

text \<open>Pods of one map with different names: in a namespace no two pods share a name.\<close>

definition distinct_names :: "pods \<Rightarrow> bool" where
  "distinct_names pods \<longleftrightarrow>
     (\<forall>u v p q. fmlookup pods u = Some p \<longrightarrow> fmlookup pods v = Some q \<longrightarrow> pi_Name p = pi_Name q \<longrightarrow> u = v)"

lemma distinct_entries:
  assumes "range_order ord" "distinct_names pods"
  shows "distinct (map pod_entry (range_values ord pods))"
proof -
  have "inj_on (\<lambda>k. pod_entry (the (fmlookup pods k))) (fset (fmdom pods))"
    using assms(2)
    by (auto simp: inj_on_def distinct_names_def fmlookup_dom_iff pod_entry_def)
  then show ?thesis
    using assms(1) by (simp add: range_values_def distinct_map range_orderD comp_def)
qed

lemma tracked_list_order_free:
  assumes "range_order ord" "range_order ord'" "distinct_names pods"
  shows "tracked_list ord pods = tracked_list ord' pods"
  unfolding tracked_list_def collectPodTrackingInfo_entries append_Nil
proof (rule names.sort_slice_order_free)
  show "set (map pod_entry (range_values ord pods)) = set (map pod_entry (range_values ord' pods))"
    using assms by (simp add: set_range_values)
next
  fix x y
  assume "x \<in> set (map pod_entry (range_values ord pods))" "y \<in> set (map pod_entry (range_values ord pods))"
    and "x \<noteq> y"
  then obtain u v p q where "fmlookup pods u = Some p" "fmlookup pods v = Some q"
    and xy: "x = pod_entry p" "y = pod_entry q" and "p \<noteq> q"
    using assms(1) by (auto simp: set_range_values fmran'_def)
  then have "pi_Name p \<noteq> pi_Name q"
    using assms(3) unfolding distinct_names_def by (metis option.inject)
  then show "name_less x y \<or> name_less y x"
    by (auto simp: xy pod_entry_def name_less_def)
qed (use assms in \<open>auto simp: distinct_entries\<close>)

section \<open>Comparison of statuses\<close>

lemma comparePodSlices_refl [simp]: "comparePodSlices xs xs"
  by (simp add: comparePodSlices_def list_all2_same)

lemma comparePodSlices_iff:
  "comparePodSlices a b \<longleftrightarrow> map (\<lambda>x. (pti_Name x, pti_UID x)) a = map (\<lambda>x. (pti_Name x, pti_UID x)) b"
  by (induction a b rule: list_induct2') (auto simp: comparePodSlices_def)

section \<open>The outcome of an update\<close>

lemmas doUpdate_splits = sum.splits client_error.splits option.splits if_splits

lemma doUpdateStatus_written:
  assumes "doUpdateStatus E k got st = (err, Some w, st', effs)"
  obtains mv i where "got = Inr mv" "fmlookup (modelValidations st) k = Some i"
    "mvi_ConfigHash i = GetConfigHash mv" "mvi_AuthMethod i = GetAuthMethod mv"
    "w = mv\<lparr>mv_Status := new_status E mv i\<rparr>" "st' = st"
    "\<not> statusEqual (mv_Status mv) (new_status E mv i)"
    "err = map_option UpdateFailed (ue_update E w)"
  using assms by (auto simp: doUpdateStatus_def Let_def split: doUpdate_splits)

lemma new_status_simps [simp]:
  "st_InjectedPods (new_status E mv i) = tracked_list (ue_range E) (mvi_InjectedPods i)"
  "st_UninjectedPods (new_status E mv i) = tracked_list (ue_range E) (mvi_UninjectedPods i)"
  "st_OrphanedPods (new_status E mv i) = tracked_list (ue_range E) (mvi_OrphanedPods i)"
  "st_InjectedPodCount (new_status E mv i) = word_of_nat (length (tracked_list (ue_range E) (mvi_InjectedPods i)))"
  "st_UninjectedPodCount (new_status E mv i) = word_of_nat (length (tracked_list (ue_range E) (mvi_UninjectedPods i)))"
  "st_OrphanedPodCount (new_status E mv i) = word_of_nat (length (tracked_list (ue_range E) (mvi_OrphanedPods i)))"
  "st_AuthMethod (new_status E mv i) = mvi_AuthMethod i"
  "st_Conditions (new_status E mv i) = st_Conditions (mv_Status mv)"
  by (simp_all add: new_status_def Let_def)

lemma category_members:
  assumes "disjoint_pods i"
  shows "fmran' (mvi_InjectedPods i) = {p. \<exists>uid. mvi_abs i uid = Some (Injected, p)}"
    "fmran' (mvi_UninjectedPods i) = {p. \<exists>uid. mvi_abs i uid = Some (Uninjected, p)}"
    "fmran' (mvi_OrphanedPods i) = {p. \<exists>uid. mvi_abs i uid = Some (Orphaned, p)}"
  by (auto simp: fmran'_def mvi_abs_Injected mvi_abs_Orphaned [OF assms] mvi_abs_Uninjected [OF assms])

lemma statusEqual_other_order:
  assumes "range_order (ue_range E)" "range_order (ue_range E')"
    and "distinct_names (mvi_InjectedPods i)" "distinct_names (mvi_UninjectedPods i)"
      "distinct_names (mvi_OrphanedPods i)"
  shows "statusEqual (new_status E mv i) (new_status E' mv' i)"
  using assms(3-5) by (simp add: statusEqual_def tracked_list_order_free [OF assms(1,2)])

lemma GetConfigHash_status [simp]:
  "GetConfigHash (mv\<lparr>mv_Status := s\<rparr>) = GetConfigHash mv"
  "GetAuthMethod (mv\<lparr>mv_Status := s\<rparr>) = GetAuthMethod mv"
  by (simp_all add: GetConfigHash_def ModelValidation_bytes_def GetAuthMethod_def)

lemma update_again:
  assumes "doUpdateStatus E k got st = (None, Some w, st', effs)"
    and "range_order (ue_range E)" "range_order (ue_range E')"
    and "\<And>i. fmlookup (modelValidations st) k = Some i \<Longrightarrow> distinct_names (mvi_InjectedPods i) \<and>
      distinct_names (mvi_UninjectedPods i) \<and> distinct_names (mvi_OrphanedPods i)"
  shows "doUpdateStatus E' k (Inr w) st =
    (None, None, st, recordStatusUpdateResult k StatusUpdateSuccess (ue_elapsed E'))"
proof -
  from assms(1) obtain mv i where i: "fmlookup (modelValidations st) k = Some i"
    and same: "mvi_ConfigHash i = GetConfigHash mv" "mvi_AuthMethod i = GetAuthMethod mv"
    and w: "w = mv\<lparr>mv_Status := new_status E mv i\<rparr>"
    by (rule doUpdateStatus_written)
  have "statusEqual (mv_Status w) (new_status E' w i)"
    using statusEqual_other_order [OF assms(2,3)] assms(4) [OF i] by (simp add: w)
  with same w i show ?thesis
    by (simp add: doUpdateStatus_def)
qed

end
