(* ===== verification/Debounced_Queue.thy ===== *)
theory Debounced_Queue
  imports Metrics
begin

text \<open>
  \<open>internal/tracker/debounced_queue.go\<close> as a state machine.  \<open>Add\<close> and \<open>ShutDown\<close> run under
  the queue's mutex and are one step each; a timer fires in a step of its own; the function a
  timer runs is a thread with a program counter, since it takes the mutex only for its last
  action.  The work queue is client-go's: an argument \<open>workqueue_lib\<close>, of which the locale
  \<open>workqueue\<close> states the documented contract, interpreted here on a reference queue.
\<close>

section \<open>The work queue of client-go\<close>

record 'q workqueue_lib =
  wq_Add :: "NamespacedName \<Rightarrow> 'q \<Rightarrow> 'q"
  wq_Get :: "'q \<Rightarrow> (NamespacedName \<times> 'q) option"
  wq_Done :: "NamespacedName \<Rightarrow> 'q \<Rightarrow> 'q"
  wq_AddRateLimited :: "NamespacedName \<Rightarrow> 'q \<Rightarrow> 'q"
  wq_Deliver :: "NamespacedName \<Rightarrow> 'q \<Rightarrow> 'q option"
  wq_Forget :: "NamespacedName \<Rightarrow> 'q \<Rightarrow> 'q"
  wq_NumRequeues :: "NamespacedName \<Rightarrow> 'q \<Rightarrow> nat"
  wq_Len :: "'q \<Rightarrow> nat"
  wq_ShutDown :: "'q \<Rightarrow> 'q"
  wq_pending :: "'q \<Rightarrow> NamespacedName fset"
  wq_processing :: "'q \<Rightarrow> NamespacedName fset"
  wq_waiting :: "'q \<Rightarrow> NamespacedName fset"
  wq_shutting_down :: "'q \<Rightarrow> bool"

text \<open>
  \<open>wq_pending\<close> are the items that were added and not yet handed out since, \<open>wq_processing\<close>
  those handed out and not yet done.  An item added several times before it is handed out is
  handed out once; it is not handed out while it is being processed; after \<open>ShutDown\<close> new items
  are ignored.  \<open>wq_waiting\<close> are the rate limited items whose delay is not over, and \<open>wq_Deliver\<close>
  is the library's own step that adds one of them when it is.  \<open>Get\<close> blocks as long as nothing
  can be handed out.
\<close>

locale workqueue =
  fixes W :: "'q workqueue_lib"
  assumes add_open: "\<not> wq_shutting_down W q \<Longrightarrow> wq_pending W (wq_Add W k q) = finsert k (wq_pending W q)"
    and add_shut: "wq_shutting_down W q \<Longrightarrow> wq_pending W (wq_Add W k q) = wq_pending W q"
    and add_frame: "wq_processing W (wq_Add W k q) = wq_processing W q"
      "wq_waiting W (wq_Add W k q) = wq_waiting W q"
      "wq_shutting_down W (wq_Add W k q) = wq_shutting_down W q"
    and get_item: "wq_Get W q = Some (k, q') \<Longrightarrow>
      k |\<in>| wq_pending W q \<and> k |\<notin>| wq_processing W q \<and> wq_pending W q' = wq_pending W q |-| {|k|} \<and>
      wq_processing W q' = finsert k (wq_processing W q) \<and> wq_waiting W q' = wq_waiting W q \<and>
      wq_shutting_down W q' = wq_shutting_down W q"
    and get_blocks: "wq_Get W q = None \<longleftrightarrow> wq_Len W q = 0"
    and done_item: "wq_pending W (wq_Done W k q) = wq_pending W q"
      "wq_processing W (wq_Done W k q) = wq_processing W q |-| {|k|}"
      "wq_waiting W (wq_Done W k q) = wq_waiting W q"
      "wq_shutting_down W (wq_Done W k q) = wq_shutting_down W q"
    and retry_pending: "wq_pending W q |\<subseteq>| wq_pending W (wq_AddRateLimited W k q)"
      "wq_pending W (wq_AddRateLimited W k q) |\<subseteq>| finsert k (wq_pending W q)"
    and retry_waiting: "wq_waiting W q |\<subseteq>| wq_waiting W (wq_AddRateLimited W k q)"
      "wq_waiting W (wq_AddRateLimited W k q) |\<subseteq>| finsert k (wq_waiting W q)"
      "\<not> wq_shutting_down W q \<Longrightarrow>
         k |\<in>| wq_pending W (wq_AddRateLimited W k q) |\<union>| wq_waiting W (wq_AddRateLimited W k q)"
    and retry_frame: "wq_shutting_down W q \<Longrightarrow> wq_pending W (wq_AddRateLimited W k q) = wq_pending W q"
      "wq_processing W (wq_AddRateLimited W k q) = wq_processing W q"
      "wq_shutting_down W (wq_AddRateLimited W k q) = wq_shutting_down W q"
    and deliver_pending: "wq_Deliver W k q = Some q' \<Longrightarrow>
      wq_pending W q' = (if wq_shutting_down W q then wq_pending W q else finsert k (wq_pending W q)) \<and>
      k |\<in>| wq_waiting W q \<and> wq_waiting W q' = wq_waiting W q |-| {|k|} \<and>
      wq_processing W q' = wq_processing W q \<and> wq_shutting_down W q' = wq_shutting_down W q"
    and deliver_enabled: "\<not> wq_shutting_down W q \<Longrightarrow> k |\<in>| wq_waiting W q \<Longrightarrow> wq_Deliver W k q \<noteq> None"
    and forget: "wq_NumRequeues W k (wq_Forget W k q) = 0"
      "wq_pending W (wq_Forget W k q) = wq_pending W q"
      "wq_processing W (wq_Forget W k q) = wq_processing W q"
      "wq_waiting W (wq_Forget W k q) = wq_waiting W q"
      "wq_shutting_down W (wq_Forget W k q) = wq_shutting_down W q"
    and len: "wq_Len W q = fcard (wq_pending W q |-| wq_processing W q)"
    and shut: "wq_shutting_down W (wq_ShutDown W q)" "wq_pending W (wq_ShutDown W q) = wq_pending W q"
      "wq_processing W (wq_ShutDown W q) = wq_processing W q"

section \<open>State\<close>

text \<open>
  A timer object is identified by the order of its creation and carries the item its function
  captured.  \<open>armedTimers\<close> are the timers the runtime will still fire; \<open>callbacks\<close> are the
  running timer functions; \<open>nextTimer\<close> numbers the timer objects.
\<close>

record Timer =
  t_id :: nat
  t_item :: NamespacedName

text \<open>
  Where a timer function is: before the check of the stop channel, before \<open>queue.Add\<close>, before
  the metric update, before the deletion of the map entry, before the deferred \<open>Done\<close>.
\<close>

datatype cb_pc = CbStart | CbChecked | CbAdded | CbMeasured | CbDeleted

record 'q DebouncedQueueImpl =
  dq_queue :: 'q
  debounceTimers :: "(NamespacedName, Timer) fmap"
  armedTimers :: "Timer fset"
  callbacks :: "(NamespacedName \<times> cb_pc) list"
  debounceWg :: int
  dq_stopped :: bool
  nextTimer :: nat
  dq_metrics :: "metric_call list"

definition NewDebouncedQueue :: "'q \<Rightarrow> 'q DebouncedQueueImpl" where
  "NewDebouncedQueue q =
     \<lparr>dq_queue = q, debounceTimers = fmempty, armedTimers = {||}, callbacks = [], debounceWg = 0,
      dq_stopped = False, nextTimer = 0, dq_metrics = []\<rparr>"

section \<open>Operations\<close>

text \<open>
  \<open>updateQueueSizeMetric\<close> is one step: its check of the stop channel and its call on the gauge are
  under a mutex of their own.  \<open>ShutDown\<close> sets the gauge without that mutex; what follows
  is the subject of \<open>Queue_Gauge\<close>.  \<open>dq_metrics\<close> are the calls made so far.
\<close>

definition isShutDown :: "'q DebouncedQueueImpl \<Rightarrow> bool" where
  "isShutDown dq = dq_stopped dq"

definition updateQueueSizeMetric :: "'q workqueue_lib \<Rightarrow> 'q DebouncedQueueImpl \<Rightarrow> 'q DebouncedQueueImpl" where
  "updateQueueSizeMetric W dq =
     (if isShutDown dq then dq
      else dq\<lparr>dq_metrics := dq_metrics dq @ SetQueueSize (int (wq_Len W (dq_queue dq)))\<rparr>)"

text \<open>
  \<open>timer.Reset\<close> schedules the function again, whether the timer is still armed or has fired;
  \<open>time.AfterFunc\<close> makes a new timer.
\<close>

definition dq_Add :: "NamespacedName \<Rightarrow> 'q DebouncedQueueImpl \<Rightarrow> 'q DebouncedQueueImpl" where
  "dq_Add item dq =
     (if isShutDown dq then dq
      else case fmlookup (debounceTimers dq) item of
        Some timer \<Rightarrow> dq\<lparr>armedTimers := finsert timer (armedTimers dq)\<rparr>
      | None \<Rightarrow>
          (let timer = \<lparr>t_id = nextTimer dq, t_item = item\<rparr>
           in dq\<lparr>debounceWg := debounceWg dq + 1,
                 debounceTimers := fmupd item timer (debounceTimers dq),
                 armedTimers := finsert timer (armedTimers dq),
                 nextTimer := Suc (nextTimer dq)\<rparr>))"

definition remove_at :: "nat \<Rightarrow> 'a list \<Rightarrow> 'a list" where
  "remove_at n xs = take n xs @ drop (Suc n) xs"

definition fire_timer :: "Timer \<Rightarrow> 'q DebouncedQueueImpl \<Rightarrow> 'q DebouncedQueueImpl" where
  "fire_timer t dq =
     dq\<lparr>armedTimers := armedTimers dq |-| {|t|}, callbacks := callbacks dq @ [(t_item t, CbStart)]\<rparr>"

text \<open>The next action of the \<open>n\<close>-th running timer function.\<close>

definition callback_step ::
  "'q workqueue_lib \<Rightarrow> nat \<Rightarrow> 'q DebouncedQueueImpl \<Rightarrow> 'q DebouncedQueueImpl" where
  "callback_step W n dq =
     (let (item, pc) = callbacks dq ! n
      in case pc of
        CbStart \<Rightarrow>
          dq\<lparr>callbacks := (callbacks dq)[n := (item, if isShutDown dq then CbDeleted else CbChecked)]\<rparr>
      | CbChecked \<Rightarrow>
          dq\<lparr>dq_queue := wq_Add W item (dq_queue dq), callbacks := (callbacks dq)[n := (item, CbAdded)]\<rparr>
      | CbAdded \<Rightarrow>
          (updateQueueSizeMetric W dq)\<lparr>callbacks := (callbacks dq)[n := (item, CbMeasured)]\<rparr>
      | CbMeasured \<Rightarrow>
          dq\<lparr>debounceTimers := fmdrop item (debounceTimers dq),
             callbacks := (callbacks dq)[n := (item, CbDeleted)]\<rparr>
      | CbDeleted \<Rightarrow>
          dq\<lparr>callbacks := remove_at n (callbacks dq),
             debounceWg := debounceWg dq - 1\<rparr>)"

definition dq_Get ::
  "'q workqueue_lib \<Rightarrow> 'q DebouncedQueueImpl \<Rightarrow> (NamespacedName \<times> 'q DebouncedQueueImpl) option" where
  "dq_Get W dq =
     (case wq_Get W (dq_queue dq) of Some (k, q) \<Rightarrow> Some (k, dq\<lparr>dq_queue := q\<rparr>) | None \<Rightarrow> None)"

definition dq_Done :: "'q workqueue_lib \<Rightarrow> NamespacedName \<Rightarrow> 'q DebouncedQueueImpl \<Rightarrow> 'q DebouncedQueueImpl" where
  "dq_Done W item dq = updateQueueSizeMetric W (dq\<lparr>dq_queue := wq_Done W item (dq_queue dq)\<rparr>)"

definition AddWithRetry ::
  "'q workqueue_lib \<Rightarrow> NamespacedName \<Rightarrow> 'q DebouncedQueueImpl \<Rightarrow> 'q DebouncedQueueImpl" where
  "AddWithRetry W item dq =
     (if isShutDown dq then dq
      else updateQueueSizeMetric W (dq\<lparr>dq_queue := wq_AddRateLimited W item (dq_queue dq)\<rparr>))"

definition ForgetRetries ::
  "'q workqueue_lib \<Rightarrow> NamespacedName \<Rightarrow> 'q DebouncedQueueImpl \<Rightarrow> 'q DebouncedQueueImpl" where
  "ForgetRetries W item dq = dq\<lparr>dq_queue := wq_Forget W item (dq_queue dq)\<rparr>"

definition GetRetryCount :: "'q workqueue_lib \<Rightarrow> NamespacedName \<Rightarrow> 'q DebouncedQueueImpl \<Rightarrow> nat" where
  "GetRetryCount W item dq = wq_NumRequeues W item (dq_queue dq)"

definition dq_Len :: "'q workqueue_lib \<Rightarrow> 'q DebouncedQueueImpl \<Rightarrow> nat" where
  "dq_Len W dq = wq_Len W (dq_queue dq)"

text \<open>
  The two waits do not change the state; these are the conditions under which they return.
  \<open>WaitForCompletion\<close> first waits as \<open>WaitForUpdates\<close>, then polls.
\<close>

definition WaitForUpdates_returns :: "'q DebouncedQueueImpl \<Rightarrow> bool" where
  "WaitForUpdates_returns dq \<longleftrightarrow> debounceWg dq = 0"

definition WaitForCompletion_polls_out :: "'q workqueue_lib \<Rightarrow> 'q DebouncedQueueImpl \<Rightarrow> bool" where
  "WaitForCompletion_polls_out W dq \<longleftrightarrow> wq_Len W (dq_queue dq) = 0 \<or> isShutDown dq"

definition dq_ShutDown :: "'q workqueue_lib \<Rightarrow> 'q DebouncedQueueImpl \<Rightarrow> 'q DebouncedQueueImpl" where
  "dq_ShutDown W dq =
     dq\<lparr>armedTimers := armedTimers dq |-| fmran (debounceTimers dq),
        debounceTimers := fmempty, dq_stopped := True, dq_queue := wq_ShutDown W (dq_queue dq),
        dq_metrics := dq_metrics dq @ SetQueueSize 0\<rparr>"

lemma isShutDown_stopped [simp]: "isShutDown dq = dq_stopped dq"
  by (simp add: isShutDown_def)

lemma updateQueueSizeMetric_fields [simp]:
  "dq_queue (updateQueueSizeMetric W dq) = dq_queue dq"
  "debounceTimers (updateQueueSizeMetric W dq) = debounceTimers dq"
  "armedTimers (updateQueueSizeMetric W dq) = armedTimers dq"
  "callbacks (updateQueueSizeMetric W dq) = callbacks dq"
  "debounceWg (updateQueueSizeMetric W dq) = debounceWg dq"
  "dq_stopped (updateQueueSizeMetric W dq) = dq_stopped dq"
  "nextTimer (updateQueueSizeMetric W dq) = nextTimer dq"
  by (simp_all add: updateQueueSizeMetric_def)

section \<open>Steps and runs\<close>

datatype dq_label =
    LAdd NamespacedName
  | LFire Timer
  | LCallback nat
  | LGet NamespacedName
  | LDone NamespacedName
  | LRetry NamespacedName
  | LForget NamespacedName
  | LDeliver NamespacedName
  | LShutDown

inductive dq_step ::
  "'q workqueue_lib \<Rightarrow> 'q DebouncedQueueImpl \<Rightarrow> dq_label \<Rightarrow> 'q DebouncedQueueImpl \<Rightarrow> bool"
  for W :: "'q workqueue_lib" where
  step_add: "dq_step W s (LAdd k) (dq_Add k s)"
| step_fire: "t |\<in>| armedTimers s \<Longrightarrow> dq_step W s (LFire t) (fire_timer t s)"
| step_callback: "n < length (callbacks s) \<Longrightarrow> dq_step W s (LCallback n) (callback_step W n s)"
| step_get: "dq_Get W s = Some (k, s') \<Longrightarrow> dq_step W s (LGet k) s'"
| step_done: "dq_step W s (LDone k) (dq_Done W k s)"
| step_retry: "dq_step W s (LRetry k) (AddWithRetry W k s)"
| step_forget: "dq_step W s (LForget k) (ForgetRetries W k s)"
| step_deliver: "wq_Deliver W k (dq_queue s) = Some q \<Longrightarrow> dq_step W s (LDeliver k) (s\<lparr>dq_queue := q\<rparr>)"
| step_shutdown: "dq_step W s LShutDown (dq_ShutDown W s)"

inductive_cases dq_stepE: "dq_step W s l s'"
inductive_simps dq_step_simps:
  "dq_step W s (LAdd k) s'" "dq_step W s (LFire t) s'" "dq_step W s (LCallback n) s'"
  "dq_step W s (LGet k) s'" "dq_step W s (LDone k) s'" "dq_step W s (LRetry k) s'"
  "dq_step W s (LForget k) s'" "dq_step W s (LDeliver k) s'" "dq_step W s LShutDown s'"

inductive dq_run ::
  "'q workqueue_lib \<Rightarrow> 'q DebouncedQueueImpl \<Rightarrow> dq_label list \<Rightarrow> 'q DebouncedQueueImpl \<Rightarrow> bool"
  for W :: "'q workqueue_lib" where
  run_nil: "dq_run W s [] s"
| run_step: "dq_step W s l s' \<Longrightarrow> dq_run W s' ls s'' \<Longrightarrow> dq_run W s (l # ls) s''"

text \<open>The steps computed, for evaluating runs.\<close>

fun dq_exec :: "'q workqueue_lib \<Rightarrow> dq_label \<Rightarrow> 'q DebouncedQueueImpl \<Rightarrow> 'q DebouncedQueueImpl option" where
  "dq_exec W (LAdd k) s = Some (dq_Add k s)"
| "dq_exec W (LFire t) s = (if t |\<in>| armedTimers s then Some (fire_timer t s) else None)"
| "dq_exec W (LCallback n) s = (if n < length (callbacks s) then Some (callback_step W n s) else None)"
| "dq_exec W (LGet k) s =
     (case dq_Get W s of Some (k', s') \<Rightarrow> if k' = k then Some s' else None | None \<Rightarrow> None)"
| "dq_exec W (LDone k) s = Some (dq_Done W k s)"
| "dq_exec W (LRetry k) s = Some (AddWithRetry W k s)"
| "dq_exec W (LForget k) s = Some (ForgetRetries W k s)"
| "dq_exec W (LDeliver k) s = map_option (\<lambda>q. s\<lparr>dq_queue := q\<rparr>) (wq_Deliver W k (dq_queue s))"
| "dq_exec W LShutDown s = Some (dq_ShutDown W s)"

lemma dq_step_exec: "dq_step W s l s' \<longleftrightarrow> dq_exec W l s = Some s'"
  by (cases l) (auto simp: dq_step_simps split: option.splits)

fun dq_execs :: "'q workqueue_lib \<Rightarrow> dq_label list \<Rightarrow> 'q DebouncedQueueImpl \<Rightarrow> 'q DebouncedQueueImpl option" where
  "dq_execs W [] s = Some s"
| "dq_execs W (l # ls) s = (case dq_exec W l s of Some s' \<Rightarrow> dq_execs W ls s' | None \<Rightarrow> None)"

lemma dq_run_Cons: "dq_run W s (l # ls) s'' \<longleftrightarrow> (\<exists>s'. dq_step W s l s' \<and> dq_run W s' ls s'')"
  by (metis dq_run.cases dq_run.intros(2) list.inject list.distinct(1))

lemma dq_run_Nil [simp]: "dq_run W s [] s' \<longleftrightarrow> s' = s"
  by (metis dq_run.cases dq_run.intros(1) list.distinct(1))

lemma dq_run_exec: "dq_run W s ls s' \<longleftrightarrow> dq_execs W ls s = Some s'"
  by (induction ls arbitrary: s) (auto simp: dq_run_Cons dq_step_exec split: option.splits)

section \<open>Invariants\<close>

text \<open>A timer in the map is filed under the item it captured, and is numbered below the next.\<close>

definition dq_wf :: "'q DebouncedQueueImpl \<Rightarrow> bool" where
  "dq_wf s \<longleftrightarrow>
     (\<forall>k t. fmlookup (debounceTimers s) k = Some t \<longrightarrow> t_item t = k \<and> t_id t < nextTimer s) \<and>
     (\<forall>t. t |\<in>| armedTimers s \<longrightarrow> t_id t < nextTimer s)"

lemma dq_wf_New: "dq_wf (NewDebouncedQueue q)"
  by (simp add: dq_wf_def NewDebouncedQueue_def)

lemma dq_step_wf: "dq_step W s l s' \<Longrightarrow> dq_wf s \<Longrightarrow> dq_wf s'"
  by (induction rule: dq_step.induct)
    (auto simp: dq_wf_def dq_Add_def fire_timer_def callback_step_def dq_Get_def dq_Done_def AddWithRetry_def
      ForgetRetries_def dq_ShutDown_def Let_def less_SucI
      split: option.splits prod.splits cb_pc.splits if_splits)

lemma dq_run_wf: "dq_run W s ls s' \<Longrightarrow> dq_wf s \<Longrightarrow> dq_wf s'"
  by (induction rule: dq_run.induct) (auto intro: dq_step_wf)

text \<open>
  The wait group counts the armed timers and the running functions, but for two kinds of steps:
  \<open>rearms\<close> counts the resets of a timer that had already fired, after which its function runs a
  second time for one \<open>Add(1)\<close>; \<open>stops\<close> counts the timers a shutdown disarms, whose function
  will never call \<open>Done\<close>.
\<close>

definition rearms :: "'q DebouncedQueueImpl \<Rightarrow> dq_label \<Rightarrow> int" where
  "rearms s l =
     (case l of LAdd k \<Rightarrow>
        (if dq_stopped s then 0
         else case fmlookup (debounceTimers s) k of
           Some t \<Rightarrow> if t |\<in>| armedTimers s then 0 else 1 | None \<Rightarrow> 0)
      | _ \<Rightarrow> 0)"

definition stops :: "'q DebouncedQueueImpl \<Rightarrow> dq_label \<Rightarrow> int" where
  "stops s l = (case l of LShutDown \<Rightarrow> int (fcard (armedTimers s |\<inter>| fmran (debounceTimers s))) | _ \<Rightarrow> 0)"

definition wg_drift :: "'q DebouncedQueueImpl \<Rightarrow> int" where
  "wg_drift s = debounceWg s - int (fcard (armedTimers s)) - int (length (callbacks s))"

lemma fcard_minus: "int (fcard (A |-| B)) = int (fcard A) - int (fcard (A |\<inter>| B))"
  by (simp add: fcard.rep_eq card_Diff_subset_Int of_nat_diff card_mono)

lemma dq_step_drift:
  assumes "dq_step W s l s'" "dq_wf s"
  shows "wg_drift s' = wg_drift s - rearms s l + stops s l"
  using assms
proof (cases rule: dq_step.cases)
  case (step_add k)
  have fresh: "\<lparr>t_id = nextTimer s, t_item = k\<rparr> |\<notin>| armedTimers s"
    using assms(2) by (auto simp: dq_wf_def)
  show ?thesis
    using fresh by (auto simp: step_add dq_Add_def wg_drift_def rearms_def stops_def Let_def fcard_finsert_if
        split: option.splits)
next
  case (step_fire t)
  then have "fcard (armedTimers s) = Suc (fcard (armedTimers s |-| {|t|}))"
    by (metis finsert_fminus fcard_finsert_disjoint fminus_iff finsertI1)
  then show ?thesis by (simp add: step_fire fire_timer_def wg_drift_def rearms_def stops_def)
next
  case (step_callback n)
  then show ?thesis
    by (auto simp: callback_step_def wg_drift_def rearms_def stops_def remove_at_def split: prod.splits cb_pc.splits)
next
  case step_shutdown
  then show ?thesis
    by (simp add: dq_ShutDown_def wg_drift_def rearms_def stops_def fcard_minus)
qed (auto simp: wg_drift_def rearms_def stops_def dq_Get_def dq_Done_def AddWithRetry_def ForgetRetries_def
    split: option.splits prod.splits)

section \<open>Owed items\<close>

text \<open>
  An item is owed when it will reach the worker: its timer is armed, its timer function has not
  yet handed it to the work queue, or it waits there.
\<close>

definition owed :: "'q workqueue_lib \<Rightarrow> NamespacedName \<Rightarrow> 'q DebouncedQueueImpl \<Rightarrow> bool" where
  "owed W k s \<longleftrightarrow>
     (\<exists>t. t |\<in>| armedTimers s \<and> t_item t = k) \<or>
     (k, CbStart) \<in> set (callbacks s) \<or> (k, CbChecked) \<in> set (callbacks s) \<or>
     k |\<in>| wq_pending W (dq_queue s)"

definition dq_open :: "'q workqueue_lib \<Rightarrow> 'q DebouncedQueueImpl \<Rightarrow> bool" where
  "dq_open W s \<longleftrightarrow> \<not> dq_stopped s \<and> \<not> wq_shutting_down W (dq_queue s)"

lemma Add_owes: "\<not> dq_stopped s \<Longrightarrow> dq_wf s \<Longrightarrow> owed W k (dq_Add k s)"
  by (auto simp: owed_def dq_Add_def dq_wf_def Let_def split: option.splits)

lemma set_update_keep: "x \<in> set xs \<Longrightarrow> n < length xs \<Longrightarrow> x \<noteq> xs ! n \<Longrightarrow> x \<in> set (xs[n := y])"
  by (metis in_set_conv_nth length_list_update nth_list_update_neq)

lemma set_remove_keep: "x \<in> set xs \<Longrightarrow> n < length xs \<Longrightarrow> x \<noteq> xs ! n \<Longrightarrow> x \<in> set (remove_at n xs)"
  unfolding remove_at_def by (metis Un_iff id_take_nth_drop insert_iff list.simps(15) set_append)

context workqueue
begin

lemma step_open:
  assumes "dq_step W s l s'" "dq_open W s" "l \<noteq> LShutDown"
  shows "dq_open W s'"
  using assms
  by (cases rule: dq_step.cases)
    (auto simp: dq_open_def dq_Add_def fire_timer_def callback_step_def dq_Get_def dq_Done_def AddWithRetry_def
      ForgetRetries_def Let_def add_frame done_item retry_frame forget
      split: option.splits prod.splits cb_pc.splits dest: get_item deliver_pending)

lemma callback_owed:
  assumes "n < length (callbacks s)" "owed W k s" "dq_open W s"
  shows "owed W k (callback_step W n s)"
proof -
  obtain item pc where c: "callbacks s ! n = (item, pc)" by (cases "callbacks s ! n") auto
  have keep: "(k, p) \<in> set ((callbacks s)[n := y])" if "(k, p) \<in> set (callbacks s)" "(k, p) \<noteq> (item, pc)" for p y
    using that assms(1) c by (simp add: set_update_keep)
  have new: "y \<in> set ((callbacks s)[n := y])" for y
    using assms(1) by (simp add: set_update_memI)
  have gone: "(k, p) \<in> set (remove_at n (callbacks s))"
    if "(k, p) \<in> set (callbacks s)" "(k, p) \<noteq> (item, pc)" for p
    using that assms(1) c by (simp add: set_remove_keep)
  show ?thesis
    using assms(2,3)
    by (cases pc; cases "item = k")
      (auto simp: owed_def callback_step_def c dq_open_def add_open intro: keep new gone)
qed

lemma step_owed:
  assumes "dq_step W s l s'" "owed W k s" "dq_open W s" "l \<noteq> LShutDown" "l \<noteq> LGet k"
  shows "owed W k s'"
  using assms(1)
proof (cases rule: dq_step.cases)
  case (step_callback n)
  then show ?thesis using callback_owed assms(2,3) by simp
next
  case (step_get k')
  then show ?thesis
    using assms(2,5) by (auto simp: dq_Get_def owed_def split: option.splits dest!: get_item)
next
  case (step_retry k')
  then show ?thesis using assms(2) retry_pending(1) by (auto simp: owed_def AddWithRetry_def)
next
  case (step_deliver k' q)
  then show ?thesis using assms(2,3) by (auto simp: owed_def dq_open_def dest: deliver_pending)
qed (use assms in \<open>auto simp: owed_def dq_Add_def fire_timer_def dq_Done_def ForgetRetries_def done_item forget Let_def
    split: option.splits\<close>)

lemma run_owed:
  "dq_run W s ls s' \<Longrightarrow> owed W k s \<Longrightarrow> dq_open W s \<Longrightarrow> LShutDown \<notin> set ls \<Longrightarrow> LGet k \<notin> set ls \<Longrightarrow> owed W k s'"
  by (induction rule: dq_run.induct) (auto intro: step_owed step_open)

lemma step_shut:
  assumes "dq_step W s l s'" "dq_stopped s" "wq_shutting_down W (dq_queue s)"
  shows "dq_stopped s' \<and> wq_shutting_down W (dq_queue s') \<and>
    wq_pending W (dq_queue s') |\<subseteq>| wq_pending W (dq_queue s)"
  using assms(1)
proof (cases rule: dq_step.cases)
  case (step_callback n)
  with assms(2,3) show ?thesis
    by (auto simp: callback_step_def add_shut add_frame split: prod.splits cb_pc.splits)
next
  case (step_get k)
  with assms(2,3) show ?thesis by (auto simp: dq_Get_def split: option.splits dest: get_item)
next
  case (step_deliver k q)
  with assms(2,3) show ?thesis by (auto dest: deliver_pending)
qed (use assms(2,3) in \<open>simp_all add: dq_Add_def fire_timer_def dq_Done_def AddWithRetry_def ForgetRetries_def
    dq_ShutDown_def done_item forget shut\<close>)

lemma run_shut:
  "dq_run W s ls s' \<Longrightarrow> dq_stopped s \<Longrightarrow> wq_shutting_down W (dq_queue s) \<Longrightarrow>
     wq_pending W (dq_queue s') |\<subseteq>| wq_pending W (dq_queue s)"
proof (induction rule: dq_run.induct)
  case (run_step s l s' ls s'')
  from step_shut [OF run_step.hyps(1) run_step.prems] run_step.IH show ?case by blast
qed simp

end

section \<open>Timer functions end\<close>

fun pc_left :: "cb_pc \<Rightarrow> nat" where
  "pc_left CbStart = 5" | "pc_left CbChecked = 4" | "pc_left CbAdded = 3"
| "pc_left CbMeasured = 2" | "pc_left CbDeleted = 1"

definition timer_work :: "'q DebouncedQueueImpl \<Rightarrow> nat" where
  "timer_work s = 6 * fcard (armedTimers s) + sum_list (map (pc_left \<circ> snd) (callbacks s))"

fun internal :: "dq_label \<Rightarrow> bool" where
  "internal (LFire t) = True"
| "internal (LCallback n) = True"
| "internal _ = False"

lemma sum_list_update_less:
  fixes f :: "'a \<Rightarrow> nat"
  assumes "n < length xs" "f y < f (xs ! n)"
  shows "sum_list (map f (xs[n := y])) < sum_list (map f xs)"
proof -
  have "sum_list (map f xs) = sum_list (map f (take n xs)) + f (xs ! n) + sum_list (map f (drop (Suc n) xs))"
    using id_take_nth_drop [OF assms(1)] by (metis add.assoc list.simps(9) map_append sum_list.Cons sum_list_append)
  with assms show ?thesis by (simp add: upd_conv_take_nth_drop)
qed

lemma sum_list_remove_less:
  fixes f :: "'a \<Rightarrow> nat"
  assumes "n < length xs" "0 < f (xs ! n)"
  shows "sum_list (map f (remove_at n xs)) < sum_list (map f xs)"
proof -
  have "sum_list (map f xs) = sum_list (map f (take n xs)) + f (xs ! n) + sum_list (map f (drop (Suc n) xs))"
    using id_take_nth_drop [OF assms(1)] by (metis add.assoc list.simps(9) map_append sum_list.Cons sum_list_append)
  with assms(2) show ?thesis by (simp add: remove_at_def)
qed

lemma internal_step_works:
  assumes "dq_step W s l s'" "internal l"
  shows "timer_work s' < timer_work s"
  using assms(1)
proof (cases rule: dq_step.cases)
  case (step_fire t)
  then have "fcard (armedTimers s) = Suc (fcard (armedTimers s |-| {|t|}))"
    by (metis finsert_fminus fcard_finsert_disjoint fminus_iff finsertI1)
  then show ?thesis by (simp add: step_fire fire_timer_def timer_work_def)
next
  case (step_callback n)
  obtain item pc where c: "callbacks s ! n = (item, pc)" by (cases "callbacks s ! n") auto
  have upd: "sum_list (map (pc_left \<circ> snd) ((callbacks s)[n := (item, pc')])) <
      sum_list (map (pc_left \<circ> snd) (callbacks s))" if "pc_left pc' < pc_left pc" for pc'
    using that step_callback(3) c by (intro sum_list_update_less) auto
  have del: "sum_list (map (pc_left \<circ> snd) (remove_at n (callbacks s))) <
      sum_list (map (pc_left \<circ> snd) (callbacks s))"
    using step_callback(3) c by (intro sum_list_remove_less) (auto, cases pc, auto)
  show ?thesis
    unfolding step_callback(2)
    by (cases pc) (use upd [of CbDeleted] upd [of CbChecked] upd [of CbAdded] upd [of CbMeasured] del in
      \<open>auto simp: callback_step_def c timer_work_def\<close>)
qed (use assms(2) in auto)

lemma internal_run_bounded:
  "dq_run W s ls s' \<Longrightarrow> list_all internal ls \<Longrightarrow> length ls + timer_work s' \<le> timer_work s"
proof (induction rule: dq_run.induct)
  case (run_step s l s' ls s'')
  then have "timer_work s' < timer_work s" by (simp add: internal_step_works)
  with run_step show ?case by simp
qed simp

end
