(* ===== verification/Tracker_Machine.thy ===== *)
theory Tracker_Machine
  imports Status_Update Debounced_Queue
begin

text \<open>
  The tracker with its goroutines, as one state machine: the methods the controllers and the
  webhook call, the goroutine that seeds existing pods, the worker (\<open>asyncUpdateWorker\<close>,
  \<open>processNextUpdate\<close>), the timers of the debounced queue, and \<open>Stop\<close>.  A step is what a
  goroutine does between two points where others can run: one locked section of the tracker, one
  call on the queue or on the API server.  The API server is the status of each object, with the
  watch events not yet handled.
\<close>

section \<open>State\<close>

text \<open>
  The worker is before its \<open>select\<close>, before \<open>queue.Get\<close>, before \<open>client.Get\<close>, before the lock
  (with what \<open>client.Get\<close> returned), after \<open>doUpdateStatus\<close> (with whether it failed), before the
  deferred \<open>queue.Done\<close>, or has returned.  \<open>Stop\<close> is not called, waits for the timers, is before
  \<open>close(stopCh)\<close>, before \<open>queue.ShutDown\<close>, before \<open>wg.Wait\<close>, or has returned.
\<close>

datatype worker_pc =
    WSelect
  | WGet
  | WTaken NamespacedName
  | WRead NamespacedName "ModelValidation client_result"
  | WUpdated NamespacedName bool
  | WConcluded NamespacedName
  | WExited

datatype stop_pc = NotStopped | StopWaiting | StopClosing | StopShutting | StopJoining | StopReturned

text \<open>
  \<open>mc_adding\<close> are the calls of \<open>queue.Add\<close> still to be made by methods that have changed the
  state.  \<open>AddModelValidation\<close> makes its call after unlocking, the others before; that the others
  may be delayed too only adds interleavings.  \<open>mc_seeding\<close> are the seeding goroutines, before
  the list call or with the pods left.  \<open>mc_events\<close> are the objects with a change of which no
  reconcile has run yet.
\<close>

record 'q Machine =
  mc_tracker :: StatusTrackerImpl
  mc_queue :: "'q DebouncedQueueImpl"
  mc_worker :: worker_pc
  mc_stop :: stop_pc
  mc_stopCh :: bool
  mc_adding :: "NamespacedName list"
  mc_seeding :: "(NamespacedName \<times> Pod list option) list"
  mc_metrics :: "metric_call list"
  mc_status :: "(NamespacedName, ModelValidationStatus) fmap"
  mc_events :: "NamespacedName fset"

definition start_machine :: "'q \<Rightarrow> (NamespacedName, ModelValidationStatus) fmap \<Rightarrow> 'q Machine" where
  "start_machine q statuses =
     \<lparr>mc_tracker = NewStatusTracker, mc_queue = NewDebouncedQueue q, mc_worker = WSelect,
      mc_stop = NotStopped, mc_stopCh = False, mc_adding = [], mc_seeding = [], mc_metrics = [],
      mc_status = statuses, mc_events = {||}\<rparr>"

section \<open>Actions\<close>

definition queue_adds :: "effect list \<Rightarrow> NamespacedName list" where
  "queue_adds effs = concat (map (\<lambda>e. case e of QueueAdd k \<Rightarrow> [k] | _ \<Rightarrow> []) effs)"

definition spawned :: "effect list \<Rightarrow> NamespacedName list" where
  "spawned effs = concat (map (\<lambda>e. case e of SpawnSeed k \<Rightarrow> [k] | _ \<Rightarrow> []) effs)"

lemma queue_adds_simps [simp]:
  "queue_adds [] = []" "queue_adds (xs @ ys) = queue_adds xs @ queue_adds ys" "queue_adds (recorded cs) = []"
  "queue_adds (QueueAdd k # es) = k # queue_adds es" "queue_adds (SpawnSeed k # es) = queue_adds es"
  by (auto simp: queue_adds_def)

lemma spawned_simps [simp]:
  "spawned [] = []" "spawned (xs @ ys) = spawned xs @ spawned ys" "spawned (recorded cs) = []"
  "spawned (QueueAdd k # es) = spawned es" "spawned (SpawnSeed k # es) = k # spawned es"
  by (auto simp: spawned_def)

definition perform :: "finalizer_lib \<Rightarrow> tracker_op \<Rightarrow> 'q Machine \<Rightarrow> 'q Machine" where
  "perform F op m =
     (let (st, effs) = exec_op F op (mc_tracker m)
      in m\<lparr>mc_tracker := st, mc_adding := mc_adding m @ queue_adds effs,
           mc_seeding := mc_seeding m @ map (\<lambda>k. (k, None)) (spawned effs),
           mc_metrics := mc_metrics m @ metric_calls effs\<rparr>)"

text \<open>The methods other goroutines call; the seeding and the worker have steps of their own.\<close>

fun handler_op :: "tracker_op \<Rightarrow> bool" where
  "handler_op (SeedPod pod k) = False"
| "handler_op (WorkerUpdate E k shutdown got) = False"
| "handler_op _ = True"

fun reconciles :: "tracker_op \<Rightarrow> NamespacedName fset" where
  "reconciles (AddMV ord mv) = {|mv_key mv|}"
| "reconciles (RemoveMV ord k) = {|k|}"
| "reconciles _ = {||}"

text \<open>
  \<open>latest\<close> tells whether the reconcile that makes the call read the last change of its object;
  else an event of the object is still to be handled.
\<close>

definition handle_op :: "finalizer_lib \<Rightarrow> tracker_op \<Rightarrow> bool \<Rightarrow> 'q Machine \<Rightarrow> 'q Machine" where
  "handle_op F op latest m =
     (perform F op m)\<lparr>mc_events := (if latest then mc_events m |-| reconciles op else mc_events m)\<rparr>"

definition queue_add :: "nat \<Rightarrow> 'q Machine \<Rightarrow> 'q Machine" where
  "queue_add n m =
     m\<lparr>mc_queue := dq_Add (mc_adding m ! n) (mc_queue m), mc_adding := remove_at n (mc_adding m)\<rparr>"

definition seed_list :: "nat \<Rightarrow> Pod list client_result \<Rightarrow> 'q Machine \<Rightarrow> 'q Machine" where
  "seed_list n listed m =
     (case listed of
        Inl err \<Rightarrow> m\<lparr>mc_seeding := remove_at n (mc_seeding m)\<rparr>
      | Inr pods \<Rightarrow> m\<lparr>mc_seeding := (mc_seeding m)[n := (fst (mc_seeding m ! n), Some pods)]\<rparr>)"

fun seed_next :: "finalizer_lib \<Rightarrow> nat \<Rightarrow> NamespacedName \<times> Pod list option \<Rightarrow> 'q Machine \<Rightarrow> 'q Machine" where
  "seed_next F n (k, Some (pod # pods)) m =
     perform F (SeedPod pod k) (m\<lparr>mc_seeding := (mc_seeding m)[n := (k, Some pods)]\<rparr>)"
| "seed_next F n (k, _) m = m\<lparr>mc_seeding := remove_at n (mc_seeding m)\<rparr>"

definition change_object ::
  "NamespacedName \<Rightarrow> ModelValidationStatus option \<Rightarrow> 'q Machine \<Rightarrow> 'q Machine" where
  "change_object k s m =
     m\<lparr>mc_status := (case s of Some x \<Rightarrow> fmupd k x (mc_status m) | None \<Rightarrow> fmdrop k (mc_status m)),
       mc_events := finsert k (mc_events m)\<rparr>"

text \<open>
  \<open>doUpdateStatus\<close> after \<open>client.Get\<close> is one step, at the moment it holds the tracker's lock:
  what follows depends on the tracker only through what it copied there.
\<close>

definition update_status ::
  "update_env \<Rightarrow> NamespacedName \<Rightarrow> ModelValidation client_result \<Rightarrow> 'q Machine \<Rightarrow> 'q Machine" where
  "update_status E k got m =
     (case doUpdateStatus E k got (mc_tracker m) of
        (err, written, st, effs) \<Rightarrow>
          (let m' = m\<lparr>mc_tracker := st, mc_worker := WUpdated k (err \<noteq> None),
                      mc_metrics := mc_metrics m @ metric_calls effs\<rparr>
           in case (err, written) of
                (None, Some w) \<Rightarrow> m'\<lparr>mc_status := fmupd k (mv_Status w) (mc_status m),
                                     mc_events := finsert k (mc_events m)\<rparr>
              | _ \<Rightarrow> m'))"

definition conclude :: "'q workqueue_lib \<Rightarrow> NamespacedName \<Rightarrow> bool \<Rightarrow> 'q Machine \<Rightarrow> 'q Machine" where
  "conclude W k failed m =
     (if failed
      then m\<lparr>mc_metrics := mc_metrics m @ RecordRetryAttempt (nn_Namespace k) (nn_Name k),
             mc_queue := AddWithRetry W k (mc_queue m), mc_worker := WConcluded k\<rparr>
      else m\<lparr>mc_queue := ForgetRetries W k (mc_queue m), mc_worker := WConcluded k\<rparr>)"

section \<open>Steps and runs\<close>

datatype m_label =
    MOp tracker_op bool
  | MAdd nat
  | MSeedList nat "Pod list client_result"
  | MSeedPod nat
  | MObject NamespacedName "ModelValidationStatus option"
  | MQueue dq_label
  | MSelect
  | MGet NamespacedName
  | MGetShutdown
  | MRead "ModelValidation client_result"
  | MUpdate update_env
  | MConclude
  | MDone
  | MStop
  | MStopWaited
  | MStopClose
  | MStopShutDown
  | MStopReturn

text \<open>The steps the queue takes on its own: timers, their functions, delayed retries.\<close>

fun queue_own :: "dq_label \<Rightarrow> bool" where
  "queue_own (LFire t) = True"
| "queue_own (LCallback n) = True"
| "queue_own (LDeliver k) = True"
| "queue_own _ = False"

inductive m_step ::
  "'q workqueue_lib \<Rightarrow> finalizer_lib \<Rightarrow> 'q Machine \<Rightarrow> m_label \<Rightarrow> 'q Machine \<Rightarrow> bool"
  for W :: "'q workqueue_lib" and F :: finalizer_lib where
  m_op: "handler_op op \<Longrightarrow> m_step W F m (MOp op latest) (handle_op F op latest m)"
| m_add: "n < length (mc_adding m) \<Longrightarrow> m_step W F m (MAdd n) (queue_add n m)"
| m_seed_list: "n < length (mc_seeding m) \<Longrightarrow> snd (mc_seeding m ! n) = None \<Longrightarrow>
    m_step W F m (MSeedList n listed) (seed_list n listed m)"
| m_seed_pod: "n < length (mc_seeding m) \<Longrightarrow> snd (mc_seeding m ! n) \<noteq> None \<Longrightarrow>
    m_step W F m (MSeedPod n) (seed_next F n (mc_seeding m ! n) m)"
| m_object: "m_step W F m (MObject k s) (change_object k s m)"
| m_queue: "queue_own l \<Longrightarrow> dq_step W (mc_queue m) l q \<Longrightarrow> m_step W F m (MQueue l) (m\<lparr>mc_queue := q\<rparr>)"
| m_select: "mc_worker m = WSelect \<Longrightarrow>
    m_step W F m MSelect (m\<lparr>mc_worker := (if mc_stopCh m then WExited else WGet)\<rparr>)"
| m_get: "mc_worker m = WGet \<Longrightarrow> dq_Get W (mc_queue m) = Some (k, q) \<Longrightarrow>
    m_step W F m (MGet k) (m\<lparr>mc_queue := q, mc_worker := WTaken k\<rparr>)"
| m_get_shutdown: "mc_worker m = WGet \<Longrightarrow> dq_Get W (mc_queue m) = None \<Longrightarrow>
    wq_shutting_down W (dq_queue (mc_queue m)) \<Longrightarrow> m_step W F m MGetShutdown (m\<lparr>mc_worker := WSelect\<rparr>)"
| m_read: "mc_worker m = WTaken k \<Longrightarrow> m_step W F m (MRead got) (m\<lparr>mc_worker := WRead k got\<rparr>)"
| m_update: "mc_worker m = WRead k got \<Longrightarrow> m_step W F m (MUpdate E) (update_status E k got m)"
| m_conclude: "mc_worker m = WUpdated k failed \<Longrightarrow> m_step W F m MConclude (conclude W k failed m)"
| m_done: "mc_worker m = WConcluded k \<Longrightarrow>
    m_step W F m MDone (m\<lparr>mc_queue := dq_Done W k (mc_queue m), mc_worker := WSelect\<rparr>)"
| m_stop: "mc_stop m = NotStopped \<Longrightarrow> m_step W F m MStop (m\<lparr>mc_stop := StopWaiting\<rparr>)"
| m_stop_waited: "mc_stop m = StopWaiting \<Longrightarrow> WaitForUpdates_returns (mc_queue m) \<Longrightarrow>
    m_step W F m MStopWaited (m\<lparr>mc_stop := StopClosing\<rparr>)"
| m_stop_close: "mc_stop m = StopClosing \<Longrightarrow>
    m_step W F m MStopClose (m\<lparr>mc_stopCh := True, mc_stop := StopShutting\<rparr>)"
| m_stop_shutdown: "mc_stop m = StopShutting \<Longrightarrow>
    m_step W F m MStopShutDown (m\<lparr>mc_queue := dq_ShutDown W (mc_queue m), mc_stop := StopJoining\<rparr>)"
| m_stop_return: "mc_stop m = StopJoining \<Longrightarrow> mc_worker m = WExited \<Longrightarrow>
    m_step W F m MStopReturn (m\<lparr>mc_stop := StopReturned\<rparr>)"

inductive_simps m_step_simps:
  "m_step W F m (MOp op latest) m'" "m_step W F m (MAdd n) m'" "m_step W F m (MSeedList n listed) m'"
  "m_step W F m (MSeedPod n) m'" "m_step W F m (MObject k s) m'" "m_step W F m (MQueue l) m'"
  "m_step W F m MSelect m'" "m_step W F m (MGet k) m'" "m_step W F m MGetShutdown m'"
  "m_step W F m (MRead got) m'" "m_step W F m (MUpdate E) m'" "m_step W F m MConclude m'"
  "m_step W F m MDone m'" "m_step W F m MStop m'" "m_step W F m MStopWaited m'"
  "m_step W F m MStopClose m'" "m_step W F m MStopShutDown m'" "m_step W F m MStopReturn m'"

text \<open>The steps computed.\<close>

fun m_exec ::
  "'q workqueue_lib \<Rightarrow> finalizer_lib \<Rightarrow> m_label \<Rightarrow> 'q Machine \<Rightarrow> 'q Machine option" where
  "m_exec W F (MOp op latest) m = (if handler_op op then Some (handle_op F op latest m) else None)"
| "m_exec W F (MAdd n) m = (if n < length (mc_adding m) then Some (queue_add n m) else None)"
| "m_exec W F (MSeedList n listed) m =
     (if n < length (mc_seeding m) \<and> snd (mc_seeding m ! n) = None then Some (seed_list n listed m) else None)"
| "m_exec W F (MSeedPod n) m =
     (if n < length (mc_seeding m) \<and> snd (mc_seeding m ! n) \<noteq> None
      then Some (seed_next F n (mc_seeding m ! n) m) else None)"
| "m_exec W F (MObject k s) m = Some (change_object k s m)"
| "m_exec W F (MQueue l) m =
     (if queue_own l then map_option (\<lambda>q. m\<lparr>mc_queue := q\<rparr>) (dq_exec W l (mc_queue m)) else None)"
| "m_exec W F MSelect m =
     (case mc_worker m of
        WSelect \<Rightarrow> Some (m\<lparr>mc_worker := (if mc_stopCh m then WExited else WGet)\<rparr>) | _ \<Rightarrow> None)"
| "m_exec W F (MGet k) m =
     (case (mc_worker m, dq_Get W (mc_queue m)) of
        (WGet, Some (k', q)) \<Rightarrow> if k' = k then Some (m\<lparr>mc_queue := q, mc_worker := WTaken k\<rparr>) else None
      | _ \<Rightarrow> None)"
| "m_exec W F MGetShutdown m =
     (case (mc_worker m, dq_Get W (mc_queue m)) of
        (WGet, None) \<Rightarrow>
          if wq_shutting_down W (dq_queue (mc_queue m)) then Some (m\<lparr>mc_worker := WSelect\<rparr>) else None
      | _ \<Rightarrow> None)"
| "m_exec W F (MRead got) m =
     (case mc_worker m of WTaken k \<Rightarrow> Some (m\<lparr>mc_worker := WRead k got\<rparr>) | _ \<Rightarrow> None)"
| "m_exec W F (MUpdate E) m =
     (case mc_worker m of WRead k got \<Rightarrow> Some (update_status E k got m) | _ \<Rightarrow> None)"
| "m_exec W F MConclude m =
     (case mc_worker m of WUpdated k failed \<Rightarrow> Some (conclude W k failed m) | _ \<Rightarrow> None)"
| "m_exec W F MDone m =
     (case mc_worker m of
        WConcluded k \<Rightarrow> Some (m\<lparr>mc_queue := dq_Done W k (mc_queue m), mc_worker := WSelect\<rparr>) | _ \<Rightarrow> None)"
| "m_exec W F MStop m = (if mc_stop m = NotStopped then Some (m\<lparr>mc_stop := StopWaiting\<rparr>) else None)"
| "m_exec W F MStopWaited m =
     (if mc_stop m = StopWaiting \<and> WaitForUpdates_returns (mc_queue m)
      then Some (m\<lparr>mc_stop := StopClosing\<rparr>) else None)"
| "m_exec W F MStopClose m =
     (if mc_stop m = StopClosing then Some (m\<lparr>mc_stopCh := True, mc_stop := StopShutting\<rparr>) else None)"
| "m_exec W F MStopShutDown m =
     (if mc_stop m = StopShutting
      then Some (m\<lparr>mc_queue := dq_ShutDown W (mc_queue m), mc_stop := StopJoining\<rparr>) else None)"
| "m_exec W F MStopReturn m =
     (if mc_stop m = StopJoining \<and> mc_worker m = WExited then Some (m\<lparr>mc_stop := StopReturned\<rparr>) else None)"

lemma m_step_exec: "m_step W F m l m' \<longleftrightarrow> m_exec W F l m = Some m'"
  by (cases l) (auto simp: m_step_simps dq_step_exec split: worker_pc.splits option.splits prod.splits)

inductive m_run ::
  "'q workqueue_lib \<Rightarrow> finalizer_lib \<Rightarrow> 'q Machine \<Rightarrow> m_label list \<Rightarrow> 'q Machine \<Rightarrow> bool"
  for W :: "'q workqueue_lib" and F :: finalizer_lib where
  m_run_nil: "m_run W F m [] m"
| m_run_step: "m_step W F m l m' \<Longrightarrow> m_run W F m' ls m'' \<Longrightarrow> m_run W F m (l # ls) m''"

lemma m_run_Nil [simp]: "m_run W F m [] m' \<longleftrightarrow> m' = m"
  by (metis m_run.cases m_run.intros(1) list.distinct(1))

lemma m_run_Cons: "m_run W F m (l # ls) m'' \<longleftrightarrow> (\<exists>m'. m_step W F m l m' \<and> m_run W F m' ls m'')"
  by (metis m_run.cases m_run.intros(2) list.inject list.distinct(1))

fun m_execs ::
  "'q workqueue_lib \<Rightarrow> finalizer_lib \<Rightarrow> m_label list \<Rightarrow> 'q Machine \<Rightarrow> 'q Machine option" where
  "m_execs W F [] m = Some m"
| "m_execs W F (l # ls) m = (case m_exec W F l m of Some m' \<Rightarrow> m_execs W F ls m' | None \<Rightarrow> None)"

lemma m_run_exec: "m_run W F m ls m' \<longleftrightarrow> m_execs W F ls m = Some m'"
  by (induction ls arbitrary: m) (auto simp: m_run_Cons m_step_exec split: option.splits)

end
