(* ===== verification/Tracker_Properties.thy ===== *)
theory Tracker_Properties
  imports Status_Update
begin

text \<open>
  The properties of the status tracker, each with a witness on the sample resource and pods
  defined here.
\<close>

section \<open>Sample objects\<close>

definition sample_meta :: "string \<Rightarrow> string \<Rightarrow> string \<Rightarrow> ObjectMeta" where
  "sample_meta ns name uid =
     \<lparr>om_Name = name, om_Namespace = ns, om_UID = uid, om_Generation = 1, om_CreationTimestamp = 7,
      om_DeletionTimestamp = None, om_Labels = fmempty, om_Annotations = fmempty, om_Finalizers = []\<rparr>"

definition sample_mv :: ModelValidation where
  "sample_mv =
     \<lparr>mv_Meta = sample_meta ''prod'' ''resnet'' ''mv-1'',
      mv_Spec = \<lparr>mvs_Model = \<lparr>m_Path = ''/data/model'', m_SignaturePath = ''/data/model.sig'',
                   m_IgnorePaths = [], m_IgnoreGitPaths = None, m_IgnoreUnsignedFiles = None,
                   m_AllowSymlinks = None\<rparr>,
                 mvs_Config = \<lparr>vc_SigstoreConfig = None, vc_PkiConfig = None,
                   vc_PublicKeyConfig = Some \<lparr>pk_KeyPath = ''/keys/pub''\<rparr>, vc_ClientTrustConfig = None\<rparr>,
                 mvs_ImagePullPolicy = ''IfNotPresent'', mvs_ContinuousValidation = None,
                 mvs_Resources = None\<rparr>,
      mv_Status = \<lparr>st_Conditions = [], st_InjectedPodCount = 0, st_UninjectedPodCount = 0,
                   st_OrphanedPodCount = 0, st_AuthMethod = [], st_InjectedPods = [],
                   st_UninjectedPods = [], st_OrphanedPods = [], st_LastUpdated = 0\<rparr>\<rparr>"

definition sample_pod :: "string \<Rightarrow> string \<Rightarrow> string list \<Rightarrow> Pod" where
  "sample_pod name uid fs =
     \<lparr>pod_Meta = (sample_meta ''prod'' name uid)\<lparr>om_Labels := fmupd ModelValidationLabel ''resnet'' fmempty,
                   om_Finalizers := fs\<rparr>,
      pod_Spec = \<lparr>ps_InitContainers = [], ps_Containers = [], ps_Volumes = []\<rparr>\<rparr>"

abbreviation sample_key :: NamespacedName where
  "sample_key \<equiv> nn ''prod'' ''resnet''"

definition sample_env :: update_env where
  "sample_env = \<lparr>ue_range = sorted_list_of_fset, ue_now = 9, ue_elapsed = 1, ue_update = (\<lambda>mv. None)\<rparr>"

text \<open>A tracker that has seen the resource and one injected pod.\<close>

definition sample_ops :: "tracker_op list" where
  "sample_ops = [AddMV sorted_list_of_fset sample_mv,
     PodEvent (Some (sample_pod ''web'' ''u1'' [ModelValidationFinalizer]))]"

definition sample_tracker :: StatusTrackerImpl where
  "sample_tracker = fst (exec_ops list_finalizers sample_ops NewStatusTracker)"

definition sample_info :: ModelValidationInfo where
  "sample_info =
     (NewModelValidationInfo ''resnet'' (GetConfigHash sample_mv) ''public-key'' 1)
       \<lparr>mvi_InjectedPods := fmupd ''u1'' (pod_info (sample_pod ''web'' ''u1'' [ModelValidationFinalizer])) fmempty\<rparr>"

lemma sample_mv_key [simp]: "mv_key sample_mv = sample_key"
  by (simp add: mv_key_def sample_mv_def sample_meta_def)

lemma sample_mv_auth [simp]: "GetAuthMethod sample_mv = ''public-key''"
  by (simp add: GetAuthMethod_def sample_mv_def)

lemma sample_mv_generation [simp]: "om_Generation (mv_Meta sample_mv) = 1"
  by (simp add: sample_mv_def sample_meta_def)

lemma sample_pod_simps [simp]:
  "pod_Name (sample_pod n u fs) = n" "pod_Namespace (sample_pod n u fs) = ''prod''"
  "pod_UID (sample_pod n u fs) = u" "pod_Finalizers (sample_pod n u fs) = fs"
  "validation_label (sample_pod n u fs) = Some ''resnet''"
  "fmlookup (pod_Labels (sample_pod n u fs)) ModelValidationLabel = Some ''resnet''"
  "pi_ConfigHash (pod_info (sample_pod n u fs)) = []" "pi_AuthMethod (pod_info (sample_pod n u fs)) = []"
  by (simp_all add: sample_pod_def sample_meta_def validation_label_def pod_info_def map_get_def)

lemma new_tracker_lookup [simp]: "fmlookup (modelValidations NewStatusTracker) k = None"
  by (simp add: NewStatusTracker_def)

lemma sample_ops_ok [simp]: "list_all op_ok sample_ops"
  by (simp add: sample_ops_def)

lemma sample_file_pod:
  "fst (file_pod True (pod_info (sample_pod ''web'' ''u1'' [ModelValidationFinalizer]))
     (NewModelValidationInfo ''resnet'' (GetConfigHash sample_mv) ''public-key'' 1)) = sample_info"
  by (simp add: file_pod_defs config_differs_def sample_info_def) (simp add: NewModelValidationInfo_def RemovePod_def)

lemma sample_tracker_info [simp]:
  "modelValidations sample_tracker = fmupd sample_key sample_info fmempty"
  "mvNamespaces sample_tracker = fmupd ''prod'' 1 fmempty"
  "podMapping sample_tracker = AddPod (nn ''prod'' ''web'') ''u1'' NewPodMapping"
proof -
  have "fst (AddModelValidation sorted_list_of_fset sample_mv NewStatusTracker) =
      \<lparr>modelValidations = fmupd sample_key (NewModelValidationInfo ''resnet'' (GetConfigHash sample_mv)
         ''public-key'' 1) fmempty, mvNamespaces = fmupd ''prod'' 1 fmempty, podMapping = NewPodMapping\<rparr>"
    by (simp add: AddModelValidation_new) (simp add: NewStatusTracker_def ns_count_def)
  then have eq: "sample_tracker =
      \<lparr>modelValidations = fmupd sample_key sample_info fmempty,
       mvNamespaces = fmupd ''prod'' 1 fmempty,
       podMapping = AddPod (nn ''prod'' ''web'') ''u1'' NewPodMapping\<rparr>"
    by (simp add: sample_tracker_def sample_ops_def exec_ops_Cons del: exec_ops.simps(2))
      (simp add: ProcessPodEvent_def processPodEventCommon_alt sample_file_pod list_finalizers_def
        Let_def)
  show "modelValidations sample_tracker = fmupd sample_key sample_info fmempty"
    "mvNamespaces sample_tracker = fmupd ''prod'' 1 fmempty"
    "podMapping sample_tracker = AddPod (nn ''prod'' ''web'') ''u1'' NewPodMapping"
    by (simp_all add: eq)
qed

lemma sample_tracker_wf [simp]: "tracker_wf sample_tracker"
  unfolding sample_tracker_def by (rule tracker_wf_run) simp

lemma sample_tracked [simp]:
  "tracked_pod sample_tracker sample_key ''u1'' =
     Some (Injected, pod_info (sample_pod ''web'' ''u1'' [ModelValidationFinalizer]))"
  by (simp add: tracked_pod_def sample_info_def mvi_abs_def)

section \<open>Invariants of runs\<close>

text \<open>
  C17: after any interleaving of the tracker's methods, what is known of each ModelValidation is
  well formed: every pod is filed under its own UID in at most one of the three maps, no pod
  filed as injected carries a configuration other than the current one, and every pod belongs to
  the namespace of the resource.
\<close>

theorem tracker_runs_well_formed:
  assumes "list_all op_ok ops"
    and "fmlookup (modelValidations (fst (exec_ops F ops NewStatusTracker))) k = Some i"
  shows "mvi_wf i \<and> mvi_Name i = nn_Name k \<and>
    (\<forall>uid c p. mvi_abs i uid = Some (c, p) \<longrightarrow> pi_UID p = uid \<and> pi_Namespace p = nn_Namespace k)"
proof -
  have "info_ok k i"
    using info.run_inv [OF assms(1)] assms(2) by (rule all_infosD)
  then show ?thesis by (auto simp: info_ok_def mvi_abs_UID)
qed

theorem tracker_runs_well_formed_witness: "mvi_wf sample_info"
proof -
  have "fmlookup (modelValidations (fst (exec_ops list_finalizers sample_ops NewStatusTracker))) sample_key =
      Some sample_info"
    by (simp flip: sample_tracker_def)
  then show ?thesis using tracker_runs_well_formed [OF sample_ops_ok] by blast
qed

text \<open>
  In a run in which no status update finds its resource deleted, the counter of every
  namespace is the number of ModelValidations tracked in it, and the last value given to the
  namespace's gauge is that number.
\<close>

theorem namespace_counters_exact:
  assumes "list_all (\<lambda>x. \<not> deletes_on_not_found x) ops"
  shows "ns_count (fst (exec_ops F ops NewStatusTracker)) ns =
      int (tracked_in (fst (exec_ops F ops NewStatusTracker)) ns) \<and>
    (case cr_gauge ns (snd (exec_ops F ops NewStatusTracker)) of Some v \<Rightarrow> v | None \<Rightarrow> 0) =
      int (tracked_in (fst (exec_ops F ops NewStatusTracker)) ns)"
proof -
  have "ns_count (fst (exec_ops F ops NewStatusTracker)) ns =
      int (tracked_in (fst (exec_ops F ops NewStatusTracker)) ns)"
    using exec_ops_counts_exact [OF counts_New(1) assms] by (simp add: counts_exact_def)
  moreover have "ns_count NewStatusTracker ns = 0"
    by (simp add: ns_count_def NewStatusTracker_def)
  ultimately show ?thesis
    using exec_ops_gauge [where ns = ns and F = F and xs = ops and st = NewStatusTracker]
    by (auto split: option.splits)
qed

theorem namespace_counters_exact_witness: "tracked_in sample_tracker ''prod'' = 1"
proof -
  have "ns_count sample_tracker ''prod'' = int (tracked_in sample_tracker ''prod'')"
    unfolding sample_tracker_def
    using namespace_counters_exact [of sample_ops list_finalizers "''prod''"] by (simp add: sample_ops_def)
  then show ?thesis by (simp add: ns_count_def)
qed

text \<open>
  The update that finds its resource deleted forgets the resource without touching the
  counter: from exact counters, the namespace is from then on counted one too high, and the
  \<open>RemoveModelValidation\<close> that follows does nothing.
\<close>

theorem not_found_leaks_counter:
  assumes "counts_exact st" and "IsModelValidationTracked k st"
    and "st' = fst (processNextUpdate E k False (Inl NotFound) st)"
  shows "ns_count st' (nn_Namespace k) = int (tracked_in st' (nn_Namespace k)) + 1 \<and>
    podMapping st' = podMapping st \<and> RemoveModelValidation ord k st' = (st', [])"
proof -
  have k: "k |\<in>| fmdom (modelValidations st)"
    using assms(2) by (auto simp: IsModelValidationTracked_def fmlookup_dom_iff)
  have st': "st' = st\<lparr>modelValidations := fmdrop k (modelValidations st)\<rparr>"
    by (simp add: assms(3) processNextUpdate_state)
  have "tracked_in st' (nn_Namespace k) = tracked_in st (nn_Namespace k) - 1"
    using k by (simp add: tracked_in_drop [where st = st and k = k] st')
  moreover have "ns_count st' = ns_count st" by (rule ns_count_same) (simp add: st')
  moreover have "RemoveModelValidation ord k st' = (st', [])"
    by (rule RemoveModelValidation_untracked) (simp add: st')
  ultimately show ?thesis
    using assms(1) tracked_in_pos [OF k] by (simp add: counts_exact_def st' of_nat_diff)
qed

theorem not_found_leaks_counter_witness:
  "ns_count (fst (processNextUpdate sample_env sample_key False (Inl NotFound) sample_tracker)) ''prod'' =
    int (tracked_in (fst (processNextUpdate sample_env sample_key False (Inl NotFound) sample_tracker)) ''prod'') + 1"
proof -
  have "counts_exact sample_tracker"
    unfolding sample_tracker_def by (rule exec_ops_counts_exact) (simp_all add: sample_ops_def)
  moreover have "IsModelValidationTracked sample_key sample_tracker"
    by (simp add: IsModelValidationTracked_def)
  ultimately show ?thesis
    using not_found_leaks_counter [OF _ _ refl, of sample_tracker sample_key sample_env] by force
qed

text \<open>
  Nothing changes unnoticed: whenever an operation changes what is known of a
  ModelValidation that stays tracked, it queues the resource for a status update.
\<close>

theorem changes_are_queued:
  assumes "op_ok x"
    and "fmlookup (modelValidations (fst (exec_op F x st))) k = Some i"
    and "fmlookup (modelValidations st) k \<noteq> Some i"
  shows "QueueAdd k \<in> set (snd (exec_op F x st))"
  by (rule changed_info_queued) (use assms in \<open>auto intro: fmdomI\<close>)

theorem changes_are_queued_witness:
  "QueueAdd sample_key \<in> set (snd (exec_op list_finalizers
     (PodEvent (Some (sample_pod ''web'' ''u1'' [ModelValidationFinalizer])))
     (fst (exec_op list_finalizers (AddMV sorted_list_of_fset sample_mv) NewStatusTracker))))"
proof (rule changes_are_queued)
  let ?st = "fst (exec_op list_finalizers (AddMV sorted_list_of_fset sample_mv) NewStatusTracker)"
  let ?x = "PodEvent (Some (sample_pod ''web'' ''u1'' [ModelValidationFinalizer]))"
  have "fst (exec_op list_finalizers ?x ?st) = sample_tracker"
    unfolding sample_tracker_def sample_ops_def exec_ops_Cons by simp
  then show "fmlookup (modelValidations (fst (exec_op list_finalizers ?x ?st))) sample_key = Some sample_info"
    by (simp del: exec_op.simps)
  have "fmlookup (mvi_InjectedPods sample_info) ''u1'' \<noteq> None"
    by (simp add: sample_info_def)
  moreover have "fmlookup (mvi_InjectedPods (NewModelValidationInfo n h a g)) ''u1'' = None" for n h a g
    by (simp add: NewModelValidationInfo_def)
  ultimately have "sample_info \<noteq> NewModelValidationInfo n h a g" for n h a g
    by metis
  then show "fmlookup (modelValidations ?st) sample_key \<noteq> Some sample_info"
    by (auto simp: AddModelValidation_new dest: sym)
qed simp

section \<open>Pod events\<close>

text \<open>
  C13: an event for a pod whose label names a tracked ModelValidation files the pod there, under
  the category its finalizer and its annotations give, leaves every other pod and resource as it
  was, records the pod's name, and queues exactly that resource.
\<close>

theorem pod_event_files_pod:
  assumes "tracker_wf st" and "validation_label pod = Some m"
    and "fmlookup (modelValidations st) (nn (pod_Namespace pod) m) = Some i"
    and "ProcessPodEvent F (Some pod) st = (err, st', effs)"
  shows "err = None \<and>
    tracked_pod st' = (tracked_pod st)(nn (pod_Namespace pod) m :=
      (tracked_pod st (nn (pod_Namespace pod) m))(pod_UID pod \<mapsto> (pod_category F pod i, pod_info pod))) \<and>
    GetUIDByName (nn (pod_Namespace pod) (pod_Name pod)) (podMapping st') = Some (pod_UID pod) \<and>
    mvNamespaces st' = mvNamespaces st \<and>
    filter on_queue effs = [QueueAdd (nn (pod_Namespace pod) m)]"
proof -
  have "err = None" and r: "(st', effs) = processPodEventCommon F pod (nn (pod_Namespace pod) m) i st"
    using assms(2-4) by (auto simp: ProcessPodEvent_def Let_def)
  from r have st': "st' = fst (processPodEventCommon F pod (nn (pod_Namespace pod) m) i st)"
    and effs: "effs = snd (processPodEventCommon F pod (nn (pod_Namespace pod) m) i st)"
    by (metis fst_conv, metis snd_conv)
  show ?thesis
    using \<open>err = None\<close> unfolding st' effs common_tracked [OF assms(1,3)] common_mapping
    by (simp add: processPodEventCommon_alt)
qed

theorem pod_event_files_pod_witness:
  "tracked_pod (fst (snd (ProcessPodEvent list_finalizers (Some (sample_pod ''web'' ''u1'' [])) sample_tracker)))
     sample_key ''u1'' = Some (Uninjected, pod_info (sample_pod ''web'' ''u1'' []))"
proof -
  obtain err st' effs where
    eq: "ProcessPodEvent list_finalizers (Some (sample_pod ''web'' ''u1'' [])) sample_tracker = (err, st', effs)"
    by (cases "ProcessPodEvent list_finalizers (Some (sample_pod ''web'' ''u1'' [])) sample_tracker") auto
  show ?thesis
    using pod_event_files_pod [OF sample_tracker_wf _ _ eq, of "''resnet''" sample_info] eq
    by (simp add: pod_category_def classify_def list_finalizers_def)
qed

text \<open>
  Every other event leaves the tracker alone: a nil pod is an error, a pod without the
  label, with an empty label, or whose ModelValidation is not tracked is ignored.
\<close>

lemma pod_event_ignored:
  "ProcessPodEvent F None st = (Some ''pod cannot be nil'', st, []) \<and>
   (validation_label pod = None \<longrightarrow> ProcessPodEvent F (Some pod) st = (None, st, [])) \<and>
   (validation_label pod = Some m \<and> \<not> IsModelValidationTracked (nn (pod_Namespace pod) m) st \<longrightarrow>
      ProcessPodEvent F (Some pod) st = (None, st, []))"
  by (auto simp: ProcessPodEvent_def IsModelValidationTracked_def Let_def)

text \<open>
  Removing a pod by its UID takes it out of every ModelValidation and changes nothing else;
  the ModelValidations that held it, and only those, are queued, once each.
\<close>

theorem pod_removal:
  assumes "tracker_wf st" "range_order nord" and "RemovePodEvent nord uid st = (err, st', effs)"
  shows "err = None \<and> (\<forall>k. tracked_pod st' k = (tracked_pod st k)(uid := None)) \<and>
    (\<forall>k. IsModelValidationTracked k st' = IsModelValidationTracked k st) \<and>
    mvNamespaces st' = mvNamespaces st \<and> podMapping st' = podMapping st \<and>
    distinct effs \<and> set effs = QueueAdd ` {k. tracked_pod st k uid \<noteq> None}"
proof -
  have "err = None" and st': "st' = snd (removePodFromTrackingMapsUnsafe uid st)"
    and effs: "effs = map QueueAdd (nord (fst (removePodFromTrackingMapsUnsafe uid st)))"
    using assms(3) by (auto simp: RemovePodEvent_alt)
  then show ?thesis
    using removed_tracked [OF assms(1)] mset_queue_holders [OF assms(2)]
    by (simp add: IsModelValidationTracked_def)
qed

theorem pod_removal_witness:
  "tracked_pod (fst (snd (RemovePodEvent sorted_list_of_fset ''u1'' sample_tracker))) sample_key ''u1'' = None"
proof -
  obtain err st' effs where eq: "RemovePodEvent sorted_list_of_fset ''u1'' sample_tracker = (err, st', effs)"
    by (cases "RemovePodEvent sorted_list_of_fset ''u1'' sample_tracker") auto
  show ?thesis
    using pod_removal [OF sample_tracker_wf range_order_sorted eq] eq by simp
qed

text \<open>
  Removing a pod by its name removes the UID the name was last seen with, forgets the name,
  and keeps what every other name maps to; a name that is not known changes nothing.
\<close>

theorem pod_removal_by_name:
  assumes "tracker_wf st" "range_order nord" and "RemovePodByName nord name st = (err, st', effs)"
  shows "err = None \<and>
    (case GetUIDByName name (podMapping st) of
       None \<Rightarrow> st' = st \<and> effs = []
     | Some uid \<Rightarrow>
         (\<forall>k. tracked_pod st' k = (tracked_pod st k)(uid := None)) \<and>
         (\<forall>n. GetUIDByName n (podMapping st') = (if n = name then None else GetUIDByName n (podMapping st))) \<and>
         set effs = QueueAdd ` {k. tracked_pod st k uid \<noteq> None})"
proof (cases "GetUIDByName name (podMapping st)")
  case None
  with assms(3) show ?thesis by (auto simp: RemovePodByName_alt)
next
  case (Some uid)
  have same: "tracked_pod (s\<lparr>podMapping := p\<rparr>) k = tracked_pod s k" for s p k
    by (simp add: tracked_pod_def fun_eq_iff)
  from Some assms(3) have "err = None"
    and "st' = (snd (removePodFromTrackingMapsUnsafe uid st))\<lparr>podMapping := RemovePodsByName [name] (podMapping st)\<rparr>"
    and "effs = map QueueAdd (nord (fst (removePodFromTrackingMapsUnsafe uid st)))"
    by (auto simp: RemovePodByName_alt simp del: RemovePodsByName.simps)
  with Some show ?thesis
    using mset_queue_holders [OF assms(2)]
    by (simp add: same removed_tracked [OF assms(1)] pm.lookup_remove del: RemovePodsByName.simps)
qed

theorem pod_removal_by_name_witness:
  "tracked_pod (fst (snd (RemovePodByName sorted_list_of_fset (nn ''prod'' ''web'') sample_tracker)))
     sample_key ''u1'' = None"
proof -
  let ?r = "RemovePodByName sorted_list_of_fset (nn ''prod'' ''web'') sample_tracker"
  obtain err st' effs where eq: "?r = (err, st', effs)" by (cases ?r) auto
  show ?thesis
    using pod_removal_by_name [OF sample_tracker_wf range_order_sorted eq] by (simp add: eq)
qed

section \<open>Configurations\<close>

text \<open>
  C12: observing a ModelValidation refines the specification of drift: a resource not yet tracked
  starts with no pods; a resource whose generation changed keeps every pod, and its injected
  pods become orphaned exactly when they carry a different configuration, whatever the order in
  which the map of pods is visited; other resources are untouched.
\<close>

theorem observing_refines_drift:
  assumes "tracker_wf st" "range_order ord"
  shows "tracked_pod (fst (AddModelValidation ord mv st)) = (tracked_pod st)(mv_key mv :=
    (case fmlookup (modelValidations st) (mv_key mv) of
       None \<Rightarrow> (\<lambda>uid. None)
     | Some i \<Rightarrow>
         if om_Generation (mv_Meta mv) = mvi_ObservedGeneration i then tracked_pod st (mv_key mv)
         else spec_drift (GetConfigHash mv) (GetAuthMethod mv) (tracked_pod st (mv_key mv)))) \<and>
    GetObservedGeneration (mv_key mv) (fst (AddModelValidation ord mv st)) =
      (om_Generation (mv_Meta mv), True)"
proof (cases "fmlookup (modelValidations st) (mv_key mv)")
  case None
  then show ?thesis
    by (auto simp: AddModelValidation_new tracked_pod_def GetObservedGeneration_def fun_eq_iff)
      (simp add: NewModelValidationInfo_def)
next
  case (Some i)
  have "mvi_wf i" using tracker_wf_info(1) [OF assms(1) Some] .
  with Some show ?thesis
    by (auto simp: AddModelValidation_known tracked_pod_def GetObservedGeneration_def fun_eq_iff
        UpdateConfig_abs [OF _ assms(2)] spec_drift_def)
qed

theorem observing_refines_drift_witness:
  "tracked_pod (fst (AddModelValidation sorted_list_of_fset sample_mv sample_tracker)) sample_key ''u1'' =
     Some (Injected, pod_info (sample_pod ''web'' ''u1'' [ModelValidationFinalizer]))"
proof -
  have "mvi_ObservedGeneration sample_info = 1"
    by (simp add: sample_info_def NewModelValidationInfo_def)
  then show ?thesis
    using observing_refines_drift [OF sample_tracker_wf range_order_sorted, of sample_mv] by simp
qed

text \<open>
  An orphaned pod stays orphaned through every later change of configuration, also when
  the resource returns to the configuration the pod carries: \<open>UpdateConfig\<close> only moves pods
  out of the injected ones.  Only a new event for the pod files it again.
\<close>

theorem orphaned_stays_orphaned:
  assumes "mvi_wf i" "range_order ord" and "mvi_abs i uid = Some (Orphaned, p)"
  shows "mvi_abs (snd (UpdateConfig ord h a g i)) uid = Some (Orphaned, p) \<and>
    (\<not> config_differs p h a \<longrightarrow>
       mvi_abs (fst (file_pod True p (snd (UpdateConfig ord h a g i)))) uid = Some (Injected, p))"
proof -
  let ?i = "snd (UpdateConfig ord h a g i)"
  have "mvi_abs ?i uid = Some (Orphaned, p)"
    using assms(3) by (simp add: UpdateConfig_abs [OF assms(1,2)] spec_drift_def)
  moreover have "mvi_abs (fst (file_pod True p ?i)) uid = Some (Injected, p)" if "\<not> config_differs p h a"
    using that mvi_abs_UID [OF assms(1,3)]
    by (simp add: file_pod_abs [OF mvi_wf_disjoint [OF UpdateConfig_wf [OF assms(1,2)]]] spec_add_def classify_def)
  ultimately show ?thesis by blast
qed

definition drifted_pod :: PodInfo where
  "drifted_pod = \<lparr>pi_Name = ''web'', pi_Namespace = ''prod'', pi_UID = ''u1'', pi_Timestamp = 7,
     pi_ConfigHash = [], pi_AuthMethod = ''pki''\<rparr>"

theorem orphaned_stays_orphaned_witness:
  "mvi_abs (snd (UpdateConfig sorted_list_of_fset ''h'' ''pki'' 2
     (fst (file_pod True drifted_pod (NewModelValidationInfo ''resnet'' ''h'' ''sigstore'' 1))))) ''u1'' =
     Some (Orphaned, drifted_pod) \<and> \<not> config_differs drifted_pod ''h'' ''pki''"
proof -
  let ?i = "fst (file_pod True drifted_pod (NewModelValidationInfo ''resnet'' ''h'' ''sigstore'' 1))"
  have "mvi_wf ?i" by (rule file_pod_wf) simp
  moreover have "mvi_abs ?i ''u1'' = Some (Orphaned, drifted_pod)"
    unfolding file_pod_abs [OF mvi_wf_disjoint [OF mvi_wf_New]]
    by (simp add: spec_add_def classify_def config_differs_def drifted_pod_def NewModelValidationInfo_def)
  ultimately show ?thesis
    using orphaned_stays_orphaned [OF _ range_order_sorted] by (simp add: config_differs_def drifted_pod_def)
qed

section \<open>Status updates\<close>



text \<open>
  An update never writes when the resource read has another configuration than the one the
  pods were judged by: it fails with the drift error, changes nothing and is retried.
\<close>

theorem drift_is_never_written:
  assumes "fmlookup (modelValidations st) k = Some i"
    and "GetConfigHash mv \<noteq> mvi_ConfigHash i \<or> GetAuthMethod mv \<noteq> mvi_AuthMethod i"
  shows "\<exists>effs. doUpdateStatus E k (Inr mv) st =
      (Some (ConfigurationDrift (mvi_ConfigHash i) (GetConfigHash mv) (mvi_AuthMethod i) (GetAuthMethod mv)),
       None, st, effs) \<and>
    (GetConfigHash mv \<noteq> mvi_ConfigHash i \<longleftrightarrow>
       Record (CounterAdd ConfigurationDriftEventsTotal [nn_Namespace k, nn_Name k, ''config_hash''] 1) \<in> set effs) \<and>
    QueueRetry k \<in> set (snd (processNextUpdate E k False (Inr mv) st))"
  using assms by (auto simp: doUpdateStatus_def processNextUpdate_def Let_def record_defs recordStatusUpdateResult_def)

theorem drift_is_never_written_witness:
  "\<exists>effs. doUpdateStatus sample_env sample_key
     (Inr (sample_mv\<lparr>mv_Spec := (mv_Spec sample_mv)\<lparr>mvs_Config := \<lparr>vc_SigstoreConfig = None,
        vc_PkiConfig = None, vc_PublicKeyConfig = None, vc_ClientTrustConfig = None\<rparr>\<rparr>\<rparr>)) sample_tracker =
     (Some (ConfigurationDrift (GetConfigHash sample_mv)
        (GetConfigHash (sample_mv\<lparr>mv_Spec := (mv_Spec sample_mv)\<lparr>mvs_Config := \<lparr>vc_SigstoreConfig = None,
           vc_PkiConfig = None, vc_PublicKeyConfig = None, vc_ClientTrustConfig = None\<rparr>\<rparr>\<rparr>))
        ''public-key'' ''unknown''), None, sample_tracker, effs)"
proof -
  let ?mv = "sample_mv\<lparr>mv_Spec := (mv_Spec sample_mv)\<lparr>mvs_Config := \<lparr>vc_SigstoreConfig = None,
        vc_PkiConfig = None, vc_PublicKeyConfig = None, vc_ClientTrustConfig = None\<rparr>\<rparr>\<rparr>"
  have i: "mvi_ConfigHash sample_info = GetConfigHash sample_mv" "mvi_AuthMethod sample_info = ''public-key''"
    by (simp_all add: sample_info_def NewModelValidationInfo_def)
  have auth: "GetAuthMethod ?mv = ''unknown''" by (simp add: GetAuthMethod_def)
  show ?thesis
    using drift_is_never_written [of sample_tracker sample_key sample_info ?mv sample_env]
    unfolding i auth by auto
qed

text \<open>
  An update repeated on the object it wrote writes nothing, in whatever order the maps are
  visited the second time, as long as the pods of the resource have different names.
\<close>

theorem update_is_idempotent:
  assumes "doUpdateStatus E k got st = (None, Some w, st', effs)"
    and "range_order (ue_range E)" "range_order (ue_range E')"
    and "\<And>i. fmlookup (modelValidations st) k = Some i \<Longrightarrow> distinct_names (mvi_InjectedPods i) \<and>
      distinct_names (mvi_UninjectedPods i) \<and> distinct_names (mvi_OrphanedPods i)"
  shows "doUpdateStatus E' k (Inr w) st' =
    (None, None, st', recordStatusUpdateResult k StatusUpdateSuccess (ue_elapsed E'))"
proof -
  have "st' = st" using assms(1) by (rule doUpdateStatus_written)
  then show ?thesis using update_again [OF assms] by simp
qed

theorem update_is_idempotent_witness:
  "\<exists>w. fst (snd (doUpdateStatus sample_env sample_key (Inr sample_mv) sample_tracker)) = Some w \<and>
     doUpdateStatus sample_env sample_key (Inr w) sample_tracker =
       (None, None, sample_tracker, recordStatusUpdateResult sample_key StatusUpdateSuccess 1)"
proof -
  have info: "mvi_ConfigHash sample_info = GetConfigHash sample_mv" "mvi_AuthMethod sample_info = ''public-key''"
    "distinct_names (mvi_InjectedPods sample_info)" "distinct_names (mvi_UninjectedPods sample_info)"
    "distinct_names (mvi_OrphanedPods sample_info)"
    by (simp_all add: sample_info_def NewModelValidationInfo_def distinct_names_def)
  moreover have "\<not> statusEqual (mv_Status sample_mv) (new_status sample_env sample_mv sample_info)"
    using info(2) by (simp add: statusEqual_def sample_mv_def)
  ultimately obtain w effs where
    eq: "doUpdateStatus sample_env sample_key (Inr sample_mv) sample_tracker = (None, Some w, sample_tracker, effs)"
    by (simp add: doUpdateStatus_def Let_def sample_env_def)
  have env: "range_order (ue_range sample_env)" "ue_elapsed sample_env = 1" by (simp_all add: sample_env_def)
  show ?thesis
    using update_is_idempotent [OF eq env(1) env(1)] info(3-5) eq by (auto simp: env(2))
qed

text \<open>
  The worker takes every item to its end: after an update it calls the queue exactly twice,
  first to retry when the update failed or to forget the retries when it did not, then to mark
  the item as done; after a shutdown it does nothing.
\<close>

theorem worker_finishes_item:
  "filter on_queue (snd (processNextUpdate E k False got st)) =
     [if fst (doUpdateStatus E k got st) = None then QueueForget k else QueueRetry k, QueueDone k] \<and>
   processNextUpdate E k True got st = (st, [])"
proof
  show "processNextUpdate E k True got st = (st, [])" by (simp add: processNextUpdate_def)
qed (simp add: processNextUpdate_outcome update_queue_silent)

section \<open>Pod names\<close>

text \<open>
  When a name is reused by a pod with another UID, the mapping keeps the entry of the old
  UID; removing the pod by its name then leaves the old UID tracked for good, unless an event
  names it.
\<close>

theorem name_reuse_keeps_old_pod:
  assumes "u1 \<noteq> u2" and "tracker_wf st" "range_order nord"
    and "podMapping st = AddPod name u2 (AddPod name u1 pm)"
    and "tracked_pod st k u1 = Some x"
    and "RemovePodByName nord name st = (err, st', effs)"
  shows "GetNameByUID u1 (podMapping st) = Some name \<and> GetUIDByName name (podMapping st') = None \<and>
    tracked_pod st' k u1 = Some x \<and> tracked_pod st' k u2 = None"
proof -
  have "GetUIDByName name (podMapping st) = Some u2" by (simp add: assms(4))
  moreover have "tracked_pod (s\<lparr>podMapping := p\<rparr>) k = tracked_pod s k" for s p k
    by (simp add: tracked_pod_def fun_eq_iff)
  moreover have "st' = (snd (removePodFromTrackingMapsUnsafe u2 st))\<lparr>podMapping := RemovePodsByName [name] (podMapping st)\<rparr>"
    using assms(6) calculation(1) by (auto simp: RemovePodByName_alt simp del: RemovePodsByName.simps)
  moreover have "GetNameByUID u1 (podMapping st) = Some name"
    using assms(1,4) by (simp add: GetNameByUID_def AddPod_def removePod_def)
  ultimately show ?thesis
    using assms(1,5) by (simp add: removed_tracked [OF assms(2)] del: RemovePodsByName.simps)
qed

theorem name_reuse_keeps_old_pod_witness:
  "tracked_pod (fst (snd (RemovePodByName sorted_list_of_fset (nn ''prod'' ''web'')
     (fst (exec_op list_finalizers (PodEvent (Some (sample_pod ''web'' ''u2'' []))) sample_tracker)))))
     sample_key ''u1'' = Some (Injected, pod_info (sample_pod ''web'' ''u1'' [ModelValidationFinalizer]))"
proof -
  let ?x = "PodEvent (Some (sample_pod ''web'' ''u2'' []))"
  let ?st = "fst (exec_op list_finalizers ?x sample_tracker)"
  have st: "?st = fst (processPodEventCommon list_finalizers (sample_pod ''web'' ''u2'' []) sample_key sample_info sample_tracker)"
    by (simp add: ProcessPodEvent_def Let_def)
  have wf: "tracker_wf ?st"
    using info.exec_op_inv [of ?x sample_tracker] sample_tracker_wf by (simp add: tracker_wf_def del: exec_op.simps)
  have map: "podMapping ?st = AddPod (nn ''prod'' ''web'') ''u2'' (AddPod (nn ''prod'' ''web'') ''u1'' NewPodMapping)"
    unfolding st by (simp add: processPodEventCommon_alt)
  have old: "tracked_pod ?st sample_key ''u1'' =
      Some (Injected, pod_info (sample_pod ''web'' ''u1'' [ModelValidationFinalizer]))"
    unfolding st by (subst common_tracked) simp_all
  let ?r = "RemovePodByName sorted_list_of_fset (nn ''prod'' ''web'') ?st"
  obtain err st' effs where eq: "?r = (err, st', effs)" by (cases ?r) auto
  show ?thesis
    using name_reuse_keeps_old_pod [OF _ wf range_order_sorted map old eq] by (simp add: eq del: exec_op.simps)
qed

end
