(* ===== verification/Queue_Properties.thy ===== *)
theory Queue_Properties
  imports Debounced_Queue
begin

text \<open>
  The properties of the debounced queue, and a reference work queue on which the contract
  \<open>workqueue\<close> is interpreted and the witnesses run.
\<close>

section \<open>A reference work queue\<close>

record RefQueue =
  rq_pending :: "NamespacedName list"
  rq_processing :: "NamespacedName fset"
  rq_waiting :: "NamespacedName list"
  rq_failures :: "(NamespacedName, nat) fmap"
  rq_shut :: bool

definition ref_add :: "NamespacedName \<Rightarrow> RefQueue \<Rightarrow> RefQueue" where
  "ref_add k q = (if rq_shut q \<or> k \<in> set (rq_pending q) then q else q\<lparr>rq_pending := rq_pending q @ [k]\<rparr>)"

definition ref_get :: "RefQueue \<Rightarrow> (NamespacedName \<times> RefQueue) option" where
  "ref_get q =
     (case find (\<lambda>k. k |\<notin>| rq_processing q) (rq_pending q) of
        None \<Rightarrow> None
      | Some k \<Rightarrow> Some (k, q\<lparr>rq_pending := removeAll k (rq_pending q),
                             rq_processing := finsert k (rq_processing q)\<rparr>))"

definition ref_queue :: "RefQueue workqueue_lib" where
  "ref_queue =
     \<lparr>wq_Add = ref_add, wq_Get = ref_get,
      wq_Done = (\<lambda>k q. q\<lparr>rq_processing := rq_processing q |-| {|k|}\<rparr>),
      wq_AddRateLimited = (\<lambda>k q. if rq_shut q then q else
         q\<lparr>rq_waiting := (if k \<in> set (rq_waiting q) then rq_waiting q else rq_waiting q @ [k]),
           rq_failures := fmupd k (case fmlookup (rq_failures q) k of Some n \<Rightarrow> Suc n | None \<Rightarrow> 1) (rq_failures q)\<rparr>),
      wq_Deliver = (\<lambda>k q. if k \<in> set (rq_waiting q)
         then Some (ref_add k (q\<lparr>rq_waiting := removeAll k (rq_waiting q)\<rparr>)) else None),
      wq_Forget = (\<lambda>k q. q\<lparr>rq_failures := fmdrop k (rq_failures q)\<rparr>),
      wq_NumRequeues = (\<lambda>k q. case fmlookup (rq_failures q) k of Some n \<Rightarrow> n | None \<Rightarrow> 0),
      wq_Len = (\<lambda>q. fcard (fset_of_list (rq_pending q) |-| rq_processing q)),
      wq_ShutDown = (\<lambda>q. q\<lparr>rq_shut := True\<rparr>),
      wq_pending = (\<lambda>q. fset_of_list (rq_pending q)), wq_processing = rq_processing,
      wq_waiting = (\<lambda>q. fset_of_list (rq_waiting q)),
      wq_shutting_down = rq_shut\<rparr>"

definition ref_empty :: RefQueue where
  "ref_empty = \<lparr>rq_pending = [], rq_processing = {||}, rq_waiting = [], rq_failures = fmempty, rq_shut = False\<rparr>"

lemma ref_get_None: "ref_get q = None \<longleftrightarrow> fset_of_list (rq_pending q) |-| rq_processing q = {||}"
proof (cases "find (\<lambda>k. k |\<notin>| rq_processing q) (rq_pending q)")
  case None
  then have "ref_get q = None" by (simp add: ref_get_def)
  with None show ?thesis by (auto simp: find_None_iff fset_of_list_elem)
next
  case (Some k)
  then have "k |\<in>| fset_of_list (rq_pending q)" "k |\<notin>| rq_processing q"
    by (auto simp: find_Some_iff fset_of_list_elem)
  with Some show ?thesis by (auto simp: ref_get_def)
qed

lemma ref_get_Some:
  "ref_get q = Some (k, q') \<Longrightarrow> k \<in> set (rq_pending q) \<and> k |\<notin>| rq_processing q \<and>
     q' = q\<lparr>rq_pending := removeAll k (rq_pending q), rq_processing := finsert k (rq_processing q)\<rparr>"
  by (auto simp: ref_get_def find_Some_iff split: option.splits)

lemma fset_removeAll: "fset_of_list (removeAll k xs) = fset_of_list xs |-| {|k|}"
  by (rule fset_eqI) (simp add: fset_of_list_elem)

interpretation rq: workqueue ref_queue
  by unfold_locales
    (auto simp: ref_queue_def ref_add_def fset_of_list_elem fset_removeAll ref_get_None
      dest: ref_get_Some split: if_splits)

lemma ref_workqueue: "workqueue ref_queue"
  by (rule rq.workqueue_axioms)

section \<open>The wait group\<close>

fun run_rearms :: "'q workqueue_lib \<Rightarrow> dq_label list \<Rightarrow> 'q DebouncedQueueImpl \<Rightarrow> int" where
  "run_rearms W [] s = 0"
| "run_rearms W (l # ls) s =
     rearms s l + (case dq_exec W l s of Some s' \<Rightarrow> run_rearms W ls s' | None \<Rightarrow> 0)"

fun run_stops :: "'q workqueue_lib \<Rightarrow> dq_label list \<Rightarrow> 'q DebouncedQueueImpl \<Rightarrow> int" where
  "run_stops W [] s = 0"
| "run_stops W (l # ls) s =
     stops s l + (case dq_exec W l s of Some s' \<Rightarrow> run_stops W ls s' | None \<Rightarrow> 0)"

lemma run_drift:
  "dq_run W s ls s' \<Longrightarrow> dq_wf s \<Longrightarrow> wg_drift s' = wg_drift s - run_rearms W ls s + run_stops W ls s"
proof (induction rule: dq_run.induct)
  case (run_step s l s' ls s'')
  have "dq_exec W l s = Some s'" using run_step.hyps(1) by (simp add: dq_step_exec)
  with run_step dq_step_drift [OF run_step.hyps(1) run_step.prems] dq_step_wf [OF run_step.hyps(1) run_step.prems]
  show ?case by simp
qed simp

lemma drift_New [simp]: "wg_drift (NewDebouncedQueue q) = 0"
  by (simp add: wg_drift_def NewDebouncedQueue_def)

lemma run_stops_open: "LShutDown \<notin> set ls \<Longrightarrow> run_stops W ls s = 0"
  by (induction ls arbitrary: s) (auto simp: stops_def split: dq_label.splits option.splits)

lemma wg_run:
  assumes "dq_run W (NewDebouncedQueue q) ls s"
  shows "debounceWg s = int (fcard (armedTimers s)) + int (length (callbacks s)) -
    run_rearms W ls (NewDebouncedQueue q) + run_stops W ls (NewDebouncedQueue q)"
proof -
  have "wg_drift s = - run_rearms W ls (NewDebouncedQueue q) + run_stops W ls (NewDebouncedQueue q)"
    using run_drift [OF assms dq_wf_New] by simp
  then show ?thesis by (simp add: wg_drift_def)
qed

text \<open>
  The accounting of the wait group: in every run it is the number of armed timers and of
  running timer functions, less one for every reset of a timer that had already fired, plus one
  for every timer a shutdown disarmed.
\<close>

theorem wait_group_accounting:
  assumes "dq_run W (NewDebouncedQueue q) ls s"
  shows "debounceWg s = int (fcard (armedTimers s)) + int (length (callbacks s)) -
    run_rearms W ls (NewDebouncedQueue q) + run_stops W ls (NewDebouncedQueue q)"
  by (rule wg_run [OF assms])

abbreviation item_k :: NamespacedName where "item_k \<equiv> nn ''prod'' ''resnet''"

lemmas dq_eval = dq_run_exec NewDebouncedQueue_def dq_Add_def fire_timer_def callback_step_def remove_at_def
  dq_Get_def dq_Done_def ref_queue_def ref_add_def ref_get_def ref_empty_def Let_def rearms_def stops_def

theorem wait_group_accounting_witness:
  "\<exists>s. dq_run ref_queue (NewDebouncedQueue ref_empty) [LAdd item_k, LFire \<lparr>t_id = 0, t_item = item_k\<rparr>] s \<and>
     debounceWg s = 1 \<and> fcard (armedTimers s) = 0 \<and> length (callbacks s) = 1"
proof -
  let ?ls = "[LAdd item_k, LFire \<lparr>t_id = 0, t_item = item_k\<rparr>]"
  obtain s where r: "dq_run ref_queue (NewDebouncedQueue ref_empty) ?ls s"
    and s: "fcard (armedTimers s) = 0" "length (callbacks s) = 1"
    by (simp add: dq_eval)
  have "run_rearms ref_queue ?ls (NewDebouncedQueue ref_empty) = 0"
    "run_stops ref_queue ?ls (NewDebouncedQueue ref_empty) = 0"
    by (simp_all add: dq_eval)
  with wait_group_accounting [OF r] r s show ?thesis by auto
qed

text \<open>
  As long as no \<open>Add\<close> resets a timer that had already fired and the queue is not shut
  down, the wait group is never negative, and \<open>WaitForUpdates\<close> returns exactly when no timer
  is armed and no timer function runs.
\<close>

theorem wait_for_updates_means_idle:
  assumes "dq_run W (NewDebouncedQueue q) ls s"
    and "run_rearms W ls (NewDebouncedQueue q) = 0" and "LShutDown \<notin> set ls"
  shows "0 \<le> debounceWg s \<and> (WaitForUpdates_returns s \<longleftrightarrow> armedTimers s = {||} \<and> callbacks s = [])"
proof -
  have "debounceWg s = int (fcard (armedTimers s)) + int (length (callbacks s))"
    using wg_run [OF assms(1)] assms(2) run_stops_open [OF assms(3), of W "NewDebouncedQueue q"] by simp
  then show ?thesis
    by (auto simp: WaitForUpdates_returns_def simp flip: of_nat_add)
qed

theorem wait_for_updates_means_idle_witness:
  "\<exists>s. dq_run ref_queue (NewDebouncedQueue ref_empty) [LAdd item_k] s \<and> \<not> WaitForUpdates_returns s"
proof -
  obtain s where r: "dq_run ref_queue (NewDebouncedQueue ref_empty) [LAdd item_k] s"
    and s: "armedTimers s \<noteq> {||}"
    by (simp add: dq_eval)
  have "run_rearms ref_queue [LAdd item_k] (NewDebouncedQueue ref_empty) = 0" by (simp add: dq_eval)
  with wait_for_updates_means_idle [OF r] r s show ?thesis by auto
qed

text \<open>
  C35: the race that the accounting shows: when \<open>Add\<close> comes after the timer of the item
  has fired and before its function has deleted the map entry, \<open>Reset\<close> makes the function run
  twice for one \<open>Add(1)\<close>, and the second \<open>Done\<close> takes the wait group below zero, which
  panics.
\<close>

theorem reset_of_fired_timer_panics:
  "\<exists>s. dq_run W (NewDebouncedQueue q)
     ([LAdd k, LFire \<lparr>t_id = 0, t_item = k\<rparr>, LAdd k] @ replicate 5 (LCallback 0) @
      LFire \<lparr>t_id = 0, t_item = k\<rparr> # replicate 5 (LCallback 0)) s \<and> debounceWg s = -1"
  by (simp add: dq_run_exec NewDebouncedQueue_def dq_Add_def fire_timer_def callback_step_def remove_at_def
      Let_def eval_nat_numeral)

section \<open>Delivery\<close>

text \<open>
  Adds coalesce: adding an item again before its timer fires changes nothing but the
  deadline.
\<close>

lemma adds_coalesce: "dq_Add k (dq_Add k s) = dq_Add k s"
  by (auto simp: dq_Add_def Let_def finsert_absorb split: option.splits)

text \<open>
  No added item is lost: after an \<open>Add\<close> on an open queue, in every run without shutdown
  in which the item has not been handed to the worker, once no timer is armed and no timer
  function runs the item is in the work queue.
\<close>

theorem added_item_reaches_queue:
  assumes "workqueue W" and "dq_wf s" "dq_open W s"
    and "dq_run W (dq_Add k s) ls s'" and "LShutDown \<notin> set ls" "LGet k \<notin> set ls"
    and "armedTimers s' = {||}" "callbacks s' = []"
  shows "k |\<in>| wq_pending W (dq_queue s')"
proof -
  have "dq_open W (dq_Add k s)"
    by (rule workqueue.step_open [OF assms(1) step_add assms(3)]) simp
  then have "owed W k s'"
    using assms(3) Add_owes [OF _ assms(2)]
    by (intro workqueue.run_owed [OF assms(1,4) _ _ assms(5,6)]) (simp_all add: dq_open_def)
  with assms(7,8) show ?thesis by (simp add: owed_def)
qed

lemma ref_open [simp]: "dq_open ref_queue (NewDebouncedQueue ref_empty)"
  by (simp add: dq_open_def NewDebouncedQueue_def ref_queue_def ref_empty_def)

theorem added_item_reaches_queue_witness:
  "\<exists>s. dq_run ref_queue (dq_Add item_k (NewDebouncedQueue ref_empty))
     (LFire \<lparr>t_id = 0, t_item = item_k\<rparr> # replicate 5 (LCallback 0)) s \<and>
     item_k |\<in>| wq_pending ref_queue (dq_queue s)"
proof -
  obtain s where r: "dq_run ref_queue (dq_Add item_k (NewDebouncedQueue ref_empty))
      (LFire \<lparr>t_id = 0, t_item = item_k\<rparr> # replicate 5 (LCallback 0)) s"
    and "armedTimers s = {||}" "callbacks s = []"
    by (simp add: dq_eval eval_nat_numeral)
  then show ?thesis
    using added_item_reaches_queue [OF ref_workqueue dq_wf_New ref_open r] by auto
qed

text \<open>
  The timers and their functions always come to rest: a run of their steps alone is no
  longer than six steps per armed timer and what is left of the running functions, and as long
  as one of them is left a step is possible.
\<close>

theorem timer_functions_terminate:
  "(dq_run W s ls s' \<and> list_all internal ls \<longrightarrow> length ls \<le> timer_work s) \<and>
   (armedTimers s \<noteq> {||} \<or> callbacks s \<noteq> [] \<longrightarrow> (\<exists>l s'. internal l \<and> dq_step W s l s'))"
proof (intro conjI impI)
  assume "dq_run W s ls s' \<and> list_all internal ls"
  then show "length ls \<le> timer_work s" using internal_run_bounded [of W s ls s'] by simp
next
  assume "armedTimers s \<noteq> {||} \<or> callbacks s \<noteq> []"
  then show "\<exists>l s'. internal l \<and> dq_step W s l s'"
  proof
    assume "armedTimers s \<noteq> {||}"
    then obtain t where "t |\<in>| armedTimers s" by blast
    then have "dq_step W s (LFire t) (fire_timer t s)" by (rule step_fire)
    moreover have "internal (LFire t)" by simp
    ultimately show ?thesis by blast
  next
    assume "callbacks s \<noteq> []"
    then have "dq_step W s (LCallback 0) (callback_step W 0 s)" by (intro step_callback) simp
    moreover have "internal (LCallback 0)" by simp
    ultimately show ?thesis by blast
  qed
qed

theorem timer_functions_terminate_witness:
  "\<exists>l s'. internal l \<and> dq_step ref_queue (dq_Add item_k (NewDebouncedQueue ref_empty)) l s'"
proof -
  have "armedTimers (dq_Add item_k (NewDebouncedQueue ref_empty)) \<noteq> {||}"
    by (simp add: dq_Add_def NewDebouncedQueue_def Let_def)
  then show ?thesis
    using timer_functions_terminate [of ref_queue "dq_Add item_k (NewDebouncedQueue ref_empty)"] by blast
qed

text \<open>
  A shutdown is final: in every run after it, whatever timer functions were still under
  way, nothing is added to the work queue any more.
\<close>

theorem shutdown_refuses_items:
  assumes "workqueue W" and "dq_run W (dq_ShutDown W s) ls s'"
  shows "wq_pending W (dq_queue s') |\<subseteq>| wq_pending W (dq_queue s)"
proof -
  have "wq_pending W (dq_queue (dq_ShutDown W s)) = wq_pending W (dq_queue s)"
    by (simp add: dq_ShutDown_def workqueue.shut [OF assms(1)])
  then show ?thesis
    using workqueue.run_shut [OF assms] by (simp add: dq_ShutDown_def workqueue.shut [OF assms(1)])
qed

theorem shutdown_refuses_items_witness:
  "\<exists>s. dq_run ref_queue (dq_ShutDown ref_queue
       ((NewDebouncedQueue ref_empty)\<lparr>callbacks := [(item_k, CbChecked)]\<rparr>)) [LCallback 0] s \<and>
     wq_pending ref_queue (dq_queue s) = {||}"
proof -
  let ?s = "(NewDebouncedQueue ref_empty)\<lparr>callbacks := [(item_k, CbChecked)]\<rparr>"
  obtain s where r: "dq_run ref_queue (dq_ShutDown ref_queue ?s) [LCallback 0] s"
    by (simp add: dq_run_exec dq_ShutDown_def NewDebouncedQueue_def)
  have "wq_pending ref_queue (dq_queue ?s) = {||}"
    by (simp add: NewDebouncedQueue_def ref_queue_def ref_empty_def)
  with shutdown_refuses_items [OF ref_workqueue r] r show ?thesis by auto
qed

text \<open>
  \<open>WaitForCompletion\<close> does not wait for the item the worker holds: from a state in which
  only one item is pending and no timer is left, as soon as the worker has taken the item both
  waits return, while the item is still being processed.
\<close>

theorem wait_for_completion_ignores_processing:
  assumes "workqueue W" and "WaitForUpdates_returns s"
    and "wq_pending W (dq_queue s) = {|k|}" and "dq_step W s (LGet k) s'"
  shows "WaitForUpdates_returns s' \<and> WaitForCompletion_polls_out W s' \<and>
    k |\<in>| wq_processing W (dq_queue s')"
proof -
  from assms(4) obtain q where get: "wq_Get W (dq_queue s) = Some (k, q)" and s': "s' = s\<lparr>dq_queue := q\<rparr>"
    by (auto simp: dq_step_simps dq_Get_def split: option.splits)
  have "wq_pending W q = {||}" "k |\<in>| wq_processing W q"
    using workqueue.get_item [OF assms(1) get] assms(3) by auto
  then show ?thesis
    using assms(2)
    by (simp add: s' WaitForUpdates_returns_def WaitForCompletion_polls_out_def workqueue.len [OF assms(1)])
qed

theorem wait_for_completion_ignores_processing_witness:
  "\<exists>s. dq_step ref_queue (NewDebouncedQueue (ref_add item_k ref_empty)) (LGet item_k) s \<and>
     WaitForCompletion_polls_out ref_queue s \<and> item_k |\<in>| wq_processing ref_queue (dq_queue s)"
proof -
  let ?s = "NewDebouncedQueue (ref_add item_k ref_empty)"
  obtain s where r: "dq_step ref_queue ?s (LGet item_k) s"
    by (simp add: dq_step_exec dq_eval)
  have "wq_pending ref_queue (dq_queue ?s) = {|item_k|}"
    by (simp add: NewDebouncedQueue_def ref_queue_def ref_empty_def ref_add_def)
  moreover have "WaitForUpdates_returns ?s"
    by (simp add: WaitForUpdates_returns_def NewDebouncedQueue_def)
  ultimately show ?thesis
    using wait_for_completion_ignores_processing [OF ref_workqueue _ _ r] r by auto
qed

end
