(* ===== verification/Metric_Safety.thy ===== *)
theory Metric_Safety
  imports Tracker_Machine Tracker_Properties Queue_Properties
begin

text \<open>
  What the tracker records (\<open>internal/metrics/metrics.go\<close> called from \<open>internal/tracker\<close>) fits the
  declarations of the instruments: in no run does a call panic, and the label values that are not
  names of objects come from fixed sets, so the number of time series stays bounded by the
  objects there are.
\<close>

section \<open>Admissible calls\<close>

definition pod_states :: "string list" where
  "pod_states = [PodStateInjected, PodStateUninjected, PodStateOrphaned]"

text \<open>The values after the namespace and the name.\<close>

fun values_ok :: "instrument \<Rightarrow> string list \<Rightarrow> bool" where
  "values_ok ModelValidationPodCounts vs = list_all (\<lambda>v. v \<in> set pod_states) (drop 2 vs)"
| "values_ok PodStateTransitionsTotal vs =
     (list_all (\<lambda>v. v \<in> set pod_states) (drop 2 vs) \<and> distinct (drop 2 vs))"
| "values_ok StatusUpdatesTotal vs =
     list_all (\<lambda>v. v \<in> {StatusUpdateSuccess, StatusUpdateFailure}) (drop 2 vs)"
| "values_ok StatusUpdateDuration vs =
     list_all (\<lambda>v. v \<in> {StatusUpdateSuccess, StatusUpdateFailure}) (drop 2 vs)"
| "values_ok ConfigurationDriftEventsTotal vs =
     list_all (\<lambda>v. v \<in> {''config_hash'', ''auth_method''}) (drop 2 vs)"
| "values_ok _ vs = True"

definition fits :: "instrument_kind \<Rightarrow> instrument \<Rightarrow> string list \<Rightarrow> bool" where
  "fits k i vs \<longleftrightarrow> i \<in> set registered_instruments \<and> declared_kind i = k \<and>
     length vs = length (declared_labels i) \<and> values_ok i vs"

text \<open>Adding a negative number to a counter panics too.\<close>

fun call_ok :: "metric_call \<Rightarrow> bool" where
  "call_ok (GaugeSet i vs x) = fits Gauge i vs"
| "call_ok (CounterAdd i vs x) = (fits Counter i vs \<and> 0 \<le> x)"
| "call_ok (HistogramObserve i vs x) = fits Histogram i vs"

lemmas call_ok_defs = fits_def registered_instruments_def pod_states_def

lemma record_ok:
  "list_all call_ok (RecordModelValidationCR ns n)"
  "list_all call_ok (SetQueueSize n)"
  "list_all call_ok (RecordRetryAttempt ns mv)"
  "s \<in> set pod_states \<Longrightarrow> list_all call_ok (RecordPodCount ns mv s n)"
  "a \<in> set pod_states \<Longrightarrow> b \<in> set pod_states \<Longrightarrow> a \<noteq> b \<Longrightarrow> list_all call_ok (RecordPodStateTransition ns mv a b)"
  "a \<in> set pod_states \<Longrightarrow> b \<in> set pod_states \<Longrightarrow> a \<noteq> b \<Longrightarrow>
     list_all call_ok (RecordMultiplePodStateTransitions ns mv a b n)"
  "r \<in> {StatusUpdateSuccess, StatusUpdateFailure} \<Longrightarrow> list_all call_ok (RecordStatusUpdate ns mv r)"
  "r \<in> {StatusUpdateSuccess, StatusUpdateFailure} \<Longrightarrow> list_all call_ok (RecordStatusUpdateDuration ns mv r n)"
  "d \<in> {''config_hash'', ''auth_method''} \<Longrightarrow> list_all call_ok (RecordConfigurationDrift ns mv d)"
  by (auto simp: record_defs call_ok_defs)

lemma state_names [simp]:
  "''injected'' \<in> set pod_states" "''uninjected'' \<in> set pod_states" "''orphaned'' \<in> set pod_states"
  by (simp_all add: pod_states_def)

section \<open>Operations\<close>

lemma getPodState_names: "getPodState mvi uid = [] \<or> getPodState mvi uid \<in> set pod_states"
  by (simp add: getPodState_def pod_states_def)

lemma movePodToState_ok:
  "s \<in> set pod_states \<Longrightarrow> list_all call_ok (snd (movePodToState p s f mvi))"
  using getPodState_names [of mvi "pi_UID p"] by (auto simp: movePodToState_def Let_def intro!: record_ok)

lemma add_pod_ok:
  "list_all call_ok (snd (AddInjectedPod p mvi))" "list_all call_ok (snd (AddUninjectedPod p mvi))"
  by (simp_all add: AddInjectedPod_def AddUninjectedPod_def movePodToState_ok)

lemma pod_event_ok: "list_all call_ok (metric_calls (snd (processPodEventCommon F pod k mvi st)))"
  using add_pod_ok [of "pod_info pod" mvi] by (auto simp: processPodEventCommon_def Let_def split: prod.split)

lemma doUpdateStatus_ok:
  "doUpdateStatus E k got st = (err, written, st', effs) \<Longrightarrow> list_all call_ok (metric_calls effs)"
  by (auto simp: doUpdateStatus_def recordStatusUpdateResult_def recordPodCounts_def Let_def record_ok
      split: sum.splits client_error.splits option.splits if_splits)

lemma processNextUpdate_ok: "list_all call_ok (metric_calls (snd (processNextUpdate E k shutdown got st)))"
  by (auto simp: processNextUpdate_def record_ok split: prod.split dest!: doUpdateStatus_ok)

lemma exec_op_ok: "list_all call_ok (metric_calls (snd (exec_op F op st)))"
proof (cases op)
  case (AddMV ord mv)
  then show ?thesis
    by (auto simp: AddModelValidation_def Let_def record_ok split: option.split prod.split)
next
  case (RemoveMV ord k)
  then show ?thesis by (auto simp: RemoveModelValidation_def Let_def record_ok split: option.split)
next
  case (WorkerUpdate E k shutdown got)
  then show ?thesis by (simp add: processNextUpdate_ok)
qed (auto simp: ProcessPodEvent_def processSeedPodEvent_def RemovePodEvent_def RemovePodByName_def pod_event_ok Let_def
    split: option.split prod.split)

definition metrics_ok :: "'q Machine \<Rightarrow> bool" where
  "metrics_ok m \<longleftrightarrow> list_all call_ok (mc_metrics m) \<and> list_all call_ok (dq_metrics (mc_queue m))"

lemma dq_metric_ok:
  "dq_step W q l q' \<Longrightarrow> list_all call_ok (dq_metrics q) \<Longrightarrow> list_all call_ok (dq_metrics q')"
  by (cases rule: dq_step.cases)
    (auto simp: dq_Add_def fire_timer_def callback_step_def dq_Get_def dq_Done_def AddWithRetry_def ForgetRetries_def
      dq_ShutDown_def updateQueueSizeMetric_def Let_def record_ok split: option.splits prod.splits cb_pc.splits)

lemma perform_ok: "metrics_ok m \<Longrightarrow> metrics_ok (perform F op m)"
  using exec_op_ok [of F op "mc_tracker m"] by (auto simp: metrics_ok_def perform_def split: prod.split)

lemma update_status_ok: "metrics_ok m \<Longrightarrow> metrics_ok (update_status E k got m)"
  by (auto simp: metrics_ok_def update_status_def Let_def dest: doUpdateStatus_ok split: prod.split option.split)

lemma queue_ok:
  "list_all call_ok (dq_metrics q) \<Longrightarrow> list_all call_ok (dq_metrics (dq_Add k q))"
  "list_all call_ok (dq_metrics q) \<Longrightarrow> list_all call_ok (dq_metrics (dq_Done W k q))"
  "list_all call_ok (dq_metrics q) \<Longrightarrow> list_all call_ok (dq_metrics (AddWithRetry W k q))"
  "list_all call_ok (dq_metrics q) \<Longrightarrow> list_all call_ok (dq_metrics (ForgetRetries W k q))"
  "list_all call_ok (dq_metrics q) \<Longrightarrow> list_all call_ok (dq_metrics (dq_ShutDown W q))"
  "list_all call_ok (dq_metrics q) \<Longrightarrow> dq_Get W q = Some (k, q') \<Longrightarrow> list_all call_ok (dq_metrics q')"
  by (blast intro: dq_metric_ok dq_step.intros)+

lemma m_step_ok:
  assumes "m_step W F m l m'" "metrics_ok m"
  shows "metrics_ok m'"
  using assms
proof (cases rule: m_step.cases)
  case (m_op op latest)
  then show ?thesis using perform_ok [OF assms(2), of F op] by (simp add: handle_op_def metrics_ok_def)
next
  case (m_seed_pod n)
  obtain k ps where "mc_seeding m ! n = (k, ps)" by (cases "mc_seeding m ! n") auto
  then show ?thesis
    using m_seed_pod assms(2) perform_ok [of "m\<lparr>mc_seeding := (mc_seeding m)[n := (k, Some pods)]\<rparr>" for pods]
    by (cases ps; cases "the ps") (auto simp: metrics_ok_def)
next
  case (m_update k got E)
  then show ?thesis using update_status_ok [OF assms(2)] by simp
qed (auto simp: metrics_ok_def queue_add_def seed_list_def change_object_def conclude_def queue_ok record_ok
    intro: dq_metric_ok split: sum.split)

text \<open>
  C20: no metric the tracker records can panic or open a new label: in every run every call on a
  Prometheus instrument is for an instrument registered at the start (each once), of its kind and
  with as many label values as it declares, never a negative addition to a counter, and the
  values after the namespace and the name are one of the three pod states, success or failure,
  or one of the two kinds of drift; a transition is between different states.
\<close>

theorem tracker_metrics_fit:
  assumes "m_run W F (start_machine q statuses) ls m"
  shows "distinct registered_instruments \<and> list_all call_ok (mc_metrics m) \<and> list_all call_ok (dq_metrics (mc_queue m))"
proof -
  have "metrics_ok (start_machine q statuses)"
    by (simp add: metrics_ok_def start_machine_def NewDebouncedQueue_def)
  with assms have "metrics_ok m" by (induction rule: m_run.induct) (auto intro: m_step_ok)
  then show ?thesis by (simp add: metrics_ok_def registered_instruments_def)
qed

theorem tracker_metrics_fit_witness:
  "\<exists>m. m_run ref_queue list_finalizers (start_machine ref_empty fmempty)
       [MOp (AddMV sorted_list_of_fset sample_mv) True] m \<and> mc_metrics m \<noteq> [] \<and> list_all call_ok (mc_metrics m)"
proof -
  let ?m = "handle_op list_finalizers (AddMV sorted_list_of_fset sample_mv) True (start_machine ref_empty fmempty)"
  have r: "m_run ref_queue list_finalizers (start_machine ref_empty fmempty) [MOp (AddMV sorted_list_of_fset sample_mv) True] ?m"
    by (simp add: m_run_exec)
  moreover have "mc_metrics ?m \<noteq> []"
    by (simp add: handle_op_def perform_def start_machine_def NewStatusTracker_def AddModelValidation_def Let_def
        RecordModelValidationCR_def)
  ultimately show ?thesis using tracker_metrics_fit [OF r] by blast
qed

end
