(* ===== verification/Test_Utils.thy ===== *)
theory Test_Utils
  imports Webhook_Properties Metric_Safety
begin

text \<open>
  The utilities of the end-to-end tests (\<open>test/utils/utils.go\<close>): the commands they run, the
  checks of pods, and the reading of metrics.  Running a command, \<open>text/template\<close>,
  \<open>encoding/json\<close> and the parser of the Prometheus text format are arguments.  The only state is
  the working directory of the test process.
\<close>

section \<open>Strings\<close>

text \<open>\<open>strings.LastIndex\<close>, \<open>Contains\<close> and \<open>Join\<close>.\<close>

fun LastIndex :: "string \<Rightarrow> string \<Rightarrow> nat option" where
  "LastIndex [] sub = (if sub = [] then Some 0 else None)"
| "LastIndex (c # cs) sub =
     (case LastIndex cs sub of
        Some n \<Rightarrow> Some (Suc n)
      | None \<Rightarrow> if HasPrefix (c # cs) sub then Some 0 else None)"

definition strings_Contains :: "string \<Rightarrow> string \<Rightarrow> bool" where
  "strings_Contains s sub \<longleftrightarrow> LastIndex s sub \<noteq> None"

fun strings_Join :: "string list \<Rightarrow> string \<Rightarrow> string" where
  "strings_Join [] sep = []"
| "strings_Join [s] sep = s"
| "strings_Join (s # t # ss) sep = s @ sep @ strings_Join (t # ss) sep"

lemma LastIndex_Some: "LastIndex s sub = Some n \<Longrightarrow> n \<le> length s \<and> HasPrefix (drop n s) sub"
  by (induction s arbitrary: n) (auto simp: HasPrefix_def split: if_splits option.splits)

lemma LastIndex_None: "LastIndex s sub = None \<longleftrightarrow> (\<forall>t u. s \<noteq> t @ sub @ u)"
proof (induction s)
  case (Cons c cs)
  have "(\<forall>t u. c # cs \<noteq> t @ sub @ u) \<longleftrightarrow> \<not> HasPrefix (c # cs) sub \<and> (\<forall>t u. cs \<noteq> t @ sub @ u)"
    by (auto simp: HasPrefix_iff Cons_eq_append_conv)
  then show ?case using Cons by (auto split: option.splits)
qed auto

definition GetNonEmptyLines :: "string \<Rightarrow> string list" where
  "GetNonEmptyLines output = filter (\<lambda>element. element \<noteq> []) (Split output (CHR 0x0A))"

section \<open>Commands\<close>

text \<open>
  What the operating system answers: \<open>Getwd\<close> and \<open>Chdir\<close> can fail, and a command run in a directory
  with an input yields its output and an error.
\<close>

record shell =
  sh_getwd_error :: go_error
  sh_chdir_error :: "string \<Rightarrow> go_error"
  sh_exec :: "string \<Rightarrow> string list \<Rightarrow> string \<Rightarrow> string \<times> go_error"

definition GetProjectDir :: "shell \<Rightarrow> string \<Rightarrow> string \<times> go_error" where
  "GetProjectDir sh cwd =
     (case sh_getwd_error sh of
        Some err \<Rightarrow> ([], Some err)
      | None \<Rightarrow>
          (case LastIndex cwd ''/test/'' of Some idx \<Rightarrow> (take idx cwd, None) | None \<Rightarrow> (cwd, None)))"

text \<open>\<open>Run\<close> leaves the process in the project directory it has found.\<close>

definition Run :: "shell \<Rightarrow> string list \<Rightarrow> string \<Rightarrow> string \<Rightarrow> (string \<times> go_error) \<times> string" where
  "Run sh argv stdin cwd =
     (let (dir, _) = GetProjectDir sh cwd;
          cwd' = (if sh_chdir_error sh dir = None then dir else cwd);
          command = strings_Join argv '' '';
          (output, err) = sh_exec sh (if dir = [] then cwd' else dir) argv stdin
      in ((output,
           case err of
             Some e \<Rightarrow> Some (command @ '' failed with error: ('' @ e @ '') '' @ output)
           | None \<Rightarrow> None), cwd'))"

record ('t, 'd) template_lib =
  template_Parse :: "string \<Rightarrow> string + 't"
  template_Execute :: "'t \<Rightarrow> 'd \<Rightarrow> string + string"

definition executeTemplate :: "('t, 'd) template_lib \<Rightarrow> string \<Rightarrow> 'd \<Rightarrow> string + string" where
  "executeTemplate L templateData d =
     (case template_Parse L templateData of
        Inl err \<Rightarrow> Inl (''failed to parse template: '' @ err)
      | Inr tmpl \<Rightarrow>
          (case template_Execute L tmpl d of
             Inl err \<Rightarrow> Inl (''failed to execute template: '' @ err)
           | Inr out \<Rightarrow> Inr out))"

text \<open>The input of a command: the data, or the template executed on what it is given.\<close>

definition final_data :: "('t, 'd) template_lib \<Rightarrow> string \<Rightarrow> 'd option \<Rightarrow> string + string" where
  "final_data L yamlData templateData =
     (case templateData of None \<Rightarrow> Inr yamlData | Some d \<Rightarrow> executeTemplate L yamlData d)"

definition KubectlApply ::
  "shell \<Rightarrow> ('t, 'd) template_lib \<Rightarrow> string \<Rightarrow> 'd option \<Rightarrow> string \<Rightarrow> go_error \<times> string" where
  "KubectlApply sh L yamlData templateData cwd =
     (case final_data L yamlData templateData of
        Inl err \<Rightarrow> (Some err, cwd)
      | Inr data \<Rightarrow>
          (let ((_, err), cwd') = Run sh [''kubectl'', ''apply'', ''-f'', ''-''] data cwd in (err, cwd')))"

record 'd KubectlDeleteOptions =
  kd_Timeout :: string
  kd_IgnoreNotFound :: bool
  kd_TemplateData :: "'d option"

definition KubectlDelete ::
  "shell \<Rightarrow> ('t, 'd) template_lib \<Rightarrow> string \<Rightarrow> 'd KubectlDeleteOptions option \<Rightarrow> string \<Rightarrow> go_error \<times> string" where
  "KubectlDelete sh L yamlData opts cwd =
     (case final_data L yamlData (case opts of Some o' \<Rightarrow> kd_TemplateData o' | None \<Rightarrow> None) of
        Inl err \<Rightarrow> (Some err, cwd)
      | Inr data \<Rightarrow>
          (let args = [''delete'', ''-f'', ''-''] @
                 (case opts of
                    None \<Rightarrow> []
                  | Some o' \<Rightarrow>
                      (if kd_Timeout o' \<noteq> [] then [''--timeout='' @ kd_Timeout o'] else []) @
                      (if kd_IgnoreNotFound o' then [''--ignore-not-found=true''] else []));
               ((_, err), cwd') = Run sh (''kubectl'' # args) data cwd
           in (err, cwd')))"

definition namespace_args :: "string \<Rightarrow> string list" where
  "namespace_args namespace = (if namespace \<noteq> [] then [''-n'', namespace] else [])"

definition KubectlGet ::
  "shell \<Rightarrow> string \<Rightarrow> string \<Rightarrow> string \<Rightarrow> string \<Rightarrow> string \<Rightarrow> (string \<times> go_error) \<times> string" where
  "KubectlGet sh resource name namespace outputFormat cwd =
     Run sh ([''kubectl'', ''get'', resource] @ (if name \<noteq> [] then [name] else []) @ namespace_args namespace @
       (if outputFormat \<noteq> [] then [''-o'', outputFormat] else [])) [] cwd"

definition KubectlGetJSON ::
  "shell \<Rightarrow> (string \<Rightarrow> string + 'r) \<Rightarrow> string \<Rightarrow> string \<Rightarrow> string \<Rightarrow> string \<Rightarrow> (string + 'r) \<times> string" where
  "KubectlGetJSON sh Unmarshal resource name namespace cwd =
     (let ((output, err), cwd') = KubectlGet sh resource name namespace ''json'' cwd
      in ((case err of Some e \<Rightarrow> Inl e | None \<Rightarrow> Unmarshal output), cwd'))"

definition KubectlWait ::
  "shell \<Rightarrow> string \<Rightarrow> string \<Rightarrow> string \<Rightarrow> string \<Rightarrow> string \<Rightarrow> string \<Rightarrow> go_error \<times> string" where
  "KubectlWait sh resource name namespace cond timeout cwd =
     (let ((_, err), cwd') = Run sh ([''kubectl'', ''wait'', resource, name] @ namespace_args namespace @
            [''--for'', cond, ''--timeout'', timeout]) [] cwd
      in (err, cwd'))"

definition KubectlPatch ::
  "shell \<Rightarrow> string \<Rightarrow> string \<Rightarrow> string \<Rightarrow> string \<Rightarrow> string \<Rightarrow> string \<Rightarrow> go_error \<times> string" where
  "KubectlPatch sh resource name namespace patchType patch cwd =
     (let ((_, err), cwd') = Run sh ([''kubectl'', ''patch'', resource, name] @ namespace_args namespace @
            [''--type'', patchType, ''-p'', patch]) [] cwd
      in (err, cwd'))"

definition KubectlDescribe :: "shell \<Rightarrow> string \<Rightarrow> string \<Rightarrow> string \<Rightarrow> string \<Rightarrow> (string \<times> go_error) \<times> string" where
  "KubectlDescribe sh resource name namespace cwd =
     Run sh ([''kubectl'', ''describe'', resource, name] @ namespace_args namespace) [] cwd"

definition KubectlResourceExists :: "shell \<Rightarrow> string \<Rightarrow> string \<Rightarrow> string \<Rightarrow> string \<Rightarrow> bool \<times> string" where
  "KubectlResourceExists sh resource name namespace cwd =
     (let ((_, err), cwd') = KubectlGet sh resource name namespace [] cwd in (err = None, cwd'))"

definition CreateServiceAccountToken :: "shell \<Rightarrow> string \<Rightarrow> string \<Rightarrow> string \<Rightarrow> (string \<times> go_error) \<times> string" where
  "CreateServiceAccountToken sh serviceAccountName namespace cwd =
     (let ((token, err), cwd') = Run sh [''kubectl'', ''create'', ''token'', serviceAccountName, ''-n'', namespace] [] cwd
      in (case err of
            Some e \<Rightarrow> ([], Some (''failed to create token for service account '' @ serviceAccountName @
                          '' in namespace '' @ namespace @ '': '' @ e))
          | None \<Rightarrow> (TrimSpace token, None), cwd'))"

definition MetricsServiceAccountName :: string where
  "MetricsServiceAccountName = ''e2e-metrics-reader''"
definition MetricsServiceName :: string where
  "MetricsServiceName = ''model-validation-controller-manager-metrics-service''"

definition GetMetricsOutput :: "shell \<Rightarrow> string \<Rightarrow> string \<Rightarrow> string \<Rightarrow> string \<times> string" where
  "GetMetricsOutput sh namespace podName cwd =
     (let ((token, err), cwd1) = CreateServiceAccountToken sh MetricsServiceAccountName namespace cwd
      in if err \<noteq> None then ([], cwd1)
         else
           (let curlCommand = ''curl -s -k -H '' @ [CHR 0x27] @ ''Authorization: Bearer '' @ token @ [CHR 0x27] @
                  '' https://'' @ MetricsServiceName @ ''.'' @ namespace @ ''.svc.cluster.local:8443/metrics 2>/dev/null'';
                ((output, err), cwd2) = Run sh [''kubectl'', ''exec'', podName, ''-n'', namespace, ''--'',
                  ''/bin/sh'', ''-c'', curlCommand] [] cwd1
            in if err \<noteq> None then ([], cwd2) else (output, cwd2)))"

section \<open>Pods\<close>

record HostPathVolume =
  hp_Path :: string
  hp_Type :: string

record TemplateVolume =
  tv_Name :: string
  tv_HostPath :: "HostPathVolume option"

record TemplateVolumeMount =
  tvm_Name :: string
  tvm_MountPath :: string
  tvm_ReadOnly :: bool

record PodTemplateData =
  ptd_PodName :: string
  ptd_Namespace :: string
  ptd_ModelName :: string
  ptd_TestBatch :: string
  ptd_VolumeMounts :: "TemplateVolumeMount list"
  ptd_Volumes :: "TemplateVolume list"

text \<open>What the other templates are executed on.\<close>

record CRTemplateData =
  crt_ModelName :: string
  crt_Namespace :: string
  crt_KeyPath :: string

record CurlPodTemplateData =
  cpt_PodName :: string
  cpt_Namespace :: string
  cpt_Token :: string
  cpt_ServiceName :: string
  cpt_ServiceAccount :: string

record ClusterRoleBindingTemplateData =
  cbt_Name :: string
  cbt_ServiceAccountName :: string
  cbt_Namespace :: string
  cbt_ClusterRoleName :: string

record CatalogSourceTemplateData =
  cst_Name :: string
  cst_Namespace :: string
  cst_Image :: string

record OperatorGroupTemplateData =
  ogt_Name :: string
  ogt_Namespace :: string

record SubscriptionTemplateData =
  sbt_Name :: string
  sbt_Namespace :: string
  sbt_Channel :: string
  sbt_PackageName :: string
  sbt_CatalogSourceName :: string
  sbt_CatalogSourceNamespace :: string

definition DefaultPodData :: "string \<Rightarrow> string \<Rightarrow> string \<Rightarrow> string \<Rightarrow> PodTemplateData" where
  "DefaultPodData podName namespace modelName testBatch =
     \<lparr>ptd_PodName = podName, ptd_Namespace = namespace, ptd_ModelName = modelName, ptd_TestBatch = testBatch,
      ptd_VolumeMounts =
        [\<lparr>tvm_Name = ''model-data'', tvm_MountPath = ''/data'', tvm_ReadOnly = True\<rparr>,
         \<lparr>tvm_Name = ''keys-data'', tvm_MountPath = ''/keys'', tvm_ReadOnly = True\<rparr>],
      ptd_Volumes =
        [\<lparr>tv_Name = ''model-data'', tv_HostPath = Some \<lparr>hp_Path = ''/tmp/e2e-model-data'', hp_Type = ''Directory''\<rparr>\<rparr>,
         \<lparr>tv_Name = ''keys-data'', tv_HostPath = Some \<lparr>hp_Path = ''/tmp/e2e-keys-data'', hp_Type = ''Directory''\<rparr>\<rparr>]\<rparr>"

definition HasValidationContainer :: "Pod \<Rightarrow> bool" where
  "HasValidationContainer pod \<longleftrightarrow>
     list_ex (\<lambda>c. strings_Contains (c_Name c) ''model-validation'') (ps_InitContainers (pod_Spec pod))"

definition HasValidationSidecar :: "Pod \<Rightarrow> bool" where
  "HasValidationSidecar pod \<longleftrightarrow>
     list_ex (\<lambda>c. c_Name c = ''model-validation-sidecar'') (ps_Containers (pod_Spec pod))"

section \<open>Reading metrics\<close>

text \<open>
  A metric family as the parser of the text format returns it: its type and its metrics, each with
  its label pairs and the value of one of the three types.  Values are rationals; \<open>int\<close> of a
  float drops the fraction.
\<close>

datatype family_type = FGauge | FCounter | FHistogram | FOther

record exposed_metric =
  em_Label :: "(string \<times> string) list"
  em_Gauge :: "rat option"
  em_Counter :: "rat option"
  em_Histogram :: "nat option"

record metric_family =
  mf_Type :: family_type
  mf_Metric :: "exposed_metric list"

definition int_of_float :: "rat \<Rightarrow> int" where
  "int_of_float q = (if q \<ge> 0 then \<lfloor>q\<rfloor> else \<lceil>q\<rceil>)"

definition label_map :: "(string \<times> string) list \<Rightarrow> (string, string) fmap" where
  "label_map pairs = foldl (\<lambda>m (k, v). fmupd k v m) fmempty pairs"

definition labelsMatch :: "(string \<times> string) list \<Rightarrow> (string, string) fmap \<Rightarrow> bool" where
  "labelsMatch actualLabels expectedLabels \<longleftrightarrow>
     fmpred (\<lambda>key expectedValue. fmlookup (label_map actualLabels) key = Some expectedValue) expectedLabels"

definition metric_value :: "family_type \<Rightarrow> exposed_metric \<Rightarrow> int option" where
  "metric_value t metric =
     (case t of
        FGauge \<Rightarrow> map_option int_of_float (em_Gauge metric)
      | FCounter \<Rightarrow> map_option int_of_float (em_Counter metric)
      | FHistogram \<Rightarrow> map_option int (em_Histogram metric)
      | FOther \<Rightarrow> None)"

text \<open>The loop goes on after a metric whose labels match but which has no value of the type.\<close>

fun find_value :: "family_type \<Rightarrow> (string, string) fmap \<Rightarrow> exposed_metric list \<Rightarrow> int" where
  "find_value t ls [] = 0"
| "find_value t ls (metric # ms) =
     (if labelsMatch (em_Label metric) ls
      then case metric_value t metric of Some v \<Rightarrow> v | None \<Rightarrow> find_value t ls ms
      else find_value t ls ms)"

type_synonym metrics_parser = "string \<Rightarrow> string + (string, metric_family) fmap"

definition ExtractMetricValue :: "metrics_parser \<Rightarrow> string \<Rightarrow> string \<Rightarrow> (string, string) fmap \<Rightarrow> int" where
  "ExtractMetricValue parse metricsOutput metricName ls =
     (case parse metricsOutput of
        Inl err \<Rightarrow> 0
      | Inr families \<Rightarrow>
          (case fmlookup families metricName of
             None \<Rightarrow> 0
           | Some family \<Rightarrow> find_value (mf_Type family) ls (mf_Metric family)))"

definition GetMetricValue ::
  "shell \<Rightarrow> metrics_parser \<Rightarrow> string \<Rightarrow> (string, string) fmap \<Rightarrow> string \<Rightarrow> string \<Rightarrow> string \<Rightarrow> int \<times> string" where
  "GetMetricValue sh parse metricName ls namespace podName cwd =
     (let (metrics, cwd') = GetMetricsOutput sh namespace podName cwd
      in (ExtractMetricValue parse metrics metricName ls, cwd'))"

section \<open>What the operator exposes\<close>

text \<open>
  The families of the registered gauges and counters after the calls \<open>cs\<close>: one metric for each list
  of label values recorded, with the value \<open>Metrics\<close> reads of the calls.  Histograms are left out.
\<close>

fun call_series :: "instrument \<Rightarrow> metric_call list \<Rightarrow> string list list" where
  "call_series i [] = []"
| "call_series i (GaugeSet j vs x # cs) = (if j = i then [vs] else []) @ call_series i cs"
| "call_series i (CounterAdd j vs x # cs) = (if j = i then [vs] else []) @ call_series i cs"
| "call_series i (HistogramObserve j vs x # cs) = call_series i cs"

definition exposed_series :: "instrument \<Rightarrow> metric_call list \<Rightarrow> string list \<Rightarrow> exposed_metric" where
  "exposed_series i cs vs =
     \<lparr>em_Label = zip (declared_labels i) vs,
      em_Gauge = (if declared_kind i = Gauge then map_option of_int (gauge i vs cs) else None),
      em_Counter = (if declared_kind i = Counter then Some (of_int (counter i vs cs)) else None),
      em_Histogram = None\<rparr>"

definition exposed_family :: "instrument \<Rightarrow> metric_call list \<Rightarrow> metric_family" where
  "exposed_family i cs =
     \<lparr>mf_Type = (case declared_kind i of Gauge \<Rightarrow> FGauge | Counter \<Rightarrow> FCounter | Histogram \<Rightarrow> FHistogram),
      mf_Metric = map (exposed_series i cs) (remdups (call_series i cs))\<rparr>"

fun instrument_name :: "instrument \<Rightarrow> string" where
  "instrument_name ModelValidationPodCounts = ''model_validation_operator_modelvalidation_pod_count''"
| "instrument_name PodStateTransitionsTotal = ''model_validation_operator_pod_state_transitions_total''"
| "instrument_name StatusUpdatesTotal = ''model_validation_operator_status_updates_total''"
| "instrument_name ConfigurationDriftEventsTotal = ''model_validation_operator_configuration_drift_events_total''"
| "instrument_name ModelValidationCRsTotal = ''model_validation_operator_modelvalidation_crs_total''"
| "instrument_name StatusUpdateDuration = ''model_validation_operator_status_update_duration_seconds''"
| "instrument_name QueueSize = ''model_validation_operator_status_update_queue_size''"
| "instrument_name RetryAttemptsTotal = ''model_validation_operator_status_update_retry_attempts_total''"
| "instrument_name WebhookMutations = ''webhook.mutations''"
| "instrument_name WebhookDuration = ''webhook.mutation.duration''"
| "instrument_name ReconcileCount = ''reconcile.count''"
| "instrument_name ReconcileDuration = ''reconcile.duration''"

definition exposition :: "metric_call list \<Rightarrow> (string, metric_family) fmap" where
  "exposition cs =
     fmap_of_list (map (\<lambda>i. (instrument_name i, exposed_family i cs))
       (filter (\<lambda>i. call_series i cs \<noteq> []) registered_instruments))"

lemma lookup_label_map: "distinct (map fst ps) \<Longrightarrow> fmlookup (label_map ps) = map_of ps"
proof (induction ps rule: rev_induct)
  case (snoc p ps)
  obtain k v where p: "p = (k, v)" by (cases p)
  with snoc have "fmlookup (label_map ps) = map_of ps" "map_of ps k = None" by (auto simp: map_of_eq_None_iff)
  then show ?case by (auto simp: p label_map_def map_add_def fun_eq_iff split: option.splits)
qed (simp add: label_map_def fun_eq_iff)

lemma labels_match_zip:
  assumes "distinct ls" "length vs = length ls" "length ws = length ls"
  shows "labelsMatch (zip ls vs) (fmap_of_list (zip ls ws)) \<longleftrightarrow> vs = ws"
proof
  assume "labelsMatch (zip ls vs) (fmap_of_list (zip ls ws))"
  then have m: "map_of (zip ls vs) k = Some w" if "map_of (zip ls ws) k = Some w" for k w
    using that assms by (simp add: labelsMatch_def lookup_label_map fmlookup_of_list fmpred_iff)
  show "vs = ws"
  proof (rule nth_equalityI)
    fix i assume i: "i < length vs"
    then have "map_of (zip ls ws) (ls ! i) = Some (ws ! i)" "map_of (zip ls vs) (ls ! i) = Some (vs ! i)"
      using assms by (simp_all add: map_of_zip_nth)
    with m show "vs ! i = ws ! i" by fastforce
  qed (use assms in simp)
next
  assume "vs = ws"
  then show "labelsMatch (zip ls vs) (fmap_of_list (zip ls ws))"
    using assms by (simp add: labelsMatch_def lookup_label_map fmlookup_of_list fmpred_iff)
qed

lemma declared_labels_distinct: "distinct (declared_labels i)"
  by (cases i) simp_all

lemma series_length: "list_all call_ok cs \<Longrightarrow> vs \<in> set (call_series i cs) \<Longrightarrow> length vs = length (declared_labels i)"
  by (induction i cs rule: call_series.induct) (auto simp: fits_def split: if_splits)

lemma unrecorded: "vs \<notin> set (call_series i cs) \<Longrightarrow> gauge i vs cs = None \<and> counter i vs cs = 0"
  by (induction i cs rule: call_series.induct) (auto split: if_splits)

lemma recorded_gauge:
  "list_all call_ok cs \<Longrightarrow> declared_kind i = Gauge \<Longrightarrow> vs \<in> set (call_series i cs) \<Longrightarrow> gauge i vs cs \<noteq> None"
  by (induction i cs rule: call_series.induct) (auto simp: fits_def split: if_splits option.split)

lemma int_of_float_int [simp]: "int_of_float (of_int n) = n"
  by (simp add: int_of_float_def)

definition trace_value :: "instrument \<Rightarrow> string list \<Rightarrow> metric_call list \<Rightarrow> int" where
  "trace_value i vs cs =
     (if declared_kind i = Gauge then (case gauge i vs cs of Some v \<Rightarrow> v | None \<Rightarrow> 0) else counter i vs cs)"

lemma find_exposed:
  assumes "\<And>ws. ws \<in> set wss \<Longrightarrow> length ws = length (declared_labels i)" "length vs = length (declared_labels i)"
    and "declared_kind i \<noteq> Histogram" "\<And>ws. ws \<in> set wss \<Longrightarrow> declared_kind i = Gauge \<Longrightarrow> gauge i ws cs \<noteq> None"
  shows "find_value (mf_Type (exposed_family i cs)) (fmap_of_list (zip (declared_labels i) vs)) (map (exposed_series i cs) wss) =
    (if vs \<in> set wss then trace_value i vs cs else 0)"
  using assms(1,4)
proof (induction wss)
  case (Cons ws wss)
  have "labelsMatch (em_Label (exposed_series i cs ws)) (fmap_of_list (zip (declared_labels i) vs)) \<longleftrightarrow> ws = vs"
    using labels_match_zip [OF declared_labels_distinct, of ws i vs] Cons.prems(1) assms(2) by (simp add: exposed_series_def)
  moreover have "metric_value (mf_Type (exposed_family i cs)) (exposed_series i cs ws) = Some (trace_value i ws cs)"
    using Cons.prems(2) [of ws] assms(3)
    by (cases "declared_kind i") (auto simp: exposed_family_def exposed_series_def metric_value_def trace_value_def)
  ultimately show ?case using Cons by auto
qed simp

lemma exposition_lookup:
  assumes "i \<in> set registered_instruments"
  shows "fmlookup (exposition cs) (instrument_name i) =
    (if call_series i cs = [] then None else Some (exposed_family i cs))"
proof -
  have names: "inj_on instrument_name (set registered_instruments)" "distinct registered_instruments"
    by (simp_all add: registered_instruments_def)
  let ?is = "filter (\<lambda>i. call_series i cs \<noteq> []) registered_instruments"
  let ?ps = "map (\<lambda>i. (instrument_name i, exposed_family i cs)) ?is"
  have "distinct (map fst ?ps)"
    using names by (auto simp: distinct_map comp_def inj_on_def)
  then have "map_of ?ps (instrument_name i) = Some y \<longleftrightarrow> (instrument_name i, y) \<in> set ?ps" for y
    by (rule map_of_eq_Some_iff)
  moreover have "(instrument_name i, y) \<in> set ?ps \<longleftrightarrow> call_series i cs \<noteq> [] \<and> y = exposed_family i cs" for y
    using names(1) assms by (auto simp: inj_on_def)
  ultimately show ?thesis
    unfolding exposition_def fmlookup_of_list by (cases "map_of ?ps (instrument_name i)") auto
qed

section \<open>Properties\<close>

text \<open>
  What the end-to-end tests read is what the operator recorded: from the exposition of any
  admissible calls, \<open>ExtractMetricValue\<close> with all labels of a registered gauge or counter returns
  the last value set or the sum added for exactly those label values, and 0 when there was none.
\<close>

theorem metrics_read_back:
  assumes "parse out = Inr (exposition cs)" "list_all call_ok cs" "i \<in> set registered_instruments"
    and "declared_kind i \<noteq> Histogram" "length vs = length (declared_labels i)"
  shows "ExtractMetricValue parse out (instrument_name i) (fmap_of_list (zip (declared_labels i) vs)) =
    (if declared_kind i = Gauge then (case gauge i vs cs of Some v \<Rightarrow> v | None \<Rightarrow> 0) else counter i vs cs)"
proof -
  let ?v = "find_value (mf_Type (exposed_family i cs)) (fmap_of_list (zip (declared_labels i) vs))
    (map (exposed_series i cs) (remdups (call_series i cs)))"
  have "?v = (if vs \<in> set (call_series i cs) then trace_value i vs cs else 0)"
    using find_exposed [of "remdups (call_series i cs)" i vs cs] series_length [OF assms(2)]
      recorded_gauge [OF assms(2)] assms(4,5) by auto
  also have "\<dots> = trace_value i vs cs" using unrecorded [of vs i cs] by (auto simp: trace_value_def)
  finally have v: "?v = trace_value i vs cs" .
  show ?thesis
  proof (cases "call_series i cs")
    case Nil
    then show ?thesis
      using unrecorded [of vs i cs] assms(1,3) by (simp add: ExtractMetricValue_def exposition_lookup)
  next
    case (Cons ws wss)
    then show ?thesis
      using v assms(1,3)
      by (simp add: ExtractMetricValue_def exposition_lookup exposed_family_def trace_value_def)
  qed
qed

definition sample_calls :: "metric_call list" where
  "sample_calls = RecordPodCount ''prod'' ''resnet'' PodStateInjected 1 @ RecordPodCount ''prod'' ''other'' PodStateInjected 7 @
     RecordPodCount ''prod'' ''resnet'' PodStateInjected 2"

theorem metrics_read_back_witness:
  "ExtractMetricValue (\<lambda>_. Inr (exposition sample_calls)) [] (instrument_name ModelValidationPodCounts)
     (fmap_of_list (zip (declared_labels ModelValidationPodCounts) [''prod'', ''resnet'', ''injected''])) = 2"
proof -
  have "list_all call_ok sample_calls" by (simp add: sample_calls_def record_ok)
  then show ?thesis
    using metrics_read_back [of "\<lambda>_. Inr (exposition sample_calls)" "[]" sample_calls ModelValidationPodCounts
        "[''prod'', ''resnet'', ''injected'']"]
    by (simp add: registered_instruments_def sample_calls_def RecordPodCount_def)
qed

text \<open>
  Every pod the webhook has injected passes the tests' check for the init container, and the one
  for the sidecar exactly when it had one before or continuous validation runs without native
  sidecars.
\<close>

theorem injected_pod_recognised:
  "HasValidationContainer (inject F sel E ns mv pod) \<and>
   (HasValidationSidecar (inject F sel E ns mv pod) \<longleftrightarrow>
      HasValidationSidecar pod \<or> continuous_enabled mv \<and> \<not> we_nativeSidecarSupport E)"
proof -
  have "c_Name (injected_container sel E ns mv pod) = ''model-validation''"
    by (simp add: injected_container_def ModelValidationInitContainerName_def)
  moreover have "strings_Contains ''model-validation'' ''model-validation''"
    by (simp add: strings_Contains_def HasPrefix_def)
  ultimately show ?thesis
    by (auto simp: HasValidationContainer_def HasValidationSidecar_def inject_fields buildLegacySidecarContainer_def
        ModelValidationSidecarContainerName_def)
qed

text \<open>
  The project directory is found by cutting the working directory at its last \<open>/test/\<close>, and
  \<open>Run\<close> moves the process there; when the checkout is itself below a directory named \<open>test\<close>, the
  next command finds and runs in a directory above the project.
\<close>

theorem second_run_leaves_project:
  assumes "sh_getwd_error sh = None" "\<And>d. sh_chdir_error sh d = None"
    and "LastIndex wd ''/test/'' = Some i" "LastIndex (take i wd) ''/test/'' = Some j"
  shows "snd (Run sh argv stdin wd) = take i wd \<and>
    snd (Run sh argv' stdin' (snd (Run sh argv stdin wd))) = take j wd \<and> j < i"
proof -
  have dirs: "snd (Run sh a b c) = fst (GetProjectDir sh c)" for a b c
    using assms(1,2) by (simp add: Run_def split: prod.split)
  have i: "i \<le> length wd" using LastIndex_Some [OF assms(3)] by simp
  have "HasPrefix (drop j (take i wd)) ''/test/''" using LastIndex_Some [OF assms(4)] by simp
  then have "j < i" using i by (auto simp: HasPrefix_iff dest!: arg_cong [of _ _ length])
  then show ?thesis using assms(1,3,4) i by (simp add: dirs GetProjectDir_def)
qed

definition quiet_shell :: shell where
  "quiet_shell = \<lparr>sh_getwd_error = None, sh_chdir_error = (\<lambda>_. None), sh_exec = (\<lambda>dir argv stdin. (dir, None))\<rparr>"

theorem second_run_leaves_project_witness:
  "snd (Run quiet_shell [''kubectl''] [] (snd (Run quiet_shell [''kubectl''] [] ''/ci/test/operator/test/e2e''))) = ''/ci''"
proof -
  have "LastIndex ''/ci/test/operator/test/e2e'' ''/test/'' = Some 17"
    "LastIndex (take 17 ''/ci/test/operator/test/e2e'') ''/test/'' = Some 3"
    by (simp_all add: HasPrefix_def)
  moreover have "sh_getwd_error quiet_shell = None" "\<And>d. sh_chdir_error quiet_shell d = None"
    by (simp_all add: quiet_shell_def)
  ultimately have "take 3 ''/ci/test/operator/test/e2e'' =
      snd (Run quiet_shell [''kubectl''] [] (snd (Run quiet_shell [''kubectl''] [] ''/ci/test/operator/test/e2e'')))"
    using second_run_leaves_project [of quiet_shell "''/ci/test/operator/test/e2e''" 17 3] by metis
  then show ?thesis by simp
qed

end
