(* ===== verification/Schemes.thy ===== *)
theory Schemes
  imports Prelude "HOL-Library.Finite_Map"
begin

text \<open>
  The registration of types with a scheme (\<open>api/v1alpha1/groupversion_info.go\<close> and the \<open>init\<close>
  functions beside it, \<open>init\<close> of \<open>cmd/main.go\<close>), what the controllers register with the manager
  (their \<open>SetupWithManager\<close>), and the fake client of the tests (\<open>SetupFakeClientWithObjects\<close> of
  \<open>internal/testutil\<close>).  A scheme is the set of the kinds it knows.  The registrations of other
  packages are arguments, \<open>None\<close> for an error.
\<close>

section \<open>Kinds\<close>

type_synonym gvk = "string \<times> string \<times> string"
type_synonym scheme_lib = "gvk fset \<Rightarrow> gvk fset option"

definition GroupVersion :: "string \<times> string" where
  "GroupVersion = (''ml.sigstore.dev'', ''v1alpha1'')"

definition ml_kind :: "string \<Rightarrow> gvk" where
  "ml_kind k = (fst GroupVersion, snd GroupVersion, k)"

text \<open>What the two \<open>init\<close> functions have registered with the builder when it is used.\<close>

definition registered_with_builder :: "string list" where
  "registered_with_builder =
     [''ModelValidation'', ''ModelValidationList''] @ [''TelemetryConfig'', ''TelemetryConfigList'']"

definition AddToScheme :: scheme_lib where
  "AddToScheme scheme = Some (scheme |\<union>| fset_of_list (map ml_kind registered_with_builder))"

section \<open>The operator's scheme\<close>

text \<open>\<open>init\<close> of the operator: \<open>Must\<close> panics on an error.\<close>

definition operator_scheme :: "scheme_lib \<Rightarrow> scheme_lib \<Rightarrow> gvk fset option" where
  "operator_scheme clientgo monitoring =
     Option.bind (clientgo {||}) (\<lambda>scheme. Option.bind (AddToScheme scheme) monitoring)"

text \<open>
  A controller is registered for a kind, whose objects its requests name, and for the kinds it
  watches through a mapping.
\<close>

record controller_setup =
  cs_for :: gvk
  cs_watches :: "gvk list"

definition modelvalidation_setup :: controller_setup where
  "modelvalidation_setup = \<lparr>cs_for = ml_kind ''ModelValidation'', cs_watches = []\<rparr>"

definition pod_setup :: controller_setup where
  "pod_setup = \<lparr>cs_for = ([], ''v1'', ''Pod''), cs_watches = []\<rparr>"

definition telemetryconfig_setup :: controller_setup where
  "telemetryconfig_setup =
     \<lparr>cs_for = ml_kind ''TelemetryConfig'', cs_watches = [([], ''v1'', ''Namespace''), ml_kind ''ModelValidation'']\<rparr>"

definition controller_kinds :: "controller_setup \<Rightarrow> gvk set" where
  "controller_kinds c = insert (cs_for c) (set (cs_watches c))"

section \<open>Registration\<close>

text \<open>A registration that succeeds keeps what the scheme has and adds the kinds it is for.\<close>

locale registration =
  fixes L :: scheme_lib and ks :: "gvk list"
  assumes adds: "L s = Some s' \<Longrightarrow> s |\<subseteq>| s' \<and> set ks \<subseteq> fset s'"
begin

lemma keeps: "L s = Some s' \<Longrightarrow> k |\<in>| s \<Longrightarrow> k |\<in>| s'"
  using adds by blast

lemma known: "L s = Some s' \<Longrightarrow> k \<in> set ks \<Longrightarrow> k |\<in>| s'"
  using adds by blast

end

definition ml_kinds :: "gvk list" where
  "ml_kinds = map ml_kind registered_with_builder"

interpretation ml: registration AddToScheme ml_kinds
  by unfold_locales (auto simp: AddToScheme_def ml_kinds_def fset_of_list.rep_eq)

definition core_kinds :: "gvk list" where
  "core_kinds = [([], ''v1'', ''Pod''), ([], ''v1'', ''Namespace''), (''networking.k8s.io'', ''v1'', ''NetworkPolicy'')]"

definition monitoring_kinds :: "gvk list" where
  "monitoring_kinds = [(''monitoring.coreos.com'', ''v1'', ''ServiceMonitor'')]"

lemma setup_kinds:
  "c \<in> {modelvalidation_setup, pod_setup, telemetryconfig_setup} \<Longrightarrow>
     controller_kinds c \<subseteq> set ml_kinds \<union> set core_kinds"
  by (auto simp: controller_kinds_def modelvalidation_setup_def pod_setup_def telemetryconfig_setup_def
      ml_kinds_def core_kinds_def registered_with_builder_def)

text \<open>
  Once \<open>init\<close> has not panicked, the operator's scheme has every kind that a controller is for or
  watches, and those of the network policy and the service monitor it installs.
\<close>

theorem scheme_knows_controllers:
  assumes "registration clientgo core_kinds" "registration monitoring monitoring_kinds"
    and "operator_scheme clientgo monitoring = Some s"
  shows "(\<Union>c \<in> {modelvalidation_setup, pod_setup, telemetryconfig_setup}. controller_kinds c) \<union>
    set core_kinds \<union> set monitoring_kinds \<subseteq> fset s"
proof -
  obtain s0 s1 where s: "clientgo {||} = Some s0" "AddToScheme s0 = Some s1" "monitoring s1 = Some s"
    using assms(3) by (auto simp: operator_scheme_def split: bind_splits)
  note keeps = registration.keeps [OF assms(2) s(3)] ml.keeps [OF s(2)]
  have "set core_kinds \<subseteq> fset s" using registration.known [OF assms(1) s(1)] keeps by blast
  moreover have "set ml_kinds \<subseteq> fset s" using ml.known [OF s(2)] keeps(1) by blast
  moreover have "set monitoring_kinds \<subseteq> fset s" using registration.known [OF assms(2) s(3)] by blast
  ultimately show ?thesis using setup_kinds by blast
qed

text \<open>A registration that adds given kinds, for the instance.\<close>

definition adds_kinds :: "gvk list \<Rightarrow> scheme_lib" where
  "adds_kinds ks s = Some (s |\<union>| fset_of_list ks)"

lemma adds_kinds: "registration (adds_kinds ks) ks"
  by unfold_locales (auto simp: adds_kinds_def fset_of_list.rep_eq)

theorem scheme_knows_controllers_witness:
  "\<exists>s. operator_scheme (adds_kinds core_kinds) (adds_kinds monitoring_kinds) = Some s \<and>
     ml_kind ''TelemetryConfig'' |\<in>| s"
proof -
  obtain s where s: "operator_scheme (adds_kinds core_kinds) (adds_kinds monitoring_kinds) = Some s"
    by (simp add: operator_scheme_def adds_kinds_def AddToScheme_def)
  with scheme_knows_controllers [OF adds_kinds adds_kinds s] show ?thesis
    by (auto simp: controller_kinds_def telemetryconfig_setup_def)
qed

section \<open>The fake client of the tests\<close>

text \<open>
  Its scheme, the objects it starts with, and those whose status is a subresource of its own: the
  ModelValidations among them.  An error of a registration panics.
\<close>

record 'o fake_client =
  fc_scheme :: "gvk fset"
  fc_objects :: "'o list"
  fc_status_subresource :: "'o list"

definition SetupFakeClientWithObjects ::
  "scheme_lib \<Rightarrow> scheme_lib \<Rightarrow> ('o \<Rightarrow> bool) \<Rightarrow> 'o list \<Rightarrow> 'o fake_client option" where
  "SetupFakeClientWithObjects core networking is_mv objects =
     Option.bind (core {||}) (\<lambda>s1. Option.bind (networking s1) (\<lambda>s2. Option.bind (AddToScheme s2) (\<lambda>scheme.
       Some \<lparr>fc_scheme = scheme, fc_objects = objects, fc_status_subresource = filter is_mv objects\<rparr>)))"

lemma fake_client_scheme:
  "SetupFakeClientWithObjects core networking is_mv objects = Some c \<Longrightarrow>
     set ml_kinds \<subseteq> fset (fc_scheme c)"
  using ml.known by (auto simp: SetupFakeClientWithObjects_def split: bind_splits)

end
