(* ===== verification/Telemetry_Loop.thy ===== *)
theory Telemetry_Loop
  imports Telemetry
begin

text \<open>
  The TelemetryConfig controller at work (\<open>SetupWithManager\<close>, the two watch mappings and
  \<open>Reconcile\<close> of \<open>internal/controller/telemetryconfig_controller.go\<close>): notifications become requests,
  one worker takes a request and reads the caches one after the other while they change, and its
  write of the status comes back as a notification.  The reconciliation is that of \<open>Telemetry\<close>, on
  what the worker has read.  The informers, the request queue and the API server belong to
  controller-runtime and Kubernetes; of them the documented behaviour is modelled: the queue holds
  a request once and repeats it after an error, a write of an object that has changed since it
  was read is refused, and a write that changes nothing is no change.
\<close>

section \<open>Watches\<close>

text \<open>
  The controller is for TelemetryConfigs, of which a notification asks for the object itself, and
  watches namespaces and ModelValidations through its mappings.
\<close>

datatype watch_event = TcEvent NamespacedName | NsEvent | MvEvent

definition telemetry_requests :: "TelemetryConfig list client_result \<Rightarrow> watch_event \<Rightarrow> NamespacedName list" where
  "telemetry_requests listed e =
     (case e of
        TcEvent k \<Rightarrow> [k]
      | NsEvent \<Rightarrow> mapToTelemetryConfigs listed
      | MvEvent \<Rightarrow> mapToTelemetryConfigs listed)"

section \<open>State\<close>

text \<open>
  The worker is idle, has taken a request, has read the object (with its resource version), then
  the namespaces, then the ModelValidations.
\<close>

datatype telemetry_worker =
    TIdle
  | TTaken NamespacedName
  | TGot NamespacedName nat TelemetryConfig
  | TNamespaces NamespacedName nat TelemetryConfig "ObjectMeta list"
  | TModelValidations NamespacedName nat TelemetryConfig "ObjectMeta list" "ModelValidation list"

text \<open>
  The caches of the three kinds, the TelemetryConfigs on the server, the next resource version, the
  notifications not yet delivered, the requests, and the worker.
\<close>

record telemetry_loop =
  tl_namespaces :: "ObjectMeta list"
  tl_modelValidations :: "ModelValidation list"
  tl_server :: "(NamespacedName, nat \<times> TelemetryConfig) fmap"
  tl_cache :: "(NamespacedName, nat \<times> TelemetryConfig) fmap"
  tl_version :: nat
  tl_events :: "watch_event list"
  tl_pending :: "NamespacedName fset"
  tl_worker :: telemetry_worker

definition new_loop :: telemetry_loop where
  "new_loop =
     \<lparr>tl_namespaces = [], tl_modelValidations = [], tl_server = fmempty, tl_cache = fmempty, tl_version = 0,
      tl_events = [], tl_pending = {||}, tl_worker = TIdle\<rparr>"

definition tc_key :: "TelemetryConfig \<Rightarrow> NamespacedName" where
  "tc_key tc = nn (om_Namespace (tc_Meta tc)) (om_Name (tc_Meta tc))"

section \<open>Steps\<close>

definition loop_env ::
  "TelemetryConfig \<Rightarrow> ObjectMeta list \<Rightarrow> ModelValidation list \<Rightarrow> timestamp \<Rightarrow> client_error option \<Rightarrow> telemetry_env" where
  "loop_env tc nss mvs now refused =
     \<lparr>te_get = Inr tc, te_namespaces = Inr nss, te_modelValidations = Inr mvs, te_now = now,
      te_update = (\<lambda>_. refused), te_elapsed = 0, te_metrics_ready = True\<rparr>"

text \<open>The answer to a write of what was read at version \<open>v\<close>; \<open>refused\<close> is any other failure.\<close>

definition write_answer :: "telemetry_loop \<Rightarrow> NamespacedName \<Rightarrow> nat \<Rightarrow> client_error option \<Rightarrow> client_error option" where
  "write_answer s k v refused =
     (if refused \<noteq> None then refused
      else case fmlookup (tl_server s) k of
        None \<Rightarrow> Some NotFound
      | Some (v', _) \<Rightarrow> if v' = v then None else Some (ApiError ''Conflict''))"

definition requeue :: "NamespacedName \<Rightarrow> telemetry_loop \<Rightarrow> telemetry_loop" where
  "requeue k s = s\<lparr>tl_pending := finsert k (tl_pending s), tl_worker := TIdle\<rparr>"

definition finish_reconcile ::
  "selector_lib \<Rightarrow> NamespacedName \<Rightarrow> nat \<Rightarrow> TelemetryConfig \<Rightarrow> ObjectMeta list \<Rightarrow> ModelValidation list \<Rightarrow>
   timestamp \<Rightarrow> client_error option \<Rightarrow> telemetry_loop \<Rightarrow> telemetry_loop" where
  "finish_reconcile sel k v tc nss mvs now refused s =
     (case telemetry_reconcile sel (loop_env tc nss mvs now (write_answer s k v refused)) of
        (Some err, _) \<Rightarrow> requeue k s
      | (None, Some w) \<Rightarrow>
          if w = tc then s\<lparr>tl_worker := TIdle\<rparr>
          else s\<lparr>tl_server := fmupd k (tl_version s, w) (tl_server s), tl_version := Suc (tl_version s),
                 tl_worker := TIdle\<rparr>
      | (None, None) \<Rightarrow> s\<lparr>tl_worker := TIdle\<rparr>)"

datatype tl_label =
    LNamespaces "ObjectMeta list"
  | LModelValidations "ModelValidation list"
  | LApply TelemetryConfig
  | LRemove NamespacedName
  | LSync NamespacedName
  | LNotify watch_event "TelemetryConfig list client_result"
  | LTake NamespacedName
  | LGet
  | LListNamespaces
  | LListModelValidations
  | LReadError
  | LFinish timestamp "client_error option"

text \<open>
  The first four labels change the world: the caches of namespaces and of ModelValidations, a
  TelemetryConfig on the server.  \<open>LSync\<close> is the cache catching up with the server.  A config
  that is not found ends the reconciliation; one that is being deleted is only dropped at the end,
  which has no other effect, since the lists read until then are not used.
\<close>

fun tl_next :: "selector_lib \<Rightarrow> telemetry_loop \<Rightarrow> tl_label \<Rightarrow> telemetry_loop option" where
  "tl_next sel s (LNamespaces nss) = Some (s\<lparr>tl_namespaces := nss, tl_events := NsEvent # tl_events s\<rparr>)"
| "tl_next sel s (LModelValidations mvs) =
     Some (s\<lparr>tl_modelValidations := mvs, tl_events := MvEvent # tl_events s\<rparr>)"
| "tl_next sel s (LApply tc) =
     Some (s\<lparr>tl_server := fmupd (tc_key tc) (tl_version s, tc) (tl_server s), tl_version := Suc (tl_version s)\<rparr>)"
| "tl_next sel s (LRemove k) = Some (s\<lparr>tl_server := fmdrop k (tl_server s)\<rparr>)"
| "tl_next sel s (LSync k) =
     Some (s\<lparr>tl_cache := (case fmlookup (tl_server s) k of
                           Some o' \<Rightarrow> fmupd k o' (tl_cache s) | None \<Rightarrow> fmdrop k (tl_cache s)),
             tl_events := TcEvent k # tl_events s\<rparr>)"
| "tl_next sel s (LNotify e listed) =
     (if e \<in> set (tl_events s) \<and>
         (case listed of Inl _ \<Rightarrow> True | Inr items \<Rightarrow> fset_of_list items = snd |`| fmran (tl_cache s))
      then Some (s\<lparr>tl_events := remove1 e (tl_events s),
                   tl_pending := tl_pending s |\<union>| fset_of_list (telemetry_requests listed e)\<rparr>)
      else None)"
| "tl_next sel s (LTake k) =
     (if tl_worker s = TIdle \<and> k |\<in>| tl_pending s
      then Some (s\<lparr>tl_pending := tl_pending s |-| {|k|}, tl_worker := TTaken k\<rparr>) else None)"
| "tl_next sel s LGet =
     (case tl_worker s of
        TTaken k \<Rightarrow>
          Some (s\<lparr>tl_worker := (case fmlookup (tl_cache s) k of Some (v, tc) \<Rightarrow> TGot k v tc | None \<Rightarrow> TIdle)\<rparr>)
      | _ \<Rightarrow> None)"
| "tl_next sel s LListNamespaces =
     (case tl_worker s of
        TGot k v tc \<Rightarrow> Some (s\<lparr>tl_worker := TNamespaces k v tc (tl_namespaces s)\<rparr>) | _ \<Rightarrow> None)"
| "tl_next sel s LListModelValidations =
     (case tl_worker s of
        TNamespaces k v tc nss \<Rightarrow> Some (s\<lparr>tl_worker := TModelValidations k v tc nss (tl_modelValidations s)\<rparr>)
      | _ \<Rightarrow> None)"
| "tl_next sel s LReadError =
     (case tl_worker s of
        TTaken k \<Rightarrow> Some (requeue k s)
      | TGot k v tc \<Rightarrow> Some (requeue k s)
      | TNamespaces k v tc nss \<Rightarrow> Some (requeue k s)
      | _ \<Rightarrow> None)"
| "tl_next sel s (LFinish now refused) =
     (case tl_worker s of
        TModelValidations k v tc nss mvs \<Rightarrow> Some (finish_reconcile sel k v tc nss mvs now refused s)
      | _ \<Rightarrow> None)"

fun tl_exec :: "selector_lib \<Rightarrow> tl_label list \<Rightarrow> telemetry_loop \<Rightarrow> telemetry_loop option" where
  "tl_exec sel [] s = Some s"
| "tl_exec sel (l # ls) s = Option.bind (tl_next sel s l) (tl_exec sel ls)"

lemma tl_exec_append: "tl_exec sel (ls @ ls') s = Option.bind (tl_exec sel ls s) (tl_exec sel ls')"
  by (induction ls arbitrary: s) (auto split: bind_splits)

lemma tl_exec_keeps [consumes 2, case_names step]:
  assumes "tl_exec sel ls s = Some s'" "I s"
    and "\<And>s l s'. tl_next sel s l = Some s' \<Longrightarrow> l \<in> set ls \<Longrightarrow> I s \<Longrightarrow> I s'"
  shows "I s'"
  using assms
proof (induction ls arbitrary: s)
  case (Cons l ls)
  then obtain s1 where "tl_next sel s l = Some s1" "tl_exec sel ls s1 = Some s'" by (auto split: bind_splits)
  with Cons show ?case by (metis list.set_intros)
qed simp

section \<open>Nothing is missed\<close>

fun worker_key :: "telemetry_worker \<Rightarrow> NamespacedName option" where
  "worker_key TIdle = None"
| "worker_key (TTaken k) = Some k"
| "worker_key (TGot k v tc) = Some k"
| "worker_key (TNamespaces k v tc nss) = Some k"
| "worker_key (TModelValidations k v tc nss mvs) = Some k"

text \<open>
  A TelemetryConfig is due when a request for it is there or will be, from what is under way, or
  when it is not cached.
\<close>

definition due :: "telemetry_loop \<Rightarrow> NamespacedName \<Rightarrow> bool" where
  "due s k \<longleftrightarrow> fmlookup (tl_cache s) k = None \<or> k |\<in>| tl_pending s \<or> TcEvent k \<in> set (tl_events s) \<or>
     fmlookup (tl_cache s) k \<noteq> fmlookup (tl_server s) k \<or>
     NsEvent \<in> set (tl_events s) \<or> MvEvent \<in> set (tl_events s)"

text \<open>A status is up to date when a reconciliation at the time it records would write it again.\<close>

definition up_to_date :: "selector_lib \<Rightarrow> ObjectMeta list \<Rightarrow> ModelValidation list \<Rightarrow> TelemetryConfig \<Rightarrow> bool" where
  "up_to_date sel nss mvs tc \<longleftrightarrow>
     telemetry_reconcile sel (loop_env tc nss mvs (tct_LastApplied (tc_Status tc)) None) = (None, Some tc)"

fun worker_fresh :: "telemetry_loop \<Rightarrow> telemetry_worker \<Rightarrow> bool" where
  "worker_fresh s TIdle = True"
| "worker_fresh s (TTaken k) = True"
| "worker_fresh s (TGot k v tc) = (due s k \<or> fmlookup (tl_cache s) k = Some (v, tc))"
| "worker_fresh s (TNamespaces k v tc nss) =
     (due s k \<or> fmlookup (tl_cache s) k = Some (v, tc) \<and> nss = tl_namespaces s)"
| "worker_fresh s (TModelValidations k v tc nss mvs) =
     (due s k \<or> fmlookup (tl_cache s) k = Some (v, tc) \<and> nss = tl_namespaces s \<and> mvs = tl_modelValidations s)"

fun worker_named :: "telemetry_worker \<Rightarrow> bool" where
  "worker_named (TGot k v tc) = (tc_key tc = k)"
| "worker_named (TNamespaces k v tc nss) = (tc_key tc = k)"
| "worker_named (TModelValidations k v tc nss mvs) = (tc_key tc = k)"
| "worker_named _ = True"

definition store_ok :: "nat \<Rightarrow> (NamespacedName, nat \<times> TelemetryConfig) fmap \<Rightarrow> bool" where
  "store_ok n m \<longleftrightarrow> (\<forall>k v tc. fmlookup m k = Some (v, tc) \<longrightarrow> v < n \<and> tc_key tc = k)"

definition versions_ok :: "telemetry_loop \<Rightarrow> bool" where
  "versions_ok s \<longleftrightarrow> store_ok (tl_version s) (tl_server s) \<and> store_ok (tl_version s) (tl_cache s) \<and>
     worker_named (tl_worker s)"

definition none_missed :: "selector_lib \<Rightarrow> telemetry_loop \<Rightarrow> bool" where
  "none_missed sel s \<longleftrightarrow>
     (\<forall>k v tc. fmlookup (tl_cache s) k = Some (v, tc) \<and> om_DeletionTimestamp (tc_Meta tc) = None \<longrightarrow>
        due s k \<or> worker_key (tl_worker s) = Some k \<or>
        up_to_date sel (tl_namespaces s) (tl_modelValidations s) tc)"

definition loop_inv :: "selector_lib \<Rightarrow> telemetry_loop \<Rightarrow> bool" where
  "loop_inv sel s \<longleftrightarrow> versions_ok s \<and> worker_fresh s (tl_worker s) \<and> none_missed sel s"

text \<open>A mapping whose \<open>List\<close> fails; a notification of a TelemetryConfig makes no such call.\<close>

fun listing_fails :: "tl_label \<Rightarrow> bool" where
  "listing_fails (LNotify (TcEvent k) listed) = False"
| "listing_fails (LNotify e (Inl err)) = True"
| "listing_fails _ = False"

text \<open>What a reconciliation writes keeps the object's name, and is up to date at once.\<close>

lemma reconcile_env_time:
  "telemetry_reconcile sel (loop_env tc nss mvs now refused) = (None, Some w) \<Longrightarrow>
     tct_LastApplied (tc_Status w) = now \<and> tc_Meta w = tc_Meta tc \<and> tc_Spec w = tc_Spec tc \<and> refused = None"
  by (auto simp: telemetry_reconcile_def loop_env_def Let_def split: if_splits sum.splits)

lemma reconcile_same_up_to_date:
  assumes "telemetry_reconcile sel (loop_env tc nss mvs now refused) = (None, Some tc)"
  shows "up_to_date sel nss mvs tc"
  using assms reconcile_env_time [OF assms] by (simp add: up_to_date_def)

lemma reconcile_deleted:
  "telemetry_reconcile sel (loop_env tc nss mvs now refused) = (None, None) \<Longrightarrow>
     om_DeletionTimestamp (tc_Meta tc) \<noteq> None"
  by (auto simp: telemetry_reconcile_def loop_env_def Let_def split: if_splits sum.splits)

lemma requests_cover:
  assumes "versions_ok s" "fmlookup (tl_cache s) k = Some (v, tc)"
    and "fset_of_list items = snd |`| fmran (tl_cache s)"
  shows "k \<in> set (mapToTelemetryConfigs (Inr items))"
proof -
  have "tc |\<in>| snd |`| fmran (tl_cache s)" using fmranI [OF assms(2)] by force
  then have "tc \<in> set items" using assms(3) by (metis fset_of_list_elem)
  moreover have "tc_key tc = k" using assms(1,2) by (auto simp: versions_ok_def store_ok_def)
  ultimately show ?thesis by (auto simp: mapToTelemetryConfigs_def tc_key_def)
qed

lemma store_ok_upd: "store_ok n m \<Longrightarrow> tc_key tc = k \<Longrightarrow> store_ok (Suc n) (fmupd k (n, tc) m)"
  by (auto simp: store_ok_def less_Suc_eq split: if_splits)

lemma store_ok_Suc: "store_ok n m \<Longrightarrow> store_ok (Suc n) m"
  by (auto simp: store_ok_def less_Suc_eq)

lemma store_ok_sync:
  "store_ok n m \<Longrightarrow> store_ok n m' \<Longrightarrow>
     store_ok n (case fmlookup m' k of Some p \<Rightarrow> fmupd k p m | None \<Rightarrow> fmdrop k m)"
  by (auto simp: store_ok_def split: option.split if_splits)

lemma store_ok_drop: "store_ok n m \<Longrightarrow> store_ok n (fmdrop k m)"
  by (simp add: store_ok_def)

lemma store_ok_fresh: "store_ok n m \<Longrightarrow> fmlookup m k \<noteq> Some (n, tc)"
  by (auto simp: store_ok_def)

lemma versions_finish:
  assumes "versions_ok s" "tc_key tc = k"
  shows "versions_ok (finish_reconcile sel k v tc nss mvs now refused s)"
proof (cases "telemetry_reconcile sel (loop_env tc nss mvs now (write_answer s k v refused))")
  case (Pair err written)
  have "tc_key w = k" if "err = None" "written = Some w" for w
    using that Pair reconcile_env_time [of sel tc nss mvs now "write_answer s k v refused" w] assms(2)
    by (simp add: tc_key_def)
  with Pair assms(1) show ?thesis
    by (cases err; cases written)
      (simp_all add: finish_reconcile_def versions_ok_def requeue_def store_ok_upd store_ok_Suc)
qed

lemma versions_next: "tl_next sel s l = Some s' \<Longrightarrow> versions_ok s \<Longrightarrow> versions_ok s'"
proof (cases l)
  case LGet
  then show "tl_next sel s l = Some s' \<Longrightarrow> versions_ok s \<Longrightarrow> versions_ok s'"
    by (auto simp: versions_ok_def store_ok_def split: telemetry_worker.splits option.split)
next
  case (LFinish now refused)
  then show "tl_next sel s l = Some s' \<Longrightarrow> versions_ok s \<Longrightarrow> versions_ok s'"
    by (auto split: telemetry_worker.splits intro!: versions_finish) (simp add: versions_ok_def)
qed (auto simp: versions_ok_def requeue_def store_ok_upd store_ok_Suc store_ok_sync store_ok_drop
    split: if_splits telemetry_worker.splits)

lemma due_finish:
  assumes "versions_ok s" "due s k"
  shows "due (finish_reconcile sel j v tc nss mvs now refused s) k"
proof -
  have fresh: "fmlookup (tl_cache s) k \<noteq> Some (tl_version s, w)" for w
    using assms(1) by (simp add: versions_ok_def store_ok_fresh)
  show ?thesis
    using assms(2) fresh by (auto simp: finish_reconcile_def due_def requeue_def split: prod.split option.split)
qed

lemma due_next:
  assumes "tl_next sel s l = Some s'" "versions_ok s" "\<not> listing_fails l" "l \<noteq> LTake k" "due s k"
  shows "due s' k"
proof (cases l)
  case (LApply tc)
  have "fmlookup (tl_cache s) k \<noteq> Some (tl_version s, tc)"
    using assms(2) by (simp add: versions_ok_def store_ok_fresh)
  with LApply assms(1,5) show ?thesis by (auto simp: due_def split: if_splits)
next
  case (LNotify e listed)
  show ?thesis
  proof (cases "fmlookup (tl_cache s) k")
    case None
    with LNotify assms(1) show ?thesis by (auto simp: due_def split: if_splits)
  next
    case (Some o')
    then have all: "k \<in> set (mapToTelemetryConfigs (Inr items))"
      if "fset_of_list items = snd |`| fmran (tl_cache s)" for items
      using requests_cover [OF assms(2) _ that] by (cases o') auto
    show ?thesis
    proof (cases "\<exists>j. e = TcEvent j")
      case True
      with LNotify assms(1,5) show ?thesis
        by (auto simp: due_def telemetry_requests_def fset_of_list_elem split: if_splits)
    next
      case False
      with LNotify assms(3) obtain items where "listed = Inr items" by (cases listed; cases e) auto
      with LNotify assms(1,5) all False show ?thesis
        by (cases e) (auto simp: due_def telemetry_requests_def fset_of_list_elem split: if_splits)
    qed
  qed
next
  case (LFinish now refused)
  with assms(1,2,5) show ?thesis by (auto split: telemetry_worker.splits intro: due_finish)
qed (use assms in \<open>auto simp: due_def requeue_def split: if_splits telemetry_worker.splits option.splits\<close>)

text \<open>What the worker has read stays current as long as its key is not due.\<close>

definition undisturbed :: "telemetry_loop \<Rightarrow> telemetry_loop \<Rightarrow> bool" where
  "undisturbed s s' \<longleftrightarrow>
     (\<forall>k. due s' k \<or> fmlookup (tl_cache s') k = fmlookup (tl_cache s) k \<and>
        tl_namespaces s' = tl_namespaces s \<and> tl_modelValidations s' = tl_modelValidations s)"

lemma undisturbed_next: "tl_next sel s l = Some s' \<Longrightarrow> undisturbed s s'"
  by (cases l) (auto simp: undisturbed_def due_def requeue_def finish_reconcile_def
      split: if_splits telemetry_worker.splits option.splits prod.splits)

lemma fresh_mono:
  assumes "undisturbed s s'" "\<And>k. worker_key w = Some k \<Longrightarrow> due s k \<Longrightarrow> due s' k" "worker_fresh s w"
  shows "worker_fresh s' w"
  using assms by (cases w) (simp_all add: undisturbed_def, metis+)

lemma fresh_next:
  assumes "tl_next sel s l = Some s'" "versions_ok s" "\<not> listing_fails l" "worker_fresh s (tl_worker s)"
  shows "worker_fresh s' (tl_worker s')"
proof (cases "l \<in> {LGet, LListNamespaces, LListModelValidations, LReadError} \<or> (\<exists>k. l = LTake k) \<or> (\<exists>now r. l = LFinish now r)")
  case True
  then show ?thesis
    using assms(1,4) by (auto simp: finish_reconcile_def requeue_def due_def
        split: if_splits telemetry_worker.splits option.splits prod.splits)
next
  case False
  then have "tl_worker s' = tl_worker s" using assms(1) by (cases l) (auto split: if_splits)
  moreover have "worker_fresh s' (tl_worker s)"
    using False by (intro fresh_mono [OF undisturbed_next [OF assms(1)] _ assms(4)] due_next [OF assms(1-3)]) auto
  ultimately show ?thesis by simp
qed

lemma finish_covers:
  assumes "worker_fresh s (TModelValidations k v tc nss mvs)" "versions_ok s"
    and "fmlookup (tl_cache s) k = Some (v', tc')" "om_DeletionTimestamp (tc_Meta tc') = None"
    and s'_def: "s' = finish_reconcile sel k v tc nss mvs now refused s"
  shows "due s' k \<or> up_to_date sel (tl_namespaces s') (tl_modelValidations s') tc'"
proof (cases "due s k")
  case True
  then show ?thesis unfolding s'_def using due_finish [OF assms(2)] by blast
next
  case False
  then have cached: "v' = v" "tc' = tc" "nss = tl_namespaces s" "mvs = tl_modelValidations s"
    using assms(1,3) by auto
  let ?r = "telemetry_reconcile sel (loop_env tc nss mvs now (write_answer s k v refused))"
  have fresh: "fmlookup (tl_cache s) k \<noteq> Some (tl_version s, w)" for w
    using assms(2) by (simp add: versions_ok_def store_ok_fresh)
  consider (failed) err w where "?r = (Some err, w)" | (same) "?r = (None, Some tc)"
    | (written) w where "?r = (None, Some w)" "w \<noteq> tc" | (deleted) "?r = (None, None)"
    by (metis option.exhaust surj_pair)
  then show ?thesis
  proof cases
    case same
    then show ?thesis
      unfolding s'_def using cached reconcile_same_up_to_date [OF same] by (simp add: finish_reconcile_def)
  next
    case deleted
    then show ?thesis using reconcile_deleted [OF deleted] assms(4) cached by simp
  next
    case written
    then show ?thesis unfolding s'_def using fresh by (simp add: finish_reconcile_def due_def)
  qed (simp add: s'_def finish_reconcile_def requeue_def due_def)
qed

lemma finish_frame [simp]:
  "tl_cache (finish_reconcile sel k v tc nss mvs now refused s) = tl_cache s"
  "tl_namespaces (finish_reconcile sel k v tc nss mvs now refused s) = tl_namespaces s"
  "tl_modelValidations (finish_reconcile sel k v tc nss mvs now refused s) = tl_modelValidations s"
  "tl_events (finish_reconcile sel k v tc nss mvs now refused s) = tl_events s"
  "tl_worker (finish_reconcile sel k v tc nss mvs now refused s) = TIdle"
  by (simp_all add: finish_reconcile_def requeue_def split: prod.split option.split)

lemma missed_next:
  assumes "tl_next sel s l = Some s'" "loop_inv sel s" "\<not> listing_fails l"
  shows "none_missed sel s'"
  unfolding none_missed_def
proof (intro allI impI, elim conjE)
  fix k v tc assume cached: "fmlookup (tl_cache s') k = Some (v, tc)" "om_DeletionTimestamp (tc_Meta tc) = None"
  let ?goal = "due s' k \<or> worker_key (tl_worker s') = Some k \<or>
    up_to_date sel (tl_namespaces s') (tl_modelValidations s') tc"
  have inv: "versions_ok s" "worker_fresh s (tl_worker s)" using assms(2) by (simp_all add: loop_inv_def)
  note next_due = due_next [OF assms(1) inv(1) assms(3)]
  have old: "due s k \<or> worker_key (tl_worker s) = Some k \<or> up_to_date sel (tl_namespaces s) (tl_modelValidations s) tc"
    if "fmlookup (tl_cache s') k = fmlookup (tl_cache s) k"
    using assms(2) cached that by (auto simp: loop_inv_def none_missed_def)
  show ?goal
  proof (cases l)
    case (LFinish now refused)
    with assms(1) obtain j v' tc' nss mvs where w: "tl_worker s = TModelValidations j v' tc' nss mvs"
      and s': "s' = finish_reconcile sel j v' tc' nss mvs now refused s"
      by (auto split: telemetry_worker.splits)
    show ?thesis
    proof (cases "j = k")
      case True
      then show ?thesis
        using finish_covers [of s k v' tc' nss mvs v tc s' sel now refused] inv w cached s' by simp
    next
      case False
      then show ?thesis using old next_due LFinish w s' by auto
    qed
  next
    case (LSync j)
    show ?thesis
    proof (cases "j = k")
      case True
      with LSync assms(1) show ?thesis by (auto simp: due_def)
    next
      case False
      then have "fmlookup (tl_cache s') k = fmlookup (tl_cache s) k"
        using LSync assms(1) by (auto split: option.splits)
      from old [OF this] show ?thesis using assms(1) LSync next_due by auto
    qed
  next
    case (LTake j)
    then show ?thesis using assms(1) old next_due by (cases "j = k") (auto split: if_splits)
  next
    case LGet
    then show ?thesis using assms(1) old next_due cached(1) by (auto split: telemetry_worker.splits option.splits)
  next
    case LReadError
    then show ?thesis
      using assms(1) old next_due by (auto simp: requeue_def due_def split: telemetry_worker.splits)
  next
    case (LNamespaces nss)
    then show ?thesis using assms(1) by (auto simp: due_def)
  next
    case (LModelValidations mvs)
    then show ?thesis using assms(1) by (auto simp: due_def)
  qed (use assms(1) old next_due in \<open>auto split: if_splits telemetry_worker.splits\<close>)
qed

lemma loop_inv_next:
  "tl_next sel s l = Some s' \<Longrightarrow> loop_inv sel s \<Longrightarrow> \<not> listing_fails l \<Longrightarrow> loop_inv sel s'"
  using versions_next fresh_next missed_next by (metis loop_inv_def)

lemma loop_inv_reachable:
  assumes "tl_exec sel ls new_loop = Some s" "\<not> list_ex listing_fails ls"
  shows "loop_inv sel s"
  using assms(1)
proof (rule tl_exec_keeps)
  show "loop_inv sel new_loop"
    by (simp add: loop_inv_def new_loop_def versions_ok_def store_ok_def none_missed_def)
qed (use assms(2) in \<open>auto simp: list_ex_iff intro: loop_inv_next\<close>)

section \<open>Properties\<close>

text \<open>Nothing is under way: no notification, request, reconciliation or stale cache entry.\<close>

definition at_rest :: "telemetry_loop \<Rightarrow> bool" where
  "at_rest s \<longleftrightarrow> tl_events s = [] \<and> tl_pending s = {||} \<and> tl_worker s = TIdle \<and> tl_cache s = tl_server s"

lemma up_to_date_status:
  assumes "up_to_date sel nss mvs tc"
  shows "tc_Status tc = evaluated_status sel nss mvs (tct_LastApplied (tc_Status tc)) tc"
proof -
  have "tc = tc\<lparr>tc_Status := evaluated_status sel nss mvs (tct_LastApplied (tc_Status tc)) tc\<rparr>"
    using assms by (auto simp: up_to_date_def loop_env_def elim!: reconcile_written)
  then show ?thesis by (metis TelemetryConfig.select_convs(3) TelemetryConfig.surjective TelemetryConfig.update_convs(3))
qed

text \<open>
  A run for the instances below: a configuration without selectors is applied, reconciled, and
  reconciled again in the same second after the notification of the write.
\<close>

abbreviation loop_key :: NamespacedName where
  "loop_key \<equiv> nn ''prod'' ''a''"

definition reconcile_labels :: "NamespacedName \<Rightarrow> timestamp \<Rightarrow> tl_label list" where
  "reconcile_labels k now = [LTake k, LGet, LListNamespaces, LListModelValidations, LFinish now None]"

definition notify_labels :: "NamespacedName \<Rightarrow> tl_label list" where
  "notify_labels k = [LSync k, LNotify (TcEvent k) (Inl NotFound)]"

definition settling_run :: "tl_label list" where
  "settling_run = [LNamespaces [labelled_meta], LApply (sample_tc ''prod'' ''a'' None)] @ notify_labels loop_key @
     [LNotify NsEvent (Inr [sample_tc ''prod'' ''a'' None])] @ reconcile_labels loop_key 5 @
     notify_labels loop_key @ reconcile_labels loop_key 5"

lemma fmran_single: "fmran (fmupd k x fmempty) = {|x|}"
  by (rule fset_eqI) (auto elim!: fmranE intro: fmranI split: if_splits)

lemma settling_run:
  "\<exists>s v tc. tl_exec match_labels settling_run new_loop = Some s \<and> at_rest s \<and> tl_namespaces s = [labelled_meta] \<and>
     fmlookup (tl_server s) loop_key = Some (v, tc) \<and> om_DeletionTimestamp (tc_Meta tc) = None \<and>
     tcs_NamespaceSelector (tc_Spec tc) = None"
  by (simp add: settling_run_def notify_labels_def reconcile_labels_def new_loop_def tc_key_def sample_tc_def
      telemetry_requests_def mapToTelemetryConfigs_def finish_reconcile_def requeue_def write_answer_def loop_env_def
      telemetry_reconcile_def countMatchedNamespaces_def countMatchedModelValidations_def Let_def at_rest_def fmran_single)

text \<open>
  C10: whenever the TelemetryConfig controller comes to rest, the status of every TelemetryConfig
  that is not being deleted has the counts of the namespaces and ModelValidations that are there
  now, and a Ready condition of its generation, however changes, notifications, cache updates,
  refused writes and failed reads were interleaved; only the \<open>List\<close> of a watch mapping must not fail.
\<close>

theorem telemetry_at_rest_current:
  assumes "tl_exec sel ls new_loop = Some s" "\<not> list_ex listing_fails ls" "at_rest s"
    and "fmlookup (tl_server s) k = Some (v, tc)" "om_DeletionTimestamp (tc_Meta tc) = None"
  shows "tct_MatchedNamespaceCount (tc_Status tc) =
      word_of_nat (accepted sel (tcs_NamespaceSelector (tc_Spec tc)) (map om_Labels (tl_namespaces s))) \<and>
    tct_MatchedModelValidationCount (tc_Status tc) =
      word_of_nat (accepted sel (tcs_Selector (tc_Spec tc)) (map (\<lambda>mv. om_Labels (mv_Meta mv)) (tl_modelValidations s))) \<and>
    (\<exists>c \<in> set (tct_Conditions (tc_Status tc)). cond_Type c = ''Ready'' \<and> cond_Status c = ''True'' \<and>
       cond_ObservedGeneration c = om_Generation (tc_Meta tc))"
proof -
  have "none_missed sel s" using loop_inv_reachable [OF assms(1,2)] by (simp add: loop_inv_def)
  moreover have "\<not> due s k" "worker_key (tl_worker s) = None" using assms(3,4) by (simp_all add: at_rest_def due_def)
  ultimately have "up_to_date sel (tl_namespaces s) (tl_modelValidations s) tc"
    using assms(3-5) by (auto simp: none_missed_def at_rest_def)
  from up_to_date_status [OF this] show ?thesis
    by (rule ssubst [where P = "\<lambda>st. tct_MatchedNamespaceCount st = _ \<and> tct_MatchedModelValidationCount st = _ \<and>
      (\<exists>c \<in> set (tct_Conditions st). _ c)"]) (auto simp: evaluated_status_def intro: bexI [OF _ setCondition_in])
qed

theorem telemetry_at_rest_current_witness:
  "\<exists>s v tc. tl_exec match_labels settling_run new_loop = Some s \<and> fmlookup (tl_server s) loop_key = Some (v, tc) \<and>
     tct_MatchedNamespaceCount (tc_Status tc) = 1"
proof -
  obtain s v tc where s: "tl_exec match_labels settling_run new_loop = Some s" "at_rest s"
    "tl_namespaces s = [labelled_meta]" "fmlookup (tl_server s) loop_key = Some (v, tc)"
    "om_DeletionTimestamp (tc_Meta tc) = None" "tcs_NamespaceSelector (tc_Spec tc) = None"
    using settling_run by blast
  have "\<not> list_ex listing_fails settling_run"
    by (simp add: settling_run_def notify_labels_def reconcile_labels_def)
  from telemetry_at_rest_current [OF s(1) this s(2,4,5)] s show ?thesis
    by (auto simp: accepted_def selector_accepts_def)
qed

text \<open>
  The mapping's error is dropped: when its \<open>List\<close> fails, the change it was called for is not
  counted, and nothing is left that would count it.
\<close>

theorem failed_listing_loses_change:
  "\<exists>s v tc. tl_exec match_labels (settling_run @ [LNamespaces [], LNotify NsEvent (Inl (ApiError e))]) new_loop = Some s \<and>
     at_rest s \<and> fmlookup (tl_server s) loop_key = Some (v, tc) \<and> tl_namespaces s = [] \<and>
     tct_MatchedNamespaceCount (tc_Status tc) = 1"
proof -
  obtain s v tc where s: "tl_exec match_labels settling_run new_loop = Some s" "at_rest s"
    "tl_namespaces s = [labelled_meta]" "fmlookup (tl_server s) loop_key = Some (v, tc)"
    "om_DeletionTimestamp (tc_Meta tc) = None" "tcs_NamespaceSelector (tc_Spec tc) = None"
    using settling_run by blast
  have "none_missed match_labels s"
    using loop_inv_reachable [OF s(1)]
    by (simp add: loop_inv_def settling_run_def notify_labels_def reconcile_labels_def)
  moreover have "\<not> due s loop_key" "worker_key (tl_worker s) = None" using s(2,4) by (simp_all add: at_rest_def due_def)
  ultimately have "up_to_date match_labels (tl_namespaces s) (tl_modelValidations s) tc"
    using s by (auto simp: none_missed_def at_rest_def)
  then have "tct_MatchedNamespaceCount (tc_Status tc) = 1"
    by (rule ssubst [where P = "\<lambda>st. tct_MatchedNamespaceCount st = 1", OF up_to_date_status])
      (simp add: evaluated_status_def s(3,6) accepted_def selector_accepts_def)
  then show ?thesis
    using s by (simp add: tl_exec_append at_rest_def telemetry_requests_def mapToTelemetryConfigs_def)
qed

section \<open>Repeated writes\<close>

text \<open>A reconciliation and what follows from it: the cache catches up and its notification is delivered.\<close>

definition write_round :: "NamespacedName \<Rightarrow> timestamp \<Rightarrow> tl_label list" where
  "write_round k now = reconcile_labels k now @ notify_labels k"

fun changes_world :: "tl_label \<Rightarrow> bool" where
  "changes_world (LNamespaces nss) = True"
| "changes_world (LModelValidations mvs) = True"
| "changes_world (LApply tc) = True"
| "changes_world (LRemove k) = True"
| "changes_world _ = False"

text \<open>A request for a configuration that is cached, valid and not being deleted is waiting.\<close>

definition requested ::
  "selector_lib \<Rightarrow> telemetry_loop \<Rightarrow> NamespacedName \<Rightarrow> TelemetryConfig \<Rightarrow> bool" where
  "requested sel s k tc \<longleftrightarrow> tl_worker s = TIdle \<and> k |\<in>| tl_pending s \<and>
     (\<exists>v. fmlookup (tl_server s) k = Some (v, tc) \<and> fmlookup (tl_cache s) k = Some (v, tc)) \<and>
     om_DeletionTimestamp (tc_Meta tc) = None \<and>
     (\<exists>n. countMatchedNamespaces sel (Inr (tl_namespaces s)) tc = Inr n) \<and>
     (\<exists>m. countMatchedModelValidations sel (Inr (tl_modelValidations s)) tc = Inr m)"

lemma reconcile_writes:
  assumes "om_DeletionTimestamp (tc_Meta tc) = None" "countMatchedNamespaces sel (Inr nss) tc = Inr n"
    and "countMatchedModelValidations sel (Inr mvs) tc = Inr m"
  shows "telemetry_reconcile sel (loop_env tc nss mvs now None) =
    (None, Some (tc\<lparr>tc_Status := evaluated_status sel nss mvs now tc\<rparr>))"
  using assms countNamespaces_accepted [OF assms(2)] countModelValidations_accepted [OF assms(3)]
  by (simp add: telemetry_reconcile_def loop_env_def Let_def evaluated_status_def)

lemma write_round_step:
  assumes "requested sel s k tc" "now \<noteq> tct_LastApplied (tc_Status tc)"
  shows "\<exists>s'. tl_exec sel (write_round k now) s = Some s' \<and> tl_version s' = Suc (tl_version s) \<and>
    tl_namespaces s' = tl_namespaces s \<and> tl_modelValidations s' = tl_modelValidations s \<and>
    requested sel s' k (tc\<lparr>tc_Status := evaluated_status sel (tl_namespaces s) (tl_modelValidations s) now tc\<rparr>)"
proof -
  let ?w = "tc\<lparr>tc_Status := evaluated_status sel (tl_namespaces s) (tl_modelValidations s) now tc\<rparr>"
  from assms(1) obtain v n m where r: "tl_worker s = TIdle" "k |\<in>| tl_pending s" "fmlookup (tl_server s) k = Some (v, tc)"
    "fmlookup (tl_cache s) k = Some (v, tc)" "om_DeletionTimestamp (tc_Meta tc) = None"
    "countMatchedNamespaces sel (Inr (tl_namespaces s)) tc = Inr n"
    "countMatchedModelValidations sel (Inr (tl_modelValidations s)) tc = Inr m"
    unfolding requested_def by blast
  have "tct_LastApplied (tc_Status ?w) = now" by (simp add: evaluated_status_def)
  then have "?w \<noteq> tc" using assms(2) by metis
  moreover have "countMatchedNamespaces sel (Inr (tl_namespaces s)) ?w = Inr n"
    "countMatchedModelValidations sel (Inr (tl_modelValidations s)) ?w = Inr m"
    using r(6,7) by (simp_all add: countMatchedNamespaces_def countMatchedModelValidations_def)
  ultimately show ?thesis
    using r reconcile_writes [OF r(5-7)]
    by (simp add: write_round_def reconcile_labels_def notify_labels_def finish_reconcile_def write_answer_def
        requested_def telemetry_requests_def)
qed

definition sample_request :: telemetry_loop where
  "sample_request =
     (let m = fmupd loop_key (0, sample_tc ''prod'' ''a'' None) fmempty
      in new_loop\<lparr>tl_server := m, tl_cache := m, tl_version := 1, tl_pending := {|loop_key|}\<rparr>)"

lemma sample_request: "requested sel sample_request loop_key (sample_tc ''prod'' ''a'' None)"
  by (simp add: requested_def sample_request_def Let_def new_loop_def sample_tc_def countMatchedNamespaces_def
      countMatchedModelValidations_def)

text \<open>
  C29: a status that is already right is written again: the time of the reconciliation is part of
  what is written, and the write is itself a notification of the configuration; so, as often as
  the clock has reached another second when the worker gets there, a single request leads to any
  number of writes of the same counts while nothing else in the cluster changes.
\<close>

theorem telemetry_writes_repeat:
  assumes "requested sel s k tc"
  shows "\<exists>ls s'. tl_exec sel ls s = Some s' \<and> \<not> list_ex changes_world ls \<and> \<not> list_ex listing_fails ls \<and>
    tl_version s' = tl_version s + n \<and> tl_namespaces s' = tl_namespaces s \<and>
    tl_modelValidations s' = tl_modelValidations s \<and> (\<exists>tc'. requested sel s' k tc')"
  using assms
proof (induction n arbitrary: s tc)
  case 0
  then have "tl_exec sel [] s = Some s" by simp
  with 0 show ?case by fastforce
next
  case (Suc n)
  obtain s1 tc1 where s1: "tl_exec sel (write_round k (tct_LastApplied (tc_Status tc) + 1)) s = Some s1"
    "tl_version s1 = Suc (tl_version s)" "tl_namespaces s1 = tl_namespaces s"
    "tl_modelValidations s1 = tl_modelValidations s" "requested sel s1 k tc1"
    using write_round_step [OF Suc.prems, of "tct_LastApplied (tc_Status tc) + 1"] by auto
  from Suc.IH [OF s1(5)] obtain ls s' where "tl_exec sel ls s1 = Some s'" "\<not> list_ex changes_world ls"
    "\<not> list_ex listing_fails ls" "tl_version s' = tl_version s1 + n" "tl_namespaces s' = tl_namespaces s1"
    "tl_modelValidations s' = tl_modelValidations s1" "\<exists>tc'. requested sel s' k tc'" by blast
  moreover have "\<not> list_ex changes_world (write_round k now)" "\<not> list_ex listing_fails (write_round k now)" for now
    by (simp_all add: write_round_def reconcile_labels_def notify_labels_def)
  ultimately show ?case
    using s1 by (intro exI [of _ "write_round k (tct_LastApplied (tc_Status tc) + 1) @ ls"] exI [of _ s'])
      (simp add: tl_exec_append)
qed

theorem telemetry_writes_repeat_witness:
  "\<exists>ls s'. tl_exec match_labels ls sample_request = Some s' \<and> \<not> list_ex changes_world ls \<and> tl_version s' = 8"
proof -
  have "tl_version sample_request = 1" by (simp add: sample_request_def Let_def)
  with telemetry_writes_repeat [OF sample_request, of match_labels 7] show ?thesis by auto
qed

end
