(* ===== verification/Queue_Gauge.thy ===== *)
theory Queue_Gauge
  imports Queue_Properties
begin

text \<open>
  The gauge of the queue size (\<open>updateQueueSizeMetric\<close> and \<open>ShutDown\<close> of
  \<open>internal/tracker/debounced_queue.go\<close>) action by action.  \<open>Debounced_Queue\<close> has the update of
  the gauge as one step; here its check of the stop channel, its read of the length and its call
  on the gauge are steps of their own, under \<open>metricMu\<close>, and so are the three actions of
  \<open>ShutDown\<close>, which does not take that mutex.
\<close>

section \<open>State\<close>

text \<open>
  \<open>gs_update\<close> is the update that holds \<open>metricMu\<close>, if any: it has found the queue open, or has
  read the length.  \<open>ShutDown\<close> holds \<open>mu\<close>, so there is one at a time: it has closed the stop
  channel, shut the work queue down, or returned; a later call does the last two again.
\<close>

datatype update_pc = UChecked | UMeasured nat
datatype shut_pc = SOpen | SClosed | SQueueShut | SReturned

record 'q gauge_state =
  gs_queue :: 'q
  gs_stopped :: bool
  gs_update :: "update_pc option"
  gs_shut :: shut_pc
  gs_gauge :: int

datatype gauge_label =
    GAdd NamespacedName
  | GGet
  | GDone NamespacedName
  | GRetry NamespacedName
  | GDeliver NamespacedName
  | GCheck
  | GMeasure
  | GSet
  | GClose
  | GShutQueue
  | GZero

section \<open>Steps\<close>

text \<open>
  The operations of the work queue change its length at any time.  \<open>GCheck\<close> takes the free mutex and
  passes the check; an update that finds the queue stopped does nothing.
\<close>

fun gauge_next :: "'q workqueue_lib \<Rightarrow> 'q gauge_state \<Rightarrow> gauge_label \<Rightarrow> 'q gauge_state option" where
  "gauge_next W s (GAdd k) = Some (s\<lparr>gs_queue := wq_Add W k (gs_queue s)\<rparr>)"
| "gauge_next W s GGet = map_option (\<lambda>(k, q). s\<lparr>gs_queue := q\<rparr>) (wq_Get W (gs_queue s))"
| "gauge_next W s (GDone k) = Some (s\<lparr>gs_queue := wq_Done W k (gs_queue s)\<rparr>)"
| "gauge_next W s (GRetry k) = Some (s\<lparr>gs_queue := wq_AddRateLimited W k (gs_queue s)\<rparr>)"
| "gauge_next W s (GDeliver k) = map_option (\<lambda>q. s\<lparr>gs_queue := q\<rparr>) (wq_Deliver W k (gs_queue s))"
| "gauge_next W s GCheck =
     (if gs_update s = None \<and> \<not> gs_stopped s then Some (s\<lparr>gs_update := Some UChecked\<rparr>) else None)"
| "gauge_next W s GMeasure =
     (if gs_update s = Some UChecked then Some (s\<lparr>gs_update := Some (UMeasured (wq_Len W (gs_queue s)))\<rparr>) else None)"
| "gauge_next W s GSet =
     (case gs_update s of
        Some (UMeasured n) \<Rightarrow> Some (s\<lparr>gs_gauge := int n, gs_update := None\<rparr>) | _ \<Rightarrow> None)"
| "gauge_next W s GClose =
     (if gs_shut s \<in> {SOpen, SReturned} then Some (s\<lparr>gs_stopped := True, gs_shut := SClosed\<rparr>) else None)"
| "gauge_next W s GShutQueue =
     (if gs_shut s = SClosed then Some (s\<lparr>gs_queue := wq_ShutDown W (gs_queue s), gs_shut := SQueueShut\<rparr>) else None)"
| "gauge_next W s GZero =
     (if gs_shut s = SQueueShut then Some (s\<lparr>gs_gauge := 0, gs_shut := SReturned\<rparr>) else None)"

fun gauge_exec :: "'q workqueue_lib \<Rightarrow> gauge_label list \<Rightarrow> 'q gauge_state \<Rightarrow> 'q gauge_state option" where
  "gauge_exec W [] s = Some s"
| "gauge_exec W (l # ls) s = Option.bind (gauge_next W s l) (gauge_exec W ls)"

definition new_gauge :: "'q \<Rightarrow> 'q gauge_state" where
  "new_gauge q = \<lparr>gs_queue = q, gs_stopped = False, gs_update = None, gs_shut = SOpen, gs_gauge = 0\<rparr>"

lemma gauge_exec_keeps [consumes 2, case_names step]:
  assumes "gauge_exec W ls s = Some s'" "I s"
    and "\<And>s l s'. gauge_next W s l = Some s' \<Longrightarrow> l \<in> set ls \<Longrightarrow> I s \<Longrightarrow> I s'"
  shows "I s'"
  using assms
proof (induction ls arbitrary: s)
  case (Cons l ls)
  then obtain s1 where "gauge_next W s l = Some s1" "gauge_exec W ls s1 = Some s'" by (auto split: bind_splits)
  with Cons show ?case by (metis list.set_intros)
qed simp

section \<open>Updates after the shutdown\<close>

definition in_update :: "'q gauge_state \<Rightarrow> nat" where
  "in_update s = (if gs_update s = None then 0 else 1)"

lemma stopped_next:
  "gauge_next W s l = Some s' \<Longrightarrow> gs_stopped s \<Longrightarrow>
     gs_stopped s' \<and> (if l = GSet then 1 else 0) + in_update s' = in_update s"
  by (cases l) (auto simp: in_update_def split: if_splits option.splits update_pc.splits prod.splits)

lemma stopped_sets:
  "gauge_exec W ls s = Some s' \<Longrightarrow> gs_stopped s \<Longrightarrow> count_list ls GSet + in_update s' = in_update s"
proof (induction ls arbitrary: s)
  case (Cons l ls)
  then obtain s1 where s1: "gauge_next W s l = Some s1" "gauge_exec W ls s1 = Some s'" by (auto split: bind_splits)
  from stopped_next [OF s1(1) Cons.prems(2)] have "gs_stopped s1"
    "(if l = GSet then 1 else 0) + in_update s1 = in_update s" by simp_all
  with Cons.IH [OF s1(2)] show ?case by auto
qed simp

lemma gauge_stays:
  assumes "gauge_exec W ls s = Some s'" "gs_stopped s" "gs_update s = None" "gs_shut s = SReturned" "GClose \<notin> set ls"
  shows "gs_gauge s' = gs_gauge s"
proof -
  let ?I = "\<lambda>t. gs_stopped t \<and> gs_update t = None \<and> gs_shut t = SReturned \<and> gs_gauge t = gs_gauge s"
  from assms(1) have "?I s'"
  proof (rule gauge_exec_keeps)
    show "?I s" using assms by simp
  next
    fix t l t' assume "gauge_next W t l = Some t'" "l \<in> set ls" "?I t"
    then show "?I t'" using assms(5) by (cases l) (auto split: if_splits prod.splits)
  qed
  then show ?thesis by simp
qed

text \<open>
  When no update is under way as \<open>ShutDown\<close> closes the stop channel, none follows: the gauge is
  0 when it has returned.
\<close>

theorem quiet_shutdown_zero:
  assumes "gauge_exec W (GClose # ls) s = Some s'" "gs_update s = None" "gs_shut s' = SReturned"
  shows "gs_gauge s' = 0"
proof -
  let ?I = "\<lambda>t. gs_stopped t \<and> gs_update t = None \<and> (gs_shut t = SReturned \<longrightarrow> gs_gauge t = 0) \<and> gs_shut t \<noteq> SOpen"
  obtain s1 where "gauge_next W s GClose = Some s1" "gauge_exec W ls s1 = Some s'"
    using assms(1) by (auto split: bind_splits)
  from this(2) have "?I s'"
  proof (rule gauge_exec_keeps)
    show "?I s1" using \<open>gauge_next W s GClose = Some s1\<close> assms(2) by (auto split: if_splits)
  next
    fix t l t' assume "gauge_next W t l = Some t'" "?I t"
    then show "?I t'" by (cases l) (auto split: if_splits prod.splits)
  qed
  then show ?thesis using assms(3) by simp
qed

theorem quiet_shutdown_zero_witness:
  "\<exists>s. gauge_exec ref_queue [GClose, GAdd item_k, GShutQueue, GZero] (new_gauge ref_empty) = Some s \<and> gs_gauge s = 0"
proof -
  obtain s where s: "gauge_exec ref_queue [GClose, GAdd item_k, GShutQueue, GZero] (new_gauge ref_empty) = Some s"
    "gs_shut s = SReturned" by (simp add: new_gauge_def)
  with quiet_shutdown_zero [OF s(1)] show ?thesis by (simp add: new_gauge_def)
qed

section \<open>Properties\<close>

text \<open>
  C31: the gauge of the queue size can stay wrong for ever after a shutdown: an update that found
  the queue open and read its length may set the gauge after \<open>ShutDown\<close> has set it to 0, since
  \<open>ShutDown\<close> does not take the mutex of the metric; the gauge then shows the length read, and no
  later update corrects it, because all of them find the queue stopped.
\<close>

theorem late_update_sticks:
  assumes "gs_update s = None" "\<not> gs_stopped s" "gs_shut s = SOpen"
  shows "\<exists>s'. gauge_exec W [GCheck, GMeasure, GClose, GShutQueue, GZero, GSet] s = Some s' \<and>
    gs_shut s' = SReturned \<and> gs_gauge s' = int (wq_Len W (gs_queue s)) \<and>
    (\<forall>ls s''. gauge_exec W ls s' = Some s'' \<and> GClose \<notin> set ls \<longrightarrow> gs_gauge s'' = gs_gauge s')"
proof -
  obtain s' where s': "gauge_exec W [GCheck, GMeasure, GClose, GShutQueue, GZero, GSet] s = Some s'"
    "gs_shut s' = SReturned" "gs_gauge s' = int (wq_Len W (gs_queue s))" "gs_stopped s'" "gs_update s' = None"
    using assms by simp
  with gauge_stays [of W _ s'] show ?thesis by blast
qed

theorem late_update_sticks_witness:
  "\<exists>s. gauge_exec ref_queue [GCheck, GMeasure, GClose, GShutQueue, GZero, GSet] (new_gauge (ref_add item_k ref_empty)) = Some s \<and>
     gs_shut s = SReturned \<and> gs_gauge s = 1"
proof -
  have "wq_Len ref_queue (gs_queue (new_gauge (ref_add item_k ref_empty))) = 1"
    by (simp add: new_gauge_def ref_queue_def ref_add_def ref_empty_def fcard_finsert_if)
  with late_update_sticks [of "new_gauge (ref_add item_k ref_empty)" ref_queue] show ?thesis
    by (auto simp: new_gauge_def)
qed

end
