(* ===== verification/Agent_Process.thy ===== *)
theory Agent_Process
  imports Agent
begin

text \<open>
  The agent as a process (\<open>cmd/validation-agent/main.go\<close>): the main goroutine, the goroutine of
  \<open>startHealthServer\<close> and the one that listens, the context that a signal or \<open>main\<close> itself cancels,
  and the tracing SDK with its deferred shutdown.  \<open>Agent\<close> has the same program without its
  concurrency; the process refines it.  \<open>os.Exit\<close> ends the process at once and runs nothing that
  was deferred.
\<close>

section \<open>State\<close>

text \<open>
  The process starts after \<open>signal.NotifyContext\<close>.  \<open>main\<close> is before \<open>SetupTracing\<close>, before the initial validation, at the exit of a failed one-shot
  validation, in its loop, before \<open><-healthServerDone\<close>, or at its deferred calls.  The health
  goroutine is not started, before \<open>ListenAndServe\<close> is started, waits for the context, is in
  \<open>Shutdown\<close>, or has closed its channel.
\<close>

datatype main_pc = MTracing | MInitial | MFailed | MLoop | MJoin | MDeferred
datatype health_pc = HNone | HStart | HServing | HShutdown | HDone
datatype listener_pc = LNone | LListening | LReturned

text \<open>
  A span is the outcome of the validation it covers; \<open>pr_pending\<close> are those ended and held by the
  batcher, \<open>pr_exported\<close> those sent.  \<open>pr_traced\<close> tells whether tracing was set up.
\<close>

record process =
  pr_main :: main_pc
  pr_health :: health_pc
  pr_listener :: listener_pc
  pr_cancelled :: bool
  pr_ready :: bool
  pr_traced :: bool
  pr_pending :: "agent_error option list"
  pr_exported :: "agent_error option list"
  pr_exit :: "nat option"

definition new_process :: process where
  "new_process =
     \<lparr>pr_main = MTracing, pr_health = HNone, pr_listener = LNone, pr_cancelled = False, pr_ready = False,
      pr_traced = False, pr_pending = [], pr_exported = [], pr_exit = None\<rparr>"

section \<open>Actions\<close>

text \<open>A span that is ended goes to the batcher; without tracing the global tracer drops it.\<close>

definition end_span :: "agent_error option \<Rightarrow> process \<Rightarrow> process" where
  "end_span outcome s = (if pr_traced s then s\<lparr>pr_pending := pr_pending s @ [outcome]\<rparr> else s)"

definition process_markReady :: "process \<Rightarrow> process" where
  "process_markReady s = s\<lparr>pr_ready := True\<rparr>"

definition process_exit :: "nat \<Rightarrow> process \<Rightarrow> process" where
  "process_exit code s = s\<lparr>pr_exit := Some code\<rparr>"

definition setup_tracing :: "bool \<Rightarrow> process \<Rightarrow> process" where
  "setup_tracing ok s = s\<lparr>pr_traced := ok, pr_main := MInitial, pr_health := HStart\<rparr>"

text \<open>After the initial validation: the loop, or the end of one-shot mode, which cancels the context.\<close>

definition after_initial :: "AgentFlags \<Rightarrow> process \<Rightarrow> process" where
  "after_initial fl s =
     (if af_interval fl > 0 then s\<lparr>pr_main := MLoop\<rparr> else s\<lparr>pr_main := MJoin, pr_cancelled := True\<rparr>)"

definition initial_validation :: "AgentFlags \<Rightarrow> string list \<Rightarrow> 'v model_signing \<Rightarrow> process \<Rightarrow> process" where
  "initial_validation fl args M s =
     (if af_skipInitial fl then after_initial fl (process_markReady s)
      else
        (let outcome = runValidation M args; s = end_span outcome s
         in case outcome of
              Some err \<Rightarrow> if af_interval fl = 0 then s\<lparr>pr_main := MFailed\<rparr> else after_initial fl s
            | None \<Rightarrow> after_initial fl (process_markReady s)))"

definition periodic_validation :: "string list \<Rightarrow> 'v model_signing \<Rightarrow> process \<Rightarrow> process" where
  "periodic_validation args M s =
     (let outcome = runValidation M args; s = end_span outcome s
      in case outcome of Some err \<Rightarrow> s | None \<Rightarrow> process_markReady s)"

definition export_spans :: "process \<Rightarrow> process" where
  "export_spans s = s\<lparr>pr_exported := pr_exported s @ pr_pending s, pr_pending := []\<rparr>"

text \<open>The deferred \<open>shutdownTracing\<close>, which may fail, and the end of \<open>main\<close>.\<close>

definition run_deferred :: "bool \<Rightarrow> process \<Rightarrow> process" where
  "run_deferred ok s = process_exit 0 (if ok then export_spans s else s)"

section \<open>Steps and runs\<close>

datatype 'v p_label =
    PSetup bool
  | PServe
  | PListenFails
  | PListenReturns
  | PInitial
  | PExitFailed
  | PTick "'v model_signing"
  | PSignal
  | PLoopCancelled
  | PShutdown
  | PShutdownDone
  | PJoined
  | PDeferred bool
  | PBatch

text \<open>
  \<open>M\<close> is the library at the initial validation.  \<open>ListenAndServe\<close> returns \<open>ErrServerClosed\<close> once
  \<open>Shutdown\<close> has been called; any other error, such as a port in use, ends the process.  A signal
  only cancels the context.  \<open>PBatch\<close> is the batcher exporting on its own.
\<close>

inductive p_step ::
  "AgentFlags \<Rightarrow> string list \<Rightarrow> 'v model_signing \<Rightarrow> process \<Rightarrow> 'v p_label \<Rightarrow> process \<Rightarrow> bool"
  for fl :: AgentFlags and args :: "string list" and M :: "'v model_signing" where
  p_setup: "pr_exit s = None \<Longrightarrow> pr_main s = MTracing \<Longrightarrow> p_step fl args M s (PSetup ok) (setup_tracing ok s)"
| p_serve: "pr_exit s = None \<Longrightarrow> pr_health s = HStart \<Longrightarrow>
    p_step fl args M s PServe (s\<lparr>pr_health := HServing, pr_listener := LListening\<rparr>)"
| p_listen_fails: "pr_exit s = None \<Longrightarrow> pr_listener s = LListening \<Longrightarrow>
    p_step fl args M s PListenFails (process_exit 1 s)"
| p_listen_returns: "pr_exit s = None \<Longrightarrow> pr_listener s = LListening \<Longrightarrow> pr_health s \<in> {HShutdown, HDone} \<Longrightarrow>
    p_step fl args M s PListenReturns (s\<lparr>pr_listener := LReturned\<rparr>)"
| p_initial: "pr_exit s = None \<Longrightarrow> pr_main s = MInitial \<Longrightarrow>
    p_step fl args M s PInitial (initial_validation fl args M s)"
| p_exit_failed: "pr_exit s = None \<Longrightarrow> pr_main s = MFailed \<Longrightarrow> p_step fl args M s PExitFailed (process_exit 1 s)"
| p_tick: "pr_exit s = None \<Longrightarrow> pr_main s = MLoop \<Longrightarrow>
    p_step fl args M s (PTick M') (periodic_validation args M' s)"
| p_signal: "pr_exit s = None \<Longrightarrow> p_step fl args M s PSignal (s\<lparr>pr_cancelled := True\<rparr>)"
| p_loop_cancelled: "pr_exit s = None \<Longrightarrow> pr_main s = MLoop \<Longrightarrow> pr_cancelled s \<Longrightarrow>
    p_step fl args M s PLoopCancelled (s\<lparr>pr_main := MJoin\<rparr>)"
| p_shutdown: "pr_exit s = None \<Longrightarrow> pr_health s = HServing \<Longrightarrow> pr_cancelled s \<Longrightarrow>
    p_step fl args M s PShutdown (s\<lparr>pr_health := HShutdown\<rparr>)"
| p_shutdown_done: "pr_exit s = None \<Longrightarrow> pr_health s = HShutdown \<Longrightarrow>
    p_step fl args M s PShutdownDone (s\<lparr>pr_health := HDone\<rparr>)"
| p_joined: "pr_exit s = None \<Longrightarrow> pr_main s = MJoin \<Longrightarrow> pr_health s = HDone \<Longrightarrow>
    p_step fl args M s PJoined (s\<lparr>pr_main := MDeferred\<rparr>)"
| p_deferred: "pr_exit s = None \<Longrightarrow> pr_main s = MDeferred \<Longrightarrow>
    p_step fl args M s (PDeferred ok) (run_deferred ok s)"
| p_batch: "pr_exit s = None \<Longrightarrow> p_step fl args M s PBatch (export_spans s)"

inductive_cases p_stepE: "p_step fl args M s l s'"

inductive p_run ::
  "AgentFlags \<Rightarrow> string list \<Rightarrow> 'v model_signing \<Rightarrow> process \<Rightarrow> 'v p_label list \<Rightarrow> process \<Rightarrow> bool"
  for fl :: AgentFlags and args :: "string list" and M :: "'v model_signing" where
  p_run_nil: "p_run fl args M s [] s"
| p_run_step: "p_step fl args M s l s' \<Longrightarrow> p_run fl args M s' ls s'' \<Longrightarrow> p_run fl args M s (l # ls) s''"

lemma p_run_keeps [consumes 2, case_names step]:
  assumes "p_run fl args M s ls s'" "I s"
    and "\<And>s l s'. p_step fl args M s l s' \<Longrightarrow> l \<in> set ls \<Longrightarrow> I s \<Longrightarrow> I s'"
  shows "I s'"
  using assms by (induction rule: p_run.induct) auto

text \<open>The same steps as a function of the label, to run a given interleaving.\<close>

fun p_next :: "AgentFlags \<Rightarrow> string list \<Rightarrow> 'v model_signing \<Rightarrow> process \<Rightarrow> 'v p_label \<Rightarrow> process option" where
  "p_next fl args M s l =
     (if pr_exit s \<noteq> None then None
      else case l of
        PSetup ok \<Rightarrow> if pr_main s = MTracing then Some (setup_tracing ok s) else None
      | PServe \<Rightarrow>
          if pr_health s = HStart then Some (s\<lparr>pr_health := HServing, pr_listener := LListening\<rparr>) else None
      | PListenFails \<Rightarrow> if pr_listener s = LListening then Some (process_exit 1 s) else None
      | PListenReturns \<Rightarrow>
          if pr_listener s = LListening \<and> pr_health s \<in> {HShutdown, HDone} then Some (s\<lparr>pr_listener := LReturned\<rparr>)
          else None
      | PInitial \<Rightarrow> if pr_main s = MInitial then Some (initial_validation fl args M s) else None
      | PExitFailed \<Rightarrow> if pr_main s = MFailed then Some (process_exit 1 s) else None
      | PTick M' \<Rightarrow> if pr_main s = MLoop then Some (periodic_validation args M' s) else None
      | PSignal \<Rightarrow> Some (s\<lparr>pr_cancelled := True\<rparr>)
      | PLoopCancelled \<Rightarrow> if pr_main s = MLoop \<and> pr_cancelled s then Some (s\<lparr>pr_main := MJoin\<rparr>) else None
      | PShutdown \<Rightarrow> if pr_health s = HServing \<and> pr_cancelled s then Some (s\<lparr>pr_health := HShutdown\<rparr>) else None
      | PShutdownDone \<Rightarrow> if pr_health s = HShutdown then Some (s\<lparr>pr_health := HDone\<rparr>) else None
      | PJoined \<Rightarrow> if pr_main s = MJoin \<and> pr_health s = HDone then Some (s\<lparr>pr_main := MDeferred\<rparr>) else None
      | PDeferred ok \<Rightarrow> if pr_main s = MDeferred then Some (run_deferred ok s) else None
      | PBatch \<Rightarrow> Some (export_spans s))"

lemma p_step_next: "p_step fl args M s l s' \<longleftrightarrow> p_next fl args M s l = Some s'"
proof
  assume "p_step fl args M s l s'"
  then show "p_next fl args M s l = Some s'" by (cases rule: p_step.cases) simp_all
next
  assume "p_next fl args M s l = Some s'"
  then show "p_step fl args M s l s'"
    by (cases l) (auto split: if_splits intro: p_step.intros p_step.intros [unfolded One_nat_def])
qed

fun p_exec :: "AgentFlags \<Rightarrow> string list \<Rightarrow> 'v model_signing \<Rightarrow> 'v p_label list \<Rightarrow> process \<Rightarrow> process option" where
  "p_exec fl args M [] s = Some s"
| "p_exec fl args M (l # ls) s = Option.bind (p_next fl args M s l) (p_exec fl args M ls)"

lemma p_run_exec: "p_run fl args M s ls s' \<longleftrightarrow> p_exec fl args M ls s = Some s'"
proof
  show "p_run fl args M s ls s' \<Longrightarrow> p_exec fl args M ls s = Some s'"
    by (induction rule: p_run.induct) (auto simp: p_step_next)
  show "p_exec fl args M ls s = Some s' \<Longrightarrow> p_run fl args M s ls s'"
    by (induction ls arbitrary: s) (auto simp: p_step_next intro: p_run.intros split: bind_splits)
qed

lemmas action_defs = setup_tracing_def initial_validation_def periodic_validation_def after_initial_def end_span_def
  process_markReady_def process_exit_def export_spans_def run_deferred_def Let_def

section \<open>Refinement\<close>

lemma agent_run_snoc:
  "agent_run args s es s' \<Longrightarrow> agent_step args s' e s'' \<Longrightarrow> agent_run args s (es @ [e]) s''"
  by (induction rule: agent_run.induct) (auto intro: agent_run.intros)

text \<open>
  The state of the sequential agent that a process is in, once the initial validation is done and
  as long as the listener has not failed: its main goroutine has left the loop, or is to exit, when
  the sequential agent has exited.
\<close>

definition agent_view :: "process \<Rightarrow> agent_state" where
  "agent_view s =
     \<lparr>ag_phase = (case pr_main s of MLoop \<Rightarrow> Looping | MFailed \<Rightarrow> Exited 1 | _ \<Rightarrow> Exited 0), ag_ready = pr_ready s\<rparr>"

definition follows_agent :: "AgentFlags \<Rightarrow> string list \<Rightarrow> 'v model_signing \<Rightarrow> process \<Rightarrow> bool" where
  "follows_agent fl args M s \<longleftrightarrow>
     (if pr_main s \<in> {MTracing, MInitial} then \<not> pr_ready s \<and> pr_exit s = None
      else (\<exists>es :: 'v agent_event list. agent_run args (agent_start fl args M) es (agent_view s))) \<and>
     (\<forall>n. pr_exit s = Some n \<longrightarrow> ag_phase (agent_view s) = Exited n)"

lemma initial_follows:
  assumes "\<not> pr_ready s" "pr_exit s = None"
  shows "follows_agent fl args M (initial_validation fl args M s)"
proof -
  have "agent_view (initial_validation fl args M s) = agent_start fl args M"
    using assms(1) by (auto simp: agent_view_def agent_start_def action_defs markReady_def split: option.split)
  moreover have "pr_main (initial_validation fl args M s) \<notin> {MTracing, MInitial}"
    "pr_exit (initial_validation fl args M s) = None"
    using assms(2) by (auto simp: action_defs split: option.splits)
  ultimately show ?thesis by (auto simp: follows_agent_def intro: agent_run_nil)
qed

lemma step_follows:
  fixes M :: "'v model_signing"
  assumes "p_step fl args M s l s'" "l \<noteq> PListenFails" "follows_agent fl args M s"
  shows "follows_agent fl args M s'"
  using assms(1)
proof (cases rule: p_step.cases)
  case p_initial
  then have "\<not> pr_ready s" using assms(3) by (simp add: follows_agent_def)
  with p_initial show ?thesis using initial_follows [of s] by simp
next
  case (p_tick M')
  then obtain es :: "'v agent_event list" where es: "agent_run args (agent_start fl args M) es (agent_view s)"
    using assms(3) by (auto simp: follows_agent_def)
  have "agent_step args (agent_view s) (Tick M') (agent_view s')"
  proof (cases "runValidation M' args")
    case None
    then have "agent_view s' = Agent.markReady (agent_view s)"
      using p_tick by (simp add: agent_view_def action_defs markReady_def)
    with None p_tick show ?thesis by (simp add: tick_ok agent_view_def)
  next
    case (Some err)
    then have "agent_view s' = agent_view s" using p_tick by (simp add: agent_view_def action_defs)
    with Some p_tick show ?thesis by (simp add: tick_failed agent_view_def)
  qed
  with es have "agent_run args (agent_start fl args M) (es @ [Tick M']) (agent_view s')" by (rule agent_run_snoc)
  moreover have "pr_main s' = MLoop \<and> pr_exit s' = None"
    using p_tick by (simp add: action_defs split: option.split)
  ultimately show ?thesis by (auto simp: follows_agent_def)
next
  case p_loop_cancelled
  then obtain es :: "'v agent_event list" where es: "agent_run args (agent_start fl args M) es (agent_view s)"
    using assms(3) by (auto simp: follows_agent_def)
  have "agent_step args (agent_view s) Cancelled ((agent_view s)\<lparr>ag_phase := Exited 0\<rparr>)"
    using p_loop_cancelled by (intro cancelled) (simp add: agent_view_def)
  moreover have "(agent_view s)\<lparr>ag_phase := Exited 0\<rparr> = agent_view s'"
    using p_loop_cancelled by (simp add: agent_view_def)
  ultimately have "agent_run args (agent_start fl args M) (es @ [Cancelled]) (agent_view s')"
    using agent_run_snoc [OF es] by simp
  moreover have "pr_main s' = MJoin \<and> pr_exit s' = None" using p_loop_cancelled by simp
  ultimately show ?thesis by (auto simp: follows_agent_def)
qed (use assms(2,3) in \<open>auto simp: follows_agent_def agent_view_def action_defs split: if_splits\<close>)

lemma run_follows:
  assumes "p_run fl args M new_process ls s" "PListenFails \<notin> set ls"
  shows "follows_agent fl args M s"
  using assms(1)
proof (rule p_run_keeps)
  show "follows_agent fl args M new_process" by (simp add: follows_agent_def new_process_def)
qed (use assms(2) step_follows in blast)

section \<open>Exit\<close>

lemma exited_stays: "p_run fl args M s ls s' \<Longrightarrow> pr_exit s \<noteq> None \<Longrightarrow> ls = [] \<and> s' = s"
  by (induction rule: p_run.induct) (auto elim: p_stepE)

lemma listen_failure_exits:
  "p_run fl args M s ls s' \<Longrightarrow> PListenFails \<in> set ls \<Longrightarrow> pr_exit s' = Some 1"
proof (induction rule: p_run.induct)
  case (p_run_step s l s' ls s'')
  show ?case
  proof (cases "l = PListenFails")
    case True
    with p_run_step.hyps(1) have "pr_exit s' = Some 1" by (auto elim: p_stepE simp: process_exit_def)
    with exited_stays [OF p_run_step.hyps(2)] show ?thesis by simp
  qed (use p_run_step in simp)
qed simp

text \<open>The steps every process takes at most once; ticks, signals and exports can repeat.\<close>

fun progress :: "'v p_label \<Rightarrow> bool" where
  "progress (PTick M) = False"
| "progress PSignal = False"
| "progress PBatch = False"
| "progress _ = True"

fun main_weight :: "main_pc \<Rightarrow> nat" where
  "main_weight MTracing = 5"
| "main_weight MInitial = 4"
| "main_weight MLoop = 3"
| "main_weight MJoin = 2"
| "main_weight MFailed = 1"
| "main_weight MDeferred = 1"

fun health_weight :: "health_pc \<Rightarrow> nat" where
  "health_weight HNone = 4"
| "health_weight HStart = 4"
| "health_weight HServing = 2"
| "health_weight HShutdown = 1"
| "health_weight HDone = 0"

definition process_weight :: "process \<Rightarrow> nat" where
  "process_weight s =
     (if pr_exit s \<noteq> None then 0
      else 1 + main_weight (pr_main s) + health_weight (pr_health s) + (if pr_listener s = LListening then 1 else 0))"

lemma step_weight:
  assumes "p_step fl args M s l s'" "pr_main s = MTracing \<longleftrightarrow> pr_health s = HNone"
  shows "(if progress l then 1 else 0) + process_weight s' \<le> process_weight s \<and>
    (pr_main s' = MTracing \<longleftrightarrow> pr_health s' = HNone)"
  using assms by (cases rule: p_step.cases) (auto simp: process_weight_def action_defs split: option.splits)

lemma run_weight:
  "p_run fl args M s ls s' \<Longrightarrow> pr_main s = MTracing \<longleftrightarrow> pr_health s = HNone \<Longrightarrow>
     length (filter progress ls) + process_weight s' \<le> process_weight s \<and>
     (pr_main s' = MTracing \<longleftrightarrow> pr_health s' = HNone)"
proof (induction rule: p_run.induct)
  case (p_run_step s l s' ls s'')
  then show ?case using step_weight [OF p_run_step.hyps(1)] by fastforce
qed simp

lemma cancelled_progress:
  assumes "pr_exit s = None" "pr_cancelled s" "pr_main s = MTracing \<longleftrightarrow> pr_health s = HNone"
  shows "\<exists>l s'. progress l \<and> p_step fl args M s l s'"
proof -
  have left: ?thesis if "p_step fl args M s l s'" "progress l" for l s' using that by blast
  show ?thesis
  proof (cases "pr_main s")
    case MJoin
    with assms(3) have "pr_health s \<noteq> HNone" by simp
    then show ?thesis
      using assms(1,2) MJoin left [OF p_serve] left [OF p_shutdown] left [OF p_shutdown_done] left [OF p_joined]
      by (cases "pr_health s") simp_all
  qed (use assms(1,2) left [OF p_setup] left [OF p_initial] left [OF p_exit_failed] left [OF p_loop_cancelled]
      left [OF p_deferred] in simp_all)
qed

section \<open>Properties\<close>

text \<open>
  Two runs for the instances below: a one-shot validation that fails, and continuous validation
  that recovers at its first tick and is then told to stop.
\<close>

definition failing_run :: "unit p_label list" where
  "failing_run = [PSetup True, PServe, PInitial, PExitFailed]"

definition recovering_run :: "unit p_label list" where
  "recovering_run = [PSetup True, PInitial, PServe, PTick accept_all, PSignal, PShutdown, PLoopCancelled, PListenReturns]"

definition continuous_flags :: AgentFlags where
  "continuous_flags = default_AgentFlags\<lparr>af_interval := 60\<rparr>"

lemma failing_run:
  "\<exists>s err. runValidation reject_all sample_cmd = Some err \<and>
     p_run default_AgentFlags sample_cmd reject_all new_process failing_run s \<and> pr_exit s = Some 1 \<and> pr_traced s"
  by (cases "runValidation reject_all sample_cmd")
    (simp_all add: p_run_exec failing_run_def new_process_def action_defs default_AgentFlags_def sample_validation(2))

lemma recovering_run:
  "\<exists>s. p_run continuous_flags sample_cmd reject_all new_process recovering_run s \<and> pr_main s = MJoin \<and>
     pr_ready s \<and> pr_exit s = None \<and> pr_cancelled s"
  by (cases "runValidation reject_all sample_cmd")
    (simp_all add: p_run_exec recovering_run_def continuous_flags_def new_process_def action_defs default_AgentFlags_def
      sample_validation)



text \<open>
  C5: the exit code of a one-shot process can be trusted: whatever signals arrive and whatever the
  health server does meanwhile, it exits with 0 only when the validation passed; it exits with 1
  when the validation failed, and otherwise only when the listener failed.
\<close>

theorem one_shot_exit_code:
  fixes M :: "'v model_signing"
  assumes "p_run fl args M new_process ls s" "af_interval fl = 0" "\<not> af_skipInitial fl" "pr_exit s = Some n"
  shows "(n = 0 \<longrightarrow> runValidation M args = None) \<and> (n = 0 \<or> n = 1) \<and>
    (n = 1 \<longrightarrow> runValidation M args \<noteq> None \<or> PListenFails \<in> set ls)"
proof (cases "PListenFails \<in> set ls")
  case True
  with listen_failure_exits [OF assms(1)] assms(4) show ?thesis by simp
next
  case False
  have f: "follows_agent fl args M s" using assms(1) False by (rule run_follows)
  then obtain es :: "'v agent_event list" where es: "agent_run args (agent_start fl args M) es (agent_view s)"
    using assms(4) by (auto simp: follows_agent_def split: if_splits)
  have start: "ag_phase (agent_start fl args M) = Exited (if runValidation M args = None then 0 else 1)"
    by (simp add: agent_start_once assms(2,3))
  from es have "agent_view s = agent_start fl args M"
    by (cases rule: agent_run.cases) (auto elim: agent_step.cases simp: start)
  then have "Exited n = Exited (if runValidation M args = None then 0 else 1)"
    using f assms(4) start by (simp add: follows_agent_def)
  then show ?thesis using False by (auto split: if_splits)
qed

theorem one_shot_exit_code_witness:
  "\<exists>s err. p_run default_AgentFlags sample_cmd reject_all new_process failing_run s \<and> pr_exit s = Some 1 \<and>
     runValidation reject_all sample_cmd = Some err"
proof -
  obtain s where s: "p_run default_AgentFlags sample_cmd reject_all new_process failing_run s" "pr_exit s = Some 1"
    using failing_run by blast
  then have "runValidation reject_all sample_cmd \<noteq> None"
    using one_shot_exit_code [OF s(1) _ _ s(2)] by (simp add: default_AgentFlags_def failing_run_def)
  with s show ?thesis by blast
qed

text \<open>
  C19: a process that is told to stop does stop: it takes at most ten steps besides ticks, signals
  and exports, and as long as it has not exited after its context was cancelled, one of these is
  possible; no goroutine waits for another for ever.
\<close>

theorem cancelled_agent_exits:
  assumes "p_run fl args M new_process ls s"
  shows "length (filter progress ls) \<le> 10 \<and>
    (pr_cancelled s \<and> pr_exit s = None \<longrightarrow> (\<exists>l s'. progress l \<and> p_step fl args M s l s'))"
proof -
  have "pr_main new_process = MTracing \<longleftrightarrow> pr_health new_process = HNone" "process_weight new_process = 10"
    by (simp_all add: new_process_def process_weight_def)
  with run_weight [OF assms] cancelled_progress [of s fl args M] show ?thesis by auto
qed

theorem cancelled_agent_exits_witness:
  "\<exists>s. p_run continuous_flags sample_cmd reject_all new_process recovering_run s \<and>
     (\<exists>l s'. progress l \<and> p_step continuous_flags sample_cmd reject_all s l s')"
proof -
  obtain s where s: "p_run continuous_flags sample_cmd reject_all new_process recovering_run s"
    "pr_exit s = None" "pr_cancelled s" using recovering_run by blast
  then show ?thesis using cancelled_agent_exits [OF s(1)] by blast
qed

text \<open>
  C30: the span of a failed one-shot validation is lost: \<open>os.Exit\<close> skips the deferred shutdown of
  tracing, so unless the batcher happens to send it before, the process exits with the span of
  the failure not exported, although \<open>SetupTracing\<close> asks its callers to shut it down before they exit.
\<close>

theorem failed_span_not_exported:
  assumes "p_run fl args M new_process ls s" "af_interval fl = 0" "\<not> af_skipInitial fl"
    and "runValidation M args = Some err" "pr_exit s \<noteq> None" "PListenFails \<notin> set ls" "PBatch \<notin> set ls"
  shows "pr_exit s = Some 1 \<and> pr_exported s = [] \<and> (pr_traced s \<longrightarrow> pr_pending s = [Some err])"
proof -
  let ?I = "\<lambda>s. pr_exported s = [] \<and> pr_main s \<in> {MTracing, MInitial, MFailed} \<and>
    (pr_main s \<noteq> MFailed \<longrightarrow> pr_pending s = [] \<and> pr_exit s = None) \<and>
    (pr_main s = MFailed \<longrightarrow> (pr_traced s \<longrightarrow> pr_pending s = [Some err]) \<and> pr_exit s \<in> {None, Some 1})"
  have "?I s"
    using assms(1)
  proof (rule p_run_keeps)
    show "?I new_process" by (simp add: new_process_def)
  next
    fix s l s' assume "p_step fl args M s l s'" "l \<in> set ls" "?I s"
    then show "?I s'"
      using assms(2-4,6,7) by (cases rule: p_step.cases) (auto simp: action_defs)
  qed
  then show ?thesis using assms(5) by auto
qed

theorem failed_span_not_exported_witness:
  "\<exists>s err. p_run default_AgentFlags sample_cmd reject_all new_process failing_run s \<and>
     pr_exported s = [] \<and> pr_pending s = [Some err]"
proof -
  obtain s err where s: "p_run default_AgentFlags sample_cmd reject_all new_process failing_run s"
    "runValidation reject_all sample_cmd = Some err" "pr_exit s = Some 1" "pr_traced s" using failing_run by blast
  then show ?thesis
    using failed_span_not_exported [OF s(1) _ _ s(2)] by (auto simp: failing_run_def default_AgentFlags_def)
qed

end
