(* ===== verification/Machine_Invariants.thy ===== *)
theory Machine_Invariants
  imports Tracker_Machine
begin

text \<open>
  What every step of the composed machine keeps: the tracker is changed by the sequential
  operations only, the work queue's processing set is the worker's item, and no change of a
  ModelValidation that is still tracked goes unnoticed.
\<close>

section \<open>Runs under assumptions on the environment\<close>

text \<open>A condition on every step of a run, in the state in which it is taken.\<close>

fun along ::
  "'q workqueue_lib \<Rightarrow> finalizer_lib \<Rightarrow> ('q Machine \<Rightarrow> m_label \<Rightarrow> bool) \<Rightarrow> 'q Machine \<Rightarrow> m_label list \<Rightarrow> bool"
where
  "along W F P m [] = True"
| "along W F P m (l # ls) \<longleftrightarrow> P m l \<and> (case m_exec W F l m of Some m' \<Rightarrow> along W F P m' ls | None \<Rightarrow> True)"

lemma run_keeps [consumes 3, case_names step]:
  assumes "m_run W F m ls m'" "along W F P m ls" "I m"
    and "\<And>m l m'. m_step W F m l m' \<Longrightarrow> P m l \<Longrightarrow> I m \<Longrightarrow> I m'"
  shows "I m'"
  using assms(1-3)
proof (induction rule: m_run.induct)
  case (m_run_step m l m' ls m'')
  then have "along W F P m' ls" "P m l" by (simp_all add: m_step_exec)
  with m_run_step show ?case using assms(4) by blast
qed

lemma along_conj: "along W F (\<lambda>m l. P m l \<and> Q m l) m ls \<longleftrightarrow> along W F P m ls \<and> along W F Q m ls"
  by (induction ls arbitrary: m) (auto split: option.splits)

lemma along_True [simp]: "along W F (\<lambda>m l. True) m ls"
  by (induction ls arbitrary: m) (auto split: option.splits)

text \<open>
  What the code takes for granted: a map is ranged over in some order of its keys, and the
  list call of a seeding goroutine returns pods of the namespace and label it asked for.
\<close>

definition env_ok :: "'q Machine \<Rightarrow> m_label \<Rightarrow> bool" where
  "env_ok m l \<longleftrightarrow>
     (case l of
        MOp op latest \<Rightarrow> op_ok op
      | MSeedList n (Inr pods) \<Rightarrow> list_all (\<lambda>pod. op_ok (SeedPod pod (fst (mc_seeding m ! n)))) pods
      | MUpdate E \<Rightarrow> range_order (ue_range E)
      | _ \<Rightarrow> True)"

section \<open>The tracker's operations of a run\<close>

fun seed_ops :: "NamespacedName \<times> Pod list option \<Rightarrow> tracker_op list" where
  "seed_ops (k, Some (pod # pods)) = [SeedPod pod k]"
| "seed_ops (k, _) = []"

definition step_ops :: "'q Machine \<Rightarrow> m_label \<Rightarrow> tracker_op list" where
  "step_ops m l =
     (case l of
        MOp op latest \<Rightarrow> [op]
      | MSeedPod n \<Rightarrow> seed_ops (mc_seeding m ! n)
      | MUpdate E \<Rightarrow> (case mc_worker m of WRead k got \<Rightarrow> [WorkerUpdate E k False got] | _ \<Rightarrow> [])
      | _ \<Rightarrow> [])"

fun run_ops :: "'q workqueue_lib \<Rightarrow> finalizer_lib \<Rightarrow> 'q Machine \<Rightarrow> m_label list \<Rightarrow> tracker_op list" where
  "run_ops W F m [] = []"
| "run_ops W F m (l # ls) =
     step_ops m l @ (case m_exec W F l m of Some m' \<Rightarrow> run_ops W F m' ls | None \<Rightarrow> [])"

lemma perform_fields [simp]:
  "mc_tracker (perform F op m) = fst (exec_op F op (mc_tracker m))"
  "mc_queue (perform F op m) = mc_queue m"
  "mc_worker (perform F op m) = mc_worker m"
  "mc_stop (perform F op m) = mc_stop m"
  "mc_stopCh (perform F op m) = mc_stopCh m"
  "mc_adding (perform F op m) = mc_adding m @ queue_adds (snd (exec_op F op (mc_tracker m)))"
  "mc_seeding (perform F op m) =
     mc_seeding m @ map (\<lambda>k. (k, None)) (spawned (snd (exec_op F op (mc_tracker m))))"
  "mc_status (perform F op m) = mc_status m"
  "mc_events (perform F op m) = mc_events m"
  by (simp_all add: perform_def split: prod.splits)

lemma handle_op_fields [simp]:
  "mc_tracker (handle_op F op b m) = fst (exec_op F op (mc_tracker m))"
  "mc_queue (handle_op F op b m) = mc_queue m"
  "mc_worker (handle_op F op b m) = mc_worker m"
  "mc_stop (handle_op F op b m) = mc_stop m"
  "mc_stopCh (handle_op F op b m) = mc_stopCh m"
  "mc_adding (handle_op F op b m) = mc_adding m @ queue_adds (snd (exec_op F op (mc_tracker m)))"
  "mc_seeding (handle_op F op b m) =
     mc_seeding m @ map (\<lambda>k. (k, None)) (spawned (snd (exec_op F op (mc_tracker m))))"
  "mc_status (handle_op F op b m) = mc_status m"
  "mc_events (handle_op F op b m) = (if b then mc_events m |-| reconciles op else mc_events m)"
  by (simp_all add: handle_op_def)

lemma update_status_fields [simp]:
  "mc_tracker (update_status E k got m) = fst (snd (snd (doUpdateStatus E k got (mc_tracker m))))"
  "mc_queue (update_status E k got m) = mc_queue m"
  "mc_worker (update_status E k got m) = WUpdated k (fst (doUpdateStatus E k got (mc_tracker m)) \<noteq> None)"
  "mc_stop (update_status E k got m) = mc_stop m"
  "mc_stopCh (update_status E k got m) = mc_stopCh m"
  "mc_adding (update_status E k got m) = mc_adding m"
  "mc_seeding (update_status E k got m) = mc_seeding m"
  by (auto simp: update_status_def Let_def split: prod.splits option.splits)

lemma conclude_fields [simp]:
  "mc_tracker (conclude W k b m) = mc_tracker m" "mc_worker (conclude W k b m) = WConcluded k"
  "mc_queue (conclude W k b m) = (if b then AddWithRetry W k (mc_queue m) else ForgetRetries W k (mc_queue m))"
  "mc_stop (conclude W k b m) = mc_stop m" "mc_stopCh (conclude W k b m) = mc_stopCh m"
  "mc_adding (conclude W k b m) = mc_adding m" "mc_seeding (conclude W k b m) = mc_seeding m"
  "mc_status (conclude W k b m) = mc_status m" "mc_events (conclude W k b m) = mc_events m"
  by (simp_all add: conclude_def)

lemma seed_list_fields [simp]:
  "mc_tracker (seed_list n listed m) = mc_tracker m" "mc_worker (seed_list n listed m) = mc_worker m"
  "mc_queue (seed_list n listed m) = mc_queue m"
  "mc_stop (seed_list n listed m) = mc_stop m" "mc_stopCh (seed_list n listed m) = mc_stopCh m"
  "mc_adding (seed_list n listed m) = mc_adding m"
  "mc_status (seed_list n listed m) = mc_status m" "mc_events (seed_list n listed m) = mc_events m"
  by (simp_all add: seed_list_def split: sum.splits)

lemma worker_update_tracker:
  "fst (exec_op F (WorkerUpdate E k False got) st) = fst (snd (snd (doUpdateStatus E k got st)))"
  by (simp add: processNextUpdate_def split: prod.splits)

lemma seed_next_tracker: "mc_tracker (seed_next F n s m) = fst (exec_ops F (seed_ops s) (mc_tracker m))"
  by (induction F n s m rule: seed_next.induct) (simp_all add: split_beta)

lemma step_tracker:
  "m_step W F m l m' \<Longrightarrow> mc_tracker m' = fst (exec_ops F (step_ops m l) (mc_tracker m))"
proof (induction rule: m_step.induct)
  case (m_update m k got E)
  then show ?case
    using worker_update_tracker [of F E k got "mc_tracker m"]
    by (simp add: step_ops_def split_beta del: exec_op.simps)
qed (auto simp: step_ops_def seed_next_tracker queue_add_def change_object_def split_beta)

lemma run_tracker:
  "m_run W F m ls m' \<Longrightarrow> mc_tracker m' = fst (exec_ops F (run_ops W F m ls) (mc_tracker m))"
proof (induction rule: m_run.induct)
  case (m_run_step m l m' ls m'')
  then have "m_exec W F l m = Some m'" by (simp add: m_step_exec)
  with m_run_step step_tracker [OF m_run_step.hyps(1)] show ?case
    by (simp add: exec_ops_append split_beta)
qed simp

section \<open>Well-formed machines\<close>

fun worker_item :: "worker_pc \<Rightarrow> NamespacedName fset" where
  "worker_item (WTaken k) = {|k|}"
| "worker_item (WRead k got) = {|k|}"
| "worker_item (WUpdated k failed) = {|k|}"
| "worker_item (WConcluded k) = {|k|}"
| "worker_item _ = {||}"

fun stop_closed :: "stop_pc \<Rightarrow> bool" where
  "stop_closed StopShutting = True" | "stop_closed StopJoining = True" | "stop_closed StopReturned = True"
| "stop_closed _ = False"

fun stop_shut :: "stop_pc \<Rightarrow> bool" where
  "stop_shut StopJoining = True" | "stop_shut StopReturned = True" | "stop_shut _ = False"

definition seeds_ok :: "(NamespacedName \<times> Pod list option) list \<Rightarrow> bool" where
  "seeds_ok ss \<longleftrightarrow> list_all (\<lambda>(k, ps). case ps of
     Some pods \<Rightarrow> list_all (\<lambda>pod. op_ok (SeedPod pod k)) pods | None \<Rightarrow> True) ss"

text \<open>
  The queue's timers are well formed, what the work queue hands out is what the worker works on,
  the flags agree with where \<open>Stop\<close> is, and the tracker is well formed.
\<close>

definition machine_wf :: "'q workqueue_lib \<Rightarrow> 'q Machine \<Rightarrow> bool" where
  "machine_wf W m \<longleftrightarrow>
     dq_wf (mc_queue m) \<and>
     wq_processing W (dq_queue (mc_queue m)) = worker_item (mc_worker m) \<and>
     mc_stopCh m = stop_closed (mc_stop m) \<and> (mc_worker m = WExited \<longrightarrow> stop_closed (mc_stop m)) \<and>
     dq_stopped (mc_queue m) = stop_shut (mc_stop m) \<and>
     wq_shutting_down W (dq_queue (mc_queue m)) = stop_shut (mc_stop m) \<and>
     tracker_wf (mc_tracker m) \<and> seeds_ok (mc_seeding m)"

lemma seeds_ok_simps [simp]:
  "seeds_ok []" "seeds_ok (s # ss) \<longleftrightarrow> (case s of (k, Some pods) \<Rightarrow>
     list_all (\<lambda>pod. op_ok (SeedPod pod k)) pods | _ \<Rightarrow> True) \<and> seeds_ok ss"
  "seeds_ok (xs @ ys) \<longleftrightarrow> seeds_ok xs \<and> seeds_ok ys"
  by (auto simp: seeds_ok_def split: option.splits)

lemma seeds_ok_new [simp]: "seeds_ok (map (\<lambda>k. (k, None)) ks)"
  by (simp add: seeds_ok_def list_all_iff)

lemma set_remove_at: "set (remove_at n xs) \<subseteq> set xs"
  unfolding remove_at_def by (auto dest: in_set_takeD in_set_dropD)

lemma seeds_ok_remove: "seeds_ok ss \<Longrightarrow> seeds_ok (remove_at n ss)"
  using set_remove_at [of n ss] by (auto simp: seeds_ok_def list_all_iff)

lemma seeds_ok_update:
  "seeds_ok ss \<Longrightarrow> (case ps of Some pods \<Rightarrow> list_all (\<lambda>pod. op_ok (SeedPod pod k)) pods | None \<Rightarrow> True) \<Longrightarrow>
     seeds_ok (ss[n := (k, ps)])"
  unfolding seeds_ok_def
  by (cases "n < length ss")
    (auto simp del: op_ok.simps simp: list_all_length nth_list_update list_update_beyond split: option.splits)

lemma seeds_ok_nth:
  "seeds_ok ss \<Longrightarrow> n < length ss \<Longrightarrow> ss ! n = (k, Some pods) \<Longrightarrow> list_all (\<lambda>pod. op_ok (SeedPod pod k)) pods"
  by (force simp: seeds_ok_def list_all_iff dest: nth_mem)

lemma doUpdateStatus_tracker:
  "modelValidations (fst (snd (snd (doUpdateStatus E k got st)))) =
     (if got = Inl NotFound then fmdrop k (modelValidations st) else modelValidations st)"
  by (auto simp: doUpdateStatus_def Let_def split: doUpdate_splits)

lemma seed_step_ok:
  assumes "seeds_ok (mc_seeding m)" "n < length (mc_seeding m)" "mc_seeding m ! n = (k, Some pods)"
    "tracker_wf (mc_tracker m)"
  shows "seeds_ok (mc_seeding (seed_next F n (k, Some pods) m)) \<and>
    tracker_wf (mc_tracker (seed_next F n (k, Some pods) m))"
proof (cases pods)
  case Nil
  then show ?thesis using assms by (simp add: seeds_ok_remove)
next
  case (Cons pod pods')
  have "list_all (\<lambda>pod. op_ok (SeedPod pod k)) pods" by (rule seeds_ok_nth [OF assms(1-3)])
  with Cons show ?thesis
    using assms(1,4) by (simp add: seeds_ok_update exec_op_wf del: exec_op.simps)
qed

lemma seed_next_frame [simp]:
  "mc_queue (seed_next F n s m) = mc_queue m" "mc_worker (seed_next F n s m) = mc_worker m"
  "mc_stop (seed_next F n s m) = mc_stop m" "mc_stopCh (seed_next F n s m) = mc_stopCh m"
  "mc_status (seed_next F n s m) = mc_status m" "mc_events (seed_next F n s m) = mc_events m"
  by (induction F n s m rule: seed_next.induct) simp_all

context workqueue
begin

lemma queue_own_frame:
  assumes "dq_step W s l s'" "queue_own l"
  shows "wq_processing W (dq_queue s') = wq_processing W (dq_queue s)"
    "wq_shutting_down W (dq_queue s') = wq_shutting_down W (dq_queue s)" "dq_stopped s' = dq_stopped s"
  using assms
  by (cases rule: dq_step.cases; auto simp: fire_timer_def callback_step_def add_frame
      split: prod.splits cb_pc.splits dest: deliver_pending)+

lemma dq_Add_queue [simp]: "dq_queue (dq_Add k s) = dq_queue s" "dq_stopped (dq_Add k s) = dq_stopped s"
  by (auto simp: dq_Add_def Let_def split: option.splits)

lemma dq_Get_fields:
  assumes "dq_Get W s = Some (k, s')"
  shows "wq_processing W (dq_queue s') = finsert k (wq_processing W (dq_queue s))"
    "wq_shutting_down W (dq_queue s') = wq_shutting_down W (dq_queue s)" "dq_stopped s' = dq_stopped s"
    "wq_waiting W (dq_queue s') = wq_waiting W (dq_queue s)" "k |\<in>| wq_pending W (dq_queue s)"
  using assms by (auto simp: dq_Get_def split: option.splits prod.splits dest: get_item)

lemma retry_forget_frame:
  "wq_processing W (dq_queue (AddWithRetry W k s)) = wq_processing W (dq_queue s)"
  "wq_shutting_down W (dq_queue (AddWithRetry W k s)) = wq_shutting_down W (dq_queue s)"
  "dq_stopped (AddWithRetry W k s) = dq_stopped s"
  "wq_processing W (dq_queue (ForgetRetries W k s)) = wq_processing W (dq_queue s)"
  "wq_shutting_down W (dq_queue (ForgetRetries W k s)) = wq_shutting_down W (dq_queue s)"
  "dq_stopped (ForgetRetries W k s) = dq_stopped s"
  by (simp_all add: AddWithRetry_def ForgetRetries_def retry_frame forget)

lemma machine_step_wf:
  assumes "m_step W F m l m'" "machine_wf W m" "env_ok m l"
  shows "machine_wf W m'"
proof -
  have dq: "dq_step W (mc_queue m) x q \<Longrightarrow> dq_wf q" for x q
    using assms(2) dq_step_wf by (auto simp: machine_wf_def)
  show ?thesis
    using assms(1)
  proof (cases rule: m_step.cases)
    case (m_op op latest)
    with assms(2,3) show ?thesis
      by (simp add: machine_wf_def env_ok_def exec_op_wf del: exec_op.simps)
  next
    case (m_add n)
    then show ?thesis using assms(2) dq [OF step_add] by (simp add: machine_wf_def queue_add_def)
  next
    case (m_seed_list n listed)
    then show ?thesis using assms(2,3)
      by (auto simp: machine_wf_def seed_list_def env_ok_def seeds_ok_remove seeds_ok_update split: sum.splits)
  next
    case (m_seed_pod n)
    then obtain k pods where "mc_seeding m ! n = (k, Some pods)" by (cases "mc_seeding m ! n") auto
    with m_seed_pod assms(2) seed_step_ok [of m n k pods F] show ?thesis by (simp add: machine_wf_def)
  next
    case (m_queue x q)
    then show ?thesis using assms(2) dq [of x q] queue_own_frame [of "mc_queue m" x q]
      by (simp add: machine_wf_def)
  next
    case (m_get k q)
    then show ?thesis using assms(2) dq [OF step_get] dq_Get_fields [of "mc_queue m" k q]
      by (simp add: machine_wf_def)
  next
    case (m_update k got E)
    have "tracker_wf (fst (snd (snd (doUpdateStatus E k got (mc_tracker m)))))"
      using assms(2) doUpdateStatus_tracker [of E k got "mc_tracker m"]
      by (simp add: machine_wf_def tracker_wf_def all_infos_def)
    with m_update assms(2) show ?thesis by (simp add: machine_wf_def)
  next
    case (m_conclude k failed)
    then show ?thesis using assms(2) dq [OF step_retry] dq [OF step_forget]
      by (auto simp: machine_wf_def retry_forget_frame)
  next
    case (m_done k)
    then show ?thesis using assms(2) dq [OF step_done] by (simp add: machine_wf_def dq_Done_def done_item)
  next
    case m_stop_shutdown
    then show ?thesis using assms(2) dq [OF step_shutdown]
      by (simp add: machine_wf_def dq_ShutDown_def shut)
  qed (use assms(2) in \<open>auto simp: machine_wf_def change_object_def\<close>)
qed

lemma machine_run_wf:
  "m_run W F m ls m' \<Longrightarrow> along W F env_ok m ls \<Longrightarrow> machine_wf W m \<Longrightarrow> machine_wf W m'"
  by (rule run_keeps [where P = env_ok and I = "machine_wf W"]) (auto intro: machine_step_wf)

end

lemma machine_wf_start:
  "wq_processing W q = {||} \<Longrightarrow> \<not> wq_shutting_down W q \<Longrightarrow> machine_wf W (start_machine q statuses)"
  using dq_wf_New tracker_wf_run [of "[]"] by (auto simp: machine_wf_def start_machine_def NewDebouncedQueue_def)

end
