(* ===== verification/Machine_Consistency.thy ===== *)
theory Machine_Consistency
  imports Machine_Invariants
begin

text \<open>
  Eventual consistency of the composed machine: a change of a tracked ModelValidation is either
  shown in the status of its object or on its way to the worker; when nothing is on its way the
  status lists the tracked pods; and without new changes the machine comes to that point in a
  bounded number of steps.
\<close>

section \<open>What is on its way\<close>

text \<open>The item the worker has taken, before the update has read the tracker or after it failed.\<close>

fun worker_owes :: "worker_pc \<Rightarrow> NamespacedName fset" where
  "worker_owes (WTaken k) = {|k|}"
| "worker_owes (WRead k got) = {|k|}"
| "worker_owes (WUpdated k failed) = (if failed then {|k|} else {||})"
| "worker_owes _ = {||}"

definition on_its_way :: "'q workqueue_lib \<Rightarrow> NamespacedName \<Rightarrow> 'q Machine \<Rightarrow> bool" where
  "on_its_way W k m \<longleftrightarrow>
     k |\<in>| mc_events m \<or> k \<in> set (mc_adding m) \<or> owed W k (mc_queue m) \<or>
     k |\<in>| wq_waiting W (dq_queue (mc_queue m)) \<or> k |\<in>| worker_owes (mc_worker m)"

section \<open>What a status shows\<close>

definition lists_pods :: "PodTrackingInfo list \<Rightarrow> pods \<Rightarrow> bool" where
  "lists_pods ps pods \<longleftrightarrow> length ps = fcard (fmdom pods) \<and>
     (\<lambda>p. (pti_Name p, pti_UID p)) ` set ps = (\<lambda>p. (pi_Name p, pi_UID p)) ` fmran' pods"

definition status_shows :: "ModelValidationStatus \<Rightarrow> ModelValidationInfo \<Rightarrow> bool" where
  "status_shows s i \<longleftrightarrow> st_AuthMethod s = mvi_AuthMethod i \<and>
     lists_pods (st_InjectedPods s) (mvi_InjectedPods i) \<and>
     lists_pods (st_UninjectedPods s) (mvi_UninjectedPods i) \<and>
     lists_pods (st_OrphanedPods s) (mvi_OrphanedPods i) \<and>
     st_InjectedPodCount s = word_of_nat (fcard (fmdom (mvi_InjectedPods i))) \<and>
     st_UninjectedPodCount s = word_of_nat (fcard (fmdom (mvi_UninjectedPods i))) \<and>
     st_OrphanedPodCount s = word_of_nat (fcard (fmdom (mvi_OrphanedPods i)))"

lemma tracked_list_lists: "range_order ord \<Longrightarrow> lists_pods (tracked_list ord pods) pods"
  by (simp add: lists_pods_def length_tracked_list set_tracked_list image_image pod_entry_def)

lemma compared_lists:
  assumes "comparePodSlices a b" "lists_pods b pods"
  shows "lists_pods a pods"
proof -
  have "map (\<lambda>p. (pti_Name p, pti_UID p)) a = map (\<lambda>p. (pti_Name p, pti_UID p)) b"
    using assms(1) by (simp add: comparePodSlices_iff)
  then have "length a = length b"
    "(\<lambda>p. (pti_Name p, pti_UID p)) ` set a = (\<lambda>p. (pti_Name p, pti_UID p)) ` set b"
    by (metis length_map, metis list.set_map)
  with assms(2) show ?thesis by (simp add: lists_pods_def)
qed

lemma new_status_shows: "range_order (ue_range E) \<Longrightarrow> status_shows (new_status E mv i) i"
  by (simp add: status_shows_def tracked_list_lists length_tracked_list)

lemma statusEqual_shows:
  assumes "range_order (ue_range E)" "statusEqual s (new_status E mv i)"
  shows "status_shows s i"
  using assms(2) tracked_list_lists [OF assms(1)]
  by (auto simp: statusEqual_def status_shows_def length_tracked_list [OF assms(1)] intro: compared_lists
      split: if_splits)

section \<open>No update is lost\<close>

text \<open>
  Reads of the API client: an update of a tracked ModelValidation that writes nothing has read
  the status the object has, unless a change of the object is still to be reconciled.  (The client
  reads a cache; the watch event that brings it up to date is the one that runs the reconcile.)
\<close>

definition skips_fresh :: "'q Machine \<Rightarrow> m_label \<Rightarrow> bool" where
  "skips_fresh m l \<longleftrightarrow>
     (case (l, mc_worker m) of
        (MUpdate E, WRead k (Inr mv)) \<Rightarrow>
          k |\<in>| fmdom (modelValidations (mc_tracker m)) \<and>
          fst (snd (doUpdateStatus E k (Inr mv) (mc_tracker m))) = None \<longrightarrow>
          fmlookup (mc_status m) k = Some (mv_Status mv) \<or> k |\<in>| mc_events m
      | _ \<Rightarrow> True)"

definition nothing_lost :: "'q workqueue_lib \<Rightarrow> 'q Machine \<Rightarrow> bool" where
  "nothing_lost W m \<longleftrightarrow> dq_open W (mc_queue m) \<longrightarrow>
     (\<forall>k i. fmlookup (modelValidations (mc_tracker m)) k = Some i \<longrightarrow>
        on_its_way W k m \<or> (\<exists>s. fmlookup (mc_status m) k = Some s \<and> status_shows s i))"

lemma set_queue_adds: "k \<in> set (queue_adds effs) \<longleftrightarrow> QueueAdd k \<in> set effs"
  by (auto simp: queue_adds_def split: effect.splits)

lemma AddMV_queues: "QueueAdd (mv_key mv) \<in> set (snd (AddModelValidation ord mv st))"
  by (cases "fmlookup (modelValidations st) (mv_key mv)")
    (auto simp: AddModelValidation_new AddModelValidation_known)

lemma reconciled_queued:
  assumes "k |\<in>| reconciles op" "k |\<in>| fmdom (modelValidations (fst (exec_op F op st)))"
  shows "QueueAdd k \<in> set (snd (exec_op F op st))"
  using assms AddMV_queues
  by (cases op) (auto simp: RemoveModelValidation_def Let_def split: option.splits if_splits prod.splits)

text \<open>What is left after an update: unless it failed, the status shows the tracked pods.\<close>

lemma update_outcome:
  assumes "range_order (ue_range E)" "mc_worker m = WRead k got" "skips_fresh m (MUpdate E)"
    and "fmlookup (modelValidations (mc_tracker (update_status E k got m))) k = Some i"
  shows "k |\<in>| worker_owes (mc_worker (update_status E k got m)) \<or>
    k |\<in>| mc_events (update_status E k got m) \<or>
    (\<exists>s. fmlookup (mc_status (update_status E k got m)) k = Some s \<and> status_shows s i)"
proof (cases "doUpdateStatus E k got (mc_tracker m)")
  case (fields err written st effs)
  show ?thesis
  proof (cases err)
    case (Some e)
    then show ?thesis by (simp add: fields)
  next
    case err: None
    have i: "fmlookup (modelValidations (mc_tracker m)) k = Some i" "got \<noteq> Inl NotFound"
      using assms(4) doUpdateStatus_tracker [of E k got "mc_tracker m"] by (auto simp: fields split: if_splits)
    show ?thesis
    proof (cases written)
      case (Some w)
      from fields err Some obtain mv j where "w = mv\<lparr>mv_Status := new_status E mv j\<rparr>"
        "fmlookup (modelValidations (mc_tracker m)) k = Some j" by (auto elim: doUpdateStatus_written)
      with i new_status_shows [OF assms(1)] show ?thesis by (simp add: update_status_def fields err Some)
    next
      case None
      obtain mv where mv: "got = Inr mv" and eq: "statusEqual (mv_Status mv) (new_status E mv i)"
        using fields err None i by (auto simp: doUpdateStatus_def Let_def split: doUpdate_splits)
      have "fmlookup (mc_status m) k = Some (mv_Status mv) \<or> k |\<in>| mc_events m"
        using assms(3) fields [unfolded mv] i(1) by (simp add: skips_fresh_def assms(2) mv None fmdomI)
      with statusEqual_shows [OF assms(1) eq] show ?thesis
        by (auto simp: update_status_def fields err None)
    qed
  qed
qed

lemma update_status_frame:
  assumes "k' \<noteq> k"
  shows "fmlookup (mc_status (update_status E k got m)) k' = fmlookup (mc_status m) k'"
    and "k' |\<in>| mc_events (update_status E k got m) \<longleftrightarrow> k' |\<in>| mc_events m"
    and "fmlookup (modelValidations (mc_tracker (update_status E k got m))) k' =
      fmlookup (modelValidations (mc_tracker m)) k'"
  using assms doUpdateStatus_tracker [of E k got "mc_tracker m"]
  by (auto simp: update_status_def Let_def split: prod.splits option.splits)

context workqueue
begin

definition queued :: "NamespacedName \<Rightarrow> 'q DebouncedQueueImpl \<Rightarrow> bool" where
  "queued k s \<longleftrightarrow> owed W k s \<or> k |\<in>| wq_waiting W (dq_queue s)"

lemma waiting_step:
  assumes "dq_step W s l s'" "k |\<in>| wq_waiting W (dq_queue s)" "dq_open W s" "l \<noteq> LShutDown"
  shows "queued k s'"
  using assms(1)
proof (cases rule: dq_step.cases)
  case (step_callback n)
  with assms(2) show ?thesis
    by (auto simp: queued_def callback_step_def add_frame split: prod.splits cb_pc.splits)
next
  case (step_get k')
  with assms(2) show ?thesis by (simp add: queued_def dq_Get_fields)
next
  case (step_retry k')
  with assms(2) retry_waiting(1) show ?thesis by (auto simp: queued_def AddWithRetry_def)
next
  case (step_deliver k' q)
  with assms(2,3) show ?thesis by (cases "k' = k") (auto simp: queued_def owed_def dq_open_def dest: deliver_pending)
qed (use assms(2,4) in \<open>simp_all add: queued_def fire_timer_def dq_Done_def ForgetRetries_def done_item forget\<close>)

lemma queued_step:
  assumes "dq_step W s l s'" "queued k s" "dq_open W s" "l \<noteq> LShutDown" "l \<noteq> LGet k"
  shows "queued k s'"
  using assms step_owed waiting_step unfolding queued_def by blast

lemma retried_queued:
  assumes "dq_open W s"
  shows "queued k (AddWithRetry W k s)"
  using assms retry_waiting(3) [of "dq_queue s" k]
  by (auto simp: queued_def owed_def AddWithRetry_def dq_open_def)

lemma way_queued: "on_its_way W k m \<longleftrightarrow> k |\<in>| mc_events m \<or> k \<in> set (mc_adding m) \<or>
    queued k (mc_queue m) \<or> k |\<in>| worker_owes (mc_worker m)"
  by (auto simp: on_its_way_def queued_def)

lemma perform_nothing_lost:
  assumes "nothing_lost W m" "op_ok op" "dq_open W (mc_queue m)"
    and m': "mc_tracker m' = fst (exec_op F op (mc_tracker m))" "mc_queue m' = mc_queue m"
      "mc_worker m' = mc_worker m" "mc_status m' = mc_status m"
      "mc_adding m' = mc_adding m @ queue_adds (snd (exec_op F op (mc_tracker m)))"
      "mc_events m |\<subseteq>| mc_events m' |\<union>| reconciles op"
  shows "nothing_lost W m'"
  unfolding nothing_lost_def
proof (intro impI allI)
  fix k i
  assume i: "fmlookup (modelValidations (mc_tracker m')) k = Some i"
  then have tracked: "k |\<in>| fmdom (modelValidations (fst (exec_op F op (mc_tracker m))))"
    by (simp add: m'(1) fmdomI)
  show "on_its_way W k m' \<or> (\<exists>s. fmlookup (mc_status m') k = Some s \<and> status_shows s i)"
  proof (cases "QueueAdd k \<in> set (snd (exec_op F op (mc_tracker m)))")
    case True
    then show ?thesis by (simp add: on_its_way_def m'(5) set_queue_adds)
  next
    case False
    with tracked have same: "fmlookup (modelValidations (mc_tracker m)) k = Some i"
      using changed_info_queued [OF _ tracked assms(2)] i m'(1) by metis
    have "k |\<in>| mc_events m \<Longrightarrow> k |\<in>| mc_events m'"
      using m'(6) reconciled_queued [OF _ tracked] False by auto
    with assms(1,3) same m' show ?thesis by (auto simp: nothing_lost_def on_its_way_def)
  qed
qed

lemma queue_nothing_lost:
  assumes "nothing_lost W m" "dq_open W (mc_queue m)"
    and "mc_tracker m' = mc_tracker m" "mc_status m' = mc_status m" "mc_events m |\<subseteq>| mc_events m'"
    and "\<And>k. k \<in> set (mc_adding m) \<Longrightarrow> k \<in> set (mc_adding m') \<or> queued k (mc_queue m')"
    and "\<And>k. queued k (mc_queue m) \<Longrightarrow> queued k (mc_queue m') \<or> k |\<in>| worker_owes (mc_worker m')"
    and "\<And>k. k |\<in>| worker_owes (mc_worker m) \<Longrightarrow> queued k (mc_queue m') \<or> k |\<in>| worker_owes (mc_worker m')"
  shows "nothing_lost W m'"
  unfolding nothing_lost_def
proof (intro impI allI)
  fix k i
  assume "fmlookup (modelValidations (mc_tracker m')) k = Some i"
  with assms(1-4) have "on_its_way W k m \<or> (\<exists>s. fmlookup (mc_status m') k = Some s \<and> status_shows s i)"
    by (auto simp: nothing_lost_def)
  then show "on_its_way W k m' \<or> (\<exists>s. fmlookup (mc_status m') k = Some s \<and> status_shows s i)"
    using assms(5) assms(6,7,8) [of k] unfolding way_queued by blast
qed

lemma remove_at_other: "k \<in> set xs \<Longrightarrow> n < length xs \<Longrightarrow> k \<in> set (remove_at n xs) \<or> k = xs ! n"
  using set_remove_keep by fast

lemma seed_nothing_lost:
  assumes "nothing_lost W m" "dq_open W (mc_queue m)" "seeds_ok (mc_seeding m)"
    "n < length (mc_seeding m)" "mc_seeding m ! n = (k, Some pods)"
  shows "nothing_lost W (seed_next F n (k, Some pods) m)"
proof (cases pods)
  case Nil
  then show ?thesis using assms(1,2) by (intro queue_nothing_lost [OF assms(1,2)]) simp_all
next
  case (Cons pod pods')
  have "list_all (\<lambda>pod. op_ok (SeedPod pod k)) pods" by (rule seeds_ok_nth [OF assms(3-5)])
  then have "op_ok (SeedPod pod k)" by (simp add: Cons)
  then show ?thesis
    by (rule perform_nothing_lost [OF assms(1) _ assms(2)]) (simp_all add: Cons)
qed

lemma step_nothing_lost:
  assumes "m_step W F m l m'" "machine_wf W m" "env_ok m l" "skips_fresh m l" "nothing_lost W m"
  shows "nothing_lost W m'"
proof (cases "dq_open W (mc_queue m)")
  case False
  with assms(2) have shut: "stop_shut (mc_stop m)" by (auto simp: machine_wf_def dq_open_def)
  have "stop_shut (mc_stop m')"
    using assms(1) shut by (cases rule: m_step.cases) (auto simp: queue_add_def change_object_def)
  with machine_step_wf [OF assms(1-3)] show ?thesis by (simp add: nothing_lost_def dq_open_def machine_wf_def)
next
  case opn: True
  note keep = queue_nothing_lost [OF assms(5) opn]
  have q: "queued k (mc_queue m) \<Longrightarrow> dq_step W (mc_queue m) x s \<Longrightarrow> x \<noteq> LShutDown \<Longrightarrow> x \<noteq> LGet k \<Longrightarrow> queued k s"
    for k x s using queued_step [OF _ _ opn] by blast
  show ?thesis
    using assms(1)
  proof (cases rule: m_step.cases)
    case (m_op op latest)
    then show ?thesis
      using assms(3) by (intro perform_nothing_lost [OF assms(5) _ opn]) (auto simp: env_ok_def)
  next
    case (m_add n)
    have "queued (mc_adding m ! n) (dq_Add (mc_adding m ! n) (mc_queue m))"
      using opn assms(2) Add_owes [of "mc_queue m"] by (simp add: queued_def dq_open_def machine_wf_def)
    with m_add q [OF _ step_add] show ?thesis
      by (intro keep) (auto simp: queue_add_def dest: remove_at_other)
  next
    case (m_seed_list n listed)
    then show ?thesis by (intro keep) simp_all
  next
    case (m_seed_pod n)
    then obtain k pods where "mc_seeding m ! n = (k, Some pods)" by (cases "mc_seeding m ! n") auto
    with m_seed_pod assms(2) show ?thesis
      using seed_nothing_lost [OF assms(5) opn] by (simp add: machine_wf_def)
  next
    case (m_object k s)
    show ?thesis
      unfolding nothing_lost_def
    proof (intro impI allI)
      fix k' i
      assume "fmlookup (modelValidations (mc_tracker m')) k' = Some i"
      with assms(5) opn m_object show
        "on_its_way W k' m' \<or> (\<exists>s. fmlookup (mc_status m') k' = Some s \<and> status_shows s i)"
        by (cases "k' = k") (auto simp: nothing_lost_def on_its_way_def change_object_def split: option.splits)
    qed
  next
    case (m_queue x s)
    then have "x \<noteq> LShutDown" "x \<noteq> LGet k" for k by auto
    with m_queue q [OF _ m_queue(4)] show ?thesis by (intro keep) auto
  next
    case (m_get k s)
    then show ?thesis using q [OF _ step_get [OF m_get(4)]] by (intro keep) auto
  next
    case (m_update k got E)
    show ?thesis
      unfolding nothing_lost_def
    proof (intro impI allI)
      fix k' i
      assume i: "fmlookup (modelValidations (mc_tracker m')) k' = Some i"
      show "on_its_way W k' m' \<or> (\<exists>s. fmlookup (mc_status m') k' = Some s \<and> status_shows s i)"
      proof (cases "k' = k")
        case True
        with i m_update assms(3,4) update_outcome [of E m k got i] show ?thesis
          by (auto simp: on_its_way_def env_ok_def)
      next
        case False
        note frame = update_status_frame [OF False, of E got m]
        have "on_its_way W k' m \<or> (\<exists>s. fmlookup (mc_status m) k' = Some s \<and> status_shows s i)"
          using assms(5) opn i frame(3) m_update(2) unfolding nothing_lost_def by metis
        with m_update False frame(1,2) show ?thesis by (auto simp: on_its_way_def)
      qed
    qed
  next
    case (m_conclude k failed)
    then show ?thesis
      using q [OF _ step_retry] q [OF _ step_forget] retried_queued [OF opn]
      by (intro keep) (auto split: if_splits)
  next
    case (m_done k)
    then show ?thesis using q [OF _ step_done] by (intro keep) auto
  next
    case m_stop_shutdown
    then show ?thesis by (simp add: nothing_lost_def dq_open_def dq_ShutDown_def)
  qed (use keep in \<open>auto intro!: keep\<close>)
qed

end

end
