(* ===== verification/Machine_Liveness.thy ===== *)
theory Machine_Liveness
  imports Machine_Consistency
begin

text \<open>
  Calm runs: no new change arrives, the API server answers, and only the machine's own steps
  and the reconciles that the worker's status writes cause are taken.  They are bounded by a
  weight of what is on its way, and end where nothing is.
\<close>

section \<open>Calm states and steps\<close>

text \<open>The objects, given by their specifications \<open>api\<close> and the statuses of the machine.\<close>

definition current_object ::
  "(NamespacedName \<Rightarrow> ModelValidation) \<Rightarrow> 'q Machine \<Rightarrow> NamespacedName \<Rightarrow> ModelValidation" where
  "current_object api m k =
     (case fmlookup (mc_status m) k of Some s \<Rightarrow> (api k)\<lparr>mv_Status := s\<rparr> | None \<Rightarrow> api k)"

abbreviation tracked_info :: "'q Machine \<Rightarrow> NamespacedName \<Rightarrow> ModelValidationInfo option" where
  "tracked_info m \<equiv> fmlookup (modelValidations (mc_tracker m))"

definition unique_names :: "ModelValidationInfo \<Rightarrow> bool" where
  "unique_names i \<longleftrightarrow> distinct_names (mvi_InjectedPods i) \<and> distinct_names (mvi_UninjectedPods i) \<and>
     distinct_names (mvi_OrphanedPods i)"

text \<open>What \<open>client.Get\<close> may return: the object as it is; nothing is known of untracked ones.\<close>

definition good_read ::
  "(NamespacedName \<Rightarrow> ModelValidation) \<Rightarrow> 'q Machine \<Rightarrow> NamespacedName \<Rightarrow> ModelValidation client_result \<Rightarrow> bool"
where
  "good_read api m k got \<longleftrightarrow>
     (if tracked_info m k \<noteq> None then got = Inr (current_object api m k)
      else case got of Inl err \<Rightarrow> err = NotFound | Inr mv \<Rightarrow> True)"

definition calm_state :: "(NamespacedName \<Rightarrow> ModelValidation) \<Rightarrow> 'q Machine \<Rightarrow> bool" where
  "calm_state api m \<longleftrightarrow>
     mc_stop m = NotStopped \<and> mc_seeding m = [] \<and>
     (\<forall>k i. tracked_info m k = Some i \<longrightarrow>
        mv_key (api k) = k \<and> om_Generation (mv_Meta (api k)) = mvi_ObservedGeneration i \<and>
        GetConfigHash (api k) = mvi_ConfigHash i \<and> GetAuthMethod (api k) = mvi_AuthMethod i \<and>
        unique_names i \<and> fmlookup (mc_status m) k \<noteq> None) \<and>
     (case mc_worker m of WRead k got \<Rightarrow> good_read api m k got | _ \<Rightarrow> True)"

definition calm :: "(NamespacedName \<Rightarrow> ModelValidation) \<Rightarrow> 'q Machine \<Rightarrow> m_label \<Rightarrow> bool" where
  "calm api m l \<longleftrightarrow>
     (case l of
        MOp (AddMV ord mv) latest \<Rightarrow>
          latest \<and> range_order ord \<and> mv_key mv |\<in>| mc_events m \<and>
          tracked_info m (mv_key mv) \<noteq> None \<and> mv = current_object api m (mv_key mv)
      | MAdd n \<Rightarrow> True
      | MQueue x \<Rightarrow> True
      | MSelect \<Rightarrow> True
      | MGet k \<Rightarrow> True
      | MRead got \<Rightarrow> (case mc_worker m of WTaken k \<Rightarrow> good_read api m k got | _ \<Rightarrow> False)
      | MUpdate E \<Rightarrow> range_order (ue_range E) \<and> ue_update E = (\<lambda>mv. None)
      | MConclude \<Rightarrow> True
      | MDone \<Rightarrow> True
      | _ \<Rightarrow> False)"

section \<open>Statuses that need no write\<close>

definition up_to_date :: "ModelValidationStatus \<Rightarrow> ModelValidationInfo \<Rightarrow> bool" where
  "up_to_date s i \<longleftrightarrow> (\<exists>E mv. range_order (ue_range E) \<and> statusEqual s (new_status E mv i))"

lemma statusEqual_any_order:
  assumes "unique_names i" "range_order (ue_range E)" "range_order (ue_range E')"
  shows "statusEqual s (new_status E mv i) \<longleftrightarrow> statusEqual s (new_status E' mv' i)"
  using assms(1) tracked_list_order_free [OF assms(2,3)] by (simp add: statusEqual_def unique_names_def)

lemma up_to_date_iff:
  assumes "unique_names i" "range_order (ue_range E)"
  shows "up_to_date s i \<longleftrightarrow> statusEqual s (new_status E mv i)"
  using statusEqual_any_order [OF assms(1) _ assms(2)] assms(2) by (auto simp: up_to_date_def)

lemma statusEqual_refl [simp]: "statusEqual s s"
  by (simp add: statusEqual_def)

definition stale_keys :: "'q Machine \<Rightarrow> NamespacedName fset" where
  "stale_keys m = ffilter (\<lambda>k. case (tracked_info m k, fmlookup (mc_status m) k) of
     (Some i, Some s) \<Rightarrow> \<not> up_to_date s i | _ \<Rightarrow> False) (fmdom (modelValidations (mc_tracker m)))"

section \<open>The weight of what is on its way\<close>

fun pc_weight :: "worker_pc \<Rightarrow> nat" where
  "pc_weight WSelect = 1" | "pc_weight WGet = 0" | "pc_weight (WTaken k) = 5"
| "pc_weight (WRead k got) = 4" | "pc_weight (WUpdated k failed) = (if failed then 16 else 3)"
| "pc_weight (WConcluded k) = 2" | "pc_weight WExited = 0"

fun cb_weight :: "cb_pc \<Rightarrow> nat" where
  "cb_weight CbStart = 11" | "cb_weight CbChecked = 10" | "cb_weight CbAdded = 3"
| "cb_weight CbMeasured = 2" | "cb_weight CbDeleted = 1"

definition queue_weight :: "'q workqueue_lib \<Rightarrow> 'q DebouncedQueueImpl \<Rightarrow> nat" where
  "queue_weight W s = 12 * fcard (armedTimers s) + sum_list (map (cb_weight \<circ> snd) (callbacks s)) +
     7 * fcard (wq_waiting W (dq_queue s)) + 6 * fcard (wq_pending W (dq_queue s))"

definition machine_weight :: "'q workqueue_lib \<Rightarrow> 'q Machine \<Rightarrow> nat" where
  "machine_weight W m = 16 * fcard (stale_keys m) + 14 * fcard (mc_events m) + 13 * length (mc_adding m) +
     queue_weight W (mc_queue m) + pc_weight (mc_worker m)"

lemma fcard_finsert_le: "fcard (finsert x A) \<le> Suc (fcard A)"
  by (simp add: fcard_finsert_if)

lemma fcard_minus_single: "x |\<in>| A \<Longrightarrow> Suc (fcard (A |-| {|x|})) = fcard A"
  by (metis finsert_fminus fcard_finsert_disjoint fminus_iff finsertI1)

lemma queue_weight_Add: "queue_weight W (dq_Add k s) \<le> queue_weight W s + 12"
proof -
  have "fcard (armedTimers (dq_Add k s)) \<le> Suc (fcard (armedTimers s))"
    by (auto simp: dq_Add_def Let_def fcard_finsert_le split: option.splits)
  moreover have "callbacks (dq_Add k s) = callbacks s" "dq_queue (dq_Add k s) = dq_queue s"
    by (auto simp: dq_Add_def Let_def split: option.splits)
  ultimately show ?thesis by (simp add: queue_weight_def)
qed

context workqueue
begin

lemma callback_weight:
  assumes "n < length (callbacks s)" "dq_open W s"
  shows "queue_weight W (callback_step W n s) < queue_weight W s"
proof -
  obtain item pc where c: "callbacks s ! n = (item, pc)" by (cases "callbacks s ! n") auto
  have upd: "sum_list (map (cb_weight \<circ> snd) ((callbacks s)[n := (item, pc')])) + cb_weight pc =
      sum_list (map (cb_weight \<circ> snd) (callbacks s)) + cb_weight pc'" for pc'
    using sum_list_update [of n "map (cb_weight \<circ> snd) (callbacks s)" "cb_weight pc'"]
      elem_le_sum_list [of n "map (cb_weight \<circ> snd) (callbacks s)"] assms(1) c
    by (simp add: map_update)
  have del: "sum_list (map (cb_weight \<circ> snd) (remove_at n (callbacks s))) <
      sum_list (map (cb_weight \<circ> snd) (callbacks s))"
    using assms(1) c by (intro sum_list_remove_less) (auto, cases pc, auto)
  have add: "fcard (wq_pending W (wq_Add W item (dq_queue s))) \<le> Suc (fcard (wq_pending W (dq_queue s)))"
    using assms(2) by (simp add: add_open dq_open_def fcard_finsert_le)
  show ?thesis
    by (cases pc) (use upd [of CbDeleted] upd [of CbChecked] upd [of CbAdded] upd [of CbMeasured] del add in
      \<open>auto simp: callback_step_def c queue_weight_def add_frame\<close>)
qed

lemma own_weight:
  assumes "dq_step W s l s'" "queue_own l" "dq_open W s"
  shows "queue_weight W s' < queue_weight W s"
  using assms(1)
proof (cases rule: dq_step.cases)
  case (step_fire t)
  then show ?thesis using fcard_minus_single [of t "armedTimers s"]
    by (simp add: fire_timer_def queue_weight_def)
next
  case (step_callback n)
  then show ?thesis by (simp add: callback_weight assms(3))
next
  case (step_deliver k q)
  then have "Suc (fcard (wq_waiting W q)) = fcard (wq_waiting W (dq_queue s))"
    "fcard (wq_pending W q) \<le> Suc (fcard (wq_pending W (dq_queue s)))"
    using assms(3) deliver_pending [OF step_deliver(3)] fcard_minus_single [of k "wq_waiting W (dq_queue s)"]
    by (auto simp: dq_open_def fcard_finsert_le)
  with step_deliver show ?thesis by (simp add: queue_weight_def)
qed (use assms(2) in auto)

lemma get_weight:
  assumes "dq_Get W s = Some (k, s')"
  shows "queue_weight W s' + 6 = queue_weight W s"
proof -
  obtain q where q: "wq_Get W (dq_queue s) = Some (k, q)" "s' = s\<lparr>dq_queue := q\<rparr>"
    using assms by (auto simp: dq_Get_def split: option.splits)
  have "Suc (fcard (wq_pending W q)) = fcard (wq_pending W (dq_queue s))" "wq_waiting W q = wq_waiting W (dq_queue s)"
    using get_item [OF q(1)] fcard_minus_single [of k "wq_pending W (dq_queue s)"] by metis+
  then show ?thesis by (simp add: queue_weight_def q(2))
qed

lemma retry_weight: "queue_weight W (AddWithRetry W k s) \<le> queue_weight W s + 13"
proof (cases "dq_stopped s")
  case False
  have "fcard (wq_pending W (wq_AddRateLimited W k (dq_queue s))) \<le> Suc (fcard (wq_pending W (dq_queue s)))"
    by (rule le_trans [OF fcard_mono [OF retry_pending(2)] fcard_finsert_le])
  moreover have "fcard (wq_waiting W (wq_AddRateLimited W k (dq_queue s))) \<le> Suc (fcard (wq_waiting W (dq_queue s)))"
    by (rule le_trans [OF fcard_mono [OF retry_waiting(2)] fcard_finsert_le])
  ultimately show ?thesis using False by (simp add: AddWithRetry_def queue_weight_def)
qed (simp add: AddWithRetry_def)

lemma other_weight [simp]:
  "queue_weight W (ForgetRetries W k s) = queue_weight W s" "queue_weight W (dq_Done W k s) = queue_weight W s"
  by (simp_all add: queue_weight_def ForgetRetries_def dq_Done_def forget done_item)

end

section \<open>A calm step\<close>

lemma calm_update_untracked:
  assumes "tracked_info m k = None" "good_read api m k got"
  shows "\<exists>effs. doUpdateStatus E k got (mc_tracker m) = (None, None, mc_tracker m, effs)"
proof (cases got)
  case (Inl err)
  have "fmdrop k (modelValidations (mc_tracker m)) = modelValidations (mc_tracker m)"
    using assms(1) by (intro fmdrop_idle) (simp add: fmdom_notI)
  with Inl assms show ?thesis by (simp add: good_read_def doUpdateStatus_def)
next
  case (Inr mv)
  with assms show ?thesis by (simp add: doUpdateStatus_def)
qed

lemma calm_update_tracked:
  assumes "tracked_info m k = Some i" "good_read api m k got" "calm_state api m"
    and "range_order (ue_range E)" "ue_update E = (\<lambda>mv. None)"
  obtains s where "fmlookup (mc_status m) k = Some s"
    "\<exists>effs. doUpdateStatus E k got (mc_tracker m) =
       (None, if up_to_date s i then None else Some ((api k)\<lparr>mv_Status := new_status E (current_object api m k) i\<rparr>),
        mc_tracker m, effs)"
proof -
  have i: "GetConfigHash (api k) = mvi_ConfigHash i" "GetAuthMethod (api k) = mvi_AuthMethod i"
    "unique_names i" "fmlookup (mc_status m) k \<noteq> None"
    using assms(1,3) by (auto simp: calm_state_def)
  then obtain s where s: "fmlookup (mc_status m) k = Some s" by blast
  have got: "got = Inr ((api k)\<lparr>mv_Status := s\<rparr>)"
    using assms(1,2) s by (simp add: good_read_def current_object_def)
  have "up_to_date s i \<longleftrightarrow> statusEqual s (new_status E (current_object api m k) i)"
    by (rule up_to_date_iff [OF i(3) assms(4)])
  with s i assms(1,5) got show ?thesis
    by (intro that [OF s]) (simp add: doUpdateStatus_def current_object_def)
qed

lemma update_status_None:
  assumes "doUpdateStatus E k got (mc_tracker m) = (None, None, mc_tracker m, effs)"
  shows "update_status E k got m =
    m\<lparr>mc_worker := WUpdated k False, mc_metrics := mc_metrics m @ metric_calls effs\<rparr>"
  by (simp add: update_status_def assms)

lemma stale_cong:
  "mc_tracker m' = mc_tracker m \<Longrightarrow> mc_status m' = mc_status m \<Longrightarrow> stale_keys m' = stale_keys m"
  by (simp add: stale_keys_def)

lemma calm_state_cong:
  assumes "calm_state api m" "mc_tracker m' = mc_tracker m" "mc_status m' = mc_status m"
    "mc_stop m' = mc_stop m" "mc_seeding m' = mc_seeding m"
    "case mc_worker m' of WRead k got \<Rightarrow> good_read api m k got | _ \<Rightarrow> True"
  shows "calm_state api m'"
  using assms by (auto simp: calm_state_def good_read_def current_object_def split: worker_pc.splits)

lemma calm_written:
  assumes "calm_state api m" "mc_worker m = WRead k got" "tracked_info m k = Some i"
    and "fmlookup (mc_status m) k = Some s" "\<not> up_to_date s i"
    and "range_order (ue_range E)"
    and "doUpdateStatus E k got (mc_tracker m) =
       (None, Some ((api k)\<lparr>mv_Status := new_status E mv i\<rparr>), mc_tracker m, effs)"
  shows "calm_state api (update_status E k got m) \<and> mc_tracker (update_status E k got m) = mc_tracker m \<and>
    machine_weight W (update_status E k got m) < machine_weight W m"
proof -
  let ?m = "update_status E k got m"
  have m: "mc_status ?m = fmupd k (new_status E mv i) (mc_status m)" "mc_events ?m = finsert k (mc_events m)"
    "mc_tracker ?m = mc_tracker m"
    using assms(7) by (simp_all add: update_status_def)
  have "up_to_date (new_status E mv i) i" using assms(6) statusEqual_refl unfolding up_to_date_def by blast
  then have "stale_keys ?m = stale_keys m |-| {|k|}"
    using assms(3) by (intro fset_eqI) (auto simp del: update_status_fields simp: stale_keys_def m split: option.splits)
  moreover have "k |\<in>| stale_keys m" using assms(3-5) by (auto simp: stale_keys_def fmdomI)
  ultimately have "Suc (fcard (stale_keys ?m)) = fcard (stale_keys m)" using fcard_minus_single [of k "stale_keys m"] by metis
  then have "machine_weight W ?m < machine_weight W m"
    using fcard_finsert_le [of k "mc_events m"] assms(2,7) by (simp add: machine_weight_def m(2))
  with assms(1) m show ?thesis by (auto simp: calm_state_def split: if_splits)
qed

lemma calm_open: "machine_wf W m \<Longrightarrow> calm_state api m \<Longrightarrow> dq_open W (mc_queue m)"
  by (simp add: machine_wf_def calm_state_def dq_open_def)

lemma calm_reconcile:
  assumes "calm_state api m" "tracked_info m (mv_key mv) \<noteq> None" "mv = current_object api m (mv_key mv)"
  shows "exec_op F (AddMV ord mv) (mc_tracker m) = (mc_tracker m, [QueueAdd (mv_key mv)])"
proof -
  obtain i where i: "tracked_info m (mv_key mv) = Some i" using assms(2) by blast
  have "om_Generation (mv_Meta (api (mv_key mv))) = mvi_ObservedGeneration i"
    using assms(1) i by (auto simp: calm_state_def)
  then have "om_Generation (mv_Meta mv) = mvi_ObservedGeneration i"
    by (subst assms(3)) (simp add: current_object_def split: option.splits)
  then show ?thesis by (simp add: AddModelValidation_known [OF i])
qed

context workqueue
begin

lemma calm_step:
  assumes "m_step W F m l m'" "calm api m l" "calm_state api m" "machine_wf W m"
  shows "calm_state api m' \<and> mc_tracker m' = mc_tracker m \<and> machine_weight W m' < machine_weight W m"
  using assms(1)
proof (cases rule: m_step.cases)
  case (m_op op latest)
  with assms(2) obtain ord mv where op: "op = AddMV ord mv" "latest" "mv_key mv |\<in>| mc_events m"
    "tracked_info m (mv_key mv) \<noteq> None" "mv = current_object api m (mv_key mv)"
    by (cases op) (auto simp: calm_def)
  have eq: "exec_op F op (mc_tracker m) = (mc_tracker m, [QueueAdd (mv_key mv)])" by (simp only: op(1) calm_reconcile [OF assms(3) op(4,5)])
  have "Suc (fcard (mc_events m |-| {|mv_key mv|})) = fcard (mc_events m)"
    using op(3) by (rule fcard_minus_single)
  moreover have "mc_events m' = mc_events m |-| {|mv_key mv|}" "mc_adding m' = mc_adding m @ [mv_key mv]"
    "mc_tracker m' = mc_tracker m" "mc_status m' = mc_status m" "mc_seeding m' = mc_seeding m"
    "mc_queue m' = mc_queue m" "mc_worker m' = mc_worker m" "mc_stop m' = mc_stop m"
    using m_op eq op(1,2) by simp_all
  ultimately show ?thesis
    using assms(3) calm_state_cong [OF assms(3), of m'] stale_cong [of m' m]
    by (simp add: machine_weight_def calm_state_def)
next
  case (m_add n)
  then have "Suc (length (mc_adding m')) = length (mc_adding m)" by (simp add: queue_add_def remove_at_def)
  then show ?thesis
    using m_add assms(3) queue_weight_Add [of W "mc_adding m ! n" "mc_queue m"] stale_cong [of m' m]
      calm_state_cong [OF assms(3), of m']
    by (simp add: machine_weight_def queue_add_def calm_state_def)
next
  case (m_queue x q)
  then show ?thesis
    using own_weight [OF m_queue(4,3) calm_open [OF assms(4,3)]] assms(3) stale_cong [of m' m]
      calm_state_cong [OF assms(3), of m']
    by (simp add: machine_weight_def calm_state_def)
next
  case m_select
  then show ?thesis
    using assms(3) stale_cong [of m' m] calm_state_cong [OF assms(3), of m'] by (simp add: machine_weight_def)
next
  case (m_get k q)
  then show ?thesis
    using assms(3) get_weight [OF m_get(4)] stale_cong [of m' m] calm_state_cong [OF assms(3), of m']
    by (simp add: machine_weight_def)
next
  case (m_read k got)
  then show ?thesis
    using assms(2,3) stale_cong [of m' m] calm_state_cong [OF assms(3), of m'] by (simp add: machine_weight_def calm_def)
next
  case (m_update k got E)
  have E: "range_order (ue_range E)" "ue_update E = (\<lambda>mv. None)" and got: "good_read api m k got"
    using assms(2,3) m_update by (auto simp: calm_def calm_state_def)
  have skip: ?thesis if "doUpdateStatus E k got (mc_tracker m) = (None, None, mc_tracker m, effs)" for effs
    using update_status_None [OF that] m_update stale_cong [of m' m] calm_state_cong [OF assms(3), of m']
    by (simp add: machine_weight_def)
  show ?thesis
  proof (cases "tracked_info m k")
    case None
    with calm_update_untracked got skip show ?thesis by blast
  next
    case (Some i)
    from calm_update_tracked [OF Some got assms(3) E] obtain s effs where s: "fmlookup (mc_status m) k = Some s"
      and u: "doUpdateStatus E k got (mc_tracker m) = (None, if up_to_date s i then None
        else Some ((api k)\<lparr>mv_Status := new_status E (current_object api m k) i\<rparr>), mc_tracker m, effs)"
      by blast
    show ?thesis
    proof (cases "up_to_date s i")
      case True
      with u skip show ?thesis by simp
    next
      case False
      with u show ?thesis
        using calm_written [OF assms(3) m_update(3) Some s False E(1)] m_update(2) by simp
    qed
  qed
next
  case (m_conclude k failed)
  then show ?thesis
    using assms(3) retry_weight [of k "mc_queue m"] stale_cong [of m' m] calm_state_cong [OF assms(3), of m']
    by (auto simp: machine_weight_def)
next
  case (m_done k)
  then show ?thesis
    using assms(3) stale_cong [of m' m] calm_state_cong [OF assms(3), of m'] by (simp add: machine_weight_def)
qed (use assms(2) in \<open>simp_all add: calm_def\<close>)


lemma calm_env:
  assumes "calm api m l" "calm_state api m"
  shows "env_ok m l \<and> skips_fresh m l"
proof
  show "env_ok m l"
    using assms(1) by (auto simp: calm_def env_ok_def split: m_label.splits tracker_op.splits)
  show "skips_fresh m l"
    using assms(2)
    by (auto simp: calm_state_def good_read_def current_object_def skips_fresh_def fmlookup_dom_iff
        split: m_label.splits worker_pc.splits sum.splits option.splits)
qed

lemma calm_run:
  assumes "m_run W F m ls m'" "along W F (calm api) m ls" "calm_state api m" "machine_wf W m" "nothing_lost W m"
  shows "calm_state api m' \<and> machine_wf W m' \<and> nothing_lost W m' \<and> mc_tracker m' = mc_tracker m \<and>
    length ls + machine_weight W m' \<le> machine_weight W m"
  using assms
proof (induction rule: m_run.induct)
  case (m_run_step m l m' ls m'')
  then have c: "calm api m l" "along W F (calm api) m' ls" by (simp_all add: m_step_exec)
  note env = calm_env [OF c(1) m_run_step.prems(2)]
  note step = calm_step [OF m_run_step.hyps(1) c(1) m_run_step.prems(2,3)]
    machine_step_wf [OF m_run_step.hyps(1) m_run_step.prems(3)]
    step_nothing_lost [OF m_run_step.hyps(1) m_run_step.prems(3)]
  with m_run_step.IH c(2) env m_run_step.prems(4) show ?case by force
qed simp

definition calm_step_left :: "finalizer_lib \<Rightarrow> (NamespacedName \<Rightarrow> ModelValidation) \<Rightarrow> 'q Machine \<Rightarrow> bool" where
  "calm_step_left F api m \<longleftrightarrow> (\<exists>l m'. calm api m l \<and> m_step W F m l m')"

lemma calm_leftI: "calm api m l \<Longrightarrow> m_step W F m l m' \<Longrightarrow> calm_step_left F api m"
  by (auto simp: calm_step_left_def)

definition calm_env0 :: update_env where
  "calm_env0 = \<lparr>ue_range = sorted_list_of_fset, ue_now = undefined, ue_elapsed = 0, ue_update = (\<lambda>mv. None)\<rparr>"

lemma worker_progress:
  assumes "mc_worker m \<noteq> WGet" "mc_worker m \<noteq> WExited"
  shows "calm_step_left F api m"
proof (cases "mc_worker m")
  case WSelect
  then show ?thesis by (intro calm_leftI [OF _ m_select]) (simp add: calm_def)
next
  case (WTaken k)
  define got where "got = (if tracked_info m k \<noteq> None then Inr (current_object api m k) else Inl NotFound)"
  have "good_read api m k got" by (simp add: good_read_def got_def)
  with WTaken show ?thesis by (intro calm_leftI [OF _ m_read]) (simp_all add: calm_def)
next
  case (WRead k got)
  have "calm api m (MUpdate calm_env0)" by (simp add: calm_def calm_env0_def)
  with WRead show ?thesis by (intro calm_leftI [OF _ m_update])
next
  case (WUpdated k failed)
  then show ?thesis by (intro calm_leftI [OF _ m_conclude]) (simp_all add: calm_def)
next
  case (WConcluded k)
  then show ?thesis by (intro calm_leftI [OF _ m_done]) (simp_all add: calm_def)
qed (use assms in simp_all)

lemma queue_progress:
  assumes "queued k (mc_queue m)" "mc_worker m = WGet" "machine_wf W m" "dq_open W (mc_queue m)"
  shows "calm_step_left F api m"
proof -
  have own: "calm_step_left F api m" if "queue_own x" "dq_step W (mc_queue m) x q" for x q
    by (rule calm_leftI [OF _ m_queue [OF that]]) (simp add: calm_def)
  consider (armed) t where "t |\<in>| armedTimers (mc_queue m)" | (callback) "callbacks (mc_queue m) \<noteq> []"
    | (pending) "k |\<in>| wq_pending W (dq_queue (mc_queue m))" | (waiting) "k |\<in>| wq_waiting W (dq_queue (mc_queue m))"
    using assms(1) unfolding queued_def owed_def by fastforce
  then show ?thesis
  proof cases
    case armed
    then show ?thesis by (intro own [OF _ step_fire]) simp_all
  next
    case callback
    then show ?thesis by (intro own [OF _ step_callback [of 0]]) simp_all
  next
    case pending
    have "wq_Len W (dq_queue (mc_queue m)) \<noteq> 0"
      using pending assms(2,3) by (auto simp: len machine_wf_def)
    then have "wq_Get W (dq_queue (mc_queue m)) \<noteq> None" by (simp add: get_blocks)
    then obtain k' q where "dq_Get W (mc_queue m) = Some (k', q)" by (auto simp: dq_Get_def)
    then show ?thesis by (intro calm_leftI [OF _ m_get [OF assms(2)]]) (simp_all add: calm_def)
  next
    case waiting
    then have "wq_Deliver W k (dq_queue (mc_queue m)) \<noteq> None"
      using assms(4) deliver_enabled by (simp add: dq_open_def)
    then show ?thesis using own [OF _ step_deliver] by fastforce
  qed
qed

lemma calm_progress:
  assumes "on_its_way W k m" "tracked_info m k = Some i" "calm_state api m" "machine_wf W m"
  shows "calm_step_left F api m"
proof (cases "mc_worker m = WGet")
  case False
  have "mc_worker m \<noteq> WExited" using assms(3,4) by (auto simp: calm_state_def machine_wf_def)
  with False show ?thesis by (rule worker_progress)
next
  case True
  from assms(1) consider (event) "k |\<in>| mc_events m" | (adding) "k \<in> set (mc_adding m)"
    | (queue) "queued k (mc_queue m)" | (worker) "k |\<in>| worker_owes (mc_worker m)"
    by (auto simp: way_queued)
  then show ?thesis
  proof cases
    case event
    have key: "mv_key (current_object api m k) = k"
      using assms(2,3) by (auto simp: calm_state_def current_object_def mv_key_def split: option.splits)
    with event assms(2) show ?thesis
      by (intro calm_leftI [OF _ m_op [of "AddMV sorted_list_of_fset (current_object api m k)" _ _ _ True]])
        (simp_all add: calm_def)
  next
    case adding
    then show ?thesis by (intro calm_leftI [OF _ m_add [of 0]]) (auto simp: calm_def)
  next
    case queue
    then show ?thesis using True assms(4) calm_open [OF assms(4,3)] by (rule queue_progress)
  qed (use True in simp)
qed

text \<open>A calm run that has come to rest has written every status.\<close>

lemma calm_settles:
  assumes "m_run W F m ls m'" "along W F (calm api) m ls" "calm_state api m" "machine_wf W m" "nothing_lost W m"
  shows "mc_tracker m' = mc_tracker m \<and>
    (calm_step_left F api m' \<or>
     (\<forall>k i. tracked_info m k = Some i \<longrightarrow> (\<exists>s. fmlookup (mc_status m') k = Some s \<and> status_shows s i)))"
proof -
  note run = calm_run [OF assms]
  then have "dq_open W (mc_queue m')" by (auto intro: calm_open)
  with run calm_progress [of _ m' _ api F] show ?thesis unfolding nothing_lost_def by metis
qed

text \<open>The weight bounds calm runs, so each can be continued until it is at rest.\<close>

lemma calm_rests:
  assumes "calm_state api m" "machine_wf W m" "nothing_lost W m"
  shows "\<exists>ls m'. m_run W F m ls m' \<and> along W F (calm api) m ls \<and> \<not> calm_step_left F api m'"
  using assms
proof (induction "machine_weight W m" arbitrary: m rule: less_induct)
  case less
  show ?case
  proof (cases "calm_step_left F api m")
    case False
    then show ?thesis by (intro exI [of _ "[]"] exI [of _ m]) simp
  next
    case True
    then obtain l m1 where l: "calm api m l" "m_step W F m l m1" by (auto simp: calm_step_left_def)
    note env = calm_env [OF l(1) less.prems(1)]
    note step = calm_step [OF l(2,1) less.prems(1,2)] machine_step_wf [OF l(2) less.prems(2)]
      step_nothing_lost [OF l(2) less.prems(2)]
    with env less.prems(3) less.hyps [of m1] obtain ls m'
      where "m_run W F m1 ls m'" "along W F (calm api) m1 ls" "\<not> calm_step_left F api m'" by blast
    then show ?thesis
      using l by (intro exI [of _ "l # ls"] exI [of _ m']) (auto simp: m_run_Cons m_step_exec)
  qed
qed

end

end
