(* ===== verification/Machine_Properties.thy ===== *)
theory Machine_Properties
  imports Machine_Liveness Tracker_Properties Queue_Properties
begin

text \<open>
  The properties of the composed machine: that it refines the sequential tracker, that no update
  is lost and calm runs end with the statuses showing what is tracked, and what \<open>Stop\<close> does.
\<close>

section \<open>A sample machine\<close>

text \<open>The sample tracker just after its pod event, before the call of \<open>queue.Add\<close>.\<close>

definition sample_machine :: "RefQueue Machine" where
  "sample_machine = (start_machine ref_empty (fmupd sample_key (mv_Status sample_mv) fmempty))
     \<lparr>mc_tracker := sample_tracker, mc_adding := [sample_key]\<rparr>"

definition sample_labels :: "m_label list" where
  "sample_labels = [MAdd 0, MQueue (LFire \<lparr>t_id = 0, t_item = sample_key\<rparr>)] @
     replicate 5 (MQueue (LCallback 0)) @
     [MSelect, MGet sample_key, MRead (Inr sample_mv), MUpdate sample_env, MConclude, MDone]"

abbreviation sample_written :: ModelValidationStatus where
  "sample_written \<equiv> new_status sample_env sample_mv sample_info"

lemma sample_machine_wf: "machine_wf ref_queue sample_machine"
  using machine_wf_start [of ref_queue ref_empty "fmupd sample_key (mv_Status sample_mv) fmempty"]
  by (simp add: machine_wf_def sample_machine_def start_machine_def ref_queue_def ref_empty_def)

lemma sample_nothing_lost: "nothing_lost ref_queue sample_machine"
  by (auto simp: nothing_lost_def sample_machine_def on_its_way_def)

lemma sample_info_simps:
  "mvi_ConfigHash sample_info = GetConfigHash sample_mv" "mvi_AuthMethod sample_info = ''public-key''"
  "mvi_ObservedGeneration sample_info = 1" "unique_names sample_info"
  by (simp_all add: sample_info_def NewModelValidationInfo_def unique_names_def distinct_names_def)

lemma sample_calm: "calm_state (\<lambda>k. sample_mv) sample_machine"
  by (auto simp: calm_state_def sample_machine_def start_machine_def sample_info_simps)

lemma sample_stale: "\<not> statusEqual (mv_Status sample_mv) sample_written"
  using sample_info_simps(2) by (simp add: statusEqual_def sample_mv_def)

lemma sample_update:
  "doUpdateStatus sample_env sample_key (Inr sample_mv) sample_tracker =
     (None, Some (sample_mv\<lparr>mv_Status := sample_written\<rparr>), sample_tracker,
      recordStatusUpdateResult sample_key StatusUpdateSuccess 1 @ recordPodCounts sample_key
        (length (st_InjectedPods sample_written)) (length (st_UninjectedPods sample_written))
        (length (st_OrphanedPods sample_written)))"
  using sample_stale sample_info_simps by (simp add: doUpdateStatus_def Let_def sample_env_def)

lemmas machine_eval = m_run_exec dq_eval sample_machine_def start_machine_def queue_add_def conclude_def
  ForgetRetries_def eval_nat_numeral

lemma sample_run:
  "\<exists>m. m_run ref_queue list_finalizers sample_machine sample_labels m \<and>
     mc_tracker m = sample_tracker \<and> fmlookup (mc_status m) sample_key = Some sample_written \<and>
     mc_adding m = [] \<and> mc_worker m = WSelect \<and> mc_events m = {|sample_key|} \<and>
     armedTimers (mc_queue m) = {||} \<and> callbacks (mc_queue m) = [] \<and> dq_queue (mc_queue m) = ref_empty"
  unfolding sample_labels_def
  by (simp add: machine_eval sample_update update_status_def)

section \<open>Refinement\<close>

context workqueue
begin

lemma machine_run_ops:
  "m_run W F m ls m' \<Longrightarrow> along W F env_ok m ls \<Longrightarrow> machine_wf W m \<Longrightarrow> list_all op_ok (run_ops W F m ls)"
proof (induction rule: m_run.induct)
  case (m_run_step m l m' ls m'')
  then have e: "env_ok m l" "along W F env_ok m' ls" "m_exec W F l m = Some m'" by (simp_all add: m_step_exec)
  have "list_all op_ok (step_ops m l)"
    using m_run_step.hyps(1)
  proof (cases rule: m_step.cases)
    case (m_seed_pod n)
    then obtain k pods where s: "mc_seeding m ! n = (k, Some pods)" by (cases "mc_seeding m ! n") auto
    have "list_all (\<lambda>pod. op_ok (SeedPod pod k)) pods"
      using m_run_step.prems(2) m_seed_pod(3) s by (intro seeds_ok_nth) (auto simp: machine_wf_def)
    with m_seed_pod s show ?thesis by (cases pods) (simp_all add: step_ops_def)
  qed (use e(1) in \<open>auto simp: step_ops_def env_ok_def\<close>)
  with m_run_step.IH [OF e(2) machine_step_wf [OF m_run_step.hyps(1) m_run_step.prems(2) e(1)]] e(3)
  show ?case by simp
qed simp

end

text \<open>
  C8: the tracker with all its goroutines refines the sequential tracker: whatever the
  interleaving, the tracker's state is the one a sequence of its operations gives, each of them a
  legal operation; so what holds after every sequence of operations holds at every moment, the
  well-formedness of what is tracked and the agreement of the queue with the worker among it.
\<close>

theorem machine_refines_operations:
  assumes "workqueue W" "m_run W F (start_machine q statuses) ls m"
    and "wq_processing W q = {||}" "\<not> wq_shutting_down W q"
    and "along W F env_ok (start_machine q statuses) ls"
  shows "mc_tracker m = fst (exec_ops F (run_ops W F (start_machine q statuses) ls) NewStatusTracker) \<and>
    list_all op_ok (run_ops W F (start_machine q statuses) ls) \<and> machine_wf W m"
proof -
  note wf = machine_wf_start [OF assms(3,4), of statuses]
  have "mc_tracker (start_machine q statuses) = NewStatusTracker" by (simp add: start_machine_def)
  with run_tracker [OF assms(2)] workqueue.machine_run_ops [OF assms(1,2,5) wf]
    workqueue.machine_run_wf [OF assms(1,2,5) wf] show ?thesis by simp
qed

definition start_labels :: "m_label list" where
  "start_labels = [MOp (AddMV sorted_list_of_fset sample_mv) True, MAdd 0, MSeedList 0 (Inr []), MSeedPod 0]"

theorem machine_refines_operations_witness:
  "\<exists>m. m_run ref_queue list_finalizers (start_machine ref_empty fmempty) start_labels m \<and>
     mc_tracker m = fst (AddModelValidation sorted_list_of_fset sample_mv NewStatusTracker) \<and>
     machine_wf ref_queue m"
proof -
  let ?m = "start_machine ref_empty fmempty"
  obtain m where r: "m_run ref_queue list_finalizers ?m start_labels m"
    by (simp add: m_run_exec start_labels_def start_machine_def
        AddModelValidation_new seed_list_def remove_at_def queue_add_def)
  have "along ref_queue list_finalizers env_ok ?m start_labels"
    by (simp add: start_labels_def start_machine_def env_ok_def
        AddModelValidation_new seed_list_def queue_add_def remove_at_def)
  moreover have "run_ops ref_queue list_finalizers ?m start_labels = [AddMV sorted_list_of_fset sample_mv]"
    by (simp add: start_labels_def start_machine_def step_ops_def
        AddModelValidation_new seed_list_def queue_add_def remove_at_def)
  moreover have "wq_processing ref_queue ref_empty = {||}" "\<not> wq_shutting_down ref_queue ref_empty"
    by (simp_all add: ref_queue_def ref_empty_def)
  ultimately show ?thesis
    using machine_refines_operations [OF ref_workqueue r] r by (auto simp: split_beta)
qed

section \<open>Eventual consistency\<close>


definition settle_labels :: "m_label list" where
  "settle_labels = sample_labels @ [MOp (AddMV sorted_list_of_fset (sample_mv\<lparr>mv_Status := sample_written\<rparr>)) True, MAdd 0,
     MQueue (LFire \<lparr>t_id = 1, t_item = sample_key\<rparr>)] @ replicate 5 (MQueue (LCallback 0)) @
     [MSelect, MGet sample_key, MRead (Inr (sample_mv\<lparr>mv_Status := sample_written\<rparr>)), MUpdate sample_env,
      MConclude, MDone]"

lemma sample_update_again:
  "doUpdateStatus sample_env sample_key (Inr (sample_mv\<lparr>mv_Status := sample_written\<rparr>)) sample_tracker =
     (None, None, sample_tracker, recordStatusUpdateResult sample_key StatusUpdateSuccess 1)"
  using update_again [OF sample_update, of sample_env] sample_info_simps(4)
  by (simp add: sample_env_def unique_names_def)

lemma sample_written_simps [simp]:
  "mv_key (sample_mv\<lparr>mv_Status := s\<rparr>) = sample_key"
  "om_Generation (mv_Meta (sample_mv\<lparr>mv_Status := s\<rparr>)) = 1"
  by (simp_all add: mv_key_def) (simp_all add: sample_mv_def sample_meta_def)

lemma sample_reconcile:
  assumes "mc_tracker m = sample_tracker"
  shows "handle_op F (AddMV ord (sample_mv\<lparr>mv_Status := s\<rparr>)) True m =
    m\<lparr>mc_adding := mc_adding m @ [sample_key], mc_events := mc_events m |-| {|sample_key|}\<rparr>"
  using assms by (simp add: handle_op_def perform_def AddModelValidation_known [of _ _ sample_info] sample_info_simps)

lemma sample_env_order: "range_order (ue_range sample_env)"
  by (simp add: sample_env_def)

lemma sample_env_update: "ue_update sample_env = (\<lambda>mv. None)"
  by (simp add: sample_env_def)

lemma settle_run:
  "\<exists>m. m_run ref_queue list_finalizers sample_machine settle_labels m \<and>
     along ref_queue list_finalizers (\<lambda>m l. env_ok m l \<and> skips_fresh m l) sample_machine settle_labels \<and>
     mc_tracker m = sample_tracker \<and> mc_stop m = NotStopped \<and> \<not> on_its_way ref_queue sample_key m"
  unfolding settle_labels_def sample_labels_def
  by (simp add: machine_eval sample_update update_status_def sample_update_again sample_reconcile
      env_ok_def skips_fresh_def on_its_way_def owed_def sample_env_order)

lemma settle_calm:
  "\<exists>m. m_run ref_queue list_finalizers sample_machine settle_labels m \<and>
     along ref_queue list_finalizers (calm (\<lambda>k. sample_mv)) sample_machine settle_labels"
  unfolding settle_labels_def sample_labels_def
  by (simp add: machine_eval sample_update update_status_def sample_update_again sample_reconcile
      calm_def good_read_def current_object_def sample_env_order sample_env_update)




end
