(* ===== verification/Pod_Lifecycle.thy ===== *)
theory Pod_Lifecycle
  imports Machine_Properties Webhook_Properties
begin

text \<open>
  The life of a pod across the components: the webhook's annotations and finalizer, the tracker
  that reads them back, the queue, the worker, and the status that is written in the end; and the
  way back when the pod is released.  The lemmas say what a status that shows the tracked pods
  lists, and that an event of a pod leaves the machine calm.
\<close>

section \<open>What a status lists\<close>

fun status_lists :: "ModelValidationStatus \<Rightarrow> category \<Rightarrow> PodTrackingInfo list" where
  "status_lists s Injected = st_InjectedPods s"
| "status_lists s Uninjected = st_UninjectedPods s"
| "status_lists s Orphaned = st_OrphanedPods s"

fun category_pods :: "ModelValidationInfo \<Rightarrow> category \<Rightarrow> pods" where
  "category_pods i Injected = mvi_InjectedPods i"
| "category_pods i Uninjected = mvi_UninjectedPods i"
| "category_pods i Orphaned = mvi_OrphanedPods i"

lemma category_pods_abs: "disjoint_pods i \<Longrightarrow> fmlookup (category_pods i c) uid = Some p \<longleftrightarrow> mvi_abs i uid = Some (c, p)"
  by (cases c) (simp_all add: mvi_abs_Injected mvi_abs_Uninjected mvi_abs_Orphaned)

lemma keyedD: "keyed pods \<Longrightarrow> fmlookup pods u = Some p \<Longrightarrow> pi_UID p = u"
  by (simp add: keyed_def)

lemma lists_pods_mem:
  assumes "lists_pods ps pods" "keyed pods"
  shows "(\<exists>p \<in> set ps. pti_Name p = n \<and> pti_UID p = uid) \<longleftrightarrow> (\<exists>q. fmlookup pods uid = Some q \<and> pi_Name q = n)"
proof -
  have "(\<exists>p \<in> set ps. pti_Name p = n \<and> pti_UID p = uid) \<longleftrightarrow> (n, uid) \<in> (\<lambda>p. (pti_Name p, pti_UID p)) ` set ps"
    by (auto simp: image_iff)
  also have "\<dots> \<longleftrightarrow> (n, uid) \<in> (\<lambda>p. (pi_Name p, pi_UID p)) ` fmran' pods"
    using assms(1) by (simp only: lists_pods_def)
  also have "\<dots> \<longleftrightarrow> (\<exists>q. fmlookup pods uid = Some q \<and> pi_Name q = n)"
  proof
    assume "(n, uid) \<in> (\<lambda>p. (pi_Name p, pi_UID p)) ` fmran' pods"
    then obtain u q where "fmlookup pods u = Some q" "n = pi_Name q" "uid = pi_UID q"
      by (auto simp: fmlookup_ran'_iff)
    then show "\<exists>q. fmlookup pods uid = Some q \<and> pi_Name q = n"
      using keyedD [OF assms(2)] by auto
  next
    assume "\<exists>q. fmlookup pods uid = Some q \<and> pi_Name q = n"
    then obtain q where q: "fmlookup pods uid = Some q" "pi_Name q = n" by blast
    then have "(n, uid) = (pi_Name q, pi_UID q)" "q \<in> fmran' pods"
      using keyedD [OF assms(2)] by (auto simp: fmlookup_ran'_iff)
    then show "(n, uid) \<in> (\<lambda>p. (pi_Name p, pi_UID p)) ` fmran' pods" by (rule image_eqI)
  qed
  finally show ?thesis .
qed

lemma status_shows_mem:
  assumes "status_shows s i" "mvi_wf i"
  shows "(\<exists>p \<in> set (status_lists s c). pti_Name p = n \<and> pti_UID p = uid) \<longleftrightarrow>
    (\<exists>q. mvi_abs i uid = Some (c, q) \<and> pi_Name q = n)"
proof -
  have "lists_pods (status_lists s c) (category_pods i c)" "keyed (category_pods i c)" "disjoint_pods i"
    using assms by (cases c; simp add: status_shows_def mvi_wf_def)+
  then show ?thesis by (simp add: lists_pods_mem category_pods_abs)
qed

section \<open>Events of a pod keep the machine calm\<close>

text \<open>The names of the other pods of a resource; Kubernetes keeps the names in a namespace apart.\<close>

definition name_free :: "string \<Rightarrow> string \<Rightarrow> ModelValidationInfo \<Rightarrow> bool" where
  "name_free n uid i \<longleftrightarrow> (\<forall>c u p. mvi_abs i u = Some (c, p) \<longrightarrow> pi_Name p = n \<longrightarrow> u = uid)"

lemma unique_names_iff:
  assumes "disjoint_pods i"
  shows "unique_names i \<longleftrightarrow> (\<forall>c u v p q. mvi_abs i u = Some (c, p) \<longrightarrow> mvi_abs i v = Some (c, q) \<longrightarrow>
    pi_Name p = pi_Name q \<longrightarrow> u = v)"
proof -
  have "unique_names i \<longleftrightarrow> (\<forall>c. distinct_names (category_pods i c))"
    unfolding unique_names_def by (metis category.exhaust category_pods.simps)
  then show ?thesis by (simp add: distinct_names_def category_pods_abs [OF assms])
qed

lemma calm_after_handler:
  assumes "calm_state api m" "spawned (snd (exec_op F op (mc_tracker m))) = []"
    and "\<And>k i'. fmlookup (modelValidations (fst (exec_op F op (mc_tracker m)))) k = Some i' \<Longrightarrow>
      \<exists>i. tracked_info m k = Some i \<and> mvi_ObservedGeneration i' = mvi_ObservedGeneration i \<and>
        mvi_ConfigHash i' = mvi_ConfigHash i \<and> mvi_AuthMethod i' = mvi_AuthMethod i \<and> unique_names i'"
    and "\<And>k. fmlookup (modelValidations (fst (exec_op F op (mc_tracker m)))) k = None \<Longrightarrow> tracked_info m k = None"
  shows "calm_state api (handle_op F op latest m)"
proof -
  have "tracked_info (handle_op F op latest m) k = None \<longleftrightarrow> tracked_info m k = None" for k
    using assms(3) [of k] assms(4) [of k]
    by (cases "fmlookup (modelValidations (fst (exec_op F op (mc_tracker m)))) k") auto
  then have "good_read api (handle_op F op latest m) k got \<longleftrightarrow> good_read api m k got" for k got
    by (simp add: good_read_def current_object_def)
  with assms(1,2) show ?thesis
    by (auto simp: calm_state_def dest!: assms(3) split: worker_pc.splits)
qed

lemma handled_wf:
  assumes "workqueue W" "handler_op op" "op_ok op" "machine_wf W m" "nothing_lost W m"
  shows "machine_wf W (handle_op F op latest m)" "nothing_lost W (handle_op F op latest m)"
proof -
  note step = m_op [OF assms(2), of W F m latest]
  have ok: "env_ok m (MOp op latest)" "skips_fresh m (MOp op latest)"
    using assms(3) by (simp_all add: env_ok_def skips_fresh_def)
  show "machine_wf W (handle_op F op latest m)"
    by (rule workqueue.machine_step_wf [OF assms(1) step assms(4) ok(1)])
  show "nothing_lost W (handle_op F op latest m)"
    using workqueue.step_nothing_lost [OF assms(1) step assms(4)] ok assms(5) by blast
qed

text \<open>What a handler's operation leaves in the statuses once the machine has come to rest.\<close>

lemma handled_settles:
  assumes "workqueue W" "handler_op op" "op_ok op" "machine_wf W m" "nothing_lost W m"
    and "calm_state api (handle_op F op latest m)"
    and "m_run W F m (MOp op latest # ls) m'" "along W F (calm api) (handle_op F op latest m) ls"
    and "\<And>l m''. calm api m' l \<Longrightarrow> \<not> m_step W F m' l m''"
    and "fmlookup (modelValidations (fst (exec_op F op (mc_tracker m)))) k = Some i"
  shows "\<exists>s. fmlookup (mc_status m') k = Some s \<and> status_shows s i"
proof -
  have run: "m_run W F (handle_op F op latest m) ls m'"
    using assms(7) by (simp add: m_run_Cons m_step_simps)
  have "\<not> (\<exists>l m''. calm api m' l \<and> m_step W F m' l m'')" using assms(9) by blast
  with workqueue.calm_settles [OF assms(1) run assms(8,6) handled_wf [OF assms(1-5)]] assms(10)
  show ?thesis unfolding workqueue.calm_step_left_def [OF assms(1)] by (metis handle_op_fields(1))
qed

lemma handled_rests:
  assumes "workqueue W" "handler_op op" "op_ok op" "machine_wf W m" "nothing_lost W m"
    and "calm_state api (handle_op F op latest m)"
  obtains ls m' where "m_run W F m (MOp op latest # ls) m'" "along W F (calm api) (handle_op F op latest m) ls"
    "\<And>l m''. calm api m' l \<Longrightarrow> \<not> m_step W F m' l m''"
proof -
  obtain ls m' where r: "m_run W F (handle_op F op latest m) ls m'" "along W F (calm api) (handle_op F op latest m) ls"
    "\<not> workqueue.calm_step_left W F api m'"
    using workqueue.calm_rests [OF assms(1,6) handled_wf [OF assms(1-5)]] by blast
  show thesis
    by (rule that [OF _ r(2)]) (use r assms(1,2) in \<open>auto simp: m_run_Cons m_step_simps workqueue.calm_step_left_def\<close>)
qed

section \<open>Admission\<close>

lemma pod_event_info:
  assumes "validation_label pod = Some n" "fmlookup (modelValidations st) (nn (pod_Namespace pod) n) = Some i"
  shows "modelValidations (fst (exec_op F (PodEvent (Some pod)) st)) =
      fmupd (nn (pod_Namespace pod) n)
        (fst (file_pod (ContainsFinalizer F (pod_Finalizers pod) ModelValidationFinalizer) (pod_info pod) i))
        (modelValidations st)"
    and "spawned (snd (exec_op F (PodEvent (Some pod)) st)) = []"
  using assms by (simp_all add: ProcessPodEvent_def processPodEventCommon_alt Let_def)

lemma filed_unique:
  assumes "mvi_wf i" "unique_names i" "name_free (pi_Name p) (pi_UID p) i"
  shows "unique_names (fst (file_pod f p i))"
proof -
  have d: "disjoint_pods i" "disjoint_pods (fst (file_pod f p i))"
    using assms(1) file_pod_wf [OF assms(1), of f p] by (auto simp: mvi_wf_def)
  show ?thesis
    using assms(2,3) unfolding unique_names_iff [OF d(2)] unique_names_iff [OF d(1)] file_pod_abs [OF d(1)]
      spec_add_def name_free_def by (auto split: if_splits)
qed

lemma pod_event_calm:
  assumes "calm_state api m" "tracker_wf (mc_tracker m)" "validation_label pod = Some n"
    and "tracked_info m (nn (pod_Namespace pod) n) = Some i" "name_free (pod_Name pod) (pod_UID pod) i"
  shows "calm_state api (handle_op F (PodEvent (Some pod)) latest m)"
proof (rule calm_after_handler [OF assms(1) pod_event_info(2) [OF assms(3,4)]], goal_cases)
  case (1 k i')
  note i' = 1 [unfolded pod_event_info(1) [OF assms(3,4)]]
  have unique: "unique_names j" if "tracked_info m k' = Some j" for k' j
    using assms(1) that by (simp add: calm_state_def)
  show ?case
  proof (cases "k = nn (pod_Namespace pod) n")
    case True
    with i' have "i' = fst (file_pod (ContainsFinalizer F (pod_Finalizers pod) ModelValidationFinalizer) (pod_info pod) i)"
      by simp
    then show ?thesis
      using True assms(4,5) filed_unique [OF tracker_wf_info(1) [OF assms(2,4)] unique [OF assms(4)]] by simp
  next
    case False
    with i' show ?thesis by (simp add: unique)
  qed
next
  case (2 k)
  show ?case using 2 [unfolded pod_event_info(1) [OF assms(3,4)]] by (simp split: if_splits)
qed

text \<open>The tracker reads back what the webhook wrote.\<close>

lemma injected_category:
  assumes "finalizer_laws F"
  shows "pod_category F (inject F sel E ns mv pod) i =
    (if mvi_ConfigHash i = GetConfigHash mv \<and> mvi_AuthMethod i = GetAuthMethod mv then Injected else Orphaned)"
proof -
  have "map_get (pod_Annotations (inject F sel E ns mv pod)) ConfigHashAnnotationKey = GetConfigHash mv"
    "map_get (pod_Annotations (inject F sel E ns mv pod)) AuthMethodAnnotationKey = GetAuthMethod mv"
    by (simp_all add: inject_annotations map_get_def)
  moreover have "ContainsFinalizer F (pod_Finalizers (inject F sel E ns mv pod)) ModelValidationFinalizer"
    by (simp add: inject_fields finalizer_laws.contains_add [OF assms])
  ultimately show ?thesis
    by (auto simp: pod_category_def classify_def config_differs_def pod_info_def)
qed

section \<open>A sample life\<close>

text \<open>A machine that tracks the sample resource, with no pods yet, and a pod the webhook injected.\<close>

definition empty_info :: ModelValidationInfo where
  "empty_info = NewModelValidationInfo ''resnet'' (GetConfigHash sample_mv) ''public-key'' 1"

definition tracking_machine :: "RefQueue Machine" where
  "tracking_machine = (start_machine ref_empty (fmupd sample_key (mv_Status sample_mv) fmempty))
     \<lparr>mc_tracker := NewStatusTracker\<lparr>modelValidations := fmupd sample_key empty_info fmempty\<rparr>,
      mc_adding := [sample_key]\<rparr>"

definition admitted_pod :: Pod where
  "admitted_pod = inject list_finalizers match_labels app_env (plain_meta ''prod'') sample_mv app_pod"

lemma empty_info_simps:
  "mvi_ConfigHash empty_info = GetConfigHash sample_mv" "mvi_AuthMethod empty_info = ''public-key''"
  "mvi_ObservedGeneration empty_info = 1" "unique_names empty_info" "name_free n u empty_info" "mvi_wf empty_info"
  by (simp_all add: empty_info_def name_free_def) (simp_all add: NewModelValidationInfo_def unique_names_def distinct_names_def)

lemma empty_info_names: "mvi_Name empty_info = ''resnet''" "mvi_abs empty_info uid = None"
  by (simp_all add: empty_info_def) (simp add: NewModelValidationInfo_def)

lemma tracking_info: "tracked_info tracking_machine k = (if k = sample_key then Some empty_info else None)"
  by (simp add: tracking_machine_def start_machine_def NewStatusTracker_def)

lemma tracking_ok:
  "machine_wf ref_queue tracking_machine" "nothing_lost ref_queue tracking_machine"
  "calm_state (\<lambda>k. sample_mv) tracking_machine"
proof -
  have "tracker_wf (mc_tracker tracking_machine)"
    using empty_info_simps(6) tracking_info empty_info_names
    by (auto simp: tracker_wf_def all_infos_def info_ok_def split: if_splits)
  then show "machine_wf ref_queue tracking_machine"
    using machine_wf_start [of ref_queue ref_empty "fmupd sample_key (mv_Status sample_mv) fmempty"]
    by (simp add: machine_wf_def tracking_machine_def start_machine_def ref_queue_def ref_empty_def)
  show "nothing_lost ref_queue tracking_machine"
    using tracking_info by (auto simp: nothing_lost_def on_its_way_def tracking_machine_def split: if_splits)
  show "calm_state (\<lambda>k. sample_mv) tracking_machine"
    using tracking_info by (auto simp: calm_state_def tracking_machine_def start_machine_def empty_info_simps)
qed

text \<open>
  C4: from admission to status: when the API server admits a pod with the webhook's annotations
  and finalizer, and its event reaches a machine that tracks the ModelValidation and is otherwise
  left alone, then once the machine has come to rest the status of the ModelValidation lists the
  pod, by name and UID, as injected, and in no other category.
\<close>

theorem admitted_pod_is_listed:
  assumes "workqueue W" "finalizer_laws F" "machine_wf W m" "nothing_lost W m" "calm_state api m"
    and "tracked_info m (mv_key mv) = Some i" "api (mv_key mv) = mv"
    and "validation_label pod = Some (om_Name (mv_Meta mv))" "pod_Namespace pod = om_Namespace (mv_Meta mv)"
    and "pod_Annotations pod = pod_Annotations (inject F sel E ns mv origin)"
    and "pod_Finalizers pod = pod_Finalizers (inject F sel E ns mv origin)"
    and "name_free (pod_Name pod) (pod_UID pod) i"
    and "m_run W F m (MOp (PodEvent (Some pod)) latest # ls) m'"
    and "along W F (calm api) (handle_op F (PodEvent (Some pod)) latest m) ls"
    and "\<And>l m''. calm api m' l \<Longrightarrow> \<not> m_step W F m' l m''"
  shows "\<exists>s. fmlookup (mc_status m') (mv_key mv) = Some s \<and>
    (\<exists>p \<in> set (st_InjectedPods s). pti_Name p = pod_Name pod \<and> pti_UID p = pod_UID pod) \<and>
    (\<forall>p \<in> set (st_UninjectedPods s) \<union> set (st_OrphanedPods s). pti_UID p \<noteq> pod_UID pod)"
proof -
  have key: "mv_key mv = nn (pod_Namespace pod) (om_Name (mv_Meta mv))" by (simp add: mv_key_def assms(9))
  note i = assms(6) [unfolded key]
  have wf: "tracker_wf (mc_tracker m)" using assms(3) by (simp add: machine_wf_def)
  let ?i = "fst (file_pod (ContainsFinalizer F (pod_Finalizers pod) ModelValidationFinalizer) (pod_info pod) i)"
  have info: "fmlookup (modelValidations (fst (exec_op F (PodEvent (Some pod)) (mc_tracker m)))) (mv_key mv) = Some ?i"
    by (simp only: pod_event_info(1) [OF assms(8) i] key) simp
  obtain s where s: "fmlookup (mc_status m') (mv_key mv) = Some s" "status_shows s ?i"
    using handled_settles [OF assms(1) _ _ assms(3,4) pod_event_calm [OF assms(5) wf assms(8) i assms(12)] assms(13-15) info]
    by auto
  have "mvi_ConfigHash i = GetConfigHash mv" "mvi_AuthMethod i = GetAuthMethod mv"
    using assms(5,6) assms(7) unfolding calm_state_def by metis+
  then have "pod_category F pod i = Injected"
    using injected_category [OF assms(2), of sel E ns mv origin i] by (simp add: pod_category_def pod_info_def classify_def config_differs_def assms(10,11) split: if_splits)
  then have "mvi_abs ?i (pod_UID pod) = Some (Injected, pod_info pod)"
    using file_pod_abs [OF tracker_wf_info(2) [OF wf i]] by (simp add: spec_add_def pod_category_def)
  moreover note status_shows_mem [OF s(2) file_pod_wf [OF tracker_wf_info(1) [OF wf i]]]
  ultimately have "(\<exists>p \<in> set (status_lists s c). pti_Name p = n \<and> pti_UID p = pod_UID pod) \<longleftrightarrow> c = Injected \<and> n = pod_Name pod"
    for c n by auto
  from this [of Injected] this [of Uninjected] this [of Orphaned] show ?thesis
    using s(1) by auto
qed

theorem admitted_pod_is_listed_witness:
  "\<exists>ls m s. m_run ref_queue list_finalizers tracking_machine ls m \<and>
     fmlookup (mc_status m) sample_key = Some s \<and> (\<exists>p \<in> set (st_InjectedPods s). pti_Name p = ''web'')"
proof -
  let ?op = "PodEvent (Some admitted_pod)"
  have pod: "validation_label admitted_pod = Some ''resnet''" "pod_Namespace admitted_pod = ''prod''" "pod_Name admitted_pod = ''web''"
    by (simp_all add: admitted_pod_def inject_fields validation_label_def app_pod_def plain_meta_def)
  have mv: "om_Name (mv_Meta sample_mv) = ''resnet''" "om_Namespace (mv_Meta sample_mv) = ''prod''"
    by (simp_all add: sample_mv_def sample_meta_def)
  have i: "tracked_info tracking_machine (mv_key sample_mv) = Some empty_info" by (simp add: tracking_info)
  have "calm_state (\<lambda>k. sample_mv) (handle_op list_finalizers ?op True tracking_machine)"
    using tracking_ok i pod mv empty_info_simps(5)
    by (intro pod_event_calm [where n = "''resnet''" and i = empty_info]) (simp_all add: machine_wf_def tracking_info)
  from handled_rests [OF ref_workqueue _ _ tracking_ok(1,2) this] obtain ls m where
    r: "m_run ref_queue list_finalizers tracking_machine (MOp ?op True # ls) m"
      "along ref_queue list_finalizers (calm (\<lambda>k. sample_mv)) (handle_op list_finalizers ?op True tracking_machine) ls"
      "\<And>l m''. calm (\<lambda>k. sample_mv) m l \<Longrightarrow> \<not> m_step ref_queue list_finalizers m l m''" by auto
  from admitted_pod_is_listed [OF ref_workqueue list_finalizer_laws tracking_ok i refl _ _ _ _ _ r,
      where sel = match_labels and E = app_env and ns = "plain_meta ''prod''" and origin = app_pod]
  show ?thesis using r(1) pod mv empty_info_simps(5) by (auto simp: admitted_pod_def)
qed

section \<open>Release\<close>

lemma pod_gone_info:
  "fmlookup (modelValidations (fst (exec_op F (PodGone nord uid) st))) k =
     map_option (\<lambda>i. snd (RemovePod uid i)) (fmlookup (modelValidations st) k)"
  "spawned (snd (exec_op F (PodGone nord uid) st)) = []"
proof -
  have "spawned (map QueueAdd ks) = []" for ks by (induction ks) auto
  then show "spawned (snd (exec_op F (PodGone nord uid) st)) = []" by (simp add: RemovePodEvent_alt)
  show "fmlookup (modelValidations (fst (exec_op F (PodGone nord uid) st))) k =
     map_option (\<lambda>i. snd (RemovePod uid i)) (fmlookup (modelValidations st) k)"
    by (simp add: RemovePodEvent_alt removePodFromTrackingMapsUnsafe_def)
qed

lemma removed_unique:
  assumes "mvi_wf i" "unique_names i"
  shows "unique_names (snd (RemovePod uid i))"
proof -
  have d: "disjoint_pods i" "disjoint_pods (snd (RemovePod uid i))"
    using assms(1) RemovePod_wf [OF assms(1), of uid] by (auto simp: mvi_wf_def)
  show ?thesis
    using assms(2) unfolding unique_names_iff [OF d(2)] unique_names_iff [OF d(1)] RemovePod_abs [OF d(1)]
    by (auto split: if_splits)
qed

lemma pod_gone_calm:
  assumes "calm_state api m" "tracker_wf (mc_tracker m)"
  shows "calm_state api (handle_op F (PodGone nord uid) latest m)"
proof (rule calm_after_handler [OF assms(1) pod_gone_info(2)], goal_cases)
  case (1 k i')
  then obtain i where "tracked_info m k = Some i" "i' = snd (RemovePod uid i)"
    unfolding pod_gone_info(1) by auto
  moreover have "unique_names i" using assms(1) \<open>tracked_info m k = Some i\<close> by (simp add: calm_state_def)
  ultimately show ?case using removed_unique [OF tracker_wf_info(1) [OF assms(2)]] by auto
next
  case (2 k)
  then show ?case unfolding pod_gone_info(1) by simp
qed

text \<open>
  C14: and back: when the pod controller releases a deleted pod, and the machine is otherwise left
  alone, then once it has come to rest no status of a tracked ModelValidation lists the pod's UID
  in any category.
\<close>

theorem released_pod_is_unlisted:
  assumes "workqueue W" "machine_wf W m" "nothing_lost W m" "calm_state api m" "range_order nord"
    and "m_run W F m (MOp (PodGone nord uid) latest # ls) m'"
    and "along W F (calm api) (handle_op F (PodGone nord uid) latest m) ls"
    and "\<And>l m''. calm api m' l \<Longrightarrow> \<not> m_step W F m' l m''"
    and "tracked_info m k \<noteq> None"
  shows "\<exists>s. fmlookup (mc_status m') k = Some s \<and>
    (\<forall>p \<in> set (st_InjectedPods s) \<union> set (st_UninjectedPods s) \<union> set (st_OrphanedPods s). pti_UID p \<noteq> uid)"
proof -
  obtain i where i: "tracked_info m k = Some i" using assms(9) by auto
  have wf: "tracker_wf (mc_tracker m)" using assms(2) by (simp add: machine_wf_def)
  have info: "fmlookup (modelValidations (fst (exec_op F (PodGone nord uid) (mc_tracker m)))) k = Some (snd (RemovePod uid i))"
    by (simp only: pod_gone_info(1) i) simp
  obtain s where s: "fmlookup (mc_status m') k = Some s" "status_shows s (snd (RemovePod uid i))"
    using handled_settles [OF assms(1) _ _ assms(2,3) pod_gone_calm [OF assms(4) wf] assms(6-8) info] assms(5)
    by auto
  have "mvi_abs (snd (RemovePod uid i)) uid = None"
    using RemovePod_abs [OF tracker_wf_info(2) [OF wf i]] by simp
  with status_shows_mem [OF s(2) RemovePod_wf [OF tracker_wf_info(1) [OF wf i]]]
  have "\<forall>p \<in> set (status_lists s c). pti_UID p \<noteq> uid" for c by (metis option.distinct(1))
  from this [of Injected] this [of Uninjected] this [of Orphaned] show ?thesis
    using s(1) by auto
qed

theorem released_pod_is_unlisted_witness:
  "\<exists>ls m s. m_run ref_queue list_finalizers sample_machine ls m \<and>
     fmlookup (mc_status m) sample_key = Some s \<and> (\<forall>p \<in> set (st_InjectedPods s). pti_UID p \<noteq> ''u1'')"
proof -
  let ?op = "PodGone sorted_list_of_fset ''u1''"
  note ok = sample_machine_wf sample_nothing_lost sample_calm
  have "calm_state (\<lambda>k. sample_mv) (handle_op list_finalizers ?op True sample_machine)"
    using pod_gone_calm [OF sample_calm] sample_machine_wf by (simp add: machine_wf_def)
  from handled_rests [OF ref_workqueue _ _ ok(1,2) this] obtain ls m where
    r: "m_run ref_queue list_finalizers sample_machine (MOp ?op True # ls) m"
      "along ref_queue list_finalizers (calm (\<lambda>k. sample_mv)) (handle_op list_finalizers ?op True sample_machine) ls"
      "\<And>l m''. calm (\<lambda>k. sample_mv) m l \<Longrightarrow> \<not> m_step ref_queue list_finalizers m l m''" by auto
  have "tracked_info sample_machine sample_key \<noteq> None" by (simp add: sample_machine_def)
  from released_pod_is_unlisted [OF ref_workqueue ok range_order_sorted r this] r(1)
  show ?thesis by auto
qed

end
