(* ===== verification/Controllers.thy ===== *)
theory Controllers
  imports Tracker_Behaviour Telemetry
begin

text \<open>
  \<open>internal/controller\<close>: the reconcilers of ModelValidations (\<open>modelvalidation_controller.go\<close>) and
  of pods (\<open>pod_controller.go\<close>).  They see the status tracker through the interface of
  \<open>status_tracker_intf.go\<close>: a record of operations on a tracker state.  The locale
  \<open>status_tracker\<close> states what they rely on, their correctness is proved in it, and it is
  interpreted on the tracker of \<open>Status_Tracker\<close>.
\<close>

section \<open>The interface\<close>

record 's StatusTracker =
  ProcessPodEvent_op :: "Pod option \<Rightarrow> 's \<Rightarrow> go_error \<times> 's"
  RemovePodEvent_op :: "string \<Rightarrow> 's \<Rightarrow> go_error \<times> 's"
  RemovePodByName_op :: "NamespacedName \<Rightarrow> 's \<Rightarrow> go_error \<times> 's"
  AddModelValidation_op :: "ModelValidation \<Rightarrow> 's \<Rightarrow> 's"
  RemoveModelValidation_op :: "NamespacedName \<Rightarrow> 's \<Rightarrow> 's"

section \<open>ModelValidation reconciler\<close>

definition modelvalidation_reconcile ::
  "'s StatusTracker \<Rightarrow> NamespacedName \<Rightarrow> ModelValidation client_result \<Rightarrow> 's \<Rightarrow> client_error option \<times> 's" where
  "modelvalidation_reconcile T req got s =
     (case got of
        Inl NotFound \<Rightarrow> (None, RemoveModelValidation_op T req s)
      | Inl err \<Rightarrow> (Some err, s)
      | Inr mv \<Rightarrow>
          if om_DeletionTimestamp (mv_Meta mv) \<noteq> None then (None, RemoveModelValidation_op T req s)
          else (None, AddModelValidation_op T mv s))"

text \<open>The whole method, with the metric its deferred function records.\<close>

definition ModelValidation_Reconcile ::
  "'s StatusTracker \<Rightarrow> bool \<Rightarrow> int \<Rightarrow> NamespacedName \<Rightarrow> ModelValidation client_result \<Rightarrow> 's \<Rightarrow>
   client_error option \<times> 's \<times> metric_call list" where
  "ModelValidation_Reconcile T metrics_ready elapsed req got s =
     (let (err, s') = modelvalidation_reconcile T req got s
      in (err, s', RecordReconcile metrics_ready ''modelvalidation'' (reconcileResult (err \<noteq> None)) elapsed))"

section \<open>Pod reconciler\<close>

datatype reconcile_error = ReconcileClient client_error | TrackerFailed string

text \<open>The step both branches share: without our finalizer there is nothing to write.\<close>

definition remove_finalizer ::
  "finalizer_lib \<Rightarrow> (Pod \<Rightarrow> client_error option) \<Rightarrow> Pod \<Rightarrow> reconcile_error option \<times> Pod option" where
  "remove_finalizer F update pod =
     (if ContainsFinalizer F (pod_Finalizers pod) ModelValidationFinalizer
      then
        (let pod' = pod\<lparr>pod_Meta := (pod_Meta pod)
               \<lparr>om_Finalizers := RemoveFinalizer F (pod_Finalizers pod) ModelValidationFinalizer\<rparr>\<rparr>
         in (map_option ReconcileClient (update pod'), Some pod'))
      else (None, None))"

text \<open>The error, the pod sent to the API server (if any), and the tracker afterwards.\<close>

definition pod_reconcile ::
  "'s StatusTracker \<Rightarrow> finalizer_lib \<Rightarrow> (Pod \<Rightarrow> client_error option) \<Rightarrow> NamespacedName \<Rightarrow>
   Pod client_result \<Rightarrow> 's \<Rightarrow> reconcile_error option \<times> Pod option \<times> 's" where
  "pod_reconcile T F update req got s =
     (case got of
        Inl NotFound \<Rightarrow>
          (case RemovePodByName_op T req s of (err, s') \<Rightarrow> (map_option TrackerFailed err, None, s'))
      | Inl err \<Rightarrow> (Some (ReconcileClient err), None, s)
      | Inr pod \<Rightarrow>
          if om_DeletionTimestamp (pod_Meta pod) \<noteq> None then
            (case RemovePodEvent_op T (pod_UID pod) s of
               (Some err, s') \<Rightarrow> (Some (TrackerFailed err), None, s')
             | (None, s') \<Rightarrow>
                 (case remove_finalizer F update pod of (err, written) \<Rightarrow> (err, written, s')))
          else if validation_label pod = None then
            (case remove_finalizer F update pod of
               (Some err, written) \<Rightarrow> (Some err, written, s)
             | (None, written) \<Rightarrow>
                 (case RemovePodByName_op T req s of (err, s') \<Rightarrow> (map_option TrackerFailed err, written, s')))
          else
            (case ProcessPodEvent_op T (Some pod) s of (err, s') \<Rightarrow> (map_option TrackerFailed err, None, s')))"

definition Pod_Reconcile ::
  "'s StatusTracker \<Rightarrow> finalizer_lib \<Rightarrow> bool \<Rightarrow> int \<Rightarrow> (Pod \<Rightarrow> client_error option) \<Rightarrow> NamespacedName \<Rightarrow>
   Pod client_result \<Rightarrow> 's \<Rightarrow> reconcile_error option \<times> Pod option \<times> 's \<times> metric_call list" where
  "Pod_Reconcile T F metrics_ready elapsed update req got s =
     (let (err, written, s') = pod_reconcile T F update req got s
      in (err, written, s', RecordReconcile metrics_ready ''pod'' (reconcileResult (err \<noteq> None)) elapsed))"

section \<open>What the reconcilers rely on\<close>

text \<open>
  A sequence of reconciles, each with what its \<open>Get\<close> returned, and the resources that should be
  tracked after one of them: \<open>tracked_after\<close> is the specification.
\<close>

type_synonym mv_request = "NamespacedName \<times> ModelValidation client_result"

definition modelvalidation_reconciles :: "'s StatusTracker \<Rightarrow> mv_request list \<Rightarrow> 's \<Rightarrow> 's" where
  "modelvalidation_reconciles T rs s = fold (\<lambda>r s. snd (modelvalidation_reconcile T (fst r) (snd r) s)) rs s"

definition request_ok :: "mv_request \<Rightarrow> bool" where
  "request_ok r \<longleftrightarrow> (case snd r of Inr mv \<Rightarrow> mv_key mv = fst r | Inl err \<Rightarrow> True)"

definition tracked_after :: "mv_request \<Rightarrow> NamespacedName set \<Rightarrow> NamespacedName set" where
  "tracked_after r K =
     (case snd r of
        Inl err \<Rightarrow> if err = NotFound then K - {fst r} else K
      | Inr mv \<Rightarrow> if om_DeletionTimestamp (mv_Meta mv) = None then insert (fst r) K else K - {fst r})"

text \<open>
  \<open>inv\<close> is the invariant of the tracker; \<open>tracks\<close> and \<open>pod_at\<close> are what can be observed of it:
  which ModelValidations it tracks, and under which of them it knows a pod.  The reconciler of
  ModelValidations needs the first part only.
\<close>

locale mv_tracking =
  fixes T :: "'s StatusTracker"
    and inv :: "'s \<Rightarrow> bool"
    and tracks :: "'s \<Rightarrow> NamespacedName \<Rightarrow> bool"
  assumes add_law: "inv s \<Longrightarrow> inv (AddModelValidation_op T mv s) \<and>
      (\<forall>k. tracks (AddModelValidation_op T mv s) k \<longleftrightarrow> k = mv_key mv \<or> tracks s k)"
    and remove_law: "inv s \<Longrightarrow> inv (RemoveModelValidation_op T k s) \<and>
      (\<forall>k'. tracks (RemoveModelValidation_op T k s) k' \<longleftrightarrow> k' \<noteq> k \<and> tracks s k')"
begin

lemma reconcile_mv:
  assumes "inv s" and "\<And>mv. got = Inr mv \<Longrightarrow> mv_key mv = req"
    and "modelvalidation_reconcile T req got s = (None, s')"
  shows "inv s' \<and> (tracks s' req \<longleftrightarrow> (\<exists>mv. got = Inr mv \<and> om_DeletionTimestamp (mv_Meta mv) = None)) \<and>
    (\<forall>k. k \<noteq> req \<longrightarrow> tracks s' k = tracks s k)"
proof (cases got)
  case (Inl err)
  with assms(3) have "got = Inl NotFound" "s' = RemoveModelValidation_op T req s"
    by (auto simp: modelvalidation_reconcile_def split: client_error.splits)
  with remove_law [OF assms(1)] show ?thesis by simp
next
  case (Inr mv)
  then have "mv_key mv = req" by (rule assms(2))
  with Inr assms(3) show ?thesis
    using remove_law [OF assms(1), of req] add_law [OF assms(1), of mv]
    by (simp add: modelvalidation_reconcile_def split: if_splits)
qed

lemma reconcile_tracked_after:
  assumes "inv s" "request_ok r"
  shows "inv (snd (modelvalidation_reconcile T (fst r) (snd r) s)) \<and>
    {k. tracks (snd (modelvalidation_reconcile T (fst r) (snd r) s)) k} = tracked_after r {k. tracks s k}"
  using assms add_law remove_law
  by (auto simp: modelvalidation_reconcile_def tracked_after_def request_ok_def
      split: sum.splits client_error.splits)

lemma reconciles_tracked_after:
  "inv s \<Longrightarrow> list_all request_ok rs \<Longrightarrow>
     inv (modelvalidation_reconciles T rs s) \<and>
     {k. tracks (modelvalidation_reconciles T rs s) k} = fold tracked_after rs {k. tracks s k}"
  by (induction rs arbitrary: s) (use reconcile_tracked_after in \<open>auto simp: modelvalidation_reconciles_def\<close>)

end

locale status_tracker = mv_tracking +
  fixes pod_at :: "'s \<Rightarrow> NamespacedName \<Rightarrow> string \<Rightarrow> bool"
  assumes event_law: "inv s \<Longrightarrow> ProcessPodEvent_op T (Some pod) s = (err, s') \<Longrightarrow>
      inv s' \<and> err = None \<and> tracks s' = tracks s \<and>
      (\<forall>name. validation_label pod = Some name \<longrightarrow> tracks s (nn (pod_Namespace pod) name) \<longrightarrow>
         pod_at s' (nn (pod_Namespace pod) name) (pod_UID pod))"
    and gone_law: "inv s \<Longrightarrow> RemovePodEvent_op T uid s = (err, s') \<Longrightarrow>
      inv s' \<and> err = None \<and> tracks s' = tracks s \<and>
      (\<forall>k u. pod_at s' k u \<longleftrightarrow> u \<noteq> uid \<and> pod_at s k u)"
    and name_law: "inv s \<Longrightarrow> RemovePodByName_op T name s = (err, s') \<Longrightarrow>
      inv s' \<and> err = None \<and> tracks s' = tracks s \<and> (\<forall>k u. pod_at s' k u \<longrightarrow> pod_at s k u)"
begin

lemma reconcile_pod_inv:
  assumes "inv s" "pod_reconcile T F update req got s = (err, written, s')"
  shows "inv s' \<and> tracks s' = tracks s"
proof (cases got)
  case (Inl e)
  then show ?thesis
    using assms(2) name_law [OF assms(1), of req]
    by (cases e; cases "RemovePodByName_op T req s")
      (use assms(1) in \<open>auto simp: pod_reconcile_def\<close>)
next
  case (Inr pod)
  consider (Deleted) "om_DeletionTimestamp (pod_Meta pod) \<noteq> None"
    | (Unlabelled) "om_DeletionTimestamp (pod_Meta pod) = None" "validation_label pod = None"
    | (Live) "om_DeletionTimestamp (pod_Meta pod) = None" "validation_label pod \<noteq> None" by blast
  then show ?thesis
  proof cases
    case Deleted
    then show ?thesis
      using Inr assms(2) gone_law [OF assms(1), of "pod_UID pod"]
      by (cases "RemovePodEvent_op T (pod_UID pod) s")
        (auto simp: pod_reconcile_def split: option.splits prod.splits)
  next
    case Unlabelled
    then show ?thesis
      using Inr assms name_law [OF assms(1), of req]
      by (cases "RemovePodByName_op T req s")
        (auto simp: pod_reconcile_def split: option.splits prod.splits)
  next
    case Live
    then show ?thesis
      using Inr assms(2) event_law [OF assms(1), of pod]
      by (cases "ProcessPodEvent_op T (Some pod) s") (auto simp: pod_reconcile_def)
  qed
qed

lemma reconcile_deleted_pod:
  assumes "inv s" "om_DeletionTimestamp (pod_Meta pod) \<noteq> None"
    and "pod_reconcile T F update req (Inr pod) s = (err, written, s')"
  shows "\<not> pod_at s' k (pod_UID pod) \<and> (u \<noteq> pod_UID pod \<longrightarrow> pod_at s' k u = pod_at s k u) \<and>
    (err, written) = remove_finalizer F update pod"
  using assms gone_law [OF assms(1)]
  by (auto simp: pod_reconcile_def split: prod.splits option.splits)

lemma reconcile_live_pod:
  assumes "inv s" "om_DeletionTimestamp (pod_Meta pod) = None" "validation_label pod = Some name"
    and "tracks s (nn (pod_Namespace pod) name)"
    and "pod_reconcile T F update req (Inr pod) s = (err, written, s')"
  shows "err = None \<and> written = None \<and> pod_at s' (nn (pod_Namespace pod) name) (pod_UID pod)"
  using assms event_law [OF assms(1)]
  by (auto simp: pod_reconcile_def split: prod.splits option.splits)

end

section \<open>The tracker behind the interface\<close>

text \<open>The state is the tracker with the effects so far; the two range orders are fixed.\<close>

definition on_tracker ::
  "(StatusTrackerImpl \<Rightarrow> StatusTrackerImpl \<times> effect list) \<Rightarrow> StatusTrackerImpl \<times> effect list \<Rightarrow>
   StatusTrackerImpl \<times> effect list" where
  "on_tracker f s = (case f (fst s) of (st', es) \<Rightarrow> (st', snd s @ es))"

definition on_tracker_err ::
  "(StatusTrackerImpl \<Rightarrow> go_error \<times> StatusTrackerImpl \<times> effect list) \<Rightarrow> StatusTrackerImpl \<times> effect list \<Rightarrow>
   go_error \<times> StatusTrackerImpl \<times> effect list" where
  "on_tracker_err f s = (case f (fst s) of (err, st', es) \<Rightarrow> (err, st', snd s @ es))"

definition tracker_impl ::
  "finalizer_lib \<Rightarrow> (string fset \<Rightarrow> string list) \<Rightarrow> (NamespacedName fset \<Rightarrow> NamespacedName list) \<Rightarrow>
   (StatusTrackerImpl \<times> effect list) StatusTracker" where
  "tracker_impl F ord nord =
     \<lparr>ProcessPodEvent_op = (\<lambda>pod. on_tracker_err (ProcessPodEvent F pod)),
      RemovePodEvent_op = (\<lambda>uid. on_tracker_err (RemovePodEvent nord uid)),
      RemovePodByName_op = (\<lambda>name. on_tracker_err (RemovePodByName nord name)),
      AddModelValidation_op = (\<lambda>mv. on_tracker (AddModelValidation ord mv)),
      RemoveModelValidation_op = (\<lambda>k. on_tracker (RemoveModelValidation ord k))\<rparr>"

definition impl_inv :: "StatusTrackerImpl \<times> effect list \<Rightarrow> bool" where
  "impl_inv s \<longleftrightarrow> tracker_wf (fst s)"

definition impl_tracks :: "StatusTrackerImpl \<times> effect list \<Rightarrow> NamespacedName \<Rightarrow> bool" where
  "impl_tracks s k \<longleftrightarrow> IsModelValidationTracked k (fst s)"

definition impl_pod_at :: "StatusTrackerImpl \<times> effect list \<Rightarrow> NamespacedName \<Rightarrow> string \<Rightarrow> bool" where
  "impl_pod_at s k uid \<longleftrightarrow> tracked_pod (fst s) k uid \<noteq> None"

lemma tracks_fmdom: "IsModelValidationTracked k st \<longleftrightarrow> k |\<in>| fmdom (modelValidations st)"
  by (simp add: IsModelValidationTracked_def fmlookup_dom_iff)

lemma AddModelValidation_tracks:
  "IsModelValidationTracked k (fst (AddModelValidation ord mv st)) \<longleftrightarrow>
     k = mv_key mv \<or> IsModelValidationTracked k st"
  by (cases "fmlookup (modelValidations st) (mv_key mv)")
    (auto simp: AddModelValidation_new AddModelValidation_known IsModelValidationTracked_def)

lemma RemoveModelValidation_tracks:
  "IsModelValidationTracked k' (fst (RemoveModelValidation ord k st)) \<longleftrightarrow>
     k' \<noteq> k \<and> IsModelValidationTracked k' st"
  by (auto simp: RemoveModelValidation_def IsModelValidationTracked_def Let_def split: option.splits prod.splits)

lemma ProcessPodEvent_tracks:
  "fst (ProcessPodEvent F (Some pod) st) = None"
  "IsModelValidationTracked k (fst (snd (ProcessPodEvent F (Some pod) st))) = IsModelValidationTracked k st"
  by (auto simp: ProcessPodEvent_def processPodEventCommon_alt IsModelValidationTracked_def Let_def
      split: option.splits)

lemma ProcessPodEvent_holds:
  assumes "tracker_wf st" "validation_label pod = Some name"
    and "IsModelValidationTracked (nn (pod_Namespace pod) name) st"
  shows "tracked_pod (fst (snd (ProcessPodEvent F (Some pod) st))) (nn (pod_Namespace pod) name) (pod_UID pod) \<noteq> None"
proof -
  obtain i where i: "fmlookup (modelValidations st) (nn (pod_Namespace pod) name) = Some i"
    using assms(3) by (auto simp: IsModelValidationTracked_def)
  then have "fst (snd (ProcessPodEvent F (Some pod) st)) =
      fst (processPodEventCommon F pod (nn (pod_Namespace pod) name) i st)"
    using assms(2) by (simp add: ProcessPodEvent_def Let_def)
  then show ?thesis by (simp add: common_tracked [OF assms(1) i])
qed

lemma removal_frame:
  "IsModelValidationTracked k ((snd (removePodFromTrackingMapsUnsafe uid st))\<lparr>podMapping := p\<rparr>) =
     IsModelValidationTracked k st"
  "tracked_pod ((snd (removePodFromTrackingMapsUnsafe uid st))\<lparr>podMapping := p\<rparr>) =
     tracked_pod (snd (removePodFromTrackingMapsUnsafe uid st))"
  by (auto simp: IsModelValidationTracked_def tracked_pod_def fun_eq_iff)

lemma impl_laws:
  assumes ord: "range_order ord" "range_order nord"
  shows "status_tracker (tracker_impl F ord nord) impl_inv impl_tracks impl_pod_at"
proof
  fix s :: "StatusTrackerImpl \<times> effect list" and mv :: ModelValidation
  assume "impl_inv s"
  then have "tracker_wf (fst (AddModelValidation ord mv (fst s)))"
    using exec_op_wf [of "AddMV ord mv"] ord(1) by (simp add: impl_inv_def)
  then show "impl_inv (AddModelValidation_op (tracker_impl F ord nord) mv s) \<and>
      (\<forall>k. impl_tracks (AddModelValidation_op (tracker_impl F ord nord) mv s) k \<longleftrightarrow> k = mv_key mv \<or> impl_tracks s k)"
    by (simp add: tracker_impl_def on_tracker_def impl_inv_def impl_tracks_def case_prod_beta AddModelValidation_tracks)
next
  fix s :: "StatusTrackerImpl \<times> effect list" and k
  assume "impl_inv s"
  then have "tracker_wf (fst (RemoveModelValidation ord k (fst s)))"
    using exec_op_wf [of "RemoveMV ord k"] ord(1) by (simp add: impl_inv_def)
  then show "impl_inv (RemoveModelValidation_op (tracker_impl F ord nord) k s) \<and>
      (\<forall>k'. impl_tracks (RemoveModelValidation_op (tracker_impl F ord nord) k s) k' \<longleftrightarrow> k' \<noteq> k \<and> impl_tracks s k')"
    by (simp add: tracker_impl_def on_tracker_def impl_inv_def impl_tracks_def case_prod_beta RemoveModelValidation_tracks)
next
  fix s s' :: "StatusTrackerImpl \<times> effect list" and pod err
  assume inv: "impl_inv s" and ev: "ProcessPodEvent_op (tracker_impl F ord nord) (Some pod) s = (err, s')"
  have wf: "tracker_wf (fst (snd (ProcessPodEvent F (Some pod) (fst s))))"
    using exec_op_wf [of "PodEvent (Some pod)"] inv by (simp add: impl_inv_def)
  from ev have r: "err = fst (ProcessPodEvent F (Some pod) (fst s))"
      "fst s' = fst (snd (ProcessPodEvent F (Some pod) (fst s)))"
    by (auto simp: tracker_impl_def on_tracker_err_def case_prod_beta)
  show "impl_inv s' \<and> err = None \<and> impl_tracks s' = impl_tracks s \<and>
      (\<forall>name. validation_label pod = Some name \<longrightarrow> impl_tracks s (nn (pod_Namespace pod) name) \<longrightarrow>
         impl_pod_at s' (nn (pod_Namespace pod) name) (pod_UID pod))"
    using inv wf ProcessPodEvent_holds
    by (auto simp: r impl_inv_def impl_tracks_def impl_pod_at_def fun_eq_iff ProcessPodEvent_tracks)
next
  fix s s' :: "StatusTrackerImpl \<times> effect list" and uid err
  assume inv: "impl_inv s" and ev: "RemovePodEvent_op (tracker_impl F ord nord) uid s = (err, s')"
  have wf: "tracker_wf (fst (snd (RemovePodEvent nord uid (fst s))))"
    using exec_op_wf [of "PodGone nord uid"] inv ord(2) by (simp add: impl_inv_def)
  from ev have r: "err = None" "fst s' = snd (removePodFromTrackingMapsUnsafe uid (fst s))"
    by (auto simp: tracker_impl_def on_tracker_err_def RemovePodEvent_alt)
  with wf inv show "impl_inv s' \<and> err = None \<and> impl_tracks s' = impl_tracks s \<and>
      (\<forall>k u. impl_pod_at s' k u \<longleftrightarrow> u \<noteq> uid \<and> impl_pod_at s k u)"
    by (auto simp: impl_inv_def impl_tracks_def impl_pod_at_def fun_eq_iff RemovePodEvent_alt removed_tracked
        IsModelValidationTracked_def)
next
  fix s s' :: "StatusTrackerImpl \<times> effect list" and name err
  assume inv: "impl_inv s" and ev: "RemovePodByName_op (tracker_impl F ord nord) name s = (err, s')"
  have wf: "tracker_wf (fst (snd (RemovePodByName nord name (fst s))))"
    using exec_op_wf [of "PodNameGone nord name"] inv ord(2) by (simp add: impl_inv_def)
  from ev have r: "err = fst (RemovePodByName nord name (fst s))"
      "fst s' = fst (snd (RemovePodByName nord name (fst s)))"
    by (auto simp: tracker_impl_def on_tracker_err_def case_prod_beta)
  show "impl_inv s' \<and> err = None \<and> impl_tracks s' = impl_tracks s \<and> (\<forall>k u. impl_pod_at s' k u \<longrightarrow> impl_pod_at s k u)"
    using wf inv
    by (cases "GetUIDByName name (podMapping (fst s))")
      (auto simp: r impl_inv_def impl_tracks_def impl_pod_at_def fun_eq_iff RemovePodByName_alt removal_frame
        removed_tracked split: if_splits)
qed

text \<open>The interpretation, with both orders those of the sorted keys.\<close>

interpretation trk: status_tracker "tracker_impl F sorted_list_of_fset sorted_list_of_fset"
  impl_inv impl_tracks impl_pod_at for F
  by (rule impl_laws) simp_all

end
