(* ===== verification/Operator_Config.thy ===== *)
theory Operator_Config
  imports Pod_Webhook
begin

text \<open>
  The operator's own configuration: flags that fall back to the environment
  (\<open>internal/utils/utils.go\<close>), the namespace and the sidecar mode the main function chooses
  (\<open>cmd/main.go\<close>), the ServiceMonitor (\<open>internal/servicemonitor\<close>) and the NetworkPolicy
  (\<open>internal/controller/networkpolicy.go\<close>).  The environment, files, the parsed value of a flag
  and the results of library calls are arguments.  The rest of the main function is in
  \<open>Operator_Main\<close>.
\<close>

section \<open>Flags with an environment variable\<close>

text \<open>
  The default that is registered with the flag; \<open>os.Getenv\<close> yields the empty string for a
  variable that is not set.  \<open>flag_or\<close> is the value after parsing: that of the flag when it is
  given, the default otherwise.
\<close>

type_synonym environment = "string \<Rightarrow> string"

definition StringFlagOrEnv_default :: "environment \<Rightarrow> string \<Rightarrow> string \<Rightarrow> string" where
  "StringFlagOrEnv_default Getenv envName defaultValue =
     (if Getenv envName \<noteq> [] then Getenv envName else defaultValue)"

definition BoolFlagOrEnv_default :: "environment \<Rightarrow> string \<Rightarrow> bool \<Rightarrow> bool" where
  "BoolFlagOrEnv_default Getenv envName defaultValue =
     (let envValue = Getenv envName
      in if envValue = ''true'' \<or> envValue = ''1'' \<or> envValue = ''yes'' then True else defaultValue)"

definition flag_or :: "'a option \<Rightarrow> 'a \<Rightarrow> 'a" where
  "flag_or given default_value = (case given of Some v \<Rightarrow> v | None \<Rightarrow> default_value)"

section \<open>Choices of the main function\<close>

text \<open>\<open>file\<close> is the result of reading the service account's namespace file.\<close>

definition getOperatorNamespace :: "environment \<Rightarrow> string option \<Rightarrow> string" where
  "getOperatorNamespace Getenv file =
     (if Getenv ''POD_NAMESPACE'' \<noteq> [] then Getenv ''POD_NAMESPACE''
      else case file of None \<Rightarrow> [] | Some data \<Rightarrow> TrimSpace data)"

definition choose_native_sidecars :: "version_error + bool \<Rightarrow> bool \<Rightarrow> bool" where
  "choose_native_sidecars detected forceLegacySidecar =
     (let nativeSidecarSupport = (case detected of Inl _ \<Rightarrow> False | Inr b \<Rightarrow> b)
      in if forceLegacySidecar then False else nativeSidecarSupport)"

section \<open>ServiceMonitor\<close>

record Options =
  opt_Namespace :: string
  opt_ServiceName :: string
  opt_PortName :: string
  opt_Path :: string
  opt_Secure :: bool

definition detectNamespace :: "environment \<Rightarrow> string option \<Rightarrow> string" where
  "detectNamespace Getenv file =
     (if Getenv ''POD_NAMESPACE'' \<noteq> [] then Getenv ''POD_NAMESPACE''
      else case file of Some data \<Rightarrow> data | None \<Rightarrow> ''model-validation-operator-system'')"

definition NewCreator :: "environment \<Rightarrow> string option \<Rightarrow> Options \<Rightarrow> Options" where
  "NewCreator Getenv file opts =
     (let opts = (if opt_Namespace opts = [] then opts\<lparr>opt_Namespace := detectNamespace Getenv file\<rparr> else opts);
          opts = (if opt_Path opts = [] then opts\<lparr>opt_Path := ''/metrics''\<rparr> else opts)
      in if opt_PortName opts = [] then opts\<lparr>opt_PortName := ''https''\<rparr> else opts)"

record Endpoint =
  ep_Path :: string
  ep_Port :: string
  ep_Scheme :: string
  ep_BearerTokenFile :: string
  ep_InsecureSkipVerify :: bool

record ServiceMonitor =
  sm_Name :: string
  sm_Namespace :: string
  sm_Labels :: labels
  sm_Endpoints :: "Endpoint list"
  sm_Selector :: labels

definition servicemonitor_labels :: labels where
  "servicemonitor_labels = fmap_of_list
     [(''control-plane'', ''controller-manager''), (''app.kubernetes.io/name'', ''model-validation-operator''),
      (''app.kubernetes.io/managed-by'', ''operator'')]"

definition buildServiceMonitor :: "Options \<Rightarrow> ServiceMonitor" where
  "buildServiceMonitor opts =
     \<lparr>sm_Name = ''controller-manager-metrics-monitor'', sm_Namespace = opt_Namespace opts,
      sm_Labels = servicemonitor_labels, sm_Endpoints = [], sm_Selector = fmempty\<rparr>"

definition applySpec :: "Options \<Rightarrow> ServiceMonitor \<Rightarrow> ServiceMonitor" where
  "applySpec opts sm =
     sm\<lparr>sm_Labels := servicemonitor_labels,
        sm_Endpoints := [\<lparr>ep_Path = opt_Path opts, ep_Port = opt_PortName opts,
          ep_Scheme = (if opt_Secure opts then ''https'' else ''http''),
          ep_BearerTokenFile = ''/var/run/secrets/kubernetes.io/serviceaccount/token'',
          ep_InsecureSkipVerify = True\<rparr>],
        sm_Selector := fmap_of_list
          [(''control-plane'', ''controller-manager''), (''app.kubernetes.io/name'', ''model-validation-operator'')]\<rparr>"

text \<open>\<open>kinds\<close> are the kinds of the resources the discovery client lists for the group.\<close>

definition isServiceMonitorCRDAvailable :: "string option \<Rightarrow> string + string list \<Rightarrow> string + bool" where
  "isServiceMonitorCRDAvailable dc kinds =
     (case dc of
        Some err \<Rightarrow> Inl err
      | None \<Rightarrow> (case kinds of Inl _ \<Rightarrow> Inr False | Inr ks \<Rightarrow> Inr (list_ex (\<lambda>k. k = ''ServiceMonitor'') ks)))"

text \<open>
  \<open>Start\<close>: \<open>None\<close> when nothing is done, otherwise what the mutation makes of the object
  \<open>CreateOrUpdate\<close> works on: \<open>existing\<close> if there is one of that name, the built one if not.
  The method returns no error on any path.
\<close>

definition servicemonitor_Start ::
  "Options \<Rightarrow> string option \<Rightarrow> string + string list \<Rightarrow> ServiceMonitor option \<Rightarrow> ServiceMonitor option" where
  "servicemonitor_Start opts dc kinds existing =
     (case isServiceMonitorCRDAvailable dc kinds of
        Inl _ \<Rightarrow> None
      | Inr available \<Rightarrow>
          if \<not> available then None
          else Some (applySpec opts (case existing of Some sm \<Rightarrow> sm | None \<Rightarrow> buildServiceMonitor opts)))"

section \<open>NetworkPolicy\<close>

datatype protocol = TCP | UDP

record NetworkPolicyPeer =
  npp_PodSelector :: "labels option"
  npp_NamespaceSelector :: "labels option"

text \<open>The selectors of the policy have only \<open>matchLabels\<close>; a selector is that map.\<close>

record NetworkPolicyRule =
  npr_Peers :: "NetworkPolicyPeer list"
  npr_Ports :: "(protocol \<times> int) list"

record NetworkPolicySpec =
  nps_PodSelector :: labels
  nps_PolicyTypes :: "string list"
  nps_Ingress :: "NetworkPolicyRule list"
  nps_Egress :: "NetworkPolicyRule list"

definition networkPolicySpec :: NetworkPolicySpec where
  "networkPolicySpec =
     \<lparr>nps_PodSelector = fmap_of_list
        [(''control-plane'', ''controller-manager''), (''app.kubernetes.io/name'', ''model-validation-operator'')],
      nps_PolicyTypes = [''Ingress'', ''Egress''],
      nps_Ingress =
        [\<lparr>npr_Peers = [], npr_Ports = [(TCP, 9443)]\<rparr>,
         \<lparr>npr_Peers = [\<lparr>npp_PodSelector = Some fmempty, npp_NamespaceSelector = None\<rparr>], npr_Ports = [(TCP, 8081)]\<rparr>,
         \<lparr>npr_Peers = [\<lparr>npp_PodSelector = Some fmempty, npp_NamespaceSelector = None\<rparr>,
             \<lparr>npp_PodSelector = None, npp_NamespaceSelector = Some (fmap_of_list [(''metrics'', ''enabled'')])\<rparr>],
           npr_Ports = [(TCP, 8443)]\<rparr>],
      nps_Egress =
        [\<lparr>npr_Peers =
            [\<lparr>npp_PodSelector = None,
              npp_NamespaceSelector = Some (fmap_of_list [(''kubernetes.io/metadata.name'', ''kube-system'')])\<rparr>,
             \<lparr>npp_PodSelector = None,
              npp_NamespaceSelector = Some (fmap_of_list [(''kubernetes.io/metadata.name'', ''openshift-dns'')])\<rparr>],
          npr_Ports = [(TCP, 53), (UDP, 53)]\<rparr>,
         \<lparr>npr_Peers = [], npr_Ports = [(TCP, 443), (TCP, 6443)]\<rparr>]\<rparr>"

record NetworkPolicy =
  np_Name :: string
  np_Namespace :: string
  np_Labels :: labels
  np_Spec :: "NetworkPolicySpec option"

definition applyNetworkPolicy :: "NetworkPolicy \<Rightarrow> NetworkPolicy" where
  "applyNetworkPolicy np =
     np\<lparr>np_Labels := fmap_of_list
          [(''app.kubernetes.io/name'', ''model-validation-operator''),
           (''app.kubernetes.io/managed-by'', ''model-validation-operator'')],
        np_Spec := Some networkPolicySpec\<rparr>"

text \<open>
  \<open>CreateOrUpdate\<close> of controller-runtime is an argument: it is given the object with its key and
  the mutation, and acts on the cluster.  Its result other than the error is only logged.
\<close>

definition InstallNetworkPolicy ::
  "(NetworkPolicy \<Rightarrow> (NetworkPolicy \<Rightarrow> NetworkPolicy) \<Rightarrow> 'c \<Rightarrow> go_error \<times> 'c) \<Rightarrow> string \<Rightarrow> 'c \<Rightarrow> go_error \<times> 'c" where
  "InstallNetworkPolicy CreateOrUpdate namespace cluster =
     CreateOrUpdate
       \<lparr>np_Name = ''controller-manager'', np_Namespace = namespace, np_Labels = fmempty, np_Spec = None\<rparr>
       applyNetworkPolicy cluster"

text \<open>What a rule lets through, as Kubernetes documents it: no peers means every source, and
  a policy without the type \<open>Ingress\<close> restricts nothing.\<close>

definition labels_match :: "labels \<Rightarrow> labels \<Rightarrow> bool" where
  "labels_match selector ls \<longleftrightarrow> selector \<subseteq>\<^sub>f ls"

definition peer_matches :: "string \<Rightarrow> NetworkPolicyPeer \<Rightarrow> string \<times> labels \<times> labels \<Rightarrow> bool" where
  "peer_matches own peer src =
     (case src of (ns, ns_labels, pod_labels) \<Rightarrow>
        (case npp_NamespaceSelector peer of None \<Rightarrow> ns = own | Some sel \<Rightarrow> labels_match sel ns_labels) \<and>
        (case npp_PodSelector peer of None \<Rightarrow> True | Some sel \<Rightarrow> labels_match sel pod_labels))"

definition rule_allows :: "string \<Rightarrow> NetworkPolicyRule \<Rightarrow> string \<times> labels \<times> labels \<Rightarrow> protocol \<times> int \<Rightarrow> bool" where
  "rule_allows own r src port \<longleftrightarrow>
     (npr_Peers r = [] \<or> list_ex (\<lambda>p. peer_matches own p src) (npr_Peers r)) \<and> port \<in> set (npr_Ports r)"

definition ingress_allowed :: "string \<Rightarrow> string \<times> labels \<times> labels \<Rightarrow> protocol \<times> int \<Rightarrow> bool" where
  "ingress_allowed own src port \<longleftrightarrow>
     ''Ingress'' \<notin> set (nps_PolicyTypes networkPolicySpec) \<or>
     list_ex (\<lambda>r. rule_allows own r src port) (nps_Ingress networkPolicySpec)"

section \<open>Properties\<close>

text \<open>
  The precedence flag, then environment, then default: a boolean flag that is not given is
  true exactly when the variable is one of the three accepted words or the default is; the words
  are compared as they are, so another spelling of \<open>true\<close> is not accepted.
\<close>

lemma bool_flag_precedence:
  "flag_or (Some b) (BoolFlagOrEnv_default env name d) = b \<and>
   (flag_or None (BoolFlagOrEnv_default env name d) \<longleftrightarrow> d \<or> env name \<in> {''true'', ''1'', ''yes''}) \<and>
   \<not> BoolFlagOrEnv_default (\<lambda>_. ''TRUE'') name False"
  by (auto simp: flag_or_def BoolFlagOrEnv_default_def Let_def)

text \<open>
  The two ways the operator finds its namespace agree when the variable is set or the file
  holds a name without surrounding space; from the file as mounted with a final newline, the
  ServiceMonitor gets a name that still has it.
\<close>

lemma namespace_detection:
  "(env ''POD_NAMESPACE'' \<noteq> [] \<longrightarrow> getOperatorNamespace env file = detectNamespace env file) \<and>
   (env ''POD_NAMESPACE'' = [] \<longrightarrow>
      getOperatorNamespace env (Some data) = TrimSpace data \<and> detectNamespace env (Some data) = data)"
  by (simp add: getOperatorNamespace_def detectNamespace_def)

text \<open>
  C40: from a pod outside the operator's namespace, in a namespace without the label
  \<open>metrics=enabled\<close>, the policy lets through nothing but the webhook port.
\<close>

theorem foreign_ingress_only_webhook:
  assumes "ns \<noteq> own" "fmlookup ns_labels ''metrics'' \<noteq> Some ''enabled''"
  shows "ingress_allowed own (ns, ns_labels, pod_labels) port \<longleftrightarrow> port = (TCP, 9443)"
proof -
  have "\<not> labels_match (fmap_of_list [(''metrics'', ''enabled'')]) ns_labels"
    using assms(2) by (auto simp: labels_match_def fmsubset_alt_def fmpred_iff fmlookup_of_list)
  then show ?thesis
    using assms(1) by (auto simp: ingress_allowed_def networkPolicySpec_def rule_allows_def peer_matches_def)
qed

theorem foreign_ingress_only_webhook_witness:
  "\<not> ingress_allowed ''operator'' (''prod'', fmempty, fmempty) (TCP, 8443)"
  using foreign_ingress_only_webhook [of "''prod''" "''operator''" fmempty fmempty "(TCP, 8443)"] by simp

text \<open>
  Installing it leaves the policy in the operator's namespace whatever was there before, if the
  library, when it reports no error, has applied the mutation to the object stored under the key
  or, without one, to the object given.
\<close>

lemma installed_policy:
  assumes "\<And>obj f c c'. CreateOrUpdate obj f c = (None, c') \<Longrightarrow>
      stored c' (np_Namespace obj) (np_Name obj) =
        Some (f (case stored c (np_Namespace obj) (np_Name obj) of Some old \<Rightarrow> old | None \<Rightarrow> obj))"
    and "InstallNetworkPolicy CreateOrUpdate ns c = (None, c')"
  shows "\<exists>np. stored c' ns ''controller-manager'' = Some np \<and> np_Spec np = Some networkPolicySpec"
  using assms(1) [OF assms(2) [unfolded InstallNetworkPolicy_def]] by (simp add: applyNetworkPolicy_def)

end
