(* ===== verification/Operator_Main.thy ===== *)
theory Operator_Main
  imports Operator_Config Status_Tracker
begin

text \<open>
  \<open>cmd/main.go\<close>: the flags of the operator, the TLS options of its two servers, the options of
  the manager, and the start up as the sequence of calls on libraries and other packages, which
  ends the process at the first one that fails.  The values of the flags after parsing are an
  argument, their defaults \<open>default_OperatorFlags\<close>; what each call returns is the argument
  \<open>answer\<close>.
\<close>

section \<open>Flags\<close>

text \<open>Durations are in nanoseconds.\<close>

abbreviation Millisecond :: int where "Millisecond \<equiv> 1000000"
abbreviation Second :: int where "Second \<equiv> 1000000000"

definition defaultDebounceDuration :: int where "defaultDebounceDuration = 500 * Millisecond"
definition defaultRetryBaseDelay :: int where "defaultRetryBaseDelay = 100 * Millisecond"
definition defaultRetryMaxDelay :: int where "defaultRetryMaxDelay = 16 * Second"
definition defaultRateLimitQPS :: rat where "defaultRateLimitQPS = 10"
definition defaultRateLimitBurst :: int where "defaultRateLimitBurst = 100"
definition defaultStatusUpdateTimeout :: int where "defaultStatusUpdateTimeout = 30 * Second"

record OperatorFlags =
  fl_metricsAddr :: string
  fl_metricsCertPath :: string
  fl_metricsCertName :: string
  fl_metricsCertKey :: string
  fl_webhookCertPath :: string
  fl_webhookCertName :: string
  fl_webhookCertKey :: string
  fl_enableLeaderElection :: bool
  fl_probeAddr :: string
  fl_secureMetrics :: bool
  fl_enableHTTP2 :: bool
  fl_disableWebhook :: bool
  fl_forceLegacySidecar :: bool
  fl_agentImage :: string
  fl_enableServiceMonitor :: bool
  fl_debounceDuration :: int
  fl_retryBaseDelay :: int
  fl_retryMaxDelay :: int
  fl_rateLimitQPS :: rat
  fl_rateLimitBurst :: int
  fl_statusUpdateTimeout :: int

text \<open>\<open>agentImage\<close> is the image set at build time.\<close>

definition default_OperatorFlags :: "environment \<Rightarrow> string \<Rightarrow> OperatorFlags" where
  "default_OperatorFlags Getenv agentImage =
     \<lparr>fl_metricsAddr = ''0'', fl_metricsCertPath = [], fl_metricsCertName = ''tls.crt'',
      fl_metricsCertKey = ''tls.key'', fl_webhookCertPath = [], fl_webhookCertName = ''tls.crt'',
      fl_webhookCertKey = ''tls.key'', fl_enableLeaderElection = False, fl_probeAddr = '':8081'',
      fl_secureMetrics = True, fl_enableHTTP2 = False, fl_disableWebhook = False,
      fl_forceLegacySidecar = BoolFlagOrEnv_default Getenv ''FORCE_LEGACY_SIDECAR'' False,
      fl_agentImage = StringFlagOrEnv_default Getenv ''VALIDATION_AGENT_IMAGE'' agentImage,
      fl_enableServiceMonitor = BoolFlagOrEnv_default Getenv ''ENABLE_SERVICE_MONITOR'' False,
      fl_debounceDuration = defaultDebounceDuration, fl_retryBaseDelay = defaultRetryBaseDelay,
      fl_retryMaxDelay = defaultRetryMaxDelay, fl_rateLimitQPS = defaultRateLimitQPS,
      fl_rateLimitBurst = defaultRateLimitBurst, fl_statusUpdateTimeout = defaultStatusUpdateTimeout\<rparr>"

section \<open>TLS\<close>

text \<open>
  An option is a function on a TLS configuration: the one that disables HTTP/2, or the one that
  reads certificates from a watcher, which is known by its two files.
\<close>

datatype tls_opt = DisableHTTP2 | FromWatcher string string

record tls_config =
  NextProtos :: "string list"
  GetCertificate :: "(string \<times> string) option"

fun apply_tls :: "tls_opt \<Rightarrow> tls_config \<Rightarrow> tls_config" where
  "apply_tls DisableHTTP2 c = c\<lparr>NextProtos := [''http/1.1'']\<rparr>"
| "apply_tls (FromWatcher cert key) c = c\<lparr>GetCertificate := Some (cert, key)\<rparr>"

definition tlsOpts :: "OperatorFlags \<Rightarrow> tls_opt list" where
  "tlsOpts fl = (if \<not> fl_enableHTTP2 fl then [DisableHTTP2] else [])"

text \<open>
  The files of the two watchers, when their directory is given.  Both servers start from
  \<open>tlsOpts\<close>; appending to it never writes into a shared array, since a slice of at most one
  element that \<open>append\<close> has made has no spare capacity.
\<close>

definition webhook_watcher :: "OperatorFlags \<Rightarrow> (string \<times> string) option" where
  "webhook_watcher fl =
     (if fl_webhookCertPath fl \<noteq> []
      then Some (path_Join [fl_webhookCertPath fl, fl_webhookCertName fl],
                 path_Join [fl_webhookCertPath fl, fl_webhookCertKey fl])
      else None)"

definition metrics_watcher :: "OperatorFlags \<Rightarrow> (string \<times> string) option" where
  "metrics_watcher fl =
     (if fl_metricsCertPath fl \<noteq> []
      then Some (path_Join [fl_metricsCertPath fl, fl_metricsCertName fl],
                 path_Join [fl_metricsCertPath fl, fl_metricsCertKey fl])
      else None)"

definition webhookTLSOpts :: "OperatorFlags \<Rightarrow> tls_opt list" where
  "webhookTLSOpts fl =
     tlsOpts fl @ (case webhook_watcher fl of Some (cert, key) \<Rightarrow> [FromWatcher cert key] | None \<Rightarrow> [])"

record metrics_server_options =
  ms_BindAddress :: string
  ms_SecureServing :: bool
  ms_TLSOpts :: "tls_opt list"
  ms_Authentication :: bool

definition metricsServerOptions :: "OperatorFlags \<Rightarrow> metrics_server_options" where
  "metricsServerOptions fl =
     \<lparr>ms_BindAddress = fl_metricsAddr fl, ms_SecureServing = fl_secureMetrics fl,
      ms_TLSOpts = tlsOpts fl @
        (case metrics_watcher fl of Some (cert, key) \<Rightarrow> [FromWatcher cert key] | None \<Rightarrow> []),
      ms_Authentication = fl_secureMetrics fl\<rparr>"

record manager_options =
  mo_Metrics :: metrics_server_options
  mo_WebhookServer :: "tls_opt list option"
  mo_HealthProbeBindAddress :: string
  mo_LeaderElection :: bool
  mo_LeaderElectionID :: string

definition managerOptions :: "OperatorFlags \<Rightarrow> manager_options" where
  "managerOptions fl =
     \<lparr>mo_Metrics = metricsServerOptions fl,
      mo_WebhookServer = (if fl_disableWebhook fl then None else Some (webhookTLSOpts fl)),
      mo_HealthProbeBindAddress = fl_probeAddr fl, mo_LeaderElection = fl_enableLeaderElection fl,
      mo_LeaderElectionID = ''2b2639c9.sigstore.dev''\<rparr>"

section \<open>Configurations passed on\<close>

record StatusTrackerConfig =
  stc_DebounceDuration :: int
  stc_RetryBaseDelay :: int
  stc_RetryMaxDelay :: int
  stc_RateLimitQPS :: rat
  stc_RateLimitBurst :: int
  stc_StatusUpdateTimeout :: int

definition trackerConfig :: "OperatorFlags \<Rightarrow> StatusTrackerConfig" where
  "trackerConfig fl =
     \<lparr>stc_DebounceDuration = fl_debounceDuration fl, stc_RetryBaseDelay = fl_retryBaseDelay fl,
      stc_RetryMaxDelay = fl_retryMaxDelay fl, stc_RateLimitQPS = fl_rateLimitQPS fl,
      stc_RateLimitBurst = fl_rateLimitBurst fl, stc_StatusUpdateTimeout = fl_statusUpdateTimeout fl\<rparr>"

text \<open>What the tracker passes on to its queue.\<close>

record DebouncedQueueConfig =
  dqc_DebounceDuration :: int
  dqc_RetryBaseDelay :: int
  dqc_RetryMaxDelay :: int
  dqc_RateLimitQPS :: rat
  dqc_RateLimitBurst :: int

definition trackerQueueConfig :: "StatusTrackerConfig \<Rightarrow> DebouncedQueueConfig" where
  "trackerQueueConfig config =
     \<lparr>dqc_DebounceDuration = stc_DebounceDuration config, dqc_RetryBaseDelay = stc_RetryBaseDelay config,
      dqc_RetryMaxDelay = stc_RetryMaxDelay config, dqc_RateLimitQPS = stc_RateLimitQPS config,
      dqc_RateLimitBurst = stc_RateLimitBurst config\<rparr>"

definition monitorOptions :: "environment \<Rightarrow> OperatorFlags \<Rightarrow> Options" where
  "monitorOptions Getenv fl =
     \<lparr>opt_Namespace = Getenv ''POD_NAMESPACE'', opt_ServiceName = [], opt_PortName = ''https'',
      opt_Path = ''/metrics'', opt_Secure = fl_secureMetrics fl\<rparr>"

section \<open>Start up\<close>

datatype main_call =
    SetupOTelMetrics_call
  | NewCertWatcher string string
  | NewManager manager_options
  | AddCertWatcher string string
  | AddServiceMonitor Options
  | AddHealthzCheck
  | AddReadyzCheck
  | RegisterWebhook string string bool
  | NewStatusTracker_call StatusTrackerConfig
  | SetupController string
  | NewDirectClient
  | InstallNetworkPolicy_call string
  | StartManager
  | StopTracker
  | ShutdownOTel

text \<open>
  The calls in the order of the source, those of the branches the flags select.  \<open>detected\<close> is
  what \<open>NativeSidecarSupport\<close> returned, \<open>nsfile\<close> the content of the namespace file.
\<close>

definition watcher_call :: "(string \<Rightarrow> string \<Rightarrow> main_call) \<Rightarrow> (string \<times> string) option \<Rightarrow> main_call list" where
  "watcher_call call w = (case w of Some (cert, key) \<Rightarrow> [call cert key] | None \<Rightarrow> [])"

definition server_calls :: "OperatorFlags \<Rightarrow> main_call list" where
  "server_calls fl =
     [SetupOTelMetrics_call] @
     (if \<not> fl_disableWebhook fl then watcher_call NewCertWatcher (webhook_watcher fl) else []) @
     watcher_call NewCertWatcher (metrics_watcher fl)"

definition manager_calls :: "environment \<Rightarrow> string option \<Rightarrow> OperatorFlags \<Rightarrow> main_call list" where
  "manager_calls Getenv nsfile fl =
     [NewManager (managerOptions fl)] @
     watcher_call AddCertWatcher (metrics_watcher fl) @
     (if \<not> fl_disableWebhook fl then watcher_call AddCertWatcher (webhook_watcher fl) else []) @
     (if fl_enableServiceMonitor fl
      then [AddServiceMonitor (NewCreator Getenv nsfile (monitorOptions Getenv fl))] else []) @
     [AddHealthzCheck, AddReadyzCheck]"

definition component_calls ::
  "environment \<Rightarrow> string option \<Rightarrow> version_error + bool \<Rightarrow> OperatorFlags \<Rightarrow> main_call list" where
  "component_calls Getenv nsfile detected fl =
     (if \<not> fl_disableWebhook fl
      then [RegisterWebhook ''/mutate-v1-pod'' (fl_agentImage fl)
              (choose_native_sidecars detected (fl_forceLegacySidecar fl))] else []) @
     [NewStatusTracker_call (trackerConfig fl), SetupController ''pod'', SetupController ''ModelValidation'',
      SetupController ''TelemetryConfig''] @
     (let operatorNamespace = getOperatorNamespace Getenv nsfile
      in if operatorNamespace = [] then []
         else [NewDirectClient, InstallNetworkPolicy_call operatorNamespace]) @
     [StartManager]"

definition startup_calls ::
  "environment \<Rightarrow> string option \<Rightarrow> version_error + bool \<Rightarrow> OperatorFlags \<Rightarrow> main_call list" where
  "startup_calls Getenv nsfile detected fl =
     server_calls fl @ manager_calls Getenv nsfile fl @ component_calls Getenv nsfile detected fl"

lemmas startup_defs = startup_calls_def server_calls_def manager_calls_def component_calls_def

text \<open>Calls without an error result, and the calls deferred with \<open>defer\<close>.\<close>

fun fallible :: "main_call \<Rightarrow> bool" where
  "fallible (RegisterWebhook path img native) = False"
| "fallible (NewStatusTracker_call cfg) = False"
| "fallible _ = True"

fun deferred_by :: "main_call \<Rightarrow> main_call list" where
  "deferred_by SetupOTelMetrics_call = [ShutdownOTel]"
| "deferred_by (NewStatusTracker_call cfg) = [StopTracker]"
| "deferred_by _ = []"

text \<open>
  The calls made and the exit code.  A failing call is answered with \<open>os.Exit(1)\<close>, which runs no
  deferred call; at the end of main the deferred ones run, the last one first.
\<close>

fun run_calls ::
  "(main_call \<Rightarrow> go_error) \<Rightarrow> main_call list \<Rightarrow> main_call list \<Rightarrow> main_call list \<times> nat" where
  "run_calls answer deferred [] = (deferred, 0)"
| "run_calls answer deferred (c # cs) =
     (if fallible c \<and> answer c \<noteq> None then ([c], 1)
      else (case run_calls answer (deferred_by c @ deferred) cs of (made, code) \<Rightarrow> (c # made, code)))"

definition operator_main ::
  "environment \<Rightarrow> string option \<Rightarrow> version_error + bool \<Rightarrow> (main_call \<Rightarrow> go_error) \<Rightarrow> OperatorFlags \<Rightarrow>
   main_call list \<times> nat" where
  "operator_main Getenv nsfile detected answer fl = run_calls answer [] (startup_calls Getenv nsfile detected fl)"

section \<open>Lemmas\<close>

definition fails :: "(main_call \<Rightarrow> go_error) \<Rightarrow> main_call \<Rightarrow> bool" where
  "fails answer c \<longleftrightarrow> fallible c \<and> answer c \<noteq> None"

lemma run_calls_ok:
  "\<forall>c\<in>set cs. \<not> fails answer c \<Longrightarrow>
     run_calls answer ds cs = (cs @ concat (rev (map deferred_by cs)) @ ds, 0)"
  by (induction cs arbitrary: ds) (auto simp: fails_def)

lemma run_calls_fail:
  "\<forall>c\<in>set cs. \<not> fails answer c \<Longrightarrow> fails answer c \<Longrightarrow> run_calls answer ds (cs @ c # rest) = (cs @ [c], 1)"
  by (induction cs arbitrary: ds) (auto simp: fails_def)

lemma calls_split:
  obtains (ok) "\<forall>c\<in>set cs. \<not> fails answer c"
  | (fail) pre c post where "cs = pre @ c # post" "\<forall>c\<in>set pre. \<not> fails answer c" "fails answer c"
proof (cases "\<exists>c\<in>set cs. fails answer c")
  case True
  then show ?thesis using split_list_first_prop [of cs "fails answer"] fail by blast
qed (use ok in blast)

lemma watcher_call_deferred [simp]:
  "map deferred_by (watcher_call NewCertWatcher w) = (case w of Some p \<Rightarrow> [[]] | None \<Rightarrow> [])"
  "map deferred_by (watcher_call AddCertWatcher w) = (case w of Some p \<Rightarrow> [[]] | None \<Rightarrow> [])"
  by (auto simp: watcher_call_def split: option.splits)

lemma watcher_call_none:
  "x \<in> set (watcher_call NewCertWatcher w) \<Longrightarrow> deferred_by x = []"
  "x \<in> set (watcher_call AddCertWatcher w) \<Longrightarrow> deferred_by x = []"
  by (auto simp: watcher_call_def split: option.splits)

lemma startup_deferred:
  "concat (rev (map deferred_by (startup_calls Getenv nsfile detected fl))) = [StopTracker, ShutdownOTel]"
  by (auto simp: startup_defs Let_def watcher_call_none split: option.splits)

lemma watcher_call_plain:
  "StopTracker \<notin> set (watcher_call NewCertWatcher w)" "ShutdownOTel \<notin> set (watcher_call NewCertWatcher w)"
  "StopTracker \<notin> set (watcher_call AddCertWatcher w)" "ShutdownOTel \<notin> set (watcher_call AddCertWatcher w)"
  by (auto simp: watcher_call_def split: option.splits)

lemma startup_no_cleanup:
  "StopTracker \<notin> set (startup_calls Getenv nsfile detected fl)"
  "ShutdownOTel \<notin> set (startup_calls Getenv nsfile detected fl)"
  by (auto simp: startup_defs Let_def watcher_call_plain)

section \<open>Properties\<close>

text \<open>
  Unless \<open>--enable-http2\<close> is given, both servers offer HTTP/1.1 only, whatever their
  configuration was before; each takes its certificate from the files of its own directory when
  one is given and is left alone otherwise; and the metrics endpoint is served over TLS exactly
  when it asks for authentication, and the ServiceMonitor then scrapes it over https.
\<close>

theorem servers_configured:
  "(\<not> fl_enableHTTP2 fl \<longrightarrow>
      NextProtos (fold apply_tls (webhookTLSOpts fl) c) = [''http/1.1''] \<and>
      NextProtos (fold apply_tls (ms_TLSOpts (metricsServerOptions fl)) c) = [''http/1.1'']) \<and>
   GetCertificate (fold apply_tls (webhookTLSOpts fl) c) =
     (case webhook_watcher fl of Some w \<Rightarrow> Some w | None \<Rightarrow> GetCertificate c) \<and>
   GetCertificate (fold apply_tls (ms_TLSOpts (metricsServerOptions fl)) c) =
     (case metrics_watcher fl of Some w \<Rightarrow> Some w | None \<Rightarrow> GetCertificate c) \<and>
   (ms_SecureServing (metricsServerOptions fl) \<longleftrightarrow> ms_Authentication (metricsServerOptions fl)) \<and>
   map ep_Scheme (sm_Endpoints (applySpec (NewCreator Getenv nsfile (monitorOptions Getenv fl)) sm)) =
     [if ms_SecureServing (metricsServerOptions fl) then ''https'' else ''http'']"
  by (auto simp: webhookTLSOpts_def metricsServerOptions_def tlsOpts_def applySpec_def NewCreator_def
      monitorOptions_def Let_def split: option.splits)

theorem servers_configured_witness:
  "NextProtos (fold apply_tls (webhookTLSOpts ((default_OperatorFlags (\<lambda>_. []) [])\<lparr>fl_webhookCertPath := ''/certs''\<rparr>))
       \<lparr>NextProtos = [''h2'', ''http/1.1''], GetCertificate = None\<rparr>) = [''http/1.1''] \<and>
   GetCertificate (fold apply_tls (webhookTLSOpts ((default_OperatorFlags (\<lambda>_. []) [])\<lparr>fl_webhookCertPath := ''/certs''\<rparr>))
       \<lparr>NextProtos = [''h2'', ''http/1.1''], GetCertificate = None\<rparr>) = Some (''/certs/tls.crt'', ''/certs/tls.key'')"
  using servers_configured [of "(default_OperatorFlags (\<lambda>_. []) [])\<lparr>fl_webhookCertPath := ''/certs''\<rparr>"
      "\<lparr>NextProtos = [''h2'', ''http/1.1''], GetCertificate = None\<rparr>"]
  by (simp add: default_OperatorFlags_def webhook_watcher_def path_Join_def path_Clean_def path_element_def Let_def)


text \<open>A start up in which the manager runs and then ends with an error.\<close>

definition lost_lease :: "main_call \<Rightarrow> go_error" where
  "lost_lease c = (if c = StartManager then Some ''leader election lost'' else None)"

abbreviation sample_flags :: OperatorFlags where
  "sample_flags \<equiv> default_OperatorFlags (\<lambda>_. []) ''agent:1''"


lemma startup_calls_last: "\<exists>pre. startup_calls Getenv nsfile detected fl = pre @ [StartManager] \<and> StartManager \<notin> set pre"
  by (auto simp: startup_defs Let_def watcher_call_def split: option.splits)



end
