(* ===== verification/Otel_Setup.thy ===== *)
theory Otel_Setup
  imports Metrics
begin

text \<open>
  The set up of OpenTelemetry: the options, resource, exporter and provider of tracing
  (\<open>pkg/tracing\<close>), and the instruments of the operator's metrics (\<open>SetupOTelMetrics\<close> in
  \<open>internal/metrics/otel.go\<close>), whose package variables decide whether \<open>RecordWebhookMutation\<close>
  and \<open>RecordReconcile\<close> record anything.  The SDK is an argument: for each constructor, whether
  it fails.
\<close>

section \<open>Tracing options\<close>

record 's tracing_options =
  to_serviceName :: string
  to_serviceVersion :: string
  to_endpoint :: string
  to_insecure :: bool
  to_useStdout :: bool
  to_sampler :: "'s option"

definition defaultOptions :: "'s tracing_options" where
  "defaultOptions = \<lparr>to_serviceName = ''unknown-service'', to_serviceVersion = [], to_endpoint = [],
     to_insecure = True, to_useStdout = False, to_sampler = None\<rparr>"

datatype 's tracing_option =
    WithServiceName string
  | WithServiceVersion string
  | WithEndpoint string
  | WithInsecure bool
  | WithStdoutExporter
  | WithSampler "'s option"

fun apply_option :: "'s tracing_option \<Rightarrow> 's tracing_options \<Rightarrow> 's tracing_options" where
  "apply_option (WithServiceName n) o' = o'\<lparr>to_serviceName := n\<rparr>"
| "apply_option (WithServiceVersion v) o' = o'\<lparr>to_serviceVersion := v\<rparr>"
| "apply_option (WithEndpoint e) o' = o'\<lparr>to_endpoint := e\<rparr>"
| "apply_option (WithInsecure b) o' = o'\<lparr>to_insecure := b\<rparr>"
| "apply_option WithStdoutExporter o' = o'\<lparr>to_useStdout := True\<rparr>"
| "apply_option (WithSampler s) o' = o'\<lparr>to_sampler := s\<rparr>"

section \<open>SetupTracing\<close>

datatype resource_option = ServiceName string | ServiceVersion string

definition buildResource :: "'s tracing_options \<Rightarrow> resource_option list" where
  "buildResource cfg =
     [ServiceName (to_serviceName cfg)] @
     (if to_serviceVersion cfg \<noteq> [] then [ServiceVersion (to_serviceVersion cfg)] else [])"

text \<open>The exporter that is created: the one for stdout, or the gRPC one with its options.\<close>

datatype grpc_option = GrpcEndpoint string | GrpcInsecure

datatype exporter_call = StdoutExporter | GrpcExporter "grpc_option list"

definition buildExporter :: "'s tracing_options \<Rightarrow> exporter_call" where
  "buildExporter cfg =
     (if to_useStdout cfg then StdoutExporter
      else GrpcExporter
        ((if to_endpoint cfg \<noteq> [] then [GrpcEndpoint (to_endpoint cfg)] else []) @
         (if to_insecure cfg then [GrpcInsecure] else [])))"

datatype 's provider_option = WithBatcher exporter_call | WithResource "resource_option list" | ProviderSampler 's

datatype setup_error = ResourceFailed string | ExporterFailed string

record tracing_sdk =
  resource_New :: "resource_option list \<Rightarrow> string option"
  exporter_New :: "exporter_call \<Rightarrow> string option"

text \<open>The options of the provider that is registered globally, or the error.\<close>

definition SetupTracing ::
  "tracing_sdk \<Rightarrow> 's tracing_option list \<Rightarrow> setup_error + 's provider_option list" where
  "SetupTracing sdk opts =
     (let cfg = fold apply_option opts defaultOptions
      in case resource_New sdk (buildResource cfg) of
        Some err \<Rightarrow> Inl (ResourceFailed err)
      | None \<Rightarrow>
          (case exporter_New sdk (buildExporter cfg) of
             Some err \<Rightarrow> Inl (ExporterFailed err)
           | None \<Rightarrow> Inr ([WithBatcher (buildExporter cfg), WithResource (buildResource cfg)] @
               (case to_sampler cfg of Some s \<Rightarrow> [ProviderSampler s] | None \<Rightarrow> []))))"

definition agent_tracing_options :: "'s tracing_option list" where
  "agent_tracing_options = [WithServiceName ''validation-agent'']"

text \<open>
  An option given later wins, and options of different kinds do not interfere: what an option
  list sets for a field is its last option of that kind, or the default.
\<close>

lemma last_option_wins:
  "to_insecure (fold apply_option (opts @ [WithInsecure b]) o') = b"
  "to_endpoint (fold apply_option (opts @ [WithEndpoint e]) o') = e"
  "to_serviceName (fold apply_option (opts @ [WithServiceName n]) o') = n"
  by simp_all

lemma insecure_default:
  "(\<forall>b. WithInsecure b \<notin> set opts) \<Longrightarrow> to_insecure (fold apply_option opts o') = to_insecure o'"
proof (induction opts arbitrary: o')
  case (Cons x xs)
  then show ?case by (cases x) auto
qed simp

text \<open>
  The agent's exporter is created with the insecure option in every case, since the option
  defaults to true and the agent does not pass \<open>WithInsecure\<close>; it is the only option.
\<close>

lemma agent_exporter_always_insecure:
  "SetupTracing sdk agent_tracing_options = Inr ps \<Longrightarrow>
     ps = [WithBatcher (GrpcExporter [GrpcInsecure]), WithResource [ServiceName ''validation-agent'']]"
  by (simp add: SetupTracing_def agent_tracing_options_def defaultOptions_def buildExporter_def buildResource_def
      Let_def split: option.splits)

section \<open>SetupOTelMetrics\<close>

text \<open>
  The package variables, by whether they are non-nil, and the global provider.  A constructor
  that fails may still return an instrument; which is \<open>sdk_value\<close>.
\<close>

record otel_globals =
  og_webhookMutations :: bool
  og_webhookDuration :: bool
  og_reconcileCount :: bool
  og_reconcileDuration :: bool
  og_provider :: bool

definition initial_globals :: otel_globals where
  "initial_globals = \<lparr>og_webhookMutations = False, og_webhookDuration = False, og_reconcileCount = False,
     og_reconcileDuration = False, og_provider = False\<rparr>"

record metrics_sdk =
  prometheus_New :: "string option"
  instrument_New :: "string \<Rightarrow> string option"
  sdk_value :: "string \<Rightarrow> bool"

definition instrument_made :: "metrics_sdk \<Rightarrow> string \<Rightarrow> bool" where
  "instrument_made sdk name = (case instrument_New sdk name of None \<Rightarrow> True | Some err \<Rightarrow> sdk_value sdk name)"

definition SetupOTelMetrics :: "metrics_sdk \<Rightarrow> otel_globals \<Rightarrow> string option \<times> otel_globals" where
  "SetupOTelMetrics sdk g =
     (case prometheus_New sdk of
        Some err \<Rightarrow> (Some err, g)
      | None \<Rightarrow>
          (let g = g\<lparr>og_provider := True\<rparr>;
               g = g\<lparr>og_webhookMutations := instrument_made sdk ''webhook.mutations''\<rparr>
           in case instrument_New sdk ''webhook.mutations'' of
             Some err \<Rightarrow> (Some err, g)
           | None \<Rightarrow>
               (let g = g\<lparr>og_webhookDuration := instrument_made sdk ''webhook.mutation.duration''\<rparr>
                in case instrument_New sdk ''webhook.mutation.duration'' of
                  Some err \<Rightarrow> (Some err, g)
                | None \<Rightarrow>
                    (let g = g\<lparr>og_reconcileCount := instrument_made sdk ''reconcile.count''\<rparr>
                     in case instrument_New sdk ''reconcile.count'' of
                       Some err \<Rightarrow> (Some err, g)
                     | None \<Rightarrow>
                         (let g = g\<lparr>og_reconcileDuration := instrument_made sdk ''reconcile.duration''\<rparr>
                          in case instrument_New sdk ''reconcile.duration'' of
                            Some err \<Rightarrow> (Some err, g)
                          | None \<Rightarrow> (None, g))))))"

text \<open>
  The guards of the recorders test one of their two instruments: after a set up without error
  both are there, before it neither, so no recorder uses a nil instrument.
\<close>

lemma SetupOTelMetrics_all:
  "SetupOTelMetrics sdk g = (None, g') \<Longrightarrow> g' = \<lparr>og_webhookMutations = True, og_webhookDuration = True,
     og_reconcileCount = True, og_reconcileDuration = True, og_provider = True\<rparr>"
  unfolding SetupOTelMetrics_def
  by (cases g; cases "prometheus_New sdk"; cases "instrument_New sdk ''webhook.mutations''";
      cases "instrument_New sdk ''webhook.mutation.duration''"; cases "instrument_New sdk ''reconcile.count''";
      cases "instrument_New sdk ''reconcile.duration''") (auto simp: instrument_made_def Let_def)

lemma recorders_guarded:
  "fst (SetupOTelMetrics sdk initial_globals) = None \<Longrightarrow>
     RecordWebhookMutation (og_webhookMutations (snd (SetupOTelMetrics sdk initial_globals))) ns result d =
       [CounterAdd WebhookMutations [ns, result] 1, HistogramObserve WebhookDuration [ns, result] d] \<and>
     og_webhookDuration (snd (SetupOTelMetrics sdk initial_globals))"
  "RecordWebhookMutation (og_webhookMutations initial_globals) ns result d = []"
  using SetupOTelMetrics_all [of sdk initial_globals]
  by (cases "SetupOTelMetrics sdk initial_globals"; simp add: RecordWebhookMutation_def initial_globals_def)+

end
