(* ===== verification/Log_Adapter.thy ===== *)
theory Log_Adapter
  imports Prelude
begin

text \<open>
  \<open>logrAdapter\<close> of \<open>internal/validation/validate.go\<close>: the logger the agent hands to the
  verification library.  The logr logger under it is represented by the pairs its \<open>WithValues\<close>
  calls have added and by whether its verbosity 1 is enabled; \<open>fmt.Sprintf\<close> is an argument.
\<close>

section \<open>The adapter\<close>

record 'v logrAdapter =
  la_values :: "(string \<times> 'v) list"
  la_debugEnabled :: bool
  la_fields :: "(string, 'v) fmap"

text \<open>What reaches the logr logger: \<open>V(n).Info\<close> or \<open>Error\<close> with a nil error, and the values.\<close>

datatype 'v log_call =
    LogInfo nat string "(string \<times> 'v) list"
  | LogError string "(string \<times> 'v) list"

datatype LogLevel = LevelDebug | LevelInfo

type_synonym 'v sprintf = "string \<Rightarrow> 'v list \<Rightarrow> string"

definition la_Debug :: "'v sprintf \<Rightarrow> 'v logrAdapter \<Rightarrow> string \<Rightarrow> 'v list \<Rightarrow> 'v log_call" where
  "la_Debug Sprintf a format args = LogInfo 1 (Sprintf format args) (la_values a)"

definition la_Debugln :: "'v logrAdapter \<Rightarrow> string \<Rightarrow> 'v log_call" where
  "la_Debugln a msg = LogInfo 1 msg (la_values a)"

definition la_Info :: "'v sprintf \<Rightarrow> 'v logrAdapter \<Rightarrow> string \<Rightarrow> 'v list \<Rightarrow> 'v log_call" where
  "la_Info Sprintf a format args = LogInfo 0 (Sprintf format args) (la_values a)"

definition la_Infoln :: "'v logrAdapter \<Rightarrow> string \<Rightarrow> 'v log_call" where
  "la_Infoln a msg = LogInfo 0 msg (la_values a)"

definition la_Warn :: "'v sprintf \<Rightarrow> 'v logrAdapter \<Rightarrow> string \<Rightarrow> 'v list \<Rightarrow> 'v log_call" where
  "la_Warn Sprintf a format args = LogInfo 0 (Sprintf (''[WARN] '' @ format) args) (la_values a)"

definition la_Warnln :: "'v logrAdapter \<Rightarrow> string \<Rightarrow> 'v log_call" where
  "la_Warnln a msg = LogInfo 0 (''[WARN] '' @ msg) (la_values a)"

definition la_Error :: "'v sprintf \<Rightarrow> 'v logrAdapter \<Rightarrow> string \<Rightarrow> 'v list \<Rightarrow> 'v log_call" where
  "la_Error Sprintf a format args = LogError (Sprintf format args) (la_values a)"

definition la_Errorln :: "'v logrAdapter \<Rightarrow> string \<Rightarrow> 'v log_call" where
  "la_Errorln a msg = LogError msg (la_values a)"

definition la_GetLevel :: "'v logrAdapter \<Rightarrow> LogLevel" where
  "la_GetLevel a = (if la_debugEnabled a then LevelDebug else LevelInfo)"

definition la_Silent :: "'v logrAdapter \<Rightarrow> bool" where
  "la_Silent a = False"

text \<open>
  \<open>WithField\<close> and \<open>WithFields\<close> copy the fields into a new map before adding to it, so an adapter
  is never changed after it has been made.
\<close>

definition WithField :: "string \<Rightarrow> 'v \<Rightarrow> 'v logrAdapter \<Rightarrow> 'v logrAdapter" where
  "WithField k v a = a\<lparr>la_values := la_values a @ [(k, v)], la_fields := fmupd k v (la_fields a)\<rparr>"

definition WithFields ::
  "(string fset \<Rightarrow> string list) \<Rightarrow> (string, 'v) fmap \<Rightarrow> 'v logrAdapter \<Rightarrow> 'v logrAdapter" where
  "WithFields ord newPairs a =
     (let step = (\<lambda>k (newFields, kvs).
            (fmupd k (the (fmlookup newPairs k)) newFields, kvs @ [(k, the (fmlookup newPairs k))]));
          (newFields, kvs) = fold step (ord (fmdom newPairs)) (la_fields a, [])
      in a\<lparr>la_values := la_values a @ kvs, la_fields := newFields\<rparr>)"

section \<open>Lemmas\<close>

lemma fold_WithField [simp]:
  "la_values (fold (\<lambda>k. WithField k (v k)) ks a) = la_values a @ map (\<lambda>k. (k, v k)) ks"
  "la_debugEnabled (fold (\<lambda>k. WithField k (v k)) ks a) = la_debugEnabled a"
  "la_fields (fold (\<lambda>k. WithField k (v k)) ks a) = fold (\<lambda>k. fmupd k (v k)) ks (la_fields a)"
  by (induction ks arbitrary: a) (simp_all add: WithField_def)

lemma fold_pair:
  "fold (\<lambda>k (newFields, kvs). (fmupd k (v k) newFields, kvs @ [(k, v k)])) ks (fs, kvs) =
     (fold (\<lambda>k. fmupd k (v k)) ks fs, kvs @ map (\<lambda>k. (k, v k)) ks)"
  by (induction ks arbitrary: fs kvs) simp_all

lemma fields_lookup:
  "fmlookup (fold (\<lambda>k. fmupd k (v k)) ks fs) k' = (if k' \<in> set ks then Some (v k') else fmlookup fs k')"
  by (induction ks arbitrary: fs) auto

text \<open>
  Adding fields together is adding them one by one in the order the map is visited; in
  whatever order, the adapter then has the new fields over the old ones.
\<close>

theorem WithFields_one_by_one:
  "WithFields ord newPairs a = fold (\<lambda>k. WithField k (the (fmlookup newPairs k))) (ord (fmdom newPairs)) a"
  by (rule logrAdapter.equality) (simp_all add: WithFields_def Let_def fold_pair)

lemma WithFields_fields:
  "range_order ord \<Longrightarrow> la_fields (WithFields ord newPairs a) = la_fields a ++\<^sub>f newPairs"
  by (rule fmap_ext) (simp add: WithFields_one_by_one fields_lookup range_orderD fmlookup_dom_iff
      split: option.splits)

end
