(* ===== verification/Machine_Stop.thy ===== *)
theory Machine_Stop
  imports Machine_Properties
begin

text \<open>
  \<open>Stop\<close>: once the queue is shut down the worker exits within a bounded number of its steps and
  \<open>Stop\<close> returns; what waits in the work queue then is not worked on.  And two ways in which the
  interplay of the goroutines goes wrong.
\<close>

section \<open>The end of the worker\<close>

fun worker_label :: "m_label \<Rightarrow> bool" where
  "worker_label MSelect = True" | "worker_label (MGet k) = True" | "worker_label MGetShutdown = True"
| "worker_label (MRead got) = True" | "worker_label (MUpdate E) = True" | "worker_label MConclude = True"
| "worker_label MDone = True" | "worker_label _ = False"

fun exit_left :: "worker_pc \<Rightarrow> nat" where
  "exit_left WGet = 7" | "exit_left (WTaken k) = 6" | "exit_left (WRead k got) = 5"
| "exit_left (WUpdated k failed) = 4" | "exit_left (WConcluded k) = 3" | "exit_left WSelect = 1"
| "exit_left WExited = 0"

lemma joining_step:
  assumes "m_step W F m l m'" "mc_stop m = StopJoining \<or> mc_stop m = StopReturned" "mc_stopCh m"
  shows "(mc_stop m' = StopJoining \<or> mc_stop m' = StopReturned) \<and> mc_stopCh m' \<and>
    (if worker_label l then 1 else 0) + exit_left (mc_worker m') \<le> exit_left (mc_worker m)"
  using assms by (cases rule: m_step.cases) (auto simp: queue_add_def change_object_def)

lemma joining_run:
  "m_run W F m ls m' \<Longrightarrow> mc_stop m = StopJoining \<or> mc_stop m = StopReturned \<Longrightarrow> mc_stopCh m \<Longrightarrow>
     (mc_stop m' = StopJoining \<or> mc_stop m' = StopReturned) \<and> mc_stopCh m' \<and>
     length (filter worker_label ls) + exit_left (mc_worker m') \<le> exit_left (mc_worker m)"
proof (induction rule: m_run.induct)
  case (m_run_step m l m' ls m'')
  from joining_step [OF m_run_step.hyps(1) m_run_step.prems] m_run_step.IH
  show ?case by (auto split: if_splits)
qed simp

lemma joining_progress:
  assumes "mc_stop m = StopJoining" "mc_stopCh m" "wq_shutting_down W (dq_queue (mc_queue m))"
    "mc_worker m \<noteq> WExited"
  shows "\<exists>l m'. worker_label l \<and> m_step W F m l m'"
proof (cases "mc_worker m")
  case WGet
  then show ?thesis
  proof (cases "dq_Get W (mc_queue m)")
    case None
    then show ?thesis
      using m_get_shutdown [OF WGet None assms(3), of F] by (intro exI [of _ MGetShutdown]) auto
  next
    case (Some p)
    obtain k q where p: "p = (k, q)" by (cases p)
    then show ?thesis using m_get [OF WGet Some [unfolded p], of F] by (intro exI [of _ "MGet k"]) auto
  qed
next
  case WSelect
  then show ?thesis using m_select [OF WSelect, of W F] by (intro exI [of _ MSelect]) auto
next
  case (WTaken k)
  then show ?thesis using m_read [OF WTaken, of W F] by (intro exI [of _ "MRead (Inl NotFound)"]) auto
next
  case (WRead k got)
  then show ?thesis using m_update [OF WRead, of W F] by (intro exI [of _ "MUpdate sample_env"]) auto
next
  case (WUpdated k failed)
  then show ?thesis using m_conclude [OF WUpdated, of W F] by (intro exI [of _ MConclude]) auto
next
  case (WConcluded k)
  then show ?thesis using m_done [OF WConcluded, of W F] by (intro exI [of _ MDone]) auto
qed (use assms(4) in simp)

text \<open>
  C18: \<open>Stop\<close> returns: once it has shut the queue down, the worker takes at most seven more steps,
  whatever else runs in between, and has a step to take until it has exited; then \<open>Stop\<close> can
  return.
\<close>

theorem stop_returns:
  assumes "machine_wf W m" "mc_stop m = StopJoining" "m_run W F m ls m'" "along W F env_ok m ls" "workqueue W"
  shows "length (filter worker_label ls) \<le> 7 \<and>
    (mc_stop m' = StopReturned \<or>
     (if mc_worker m' = WExited then m_step W F m' MStopReturn (m'\<lparr>mc_stop := StopReturned\<rparr>)
      else \<exists>l m''. worker_label l \<and> m_step W F m' l m''))"
proof -
  have ch: "mc_stopCh m" using assms(1,2) by (simp add: machine_wf_def)
  note joined = joining_run [OF assms(3) disjI1 [OF assms(2)] ch]
  have "machine_wf W m'" by (rule workqueue.machine_run_wf [OF assms(5,3,4,1)])
  then have shut: "mc_stop m' = StopJoining \<Longrightarrow> wq_shutting_down W (dq_queue (mc_queue m'))"
    by (simp add: machine_wf_def)
  have "exit_left (mc_worker m) \<le> 7" by (cases "mc_worker m") simp_all
  with joined have "length (filter worker_label ls) \<le> 7" by simp
  with joined joining_progress [OF _ _ shut, of F] m_stop_return [of m' W F] show ?thesis by auto
qed

definition stopping_machine :: "RefQueue Machine" where
  "stopping_machine = sample_machine\<lparr>mc_queue := dq_ShutDown ref_queue (mc_queue sample_machine),
     mc_stopCh := True, mc_stop := StopJoining\<rparr>"

lemma stopping_machine_wf: "machine_wf ref_queue stopping_machine"
  using sample_machine_wf dq_step_wf [OF step_shutdown [of ref_queue "mc_queue sample_machine"]]
  by (simp add: machine_wf_def stopping_machine_def dq_ShutDown_def rq.shut)

theorem stop_returns_witness:
  "\<exists>m. m_run ref_queue list_finalizers stopping_machine [MSelect] m \<and> mc_worker m = WExited \<and>
     m_step ref_queue list_finalizers m MStopReturn (m\<lparr>mc_stop := StopReturned\<rparr>)"
proof -
  obtain m where r: "m_run ref_queue list_finalizers stopping_machine [MSelect] m"
    and m: "mc_worker m = WExited" "mc_stop m = StopJoining"
    by (simp add: m_run_exec stopping_machine_def sample_machine_def start_machine_def)
  have "along ref_queue list_finalizers env_ok stopping_machine [MSelect]"
    by (simp add: env_ok_def split: option.splits)
  from stop_returns [OF stopping_machine_wf _ r this ref_workqueue] r m show ?thesis
    by (auto simp: stopping_machine_def)
qed

section \<open>What Stop leaves behind\<close>

text \<open>
  C28: \<open>Stop\<close> does not wait for the updates that are in the work queue: when the timers have all
  fired while the worker is about to look at the stop channel, \<open>Stop\<close> can run to its end with
  every item still in the queue, the tracker and the statuses as they were.
\<close>

theorem stop_drops_queued:
  assumes "mc_worker m = WSelect" "mc_stop m = NotStopped" "WaitForUpdates_returns (mc_queue m)" "workqueue W"
  shows "\<exists>ls m'. m_run W F m ls m' \<and> mc_stop m' = StopReturned \<and> mc_worker m' = WExited \<and>
    wq_pending W (dq_queue (mc_queue m')) = wq_pending W (dq_queue (mc_queue m)) \<and>
    mc_tracker m' = mc_tracker m \<and> mc_status m' = mc_status m"
proof -
  have "\<exists>m'. m_run W F m [MStop, MStopWaited, MStopClose, MSelect, MStopShutDown, MStopReturn] m' \<and>
    mc_stop m' = StopReturned \<and> mc_worker m' = WExited \<and>
    dq_queue (mc_queue m') = wq_ShutDown W (dq_queue (mc_queue m)) \<and>
    mc_tracker m' = mc_tracker m \<and> mc_status m' = mc_status m"
    using assms(1-3) by (simp add: m_run_exec dq_ShutDown_def)
  then show ?thesis using workqueue.shut(2) [OF assms(4)] by metis
qed

definition queued_machine :: "RefQueue Machine" where
  "queued_machine = sample_machine\<lparr>mc_adding := [],
     mc_queue := NewDebouncedQueue (ref_add sample_key ref_empty)\<rparr>"

theorem stop_drops_queued_witness:
  "\<exists>ls m. m_run ref_queue list_finalizers queued_machine ls m \<and> mc_stop m = StopReturned \<and>
     sample_key |\<in>| wq_pending ref_queue (dq_queue (mc_queue m)) \<and>
     fmlookup (mc_status m) sample_key = Some (mv_Status sample_mv)"
proof -
  have q: "mc_worker queued_machine = WSelect" "mc_stop queued_machine = NotStopped"
    "WaitForUpdates_returns (mc_queue queued_machine)"
    "sample_key |\<in>| wq_pending ref_queue (dq_queue (mc_queue queued_machine))"
    "fmlookup (mc_status queued_machine) sample_key = Some (mv_Status sample_mv)"
    by (simp_all add: queued_machine_def sample_machine_def start_machine_def WaitForUpdates_returns_def
        NewDebouncedQueue_def ref_queue_def ref_add_def ref_empty_def fset_of_list_elem)
  from stop_drops_queued [OF q(1-3) ref_workqueue, of list_finalizers] q(4,5) show ?thesis by metis
qed

section \<open>A late answer\<close>

text \<open>
  C32: an answer that is out of date drops a resource that is tracked again: when the worker has
  been told that the object does not exist and the object is created and reconciled before the
  worker takes the lock, the worker then deletes the fresh entry, while the namespace's counter
  keeps the resource, and no further update of it is written.
\<close>

theorem late_not_found_untracks:
  assumes "mc_worker m = WRead (mv_key mv) (Inl NotFound)" "tracked_info m (mv_key mv) = None"
  shows "\<exists>m'. m_run W F m [MOp (AddMV ord mv) True, MUpdate E] m' \<and>
    \<not> IsModelValidationTracked (mv_key mv) (mc_tracker m') \<and>
    ns_count (mc_tracker m') (nn_Namespace (mv_key mv)) =
      ns_count (mc_tracker m) (nn_Namespace (mv_key mv)) + 1 \<and>
    (\<forall>E' mv'. fst (snd (doUpdateStatus E' (mv_key mv) (Inr mv') (mc_tracker m'))) = None)"
  using assms
  by (simp add: m_run_exec update_status_def doUpdateStatus_def AddModelValidation_new
      IsModelValidationTracked_def ns_count_def)

definition late_machine :: "RefQueue Machine" where
  "late_machine = (start_machine ref_empty fmempty)\<lparr>mc_worker := WRead sample_key (Inl NotFound)\<rparr>"

theorem late_not_found_untracks_witness:
  "\<exists>m. m_run ref_queue list_finalizers late_machine
       [MOp (AddMV sorted_list_of_fset sample_mv) True, MUpdate sample_env] m \<and>
     \<not> IsModelValidationTracked sample_key (mc_tracker m) \<and> ns_count (mc_tracker m) ''prod'' = 1"
proof -
  have m: "mc_worker late_machine = WRead (mv_key sample_mv) (Inl NotFound)"
    "tracked_info late_machine (mv_key sample_mv) = None" "ns_count (mc_tracker late_machine) ''prod'' = 0"
    by (simp_all add: late_machine_def start_machine_def) (simp add: ns_count_def NewStatusTracker_def)
  from late_not_found_untracks [OF m(1,2), of ref_queue list_finalizers sorted_list_of_fset sample_env] m(3)
  show ?thesis by auto
qed

section \<open>Pods of one name\<close>

definition listed_pairs :: "update_env \<Rightarrow> pods \<Rightarrow> (string \<times> string) list" where
  "listed_pairs E pods = map (\<lambda>p. (pti_Name p, pti_UID p)) (tracked_list (ue_range E) pods)"


definition tied_tracker :: StatusTrackerImpl where
  "tied_tracker = fst (exec_op list_finalizers
     (PodEvent (Some (sample_pod ''web'' ''u2'' [ModelValidationFinalizer]))) sample_tracker)"

definition tied_info :: ModelValidationInfo where
  "tied_info = sample_info\<lparr>mvi_InjectedPods := fmupd ''u2''
     (pod_info (sample_pod ''web'' ''u2'' [ModelValidationFinalizer])) (mvi_InjectedPods sample_info)\<rparr>"

lemma tied_tracker_info: "fmlookup (modelValidations tied_tracker) sample_key = Some tied_info"
proof -
  have "fst (file_pod True (pod_info (sample_pod ''web'' ''u2'' [ModelValidationFinalizer])) sample_info) = tied_info"
    by (simp add: file_pod_defs config_differs_def tied_info_def sample_info_def)
      (simp add: NewModelValidationInfo_def RemovePod_def)
  then show ?thesis
    by (simp add: tied_tracker_def ProcessPodEvent_def processPodEventCommon_alt list_finalizers_def Let_def)
qed

definition reversed_env :: update_env where
  "reversed_env = sample_env\<lparr>ue_range := rev \<circ> sorted_list_of_fset\<rparr>"

lemma two_uids: "sorted_list_of_fset {|''u2'', ''u1''|} = [''u1'', ''u2'']"
  by code_simp

lemma tied_listed:
  "listed_pairs sample_env (mvi_InjectedPods tied_info) \<noteq> listed_pairs reversed_env (mvi_InjectedPods tied_info)"
  by (simp add: listed_pairs_def tied_info_def sample_info_def sample_env_def reversed_env_def tracked_list_def
      collectPodTrackingInfo_def range_values_def two_uids name_less_def)


end
