(* ===== verification/Mock_Tracker.thy ===== *)
theory Mock_Tracker
  imports Controllers Tracker_Properties
begin

text \<open>
  \<open>internal/tracker/mock.go\<close>: the double of the status tracker that the tests of the controllers
  use.  It records the calls and answers with errors set beforehand.  It is a second instance of
  the contract the ModelValidation reconciler relies on, and shows which calls a reconcile makes.
\<close>

section \<open>State and methods\<close>

text \<open>The context of a recorded pod event is not kept.\<close>

record MockStatusTracker =
  AddModelValidationCalls :: "ModelValidation list"
  RemoveModelValidationCalls :: "NamespacedName list"
  ProcessPodEventCalls :: "Pod option list"
  RemovePodEventCalls :: "string list"
  RemovePodByNameCalls :: "NamespacedName list"
  StopCalls :: int
  ProcessPodEventError :: go_error
  RemovePodEventError :: go_error
  RemovePodByNameError :: go_error
  TrackedModelValidations :: "(NamespacedName, bool) fmap"

definition NewMockStatusTracker :: MockStatusTracker where
  "NewMockStatusTracker =
     \<lparr>AddModelValidationCalls = [], RemoveModelValidationCalls = [], ProcessPodEventCalls = [],
      RemovePodEventCalls = [], RemovePodByNameCalls = [], StopCalls = 0, ProcessPodEventError = None,
      RemovePodEventError = None, RemovePodByNameError = None, TrackedModelValidations = fmempty\<rparr>"

definition mock_AddModelValidation :: "ModelValidation \<Rightarrow> MockStatusTracker \<Rightarrow> MockStatusTracker" where
  "mock_AddModelValidation mv m =
     m\<lparr>AddModelValidationCalls := AddModelValidationCalls m @ [mv],
       TrackedModelValidations := fmupd (nn (om_Namespace (mv_Meta mv)) (om_Name (mv_Meta mv))) True
         (TrackedModelValidations m)\<rparr>"

definition mock_RemoveModelValidation :: "NamespacedName \<Rightarrow> MockStatusTracker \<Rightarrow> MockStatusTracker" where
  "mock_RemoveModelValidation mvKey m =
     m\<lparr>RemoveModelValidationCalls := RemoveModelValidationCalls m @ [mvKey],
       TrackedModelValidations := fmdrop mvKey (TrackedModelValidations m)\<rparr>"

definition mock_ProcessPodEvent :: "Pod option \<Rightarrow> MockStatusTracker \<Rightarrow> go_error \<times> MockStatusTracker" where
  "mock_ProcessPodEvent pod m =
     (ProcessPodEventError m, m\<lparr>ProcessPodEventCalls := ProcessPodEventCalls m @ [pod]\<rparr>)"

definition mock_RemovePodEvent :: "string \<Rightarrow> MockStatusTracker \<Rightarrow> go_error \<times> MockStatusTracker" where
  "mock_RemovePodEvent podUID m =
     (RemovePodEventError m, m\<lparr>RemovePodEventCalls := RemovePodEventCalls m @ [podUID]\<rparr>)"

definition mock_RemovePodByName :: "NamespacedName \<Rightarrow> MockStatusTracker \<Rightarrow> go_error \<times> MockStatusTracker" where
  "mock_RemovePodByName podName m =
     (RemovePodByNameError m, m\<lparr>RemovePodByNameCalls := RemovePodByNameCalls m @ [podName]\<rparr>)"

definition mock_Stop :: "MockStatusTracker \<Rightarrow> MockStatusTracker" where
  "mock_Stop m = m\<lparr>StopCalls := StopCalls m + 1\<rparr>"

definition mock_Reset :: "MockStatusTracker \<Rightarrow> MockStatusTracker" where
  "mock_Reset m =
     m\<lparr>AddModelValidationCalls := [], RemoveModelValidationCalls := [], ProcessPodEventCalls := [],
       RemovePodEventCalls := [], RemovePodByNameCalls := [], StopCalls := 0,
       ProcessPodEventError := None, RemovePodEventError := None, RemovePodByNameError := None,
       TrackedModelValidations := fmempty\<rparr>"

text \<open>
  The getters return copies: \<open>make\<close> of the length, filled by \<open>copy\<close>, which stops at the shorter of
  the two slices.
\<close>

definition go_copy :: "'a list \<Rightarrow> 'a list \<Rightarrow> 'a list" where
  "go_copy dst src = take (length dst) src @ drop (length src) dst"

definition copied :: "'a list \<Rightarrow> 'a list" where
  "copied calls = go_copy (replicate (length calls) undefined) calls"

definition GetAddModelValidationCalls :: "MockStatusTracker \<Rightarrow> ModelValidation list" where
  "GetAddModelValidationCalls m = copied (AddModelValidationCalls m)"

definition GetRemoveModelValidationCalls :: "MockStatusTracker \<Rightarrow> NamespacedName list" where
  "GetRemoveModelValidationCalls m = copied (RemoveModelValidationCalls m)"

definition GetProcessPodEventCalls :: "MockStatusTracker \<Rightarrow> Pod option list" where
  "GetProcessPodEventCalls m = copied (ProcessPodEventCalls m)"

definition GetRemovePodEventCalls :: "MockStatusTracker \<Rightarrow> string list" where
  "GetRemovePodEventCalls m = copied (RemovePodEventCalls m)"

definition GetRemovePodByNameCalls :: "MockStatusTracker \<Rightarrow> NamespacedName list" where
  "GetRemovePodByNameCalls m = copied (RemovePodByNameCalls m)"

definition GetStopCalls :: "MockStatusTracker \<Rightarrow> int" where
  "GetStopCalls m = StopCalls m"

definition mock_IsModelValidationTracked :: "NamespacedName \<Rightarrow> MockStatusTracker \<Rightarrow> bool" where
  "mock_IsModelValidationTracked mvKey m =
     (case fmlookup (TrackedModelValidations m) mvKey of Some b \<Rightarrow> b | None \<Rightarrow> False)"

lemma copied_eq [simp]: "copied calls = calls"
  by (simp add: copied_def go_copy_def)

lemma mock_Reset_new: "mock_Reset m = NewMockStatusTracker"
  by (simp add: mock_Reset_def NewMockStatusTracker_def)

section \<open>The mock behind the interface\<close>

definition mock_impl :: "MockStatusTracker StatusTracker" where
  "mock_impl =
     \<lparr>ProcessPodEvent_op = mock_ProcessPodEvent, RemovePodEvent_op = mock_RemovePodEvent,
      RemovePodByName_op = mock_RemovePodByName, AddModelValidation_op = mock_AddModelValidation,
      RemoveModelValidation_op = mock_RemoveModelValidation\<rparr>"

lemmas mock_defs = mock_impl_def mock_AddModelValidation_def mock_RemoveModelValidation_def
  mock_ProcessPodEvent_def mock_RemovePodEvent_def mock_RemovePodByName_def

interpretation mock: mv_tracking mock_impl "\<lambda>m. True" "\<lambda>m k. mock_IsModelValidationTracked k m"
  by unfold_locales (auto simp: mock_defs mock_IsModelValidationTracked_def mv_key_def)

text \<open>
  C27: the double stands in for the tracker: after any sequence of reconciles of ModelValidations,
  whatever their reads returned, the two track the same resources when they did so before, and
  these are the resources that were last seen to exist and not to be deleted.
\<close>

theorem mock_agrees_with_tracker:
  assumes "range_order ord" "range_order nord" "impl_inv s" "list_all request_ok rs"
    and "{k. mock_IsModelValidationTracked k m} = {k. impl_tracks s k}"
  shows "{k. mock_IsModelValidationTracked k (modelvalidation_reconciles mock_impl rs m)} =
      {k. impl_tracks (modelvalidation_reconciles (tracker_impl F ord nord) rs s) k} \<and>
    {k. impl_tracks (modelvalidation_reconciles (tracker_impl F ord nord) rs s) k} =
      fold tracked_after rs {k. impl_tracks s k}"
proof -
  have real: "mv_tracking (tracker_impl F ord nord) impl_inv impl_tracks"
    using impl_laws [OF assms(1,2)] by (rule status_tracker.axioms(1))
  show ?thesis
    using mv_tracking.reconciles_tracked_after [OF real assms(3,4)] mock.reconciles_tracked_after [OF _ assms(4), of m]
      assms(5) by simp
qed

theorem mock_agrees_with_tracker_witness:
  "{k. mock_IsModelValidationTracked k (modelvalidation_reconciles mock_impl
        [(sample_key, Inr sample_mv), (sample_key, Inl NotFound), (sample_key, Inr sample_mv)] NewMockStatusTracker)} =
     {sample_key}"
proof -
  let ?rs = "[(sample_key, Inr sample_mv), (sample_key, Inl NotFound), (sample_key, Inr sample_mv)]"
  have "range_order (\<lambda>A. sorted_list_of_fset A)" "impl_inv (NewStatusTracker, [])" "list_all request_ok ?rs"
    by (simp_all add: impl_inv_def tracker_wf_def info.new_tracker request_ok_def)
  moreover have "{k. mock_IsModelValidationTracked k NewMockStatusTracker} = {k. impl_tracks (NewStatusTracker, []) k}"
    by (simp add: mock_IsModelValidationTracked_def NewMockStatusTracker_def impl_tracks_def IsModelValidationTracked_def)
  moreover have "fold tracked_after ?rs {k. impl_tracks (NewStatusTracker, []) k} = {sample_key}"
    by (simp add: tracked_after_def impl_tracks_def IsModelValidationTracked_def sample_mv_def sample_meta_def)
  ultimately show ?thesis
    using mock_agrees_with_tracker [of sorted_list_of_fset sorted_list_of_fset "(NewStatusTracker, [])" ?rs
      NewMockStatusTracker list_finalizers] by simp
qed

section \<open>Which calls a reconcile makes\<close>

datatype tracker_call =
    CallPodEvent Pod
  | CallPodGone string
  | CallPodNameGone NamespacedName

text \<open>The calls recorded between two states of the mock.\<close>

definition pod_calls :: "MockStatusTracker \<Rightarrow> MockStatusTracker \<Rightarrow> tracker_call list" where
  "pod_calls m m' =
     map (\<lambda>p. CallPodEvent (the p)) (drop (length (ProcessPodEventCalls m)) (ProcessPodEventCalls m')) @
     map CallPodGone (drop (length (RemovePodEventCalls m)) (RemovePodEventCalls m')) @
     map CallPodNameGone (drop (length (RemovePodByNameCalls m)) (RemovePodByNameCalls m'))"

text \<open>The call a reconcile should make, if any; an unlabelled pod is forgotten only after its finalizer is gone.\<close>

definition expected_call ::
  "finalizer_lib \<Rightarrow> (Pod \<Rightarrow> client_error option) \<Rightarrow> NamespacedName \<Rightarrow> Pod client_result \<Rightarrow> tracker_call option" where
  "expected_call F update req got =
     (case got of
        Inl err \<Rightarrow> if err = NotFound then Some (CallPodNameGone req) else None
      | Inr pod \<Rightarrow>
          if om_DeletionTimestamp (pod_Meta pod) \<noteq> None then Some (CallPodGone (pod_UID pod))
          else if validation_label pod \<noteq> None then Some (CallPodEvent pod)
          else if fst (remove_finalizer F update pod) = None then Some (CallPodNameGone req) else None)"

definition mock_answer :: "MockStatusTracker \<Rightarrow> tracker_call \<Rightarrow> go_error" where
  "mock_answer m c =
     (case c of CallPodEvent pod \<Rightarrow> ProcessPodEventError m | CallPodGone uid \<Rightarrow> RemovePodEventError m
      | CallPodNameGone name \<Rightarrow> RemovePodByNameError m)"

text \<open>
  A reconcile of a pod makes at most one call on the tracker, the one its pod calls for, with
  the pod, the UID or the name of the request; an error of that call is the error the reconcile
  returns, and when the pod is being deleted its finalizer then stays.
\<close>

theorem pod_reconcile_calls:
  assumes "pod_reconcile mock_impl F update req got m = (err, written, m')"
  shows "pod_calls m m' = (case expected_call F update req got of Some c \<Rightarrow> [c] | None \<Rightarrow> []) \<and>
    (\<forall>c e. expected_call F update req got = Some c \<and> mock_answer m c = Some e \<longrightarrow>
       err = Some (TrackerFailed e) \<and>
       (\<forall>pod. got = Inr pod \<and> om_DeletionTimestamp (pod_Meta pod) \<noteq> None \<longrightarrow> written = None))"
proof (cases got)
  case (Inl e)
  with assms show ?thesis
    by (cases e) (auto simp: pod_reconcile_def mock_defs pod_calls_def expected_call_def mock_answer_def)
next
  case (Inr pod)
  with assms show ?thesis
    by (cases "remove_finalizer F update pod")
      (auto simp: pod_reconcile_def mock_defs pod_calls_def expected_call_def mock_answer_def
        split: option.splits if_splits)
qed

definition failing_mock :: MockStatusTracker where
  "failing_mock = NewMockStatusTracker\<lparr>ProcessPodEventError := Some ''boom''\<rparr>"

theorem pod_reconcile_calls_witness:
  "pod_calls failing_mock (snd (snd (pod_reconcile mock_impl list_finalizers (\<lambda>p. None) (nn ''prod'' ''web'')
       (Inr (sample_pod ''web'' ''u1'' [])) failing_mock))) = [CallPodEvent (sample_pod ''web'' ''u1'' [])] \<and>
   fst (pod_reconcile mock_impl list_finalizers (\<lambda>p. None) (nn ''prod'' ''web'')
       (Inr (sample_pod ''web'' ''u1'' [])) failing_mock) = Some (TrackerFailed ''boom'')"
proof -
  let ?got = "Inr (sample_pod ''web'' ''u1'' [])"
  let ?r = "pod_reconcile mock_impl list_finalizers (\<lambda>p. None) (nn ''prod'' ''web'') ?got failing_mock"
  obtain err written m' where r: "?r = (err, written, m')" by (cases ?r) auto
  have "expected_call list_finalizers (\<lambda>p. None) (nn ''prod'' ''web'') ?got = Some (CallPodEvent (sample_pod ''web'' ''u1'' []))"
    by (simp add: expected_call_def) (simp add: sample_pod_def sample_meta_def)
  with pod_reconcile_calls [OF r] r show ?thesis
    by (simp add: mock_answer_def failing_mock_def)
qed

end
