(* ===== verification/Durations.thy ===== *)
theory Durations
  imports Agent "HOL-Library.Word"
begin

text \<open>
  Go's \<open>time.ParseDuration\<close> as the \<open>flag\<close> package applies it to \<open>--interval\<close>, on 64-bit words
  with the bounds checks of the library, and the intervals the CRD lets through
  (\<open>ContinuousValidation.Interval\<close>): that they are read without wrap-around, as the sum of
  their components.  The product of a decimal fraction with its unit is computed in floating
  point and is an argument.
\<close>

section \<open>time.ParseDuration\<close>

text \<open>\<open>1<<63\<close>, the bound of the library's checks.\<close>

definition max_abs :: "64 word" where
  "max_abs = 2 ^ 63"

definition digit_word :: "char \<Rightarrow> 64 word" where
  "digit_word c = of_nat (of_char c) - 48"

fun leadingInt :: "64 word \<Rightarrow> string \<Rightarrow> (64 word \<times> string) option" where
  "leadingInt x [] = Some (x, [])"
| "leadingInt x (c # cs) =
     (if \<not> is_digit c then Some (x, c # cs)
      else if x > max_abs div 10 then None
      else
        (let y = x * 10 + digit_word c
         in if y > max_abs then None else leadingInt y cs))"

text \<open>The digits of a fraction, their number (the exponent of \<open>scale\<close>), and the rest.\<close>

fun leadingFraction :: "64 word \<Rightarrow> nat \<Rightarrow> bool \<Rightarrow> string \<Rightarrow> 64 word \<times> nat \<times> string" where
  "leadingFraction x scale overflow [] = (x, scale, [])"
| "leadingFraction x scale overflow (c # cs) =
     (if \<not> is_digit c then (x, scale, c # cs)
      else if overflow then leadingFraction x scale overflow cs
      else if x > (max_abs - 1) div 10 then leadingFraction x scale True cs
      else
        (let y = x * 10 + digit_word c
         in if y > max_abs then leadingFraction x scale True cs
            else leadingFraction y (Suc scale) overflow cs))"

definition unitMap :: "string \<Rightarrow> 64 word option" where
  "unitMap u =
     (if u = ''ns'' then Some 1
      else if u = ''us'' \<or> u = [CHR 0xC2, CHR 0xB5, CHR ''s''] \<or> u = [CHR 0xCE, CHR 0xBC, CHR ''s''] then Some 1000
      else if u = ''ms'' then Some 1000000
      else if u = ''s'' then Some 1000000000
      else if u = ''m'' then Some 60000000000
      else if u = ''h'' then Some 3600000000000
      else None)"

definition unit_char :: "char \<Rightarrow> bool" where
  "unit_char c \<longleftrightarrow> c \<noteq> CHR ''.'' \<and> \<not> is_digit c"

text \<open>
  One component: the digits, an optional fraction, the unit.  \<open>fr f scale unit\<close> is
  \<open>uint64(float64(f) * (float64(unit) / 10^scale))\<close>.
\<close>

type_synonym float_product = "64 word \<Rightarrow> nat \<Rightarrow> 64 word \<Rightarrow> 64 word"

definition duration_part :: "float_product \<Rightarrow> string \<Rightarrow> (64 word \<times> string) option" where
  "duration_part fr s =
     (case s of
        [] \<Rightarrow> None
      | c # cs \<Rightarrow>
          if \<not> (c = CHR ''.'' \<or> is_digit c) then None
          else
            (case leadingInt 0 s of
               None \<Rightarrow> None
             | Some (v, s1) \<Rightarrow>
                 (let pre = (length s1 \<noteq> length s);
                      (f, scale, s2, post) =
                        (case s1 of
                           d # t \<Rightarrow>
                             if d = CHR ''.''
                             then (case leadingFraction 0 0 False t of (f, scale, s2) \<Rightarrow>
                                     (f, scale, s2, length s2 \<noteq> length t))
                             else (0, 0, s1, False)
                         | [] \<Rightarrow> (0, 0, s1, False));
                      u = takeWhile unit_char s2;
                      rest = dropWhile unit_char s2
                  in if \<not> pre \<and> \<not> post then None
                     else if u = [] then None
                     else case unitMap u of
                       None \<Rightarrow> None
                     | Some unit \<Rightarrow>
                         if v > max_abs div unit then None
                         else if f > 0 \<and> v * unit + fr f scale unit > max_abs then None
                         else Some (if f > 0 then v * unit + fr f scale unit else v * unit, rest))))"

lemma leadingInt_length: "leadingInt x s = Some (v, s') \<Longrightarrow> length s' \<le> length s"
  by (induction x s rule: leadingInt.induct) (auto simp: Let_def split: if_splits)

lemma leadingFraction_length: "leadingFraction x n b s = (v, k, s') \<Longrightarrow> length s' \<le> length s"
  by (induction x n b s rule: leadingFraction.induct) (auto simp: Let_def split: if_splits)

lemma dropWhile_shorter: "takeWhile P xs \<noteq> [] \<Longrightarrow> length (dropWhile P xs) < length xs"
  by (metis length_greater_0_conv length_append less_add_same_cancel2 takeWhile_dropWhile_id)

lemma duration_part_length: "duration_part fr s = Some (v, s') \<Longrightarrow> length s' < length s"
  by (auto simp: duration_part_def Let_def split: list.splits option.splits if_splits prod.splits
      dest!: leadingInt_length leadingFraction_length dropWhile_shorter
      intro!: le_imp_less_Suc intro: le_trans [OF length_dropWhile_le])

text \<open>The loop over the components: \<open>d\<close> is the sum so far, in a 64-bit word.\<close>

function duration_loop :: "float_product \<Rightarrow> 64 word \<Rightarrow> string \<Rightarrow> 64 word option" where
  "duration_loop fr d s =
     (if s = [] then Some d
      else case duration_part fr s of
        None \<Rightarrow> None
      | Some (v, s') \<Rightarrow> if d + v > max_abs then None else duration_loop fr (d + v) s')"
  by pat_completeness auto
termination
  by (relation "measure (\<lambda>(fr, d, s). length s)") (auto dest: duration_part_length)

declare duration_loop.simps [simp del]

text \<open>The result is the \<open>int64\<close> of nanoseconds, read as an integer.\<close>

definition go_ParseDuration :: "float_product \<Rightarrow> string \<Rightarrow> int option" where
  "go_ParseDuration fr orig =
     (let (neg, s) = (case orig of
            c # cs \<Rightarrow> if c = CHR ''-'' then (True, cs) else if c = CHR ''+'' then (False, cs) else (False, orig)
          | [] \<Rightarrow> (False, orig))
      in if s = ''0'' then Some 0
         else if s = [] then None
         else case duration_loop fr 0 s of
           None \<Rightarrow> None
         | Some d \<Rightarrow> if neg then Some (sint (- d)) else if d > max_abs - 1 then None else Some (sint d))"

section \<open>Exactness\<close>

text \<open>The value of a string of digits, and a component written as its digits and its unit.\<close>

fun digits_nat :: "nat \<Rightarrow> string \<Rightarrow> nat" where
  "digits_nat acc [] = acc"
| "digits_nat acc (c # cs) = digits_nat (10 * acc + (of_char c - 48)) cs"

lemma digits_nat_ge: "acc \<le> digits_nat acc ds"
  by (induction acc ds rule: digits_nat.induct) auto

lemma uint_max_abs [simp]: "unat max_abs = 2 ^ 63"
  by (simp add: max_abs_def)

lemma leadingInt_exact:
  assumes "list_all is_digit ds" "rest = [] \<or> \<not> is_digit (hd rest)" "unat x \<le> 2 ^ 63"
  shows "leadingInt x (ds @ rest) =
    (if digits_nat (unat x) ds \<le> 2 ^ 63 then Some (of_nat (digits_nat (unat x) ds), rest) else None)"
  using assms
proof (induction ds arbitrary: x)
  case Nil
  then show ?case by (cases rest) auto
next
  case (Cons c cs)
  define n where "n = (of_char c :: nat) - 48"
  have c: "is_digit c" "n \<le> 9" using Cons.prems(1) by (auto simp: is_digit_def n_def)
  have dw: "digit_word c = of_nat n" using c(1) by (simp add: digit_word_def n_def is_digit_def of_nat_diff)
  have cut: "x > max_abs div 10 \<longleftrightarrow> 2 ^ 63 div 10 < unat x"
    by (simp add: word_less_nat_alt unat_div)
  show ?case
  proof (cases "2 ^ 63 div 10 < unat x")
    case True
    then have "2 ^ 63 < 10 * unat x + n" by simp
    also have "\<dots> \<le> digits_nat (10 * unat x + n) cs" by (rule digits_nat_ge)
    finally show ?thesis using c(1) cut True by (simp add: n_def)
  next
    case False
    then have "10 * unat x + n < 2 ^ 64" using c(2) by simp
    moreover have "unat (of_nat n :: 64 word) = n" using c(2) by (simp add: unat_of_nat)
    ultimately have y: "unat (x * 10 + digit_word c) = 10 * unat x + n"
      by (simp add: dw unat_word_ariths)
    show ?thesis
      using c(1) cut False Cons.IH [of "x * 10 + digit_word c"] Cons.prems y digits_nat_ge [of "10 * unat x + n" cs]
      by (auto simp: Let_def word_less_nat_alt n_def)
  qed
qed

text \<open>
  The intervals of the CRD's pattern without decimal fractions: one or more components, each of
  digits and the unit \<open>m\<close> or \<open>h\<close>, and what they add up to in nanoseconds.
\<close>

type_synonym interval = "(string \<times> string) list"

definition crd_part :: "string \<times> string \<Rightarrow> bool" where
  "crd_part p \<longleftrightarrow> fst p \<noteq> [] \<and> list_all is_digit (fst p) \<and> (snd p = ''m'' \<or> snd p = ''h'')"

definition unit_ns :: "string \<Rightarrow> nat" where
  "unit_ns u = (if u = ''m'' then 60000000000 else 3600000000000)"

definition part_ns :: "string \<times> string \<Rightarrow> nat" where
  "part_ns p = digits_nat 0 (fst p) * unit_ns (snd p)"

definition interval_text :: "interval \<Rightarrow> string" where
  "interval_text ps = concat (map (\<lambda>(ds, u). ds @ u) ps)"

definition total_ns :: "interval \<Rightarrow> nat" where
  "total_ns ps = sum_list (map part_ns ps)"

lemma interval_text_simps [simp]: "interval_text [] = []" "interval_text (p # ps) = fst p @ snd p @ interval_text ps"
  by (simp_all add: interval_text_def case_prod_beta)

lemma total_simps [simp]: "total_ns [] = 0" "total_ns (p # ps) = part_ns p + total_ns ps"
  by (simp_all add: total_ns_def)

lemma interval_text_starts: "list_all crd_part ps \<Longrightarrow> ps \<noteq> [] \<Longrightarrow> interval_text ps \<noteq> [] \<and> is_digit (hd (interval_text ps))"
  by (cases ps) (auto simp: crd_part_def list_all_iff)

lemma unit_facts:
  assumes "u = ''m'' \<or> u = ''h''"
  shows "unitMap u = Some (of_nat (unit_ns u))" "unat (of_nat (unit_ns u) :: 64 word) = unit_ns u"
    "takeWhile unit_char u = u" "u \<noteq> []" "list_all unit_char u" "\<not> is_digit (hd u)" "hd u \<noteq> CHR ''.''"
    "0 < unit_ns u" "n * unit_ns u \<noteq> 2 ^ 63"
proof -
  have "5 dvd n * unit_ns u" by (rule dvd_mult) (simp add: unit_ns_def)
  then show "n * unit_ns u \<noteq> 2 ^ 63" by (intro notI) simp
qed (use assms in \<open>auto simp: unitMap_def unit_ns_def unit_char_def is_digit_def\<close>)

lemma duration_part_crd:
  assumes "crd_part p" "rest = [] \<or> is_digit (hd rest)"
  shows "duration_part fr (fst p @ snd p @ rest) =
    (if part_ns p \<le> 2 ^ 63 then Some (of_nat (part_ns p), rest) else None)"
proof -
  obtain ds u where p: "p = (ds, u)" by (cases p)
  have ds: "ds \<noteq> []" "list_all is_digit ds" "is_digit (hd ds)" and u: "u = ''m'' \<or> u = ''h''"
    using assms(1) by (cases ds; auto simp: crd_part_def p)+
  note uf = unit_facts [OF u]
  define n where "n = digits_nat 0 ds"
  have take: "takeWhile unit_char (u @ rest) = u" "dropWhile unit_char (u @ rest) = rest"
    using assms(2) uf(5) by (cases rest; auto simp: takeWhile_append dropWhile_append unit_char_def list_all_iff)+
  have lead: "leadingInt 0 (ds @ u @ rest) = (if n \<le> 2 ^ 63 then Some (of_nat n, u @ rest) else None)"
    using leadingInt_exact [OF ds(2), of "u @ rest" 0] uf(4,6) by (simp add: n_def)
  obtain c cs where cons: "ds @ u @ rest = c # cs" "is_digit c" using ds(1,3) by (cases ds) auto
  obtain d t where ut: "u @ rest = d # t" "d \<noteq> CHR ''.''" using uf(4,7) by (cases u) auto
  show ?thesis
  proof (cases "n \<le> 2 ^ 63")
    case False
    then have "\<not> part_ns p \<le> 2 ^ 63" using uf(8) by (simp add: part_ns_def p n_def) (metis One_nat_def Suc_leI le_trans mult_le_mono2 nat_mult_1_right)
    with False lead cons show ?thesis by (simp add: duration_part_def p)
  next
    case True
    have nw: "unat (of_nat n :: 64 word) = n" using True by (simp add: unat_of_nat)
    have cut: "of_nat n > max_abs div of_nat (unit_ns u) \<longleftrightarrow> \<not> n * unit_ns u \<le> 2 ^ 63"
      using uf(8) by (simp add: word_less_nat_alt unat_div nw uf(2) div_less_iff_less_mult not_le less_eq_div_iff_mult_less_eq flip: not_less)
    have "length (ds @ u @ rest) \<noteq> length (u @ rest)" using ds(1) by simp
    with True lead cons ut take uf(1,4) cut show ?thesis
      by (simp add: duration_part_def p part_ns_def n_def del: append_assoc)
  qed
qed

lemma duration_loop_crd:
  assumes "list_all crd_part ps" "unat d \<le> 2 ^ 63"
  shows "duration_loop fr d (interval_text ps) =
    (if unat d + total_ns ps \<le> 2 ^ 63 then Some (of_nat (unat d + total_ns ps)) else None)"
  using assms
proof (induction ps arbitrary: d)
  case Nil
  then show ?case by (simp add: duration_loop.simps)
next
  case (Cons p ps)
  have part: "duration_part fr (interval_text (p # ps)) =
      (if part_ns p \<le> 2 ^ 63 then Some (of_nat (part_ns p), interval_text ps) else None)"
    using duration_part_crd [of p "interval_text ps" fr] interval_text_starts [of ps] Cons.prems(1) by (cases ps) auto
  have ne: "interval_text (p # ps) \<noteq> []" using Cons.prems(1) by (intro interval_text_starts [THEN conjunct1]) auto
  have below: "part_ns p \<noteq> 2 ^ 63"
    using Cons.prems(1) unit_facts(9) [of "snd p"] by (simp add: part_ns_def crd_part_def)
  show ?case
  proof (cases "part_ns p \<le> 2 ^ 63")
    case False
    with ne part show ?thesis by (simp add: duration_loop.simps [of fr d])
  next
    case True
    with below have v: "unat (of_nat (part_ns p) :: 64 word) = part_ns p" "unat d + part_ns p < 2 ^ 64"
      using Cons.prems(2) by (simp_all add: unat_of_nat)
    then have sum: "unat (d + of_nat (part_ns p)) = unat d + part_ns p" by (simp add: unat_word_ariths)
    have ok: "d + of_nat (part_ns p) > max_abs \<longleftrightarrow> 2 ^ 63 < unat d + part_ns p"
      by (simp only: word_less_nat_alt sum uint_max_abs)
    have step: "duration_loop fr d (interval_text (p # ps)) = (if 2 ^ 63 < unat d + part_ns p then None
        else duration_loop fr (d + of_nat (part_ns p)) (interval_text ps))"
      using ne part True ok by (subst duration_loop.simps) (simp del: interval_text_simps)
    show ?thesis
    proof (cases "2 ^ 63 < unat d + part_ns p")
      case True
      with step show ?thesis by (simp del: interval_text_simps)
    next
      case False
      with step Cons.IH [of "d + of_nat (part_ns p)"] Cons.prems(1) show ?thesis
        by (simp del: interval_text_simps of_nat_add add: sum add.assoc)
    qed
  qed
qed

lemma ParseDuration_crd:
  assumes "list_all crd_part ps" "ps \<noteq> []"
  shows "go_ParseDuration fr (interval_text ps) = (if total_ns ps < 2 ^ 63 then Some (int (total_ns ps)) else None)"
proof -
  obtain ds u qs where ps: "ps = (ds, u) # qs" using assms(2) by (cases ps) auto
  then have parts: "ds \<noteq> []" "list_all is_digit ds" "u = ''m'' \<or> u = ''h''"
    using assms(1) by (auto simp: crd_part_def)
  obtain c cs where c: "ds = c # cs" "is_digit c" using parts(1,2) by (cases ds) auto
  then have sign: "c \<noteq> CHR ''-''" "c \<noteq> CHR ''+''" by (auto simp: is_digit_def)
  have zero: "interval_text ps \<noteq> ''0''" "u \<noteq> []" using parts(3) c by (auto simp: ps)
  have loop: "duration_loop fr 0 (interval_text ps) =
      (if total_ns ps \<le> 2 ^ 63 then Some (of_nat (total_ns ps)) else None)"
    using duration_loop_crd [OF assms(1), of 0 fr] by simp
  have orig: "interval_text ps = c # cs @ u @ interval_text qs" by (simp add: ps c)
  have small: "sint (of_nat n :: 64 word) = int n" "\<not> of_nat n > max_abs - (1 :: 64 word)" if "n < 2 ^ 63" for n
  proof -
    have n: "unat (of_nat n :: 64 word) = n" using that by (simp add: unat_of_nat)
    show "sint (of_nat n :: 64 word) = int n"
      using that by (simp add: signed_of_nat signed_take_bit_int_eq_self)
    have "unat (max_abs - 1) = 2 ^ 63 - 1" by (simp add: max_abs_def)
    then show "\<not> of_nat n > max_abs - (1 :: 64 word)"
      using that n by (simp add: word_less_nat_alt)
  qed
  have big: "of_nat (2 ^ 63) > max_abs - (1 :: 64 word)" by (simp add: max_abs_def)
  show ?thesis
  proof (cases "total_ns ps < 2 ^ 63")
    case True
    with loop small [OF True] zero sign orig show ?thesis by (simp add: go_ParseDuration_def)
  next
    case False
    then consider "total_ns ps = 2 ^ 63" | "\<not> total_ns ps \<le> 2 ^ 63" by linarith
    then show ?thesis
      by cases (use loop big zero sign orig in \<open>simp_all add: go_ParseDuration_def\<close>)
  qed
qed

section \<open>Properties\<close>


definition no_fractions :: float_product where
  "no_fractions f scale unit = 0"


text \<open>The parsers of the agent's flags, with the duration parser above.\<close>

definition go_parsers :: "float_product \<Rightarrow> (string \<Rightarrow> int option) \<Rightarrow> value_parsers" where
  "go_parsers fr parse_int = \<lparr>ParseDuration = go_ParseDuration fr, ParseInt = parse_int\<rparr>"

lemma interval_flag:
  assumes "list_all crd_part ps" "ps \<noteq> []" "total_ns ps < 2 ^ 63"
  shows "flag_Parse (go_parsers fr pi) ((''--interval='' @ interval_text ps) # args) fl =
    flag_Parse (go_parsers fr pi) args (fl\<lparr>af_interval := int (total_ns ps)\<rparr>)"
  using ParseDuration_crd [OF assms(1,2), of fr] assms(3)
  by (simp only: flag_Parse_interval) (simp add: go_parsers_def)

end
