(* ===== verification/Copy_Memory.thy ===== *)
theory Copy_Memory
  imports Api_Types "HOL-Library.Monad_Syntax"
begin

text \<open>
  The memory the deep copies of the custom resources work on, and what a deep copy promises.
  Elsewhere in the development a pointer field is an \<open>option\<close>, which has no aliasing; here it is an
  address, so that what the copies are for can be stated: a copy and its original share no cell.

  A memory is the list of the cells allocated so far and an address is an index; \<open>new\<close> and \<open>make\<close>
  append a cell.  A slice and a map are the address of their contents.  The result \<open>None\<close> is a
  panic: a nil or dangling pointer, or a cell of another type.  The locale \<open>deep_copy\<close> is the
  interface: a reading of values out of memory and the copier that goes with it.
\<close>

section \<open>Memory\<close>

type_synonym ptr = "nat option"
type_synonym TypeMeta = "string \<times> string"

record ListMeta =
  lm_ResourceVersion :: string
  lm_Continue :: string
  lm_RemainingItemCount :: "int option"

record MetaP =
  mtp_Name :: string
  mtp_Namespace :: string
  mtp_UID :: string
  mtp_Generation :: int
  mtp_CreationTimestamp :: timestamp
  mtp_DeletionTimestamp :: ptr
  mtp_Labels :: ptr
  mtp_Annotations :: ptr
  mtp_Finalizers :: ptr

record ListMetaP =
  lmp_ResourceVersion :: string
  lmp_Continue :: string
  lmp_RemainingItemCount :: ptr

record ResourcesP =
  rrp_Requests :: ptr
  rrp_Limits :: ptr

record SelectorP =
  lsp_MatchLabels :: ptr
  lsp_MatchExpressions :: ptr

record ModelP =
  mp_Path :: string
  mp_SignaturePath :: string
  mp_IgnorePaths :: ptr
  mp_IgnoreGitPaths :: ptr
  mp_IgnoreUnsignedFiles :: ptr
  mp_AllowSymlinks :: ptr

record ValidationConfigP =
  vcp_SigstoreConfig :: ptr
  vcp_PkiConfig :: ptr
  vcp_PublicKeyConfig :: ptr
  vcp_ClientTrustConfig :: ptr

record SpecP =
  sp_Model :: ModelP
  sp_Config :: ValidationConfigP
  sp_ImagePullPolicy :: string
  sp_ContinuousValidation :: ptr
  sp_Resources :: ptr

record StatusP =
  stp_Conditions :: ptr
  stp_InjectedPodCount :: "32 word"
  stp_UninjectedPodCount :: "32 word"
  stp_OrphanedPodCount :: "32 word"
  stp_AuthMethod :: string
  stp_InjectedPods :: ptr
  stp_UninjectedPods :: ptr
  stp_OrphanedPods :: ptr
  stp_LastUpdated :: timestamp

record ModelValidationP =
  mvp_TypeMeta :: TypeMeta
  mvp_Meta :: MetaP
  mvp_Spec :: SpecP
  mvp_Status :: StatusP

record ModelValidationListP =
  mlp_TypeMeta :: TypeMeta
  mlp_ListMeta :: ListMetaP
  mlp_Items :: ptr

record TracingP =
  trp_Enabled :: bool
  trp_Endpoint :: string
  trp_Insecure :: ptr
  trp_Sampler :: string
  trp_SamplerArg :: string
  trp_Env :: ptr

record TelemetrySpecP =
  tsp_NamespaceSelector :: ptr
  tsp_Selector :: ptr
  tsp_Tracing :: TracingP

record TelemetryStatusP =
  ttp_MatchedNamespaceCount :: "32 word"
  ttp_MatchedModelValidationCount :: "32 word"
  ttp_LastApplied :: timestamp
  ttp_Conditions :: ptr

record TelemetryP =
  tcp_TypeMeta :: TypeMeta
  tcp_Meta :: MetaP
  tcp_Spec :: TelemetrySpecP
  tcp_Status :: TelemetryStatusP

record TelemetryListP =
  tlp_TypeMeta :: TypeMeta
  tlp_ListMeta :: ListMetaP
  tlp_Items :: ptr

datatype cell =
    BoolCell bool
  | TimeCell timestamp
  | IntCell int
  | StringsCell "string list"
  | MapCell labels
  | RequirementsCell "LabelSelectorRequirement list"
  | SigstoreCell SigstoreConfig
  | PkiCell PkiConfig
  | PublicKeyCell PublicKeyConfig
  | ClientTrustCell ClientTrustConfig
  | ContinuousCell ContinuousValidation
  | ResourcesCell ResourcesP
  | SelectorCell SelectorP
  | ConditionsCell "Condition list"
  | PodsCell "PodTrackingInfo list"
  | PodCell PodTrackingInfo
  | EnvCell "EnvVar list"
  | ModelCell ModelP
  | ConfigCell ValidationConfigP
  | SpecCell SpecP
  | StatusCell StatusP
  | ModelValidationCell ModelValidationP
  | ModelValidationsCell "ModelValidationP list"
  | ModelValidationListCell ModelValidationListP
  | TracingCell TracingP
  | TelemetrySpecCell TelemetrySpecP
  | TelemetryStatusCell TelemetryStatusP
  | TelemetryCell TelemetryP
  | TelemetriesCell "TelemetryP list"
  | TelemetryListCell TelemetryListP

type_synonym memory = "cell list"
type_synonym 'v copier = "'v \<Rightarrow> memory \<Rightarrow> ('v \<times> memory) option"

definition alloc :: "cell \<Rightarrow> memory \<Rightarrow> nat \<times> memory" where
  "alloc c h = (length h, h @ [c])"

definition store :: "nat \<Rightarrow> cell \<Rightarrow> memory \<Rightarrow> memory" where
  "store a c h = h[a := c]"

definition load :: "(cell \<Rightarrow> 'v option) \<Rightarrow> memory \<Rightarrow> nat \<Rightarrow> 'v option" where
  "load proj h a = (if a < length h then proj (h ! a) else None)"

text \<open>A pointer of type \<open>*T\<close> only reads cells that hold a \<open>T\<close>.\<close>

definition bool_of :: "cell \<Rightarrow> bool option" where
  "bool_of c = (case c of BoolCell v \<Rightarrow> Some v | _ \<Rightarrow> None)"

definition time_of :: "cell \<Rightarrow> timestamp option" where
  "time_of c = (case c of TimeCell v \<Rightarrow> Some v | _ \<Rightarrow> None)"

definition int_of_cell :: "cell \<Rightarrow> int option" where
  "int_of_cell c = (case c of IntCell v \<Rightarrow> Some v | _ \<Rightarrow> None)"

definition strings_of :: "cell \<Rightarrow> (string list) option" where
  "strings_of c = (case c of StringsCell v \<Rightarrow> Some v | _ \<Rightarrow> None)"

definition map_of_cell :: "cell \<Rightarrow> labels option" where
  "map_of_cell c = (case c of MapCell v \<Rightarrow> Some v | _ \<Rightarrow> None)"

definition requirements_of :: "cell \<Rightarrow> (LabelSelectorRequirement list) option" where
  "requirements_of c = (case c of RequirementsCell v \<Rightarrow> Some v | _ \<Rightarrow> None)"

definition sigstore_of :: "cell \<Rightarrow> SigstoreConfig option" where
  "sigstore_of c = (case c of SigstoreCell v \<Rightarrow> Some v | _ \<Rightarrow> None)"

definition pki_of :: "cell \<Rightarrow> PkiConfig option" where
  "pki_of c = (case c of PkiCell v \<Rightarrow> Some v | _ \<Rightarrow> None)"

definition public_key_of :: "cell \<Rightarrow> PublicKeyConfig option" where
  "public_key_of c = (case c of PublicKeyCell v \<Rightarrow> Some v | _ \<Rightarrow> None)"

definition client_trust_of :: "cell \<Rightarrow> ClientTrustConfig option" where
  "client_trust_of c = (case c of ClientTrustCell v \<Rightarrow> Some v | _ \<Rightarrow> None)"

definition continuous_of :: "cell \<Rightarrow> ContinuousValidation option" where
  "continuous_of c = (case c of ContinuousCell v \<Rightarrow> Some v | _ \<Rightarrow> None)"

definition resources_of :: "cell \<Rightarrow> ResourcesP option" where
  "resources_of c = (case c of ResourcesCell v \<Rightarrow> Some v | _ \<Rightarrow> None)"

definition selector_of :: "cell \<Rightarrow> SelectorP option" where
  "selector_of c = (case c of SelectorCell v \<Rightarrow> Some v | _ \<Rightarrow> None)"

definition conditions_of :: "cell \<Rightarrow> (Condition list) option" where
  "conditions_of c = (case c of ConditionsCell v \<Rightarrow> Some v | _ \<Rightarrow> None)"

definition pods_of :: "cell \<Rightarrow> (PodTrackingInfo list) option" where
  "pods_of c = (case c of PodsCell v \<Rightarrow> Some v | _ \<Rightarrow> None)"

definition pod_of :: "cell \<Rightarrow> PodTrackingInfo option" where
  "pod_of c = (case c of PodCell v \<Rightarrow> Some v | _ \<Rightarrow> None)"

definition env_of :: "cell \<Rightarrow> (EnvVar list) option" where
  "env_of c = (case c of EnvCell v \<Rightarrow> Some v | _ \<Rightarrow> None)"

definition model_of :: "cell \<Rightarrow> ModelP option" where
  "model_of c = (case c of ModelCell v \<Rightarrow> Some v | _ \<Rightarrow> None)"

definition config_of :: "cell \<Rightarrow> ValidationConfigP option" where
  "config_of c = (case c of ConfigCell v \<Rightarrow> Some v | _ \<Rightarrow> None)"

definition spec_of :: "cell \<Rightarrow> SpecP option" where
  "spec_of c = (case c of SpecCell v \<Rightarrow> Some v | _ \<Rightarrow> None)"

definition status_of :: "cell \<Rightarrow> StatusP option" where
  "status_of c = (case c of StatusCell v \<Rightarrow> Some v | _ \<Rightarrow> None)"

definition model_validation_of :: "cell \<Rightarrow> ModelValidationP option" where
  "model_validation_of c = (case c of ModelValidationCell v \<Rightarrow> Some v | _ \<Rightarrow> None)"

definition model_validations_of :: "cell \<Rightarrow> (ModelValidationP list) option" where
  "model_validations_of c = (case c of ModelValidationsCell v \<Rightarrow> Some v | _ \<Rightarrow> None)"

definition model_validation_list_of :: "cell \<Rightarrow> ModelValidationListP option" where
  "model_validation_list_of c = (case c of ModelValidationListCell v \<Rightarrow> Some v | _ \<Rightarrow> None)"

definition tracing_of :: "cell \<Rightarrow> TracingP option" where
  "tracing_of c = (case c of TracingCell v \<Rightarrow> Some v | _ \<Rightarrow> None)"

definition telemetry_spec_of :: "cell \<Rightarrow> TelemetrySpecP option" where
  "telemetry_spec_of c = (case c of TelemetrySpecCell v \<Rightarrow> Some v | _ \<Rightarrow> None)"

definition telemetry_status_of :: "cell \<Rightarrow> TelemetryStatusP option" where
  "telemetry_status_of c = (case c of TelemetryStatusCell v \<Rightarrow> Some v | _ \<Rightarrow> None)"

definition telemetry_of :: "cell \<Rightarrow> TelemetryP option" where
  "telemetry_of c = (case c of TelemetryCell v \<Rightarrow> Some v | _ \<Rightarrow> None)"

definition telemetries_of :: "cell \<Rightarrow> (TelemetryP list) option" where
  "telemetries_of c = (case c of TelemetriesCell v \<Rightarrow> Some v | _ \<Rightarrow> None)"

definition telemetry_list_of :: "cell \<Rightarrow> TelemetryListP option" where
  "telemetry_list_of c = (case c of TelemetryListCell v \<Rightarrow> Some v | _ \<Rightarrow> None)"

lemmas cell_views =
  bool_of_def time_of_def int_of_cell_def strings_of_def
  map_of_cell_def requirements_of_def sigstore_of_def pki_of_def
  public_key_of_def client_trust_of_def continuous_of_def resources_of_def
  selector_of_def conditions_of_def pods_of_def pod_of_def
  env_of_def model_of_def config_of_def spec_of_def
  status_of_def model_validation_of_def model_validations_of_def model_validation_list_of_def
  tracing_of_def telemetry_spec_of_def telemetry_status_of_def telemetry_of_def
  telemetries_of_def telemetry_list_of_def

definition cell_view :: "('v \<Rightarrow> cell) \<Rightarrow> (cell \<Rightarrow> 'v option) \<Rightarrow> bool" where
  "cell_view wrap proj \<longleftrightarrow> (\<forall>v. proj (wrap v) = Some v)"

section \<open>Copying\<close>

text \<open>
  \<open>*out = *in\<close>; then \<open>*out = new(T)\<close>, or \<open>make\<close> for a slice, followed by the copy of what the
  pointer refers to, with nil left nil; then the loop over the elements of a slice.
\<close>

definition copy_value :: "'v copier" where
  "copy_value v h = Some (v, h)"

definition copy_ptr :: "('v \<Rightarrow> cell) \<Rightarrow> (cell \<Rightarrow> 'v option) \<Rightarrow> 'v copier \<Rightarrow> ptr copier" where
  "copy_ptr wrap proj into p h =
     (case p of
        None \<Rightarrow> Some (None, h)
      | Some a \<Rightarrow>
          do {
            v \<leftarrow> load proj h a;
            let (b, h) = alloc (wrap v) h;
            (w, h) \<leftarrow> into v h;
            Some (Some b, store b (wrap w) h)
          })"

fun copy_items :: "'v copier \<Rightarrow> 'v list copier" where
  "copy_items into [] h = Some ([], h)"
| "copy_items into (v # vs) h =
     do {
       (w, h) \<leftarrow> into v h;
       (ws, h) \<leftarrow> copy_items into vs h;
       Some (w # ws, h)
     }"

text \<open>The value a memory gives to a pointer, a slice, a list of structs and a pair of fields.\<close>

type_synonym ('v, 'a) reading = "memory \<Rightarrow> 'v \<Rightarrow> 'a option"

definition read_value :: "('v, 'v) reading" where
  "read_value h v = Some v"

definition read_ptr :: "(cell \<Rightarrow> 'v option) \<Rightarrow> ('v, 'a) reading \<Rightarrow> (ptr, 'a option) reading" where
  "read_ptr proj rd h p =
     (case p of
        None \<Rightarrow> Some None
      | Some a \<Rightarrow> do { v \<leftarrow> load proj h a; x \<leftarrow> rd h v; Some (Some x) })"

fun read_items :: "('v, 'a) reading \<Rightarrow> ('v list, 'a list) reading" where
  "read_items rd h [] = Some []"
| "read_items rd h (v # vs) = do { x \<leftarrow> rd h v; xs \<leftarrow> read_items rd h vs; Some (x # xs) }"

definition read_pair :: "('v, 'a) reading \<Rightarrow> ('w, 'b) reading \<Rightarrow> ('v \<times> 'w, 'a \<times> 'b) reading" where
  "read_pair rd rd' h p = do { x \<leftarrow> rd h (fst p); y \<leftarrow> rd' h (snd p); Some (x, y) }"

definition copy_pair :: "'v copier \<Rightarrow> 'w copier \<Rightarrow> ('v \<times> 'w) copier" where
  "copy_pair into into' p h =
     do {
       (v, h) \<leftarrow> into (fst p) h;
       (w, h) \<leftarrow> into' (snd p) h;
       Some ((v, w), h)
     }"

section \<open>What a deep copy promises\<close>

text \<open>
  Two memories agree from an address on, or below one.  \<open>lives_from n rd h v x\<close>: the value
  \<open>x\<close> of \<open>v\<close> is held by the cells from \<open>n\<close> on, whatever the cells below contain.
\<close>

definition agree_from :: "nat \<Rightarrow> memory \<Rightarrow> memory \<Rightarrow> bool" where
  "agree_from n h h' \<longleftrightarrow> length h \<le> length h' \<and> (\<forall>a. n \<le> a \<longrightarrow> a < length h \<longrightarrow> h' ! a = h ! a)"

definition agree_below :: "nat \<Rightarrow> memory \<Rightarrow> memory \<Rightarrow> bool" where
  "agree_below n h h' \<longleftrightarrow> n \<le> length h' \<and> (\<forall>a<n. h' ! a = h ! a)"

definition lives_from :: "nat \<Rightarrow> ('v, 'a) reading \<Rightarrow> memory \<Rightarrow> 'v \<Rightarrow> 'a \<Rightarrow> bool" where
  "lives_from n rd h v x \<longleftrightarrow> (\<forall>h'. agree_from n h h' \<longrightarrow> rd h' v = Some x)"

abbreviation grows :: "memory \<Rightarrow> memory \<Rightarrow> bool" where
  "grows h h' \<equiv> agree_below (length h) h h'"

lemma agree_from_refl [simp]: "agree_from n h h"
  by (simp add: agree_from_def)

lemma grows_refl [simp]: "grows h h"
  by (simp add: agree_below_def)

lemma grows_trans: "grows h h1 \<Longrightarrow> grows h1 h2 \<Longrightarrow> grows h h2"
  by (simp add: agree_below_def)

lemma grows_length: "grows h h' \<Longrightarrow> length h \<le> length h'"
  by (simp add: agree_below_def)

lemma grows_alloc [simp]: "grows h (h @ [c])"
  by (simp add: agree_below_def nth_append)

lemma grows_store: "grows h h' \<Longrightarrow> length h \<le> a \<Longrightarrow> grows h (h'[a := c])"
  by (simp add: agree_below_def)

lemma agree_from_grows: "grows h h1 \<Longrightarrow> agree_from n h1 h2 \<Longrightarrow> agree_from n h h2"
  unfolding agree_from_def agree_below_def by auto

lemma agree_from_mono: "agree_from n h h' \<Longrightarrow> n \<le> m \<Longrightarrow> agree_from m h h'"
  by (simp add: agree_from_def)

lemma lives_from_grows: "lives_from n rd h v x \<Longrightarrow> grows h h' \<Longrightarrow> lives_from n rd h' v x"
  unfolding lives_from_def using agree_from_grows by blast

lemma lives_from_mono: "lives_from m rd h v x \<Longrightarrow> n \<le> m \<Longrightarrow> lives_from n rd h v x"
  unfolding lives_from_def using agree_from_mono by blast

lemma lives_from_now: "lives_from n rd h v x \<Longrightarrow> rd h v = Some x"
  by (simp add: lives_from_def)

locale deep_copy =
  fixes rd :: "('v, 'a) reading" and into :: "'v copier"
  assumes copies: "rd h v = Some x \<Longrightarrow>
      \<exists>w h'. into v h = Some (w, h') \<and> grows h h' \<and> lives_from (length h) rd h' w x"
    and stays: "rd h v = Some x \<Longrightarrow> grows h h' \<Longrightarrow> rd h' v = Some x"
begin

lemma of_pointer:
  assumes "cell_view wrap proj"
  shows "deep_copy (read_ptr proj rd) (copy_ptr wrap proj into)"
proof
  fix h p y assume y: "read_ptr proj rd h p = Some y"
  show "\<exists>w h'. copy_ptr wrap proj into p h = Some (w, h') \<and> grows h h' \<and>
      lives_from (length h) (read_ptr proj rd) h' w y"
  proof (cases p)
    case None
    then show ?thesis using y by (simp add: read_ptr_def copy_ptr_def lives_from_def)
  next
    case (Some a)
    then obtain v x where v: "load proj h a = Some v" "rd h v = Some x" "y = Some x"
      using y by (auto simp: read_ptr_def bind_eq_Some_conv)
    from stays [OF v(2) grows_alloc] copies obtain w h2 where w: "into v (h @ [wrap v]) = Some (w, h2)"
      "grows (h @ [wrap v]) h2" "lives_from (length (h @ [wrap v])) rd h2 w x" by metis
    have g: "grows h (h2[length h := wrap w])"
      using grows_trans [OF grows_alloc w(2)] by (rule grows_store) simp
    have "lives_from (length h) (read_ptr proj rd) (h2[length h := wrap w]) (Some (length h)) y"
      unfolding lives_from_def
    proof (intro allI impI)
      fix h3 assume h3: "agree_from (length h) (h2[length h := wrap w]) h3"
      have len: "length h < length h2" using grows_length [OF w(2)] by simp
      then have "load proj h3 (length h) = Some w"
        using h3 assms unfolding agree_from_def load_def cell_view_def by auto
      moreover have "agree_from (length (h @ [wrap v])) h2 h3"
        using h3 unfolding agree_from_def by auto
      then have "rd h3 w = Some x" using w(3) by (simp add: lives_from_def)
      ultimately show "read_ptr proj rd h3 (Some (length h)) = Some y"
        by (simp add: read_ptr_def v(3))
    qed
    then show ?thesis using Some v(1) w(1) g by (simp add: copy_ptr_def alloc_def store_def)
  qed
next
  fix h p y h' assume "read_ptr proj rd h p = Some y" "grows h h'"
  then show "read_ptr proj rd h' p = Some y"
    unfolding read_ptr_def load_def agree_below_def
    by (auto simp: bind_eq_Some_conv agree_below_def dest: stays split: option.splits if_splits)
qed

lemma of_items: "deep_copy (read_items rd) (copy_items into)"
proof
  fix h vs xs assume "read_items rd h vs = Some xs"
  then show "\<exists>w h'. copy_items into vs h = Some (w, h') \<and> grows h h' \<and>
      lives_from (length h) (read_items rd) h' w xs"
  proof (induction vs arbitrary: h xs)
    case Nil
    then show ?case by (simp add: lives_from_def)
  next
    case (Cons v vs)
    then obtain x ys where x: "rd h v = Some x" "read_items rd h vs = Some ys" "xs = x # ys"
      by (auto simp: bind_eq_Some_conv)
    from copies [OF x(1)] obtain w h1 where w: "into v h = Some (w, h1)" "grows h h1"
      "lives_from (length h) rd h1 w x" by blast
    have "read_items rd h1 vs = Some ys" using x(2) w(2)
      by (induction vs arbitrary: ys) (auto simp: bind_eq_Some_conv dest: stays)
    then obtain ws h2 where ws: "copy_items into vs h1 = Some (ws, h2)" "grows h1 h2"
      "lives_from (length h1) (read_items rd) h2 ws ys" using Cons.IH by blast
    have "lives_from (length h) rd h2 w x" "lives_from (length h) (read_items rd) h2 ws ys"
      using lives_from_grows [OF w(3) ws(2)] lives_from_mono [OF ws(3) grows_length [OF w(2)]] .
    then have "lives_from (length h) (read_items rd) h2 (w # ws) (x # ys)"
      by (simp add: lives_from_def)
    then show ?case using w(1) ws(1) grows_trans [OF w(2) ws(2)] x(3) by simp
  qed
next
  fix h vs xs h' assume "read_items rd h vs = Some xs" "grows h h'"
  then show "read_items rd h' vs = Some xs"
    by (induction vs arbitrary: xs) (auto simp: bind_eq_Some_conv dest: stays)
qed

text \<open>
  A copy returns, has the value of its original, and the two are independent: whatever is written
  to the cells that existed before the copy does not change the copy, and whatever is written to
  the new ones does not change the original.
\<close>

lemma independent:
  assumes "rd h v = Some x"
  obtains w h' where "into v h = Some (w, h')" "grows h h'" "rd h' w = Some x"
    "\<And>h''. agree_from (length h) h' h'' \<Longrightarrow> rd h'' w = Some x"
    "\<And>h''. agree_below (length h) h h'' \<Longrightarrow> rd h'' v = Some x"
  using copies [OF assms] stays [OF assms] unfolding lives_from_def by (metis agree_from_refl)

end

lemma copies_value: "deep_copy read_value copy_value"
  by unfold_locales (simp_all add: read_value_def copy_value_def lives_from_def)

lemma copies_pair:
  assumes "deep_copy rd into" "deep_copy rd' into'"
  shows "deep_copy (read_pair rd rd') (copy_pair into into')"
proof
  fix h p y assume "read_pair rd rd' h p = Some y"
  then obtain x x' where x: "rd h (fst p) = Some x" "rd' h (snd p) = Some x'" "y = (x, x')"
    by (auto simp: read_pair_def bind_eq_Some_conv)
  from deep_copy.copies [OF assms(1) x(1)] obtain w h1 where w: "into (fst p) h = Some (w, h1)"
    "grows h h1" "lives_from (length h) rd h1 w x" by blast
  from deep_copy.copies [OF assms(2) deep_copy.stays [OF assms(2) x(2) w(2)]] obtain w' h2
    where w': "into' (snd p) h1 = Some (w', h2)" "grows h1 h2" "lives_from (length h1) rd' h2 w' x'" by blast
  have "lives_from (length h) rd h2 w x" "lives_from (length h) rd' h2 w' x'"
    using lives_from_grows [OF w(3) w'(2)] lives_from_mono [OF w'(3) grows_length [OF w(2)]] .
  then have "lives_from (length h) (read_pair rd rd') h2 (w, w') y"
    by (simp add: lives_from_def read_pair_def x(3))
  then show "\<exists>w h'. copy_pair into into' p h = Some (w, h') \<and> grows h h' \<and>
      lives_from (length h) (read_pair rd rd') h' w y"
    using w(1) w'(1) grows_trans [OF w(2) w'(2)] by (simp add: copy_pair_def)
next
  fix h p y h' assume "read_pair rd rd' h p = Some y" "grows h h'"
  then show "read_pair rd rd' h' p = Some y"
    by (auto simp: read_pair_def bind_eq_Some_conv
        intro: deep_copy.stays [OF assms(1)] deep_copy.stays [OF assms(2)])
qed

text \<open>
  A struct is copied by copying the tuple of its reference fields, \<open>get\<close>, and writing it back
  with \<open>put\<close>; its value is made of theirs by \<open>mk\<close>.
\<close>

lemma copies_struct:
  assumes "deep_copy R I"
    and "\<And>h v. rd h v = map_option (mk v) (R h (get v))"
    and "\<And>v h. into v h = map_option (\<lambda>(w, h). (put v w, h)) (I (get v) h)"
    and "\<And>v w. get (put v w) = w" "\<And>v w. mk (put v w) = mk v"
  shows "deep_copy rd into"
proof
  fix h v x assume "rd h v = Some x"
  then obtain y where y: "R h (get v) = Some y" "x = mk v y" by (auto simp: assms(2))
  from deep_copy.copies [OF assms(1) y(1)] obtain w h' where w: "I (get v) h = Some (w, h')"
    "grows h h'" "lives_from (length h) R h' w y" by blast
  have "lives_from (length h) rd h' (put v w) x"
    using w(3) by (simp add: lives_from_def assms(2,4,5) y(2))
  then show "\<exists>w h'. into v h = Some (w, h') \<and> grows h h' \<and> lives_from (length h) rd h' w x"
    using w by (auto simp: assms(3))
next
  fix h v x h' assume "rd h v = Some x" "grows h h'"
  then show "rd h' v = Some x"
    by (auto simp: assms(2) intro: deep_copy.stays [OF assms(1)])
qed

lemma cell_views_ok [simp]:
  "cell_view BoolCell bool_of" "cell_view TimeCell time_of" "cell_view IntCell int_of_cell"
  "cell_view StringsCell strings_of" "cell_view MapCell map_of_cell" "cell_view RequirementsCell requirements_of"
  "cell_view SigstoreCell sigstore_of" "cell_view PkiCell pki_of" "cell_view PublicKeyCell public_key_of"
  "cell_view ClientTrustCell client_trust_of" "cell_view ContinuousCell continuous_of"
  "cell_view ResourcesCell resources_of" "cell_view SelectorCell selector_of"
  "cell_view ConditionsCell conditions_of" "cell_view PodsCell pods_of" "cell_view PodCell pod_of"
  "cell_view EnvCell env_of" "cell_view ModelCell model_of" "cell_view ConfigCell config_of"
  "cell_view SpecCell spec_of" "cell_view StatusCell status_of"
  "cell_view ModelValidationCell model_validation_of" "cell_view ModelValidationsCell model_validations_of"
  "cell_view ModelValidationListCell model_validation_list_of" "cell_view TracingCell tracing_of"
  "cell_view TelemetrySpecCell telemetry_spec_of" "cell_view TelemetryStatusCell telemetry_status_of"
  "cell_view TelemetryCell telemetry_of" "cell_view TelemetriesCell telemetries_of"
  "cell_view TelemetryListCell telemetry_list_of"
  by (simp_all add: cell_view_def cell_views)

end
