(* ===== verification/Deep_Copies.thy ===== *)
theory Deep_Copies
  imports Copy_Memory Pod_Webhook
begin

text \<open>
  \<open>api/v1alpha1/zz_generated.deepcopy.go\<close>: every \<open>DeepCopyInto\<close>, \<open>DeepCopy\<close> and
  \<open>DeepCopyObject\<close> of the custom resources, each with the value its struct has in a memory and the
  proof that it is a deep copy.  The last section puts \<open>mergeModelWithAnnotations\<close>, the one place
  where the program overwrites fields of a resource it got from a cache, on that memory.
\<close>

section \<open>Pointers\<close>

lemmas copies_tuple = read_pair_def copy_pair_def map_option_bind

text \<open>Pointers to values without references of their own.\<close>

lemmas copies_strings = deep_copy.of_pointer [OF copies_value cell_views_ok(4)]
lemmas copies_bool = deep_copy.of_pointer [OF copies_value cell_views_ok(1)]
lemmas copies_time = deep_copy.of_pointer [OF copies_value cell_views_ok(2)]
lemmas copies_int = deep_copy.of_pointer [OF copies_value cell_views_ok(3)]
lemmas copies_map = deep_copy.of_pointer [OF copies_value cell_views_ok(5)]
lemmas copies_requirements = deep_copy.of_pointer [OF copies_value cell_views_ok(6)]
lemmas copies_sigstore = deep_copy.of_pointer [OF copies_value cell_views_ok(7)]
lemmas copies_pki = deep_copy.of_pointer [OF copies_value cell_views_ok(8)]
lemmas copies_public_key = deep_copy.of_pointer [OF copies_value cell_views_ok(9)]
lemmas copies_client_trust = deep_copy.of_pointer [OF copies_value cell_views_ok(10)]
lemmas copies_continuous = deep_copy.of_pointer [OF copies_value cell_views_ok(11)]

definition or_nil :: "'a \<Rightarrow> 'a option \<Rightarrow> 'a" where
  "or_nil d p = (case p of None \<Rightarrow> d | Some x \<Rightarrow> x)"

section \<open>Model and validation configuration\<close>

definition read_Model :: "(ModelP, Model) reading" where
  "read_Model h v =
     do {
       ip \<leftarrow> read_ptr strings_of read_value h (mp_IgnorePaths v);
       gp \<leftarrow> read_ptr bool_of read_value h (mp_IgnoreGitPaths v);
       uf \<leftarrow> read_ptr bool_of read_value h (mp_IgnoreUnsignedFiles v);
       sl \<leftarrow> read_ptr bool_of read_value h (mp_AllowSymlinks v);
       Some \<lparr>m_Path = mp_Path v, m_SignaturePath = mp_SignaturePath v,
             m_IgnorePaths = or_nil [] ip, m_IgnoreGitPaths = gp, m_IgnoreUnsignedFiles = uf,
             m_AllowSymlinks = sl\<rparr>
     }"

definition Model_DeepCopyInto :: "ModelP copier" where
  "Model_DeepCopyInto v h =
     do {
       (ip, h) \<leftarrow> copy_ptr StringsCell strings_of copy_value (mp_IgnorePaths v) h;
       (gp, h) \<leftarrow> copy_ptr BoolCell bool_of copy_value (mp_IgnoreGitPaths v) h;
       (uf, h) \<leftarrow> copy_ptr BoolCell bool_of copy_value (mp_IgnoreUnsignedFiles v) h;
       (sl, h) \<leftarrow> copy_ptr BoolCell bool_of copy_value (mp_AllowSymlinks v) h;
       Some (v\<lparr>mp_IgnorePaths := ip, mp_IgnoreGitPaths := gp, mp_IgnoreUnsignedFiles := uf,
               mp_AllowSymlinks := sl\<rparr>, h)
     }"

definition Model_DeepCopy :: "ptr copier" where
  "Model_DeepCopy = copy_ptr ModelCell model_of Model_DeepCopyInto"

lemma copies_Model: "deep_copy read_Model Model_DeepCopyInto"
  by (rule copies_struct [where get = "\<lambda>v. (mp_IgnorePaths v, mp_IgnoreGitPaths v, mp_IgnoreUnsignedFiles v, mp_AllowSymlinks v)"
      and put = "\<lambda>v (ip, gp, uf, sl). v\<lparr>mp_IgnorePaths := ip, mp_IgnoreGitPaths := gp, mp_IgnoreUnsignedFiles := uf,
        mp_AllowSymlinks := sl\<rparr>"
      and mk = "\<lambda>v (ip, gp, uf, sl). \<lparr>m_Path = mp_Path v, m_SignaturePath = mp_SignaturePath v, m_IgnorePaths = or_nil [] ip,
        m_IgnoreGitPaths = gp, m_IgnoreUnsignedFiles = uf, m_AllowSymlinks = sl\<rparr>",
      OF copies_pair [OF copies_strings copies_pair [OF copies_bool copies_pair [OF copies_bool copies_bool]]]])
    (auto simp: read_Model_def Model_DeepCopyInto_def copies_tuple intro!: bind_option_cong ext)

definition SigstoreConfig_DeepCopyInto :: "SigstoreConfig copier" where
  "SigstoreConfig_DeepCopyInto = copy_value"

definition SigstoreConfig_DeepCopy :: "ptr copier" where
  "SigstoreConfig_DeepCopy = copy_ptr SigstoreCell sigstore_of SigstoreConfig_DeepCopyInto"

definition PkiConfig_DeepCopyInto :: "PkiConfig copier" where
  "PkiConfig_DeepCopyInto = copy_value"

definition PkiConfig_DeepCopy :: "ptr copier" where
  "PkiConfig_DeepCopy = copy_ptr PkiCell pki_of PkiConfig_DeepCopyInto"

definition PublicKeyConfig_DeepCopyInto :: "PublicKeyConfig copier" where
  "PublicKeyConfig_DeepCopyInto = copy_value"

definition PublicKeyConfig_DeepCopy :: "ptr copier" where
  "PublicKeyConfig_DeepCopy = copy_ptr PublicKeyCell public_key_of PublicKeyConfig_DeepCopyInto"

definition ClientTrustConfig_DeepCopyInto :: "ClientTrustConfig copier" where
  "ClientTrustConfig_DeepCopyInto = copy_value"

definition ClientTrustConfig_DeepCopy :: "ptr copier" where
  "ClientTrustConfig_DeepCopy = copy_ptr ClientTrustCell client_trust_of ClientTrustConfig_DeepCopyInto"

definition ContinuousValidation_DeepCopyInto :: "ContinuousValidation copier" where
  "ContinuousValidation_DeepCopyInto = copy_value"

definition ContinuousValidation_DeepCopy :: "ptr copier" where
  "ContinuousValidation_DeepCopy = copy_ptr ContinuousCell continuous_of ContinuousValidation_DeepCopyInto"

definition read_ValidationConfig :: "(ValidationConfigP, ValidationConfig) reading" where
  "read_ValidationConfig h v =
     do {
       sc \<leftarrow> read_ptr sigstore_of read_value h (vcp_SigstoreConfig v);
       pc \<leftarrow> read_ptr pki_of read_value h (vcp_PkiConfig v);
       pk \<leftarrow> read_ptr public_key_of read_value h (vcp_PublicKeyConfig v);
       ct \<leftarrow> read_ptr client_trust_of read_value h (vcp_ClientTrustConfig v);
       Some \<lparr>vc_SigstoreConfig = sc, vc_PkiConfig = pc, vc_PublicKeyConfig = pk,
             vc_ClientTrustConfig = ct\<rparr>
     }"

definition ValidationConfig_DeepCopyInto :: "ValidationConfigP copier" where
  "ValidationConfig_DeepCopyInto v h =
     do {
       (sc, h) \<leftarrow> copy_ptr SigstoreCell sigstore_of copy_value (vcp_SigstoreConfig v) h;
       (pc, h) \<leftarrow> copy_ptr PkiCell pki_of copy_value (vcp_PkiConfig v) h;
       (pk, h) \<leftarrow> copy_ptr PublicKeyCell public_key_of copy_value (vcp_PublicKeyConfig v) h;
       (ct, h) \<leftarrow> copy_ptr ClientTrustCell client_trust_of copy_value (vcp_ClientTrustConfig v) h;
       Some (v\<lparr>vcp_SigstoreConfig := sc, vcp_PkiConfig := pc, vcp_PublicKeyConfig := pk,
               vcp_ClientTrustConfig := ct\<rparr>, h)
     }"

definition ValidationConfig_DeepCopy :: "ptr copier" where
  "ValidationConfig_DeepCopy = copy_ptr ConfigCell config_of ValidationConfig_DeepCopyInto"

lemma copies_ValidationConfig: "deep_copy read_ValidationConfig ValidationConfig_DeepCopyInto"
  by (rule copies_struct [where get = "\<lambda>v. (vcp_SigstoreConfig v, vcp_PkiConfig v, vcp_PublicKeyConfig v, vcp_ClientTrustConfig v)"
      and put = "\<lambda>v (sc, pc, pk, ct). v\<lparr>vcp_SigstoreConfig := sc, vcp_PkiConfig := pc, vcp_PublicKeyConfig := pk,
        vcp_ClientTrustConfig := ct\<rparr>"
      and mk = "\<lambda>v (sc, pc, pk, ct). \<lparr>vc_SigstoreConfig = sc, vc_PkiConfig = pc, vc_PublicKeyConfig = pk,
        vc_ClientTrustConfig = ct\<rparr>",
      OF copies_pair [OF copies_sigstore copies_pair [OF copies_pki copies_pair [OF copies_public_key copies_client_trust]]]])
    (auto simp: read_ValidationConfig_def ValidationConfig_DeepCopyInto_def copies_tuple intro!: bind_option_cong ext)

section \<open>Library types\<close>

text \<open>
  The copies of the library's metadata, resource requirements and label selectors are arguments.
  Its \<open>Time\<close>, \<open>Condition\<close> and \<open>EnvVar\<close> hold no reference in this development, so copying
  them is assigning them.
\<close>

record copy_lib =
  cl_Meta :: "MetaP copier"
  cl_ListMeta :: "ListMetaP copier"
  cl_Resources :: "ResourcesP copier"
  cl_Selector :: "SelectorP copier"

definition read_Meta :: "(MetaP, ObjectMeta) reading" where
  "read_Meta h v =
     do {
       dt \<leftarrow> read_ptr time_of read_value h (mtp_DeletionTimestamp v);
       ls \<leftarrow> read_ptr map_of_cell read_value h (mtp_Labels v);
       an \<leftarrow> read_ptr map_of_cell read_value h (mtp_Annotations v);
       fi \<leftarrow> read_ptr strings_of read_value h (mtp_Finalizers v);
       Some \<lparr>om_Name = mtp_Name v, om_Namespace = mtp_Namespace v, om_UID = mtp_UID v,
             om_Generation = mtp_Generation v, om_CreationTimestamp = mtp_CreationTimestamp v,
             om_DeletionTimestamp = dt, om_Labels = or_nil fmempty ls,
             om_Annotations = or_nil fmempty an, om_Finalizers = or_nil [] fi\<rparr>
     }"

definition read_ListMeta :: "(ListMetaP, ListMeta) reading" where
  "read_ListMeta h v =
     do {
       n \<leftarrow> read_ptr int_of_cell read_value h (lmp_RemainingItemCount v);
       Some \<lparr>lm_ResourceVersion = lmp_ResourceVersion v, lm_Continue = lmp_Continue v,
             lm_RemainingItemCount = n\<rparr>
     }"

definition read_Resources :: "(ResourcesP, ResourceRequirements) reading" where
  "read_Resources h v =
     do {
       rq \<leftarrow> read_ptr map_of_cell read_value h (rrp_Requests v);
       li \<leftarrow> read_ptr map_of_cell read_value h (rrp_Limits v);
       Some \<lparr>rr_Requests = or_nil fmempty rq, rr_Limits = or_nil fmempty li\<rparr>
     }"

definition read_Selector :: "(SelectorP, LabelSelector) reading" where
  "read_Selector h v =
     do {
       ml \<leftarrow> read_ptr map_of_cell read_value h (lsp_MatchLabels v);
       me \<leftarrow> read_ptr requirements_of read_value h (lsp_MatchExpressions v);
       Some \<lparr>ls_MatchLabels = or_nil fmempty ml, ls_MatchExpressions = or_nil [] me\<rparr>
     }"

text \<open>What the program relies on: the library's copies are deep copies.\<close>

locale library_copies =
  fixes L :: copy_lib
  assumes meta_copied: "deep_copy read_Meta (cl_Meta L)"
    and list_meta_copied: "deep_copy read_ListMeta (cl_ListMeta L)"
    and resources_copied: "deep_copy read_Resources (cl_Resources L)"
    and selector_copied: "deep_copy read_Selector (cl_Selector L)"

text \<open>An instance, field by field.\<close>

definition field_copy_Meta :: "MetaP copier" where
  "field_copy_Meta v h =
     do {
       (dt, h) \<leftarrow> copy_ptr TimeCell time_of copy_value (mtp_DeletionTimestamp v) h;
       (ls, h) \<leftarrow> copy_ptr MapCell map_of_cell copy_value (mtp_Labels v) h;
       (an, h) \<leftarrow> copy_ptr MapCell map_of_cell copy_value (mtp_Annotations v) h;
       (fi, h) \<leftarrow> copy_ptr StringsCell strings_of copy_value (mtp_Finalizers v) h;
       Some (v\<lparr>mtp_DeletionTimestamp := dt, mtp_Labels := ls, mtp_Annotations := an,
               mtp_Finalizers := fi\<rparr>, h)
     }"

lemma copies_Meta: "deep_copy read_Meta field_copy_Meta"
  by (rule copies_struct [where get = "\<lambda>v. (mtp_DeletionTimestamp v, mtp_Labels v, mtp_Annotations v, mtp_Finalizers v)"
      and put = "\<lambda>v (dt, ls, an, fi). v\<lparr>mtp_DeletionTimestamp := dt, mtp_Labels := ls, mtp_Annotations := an, mtp_Finalizers := fi\<rparr>"
      and mk = "\<lambda>v (dt, ls, an, fi). \<lparr>om_Name = mtp_Name v, om_Namespace = mtp_Namespace v, om_UID = mtp_UID v,
        om_Generation = mtp_Generation v, om_CreationTimestamp = mtp_CreationTimestamp v,
        om_DeletionTimestamp = dt, om_Labels = or_nil fmempty ls,
        om_Annotations = or_nil fmempty an, om_Finalizers = or_nil [] fi\<rparr>",
      OF copies_pair [OF copies_time copies_pair [OF copies_map copies_pair [OF copies_map copies_strings]]]])
    (auto simp: read_Meta_def field_copy_Meta_def copies_tuple intro!: bind_option_cong ext)

definition field_copy_ListMeta :: "ListMetaP copier" where
  "field_copy_ListMeta v h =
     do {
       (n, h) \<leftarrow> copy_ptr IntCell int_of_cell copy_value (lmp_RemainingItemCount v) h;
       Some (v\<lparr>lmp_RemainingItemCount := n\<rparr>, h)
     }"

lemma copies_ListMeta: "deep_copy read_ListMeta field_copy_ListMeta"
  by (rule copies_struct [where get = "\<lambda>v. lmp_RemainingItemCount v"
      and put = "\<lambda>v n. v\<lparr>lmp_RemainingItemCount := n\<rparr>"
      and mk = "\<lambda>v n. \<lparr>lm_ResourceVersion = lmp_ResourceVersion v, lm_Continue = lmp_Continue v,
        lm_RemainingItemCount = n\<rparr>",
      OF copies_int])
    (auto simp: read_ListMeta_def field_copy_ListMeta_def copies_tuple map_conv_bind_option intro!: bind_option_cong ext)

definition field_copy_Resources :: "ResourcesP copier" where
  "field_copy_Resources v h =
     do {
       (rq, h) \<leftarrow> copy_ptr MapCell map_of_cell copy_value (rrp_Requests v) h;
       (li, h) \<leftarrow> copy_ptr MapCell map_of_cell copy_value (rrp_Limits v) h;
       Some (v\<lparr>rrp_Requests := rq, rrp_Limits := li\<rparr>, h)
     }"

lemma copies_Resources: "deep_copy read_Resources field_copy_Resources"
  by (rule copies_struct [where get = "\<lambda>v. (rrp_Requests v, rrp_Limits v)"
      and put = "\<lambda>v (rq, li). v\<lparr>rrp_Requests := rq, rrp_Limits := li\<rparr>"
      and mk = "\<lambda>v (rq, li). \<lparr>rr_Requests = or_nil fmempty rq, rr_Limits = or_nil fmempty li\<rparr>",
      OF copies_pair [OF copies_map copies_map]])
    (auto simp: read_Resources_def field_copy_Resources_def copies_tuple intro!: bind_option_cong ext)

definition field_copy_Selector :: "SelectorP copier" where
  "field_copy_Selector v h =
     do {
       (ml, h) \<leftarrow> copy_ptr MapCell map_of_cell copy_value (lsp_MatchLabels v) h;
       (me, h) \<leftarrow> copy_ptr RequirementsCell requirements_of copy_value (lsp_MatchExpressions v) h;
       Some (v\<lparr>lsp_MatchLabels := ml, lsp_MatchExpressions := me\<rparr>, h)
     }"

lemma copies_Selector: "deep_copy read_Selector field_copy_Selector"
  by (rule copies_struct [where get = "\<lambda>v. (lsp_MatchLabels v, lsp_MatchExpressions v)"
      and put = "\<lambda>v (ml, me). v\<lparr>lsp_MatchLabels := ml, lsp_MatchExpressions := me\<rparr>"
      and mk = "\<lambda>v (ml, me). \<lparr>ls_MatchLabels = or_nil fmempty ml, ls_MatchExpressions = or_nil [] me\<rparr>",
      OF copies_pair [OF copies_map copies_requirements]])
    (auto simp: read_Selector_def field_copy_Selector_def copies_tuple intro!: bind_option_cong ext)

definition field_copies :: copy_lib where
  "field_copies = \<lparr>cl_Meta = field_copy_Meta, cl_ListMeta = field_copy_ListMeta,
     cl_Resources = field_copy_Resources, cl_Selector = field_copy_Selector\<rparr>"

interpretation fields: library_copies field_copies
  by (rule library_copies.intro)
    (simp_all add: field_copies_def copies_Meta copies_ListMeta copies_Resources copies_Selector)

section \<open>ModelValidation\<close>

definition read_Spec :: "(SpecP, ModelValidationSpec) reading" where
  "read_Spec h v =
     do {
       mo \<leftarrow> read_Model h (sp_Model v);
       co \<leftarrow> read_ValidationConfig h (sp_Config v);
       cv \<leftarrow> read_ptr continuous_of read_value h (sp_ContinuousValidation v);
       rr \<leftarrow> read_ptr resources_of read_Resources h (sp_Resources v);
       Some \<lparr>mvs_Model = mo, mvs_Config = co, mvs_ImagePullPolicy = sp_ImagePullPolicy v,
             mvs_ContinuousValidation = cv, mvs_Resources = rr\<rparr>
     }"

definition ModelValidationSpec_DeepCopyInto :: "copy_lib \<Rightarrow> SpecP copier" where
  "ModelValidationSpec_DeepCopyInto L v h =
     do {
       (mo, h) \<leftarrow> Model_DeepCopyInto (sp_Model v) h;
       (co, h) \<leftarrow> ValidationConfig_DeepCopyInto (sp_Config v) h;
       (cv, h) \<leftarrow> copy_ptr ContinuousCell continuous_of copy_value (sp_ContinuousValidation v) h;
       (rr, h) \<leftarrow> copy_ptr ResourcesCell resources_of (cl_Resources L) (sp_Resources v) h;
       Some (v\<lparr>sp_Model := mo, sp_Config := co, sp_ContinuousValidation := cv, sp_Resources := rr\<rparr>, h)
     }"

definition ModelValidationSpec_DeepCopy :: "copy_lib \<Rightarrow> ptr copier" where
  "ModelValidationSpec_DeepCopy L = copy_ptr SpecCell spec_of (ModelValidationSpec_DeepCopyInto L)"

definition PodTrackingInfo_DeepCopyInto :: "PodTrackingInfo copier" where
  "PodTrackingInfo_DeepCopyInto v h =
     do {
       (ia, h) \<leftarrow> copy_value (pti_InjectedAt v) h;
       Some (v\<lparr>pti_InjectedAt := ia\<rparr>, h)
     }"

definition PodTrackingInfo_DeepCopy :: "ptr copier" where
  "PodTrackingInfo_DeepCopy = copy_ptr PodCell pod_of PodTrackingInfo_DeepCopyInto"

lemma copies_PodTrackingInfo: "deep_copy read_value PodTrackingInfo_DeepCopyInto"
proof -
  have "PodTrackingInfo_DeepCopyInto = copy_value"
    by (intro ext) (simp add: PodTrackingInfo_DeepCopyInto_def copy_value_def)
  then show ?thesis using copies_value by simp
qed

definition read_Status :: "(StatusP, ModelValidationStatus) reading" where
  "read_Status h v =
     do {
       co \<leftarrow> read_ptr conditions_of (read_items read_value) h (stp_Conditions v);
       ip \<leftarrow> read_ptr pods_of (read_items read_value) h (stp_InjectedPods v);
       up \<leftarrow> read_ptr pods_of (read_items read_value) h (stp_UninjectedPods v);
       op \<leftarrow> read_ptr pods_of (read_items read_value) h (stp_OrphanedPods v);
       lu \<leftarrow> read_value h (stp_LastUpdated v);
       Some \<lparr>st_Conditions = or_nil [] co, st_InjectedPodCount = stp_InjectedPodCount v,
             st_UninjectedPodCount = stp_UninjectedPodCount v,
             st_OrphanedPodCount = stp_OrphanedPodCount v, st_AuthMethod = stp_AuthMethod v,
             st_InjectedPods = or_nil [] ip, st_UninjectedPods = or_nil [] up,
             st_OrphanedPods = or_nil [] op, st_LastUpdated = lu\<rparr>
     }"

definition ModelValidationStatus_DeepCopyInto :: "StatusP copier" where
  "ModelValidationStatus_DeepCopyInto v h =
     do {
       (co, h) \<leftarrow> copy_ptr ConditionsCell conditions_of (copy_items copy_value) (stp_Conditions v) h;
       (ip, h) \<leftarrow> copy_ptr PodsCell pods_of (copy_items PodTrackingInfo_DeepCopyInto) (stp_InjectedPods v) h;
       (up, h) \<leftarrow> copy_ptr PodsCell pods_of (copy_items PodTrackingInfo_DeepCopyInto) (stp_UninjectedPods v) h;
       (op, h) \<leftarrow> copy_ptr PodsCell pods_of (copy_items PodTrackingInfo_DeepCopyInto) (stp_OrphanedPods v) h;
       (lu, h) \<leftarrow> copy_value (stp_LastUpdated v) h;
       Some (v\<lparr>stp_Conditions := co, stp_InjectedPods := ip, stp_UninjectedPods := up,
               stp_OrphanedPods := op, stp_LastUpdated := lu\<rparr>, h)
     }"

definition ModelValidationStatus_DeepCopy :: "ptr copier" where
  "ModelValidationStatus_DeepCopy = copy_ptr StatusCell status_of ModelValidationStatus_DeepCopyInto"

lemma copies_Status: "deep_copy read_Status ModelValidationStatus_DeepCopyInto"
  by (rule copies_struct [where get = "\<lambda>v. (stp_Conditions v, stp_InjectedPods v, stp_UninjectedPods v, stp_OrphanedPods v, stp_LastUpdated v)"
      and put = "\<lambda>v (co, ip, up, op, lu). v\<lparr>stp_Conditions := co, stp_InjectedPods := ip, stp_UninjectedPods := up,
        stp_OrphanedPods := op, stp_LastUpdated := lu\<rparr>"
      and mk = "\<lambda>v (co, ip, up, op, lu). \<lparr>st_Conditions = or_nil [] co, st_InjectedPodCount = stp_InjectedPodCount v,
        st_UninjectedPodCount = stp_UninjectedPodCount v,
        st_OrphanedPodCount = stp_OrphanedPodCount v, st_AuthMethod = stp_AuthMethod v,
        st_InjectedPods = or_nil [] ip, st_UninjectedPods = or_nil [] up,
        st_OrphanedPods = or_nil [] op, st_LastUpdated = lu\<rparr>",
      OF copies_pair [OF deep_copy.of_pointer [OF deep_copy.of_items [OF copies_value] cell_views_ok(14)] copies_pair [OF deep_copy.of_pointer [OF deep_copy.of_items [OF copies_PodTrackingInfo] cell_views_ok(15)] copies_pair [OF deep_copy.of_pointer [OF deep_copy.of_items [OF copies_PodTrackingInfo] cell_views_ok(15)] copies_pair [OF deep_copy.of_pointer [OF deep_copy.of_items [OF copies_PodTrackingInfo] cell_views_ok(15)] copies_value]]]]])
    (auto simp: read_Status_def ModelValidationStatus_DeepCopyInto_def copies_tuple intro!: bind_option_cong ext)

definition read_ModelValidation :: "(ModelValidationP, TypeMeta \<times> ModelValidation) reading" where
  "read_ModelValidation h v =
     do {
       tm \<leftarrow> read_value h (mvp_TypeMeta v);
       me \<leftarrow> read_Meta h (mvp_Meta v);
       sp \<leftarrow> read_Spec h (mvp_Spec v);
       st \<leftarrow> read_Status h (mvp_Status v);
       Some (tm, \<lparr>mv_Meta = me, mv_Spec = sp, mv_Status = st\<rparr>)
     }"

definition ModelValidation_DeepCopyInto :: "copy_lib \<Rightarrow> ModelValidationP copier" where
  "ModelValidation_DeepCopyInto L v h =
     do {
       (tm, h) \<leftarrow> copy_value (mvp_TypeMeta v) h;
       (me, h) \<leftarrow> cl_Meta L (mvp_Meta v) h;
       (sp, h) \<leftarrow> ModelValidationSpec_DeepCopyInto L (mvp_Spec v) h;
       (st, h) \<leftarrow> ModelValidationStatus_DeepCopyInto (mvp_Status v) h;
       Some (v\<lparr>mvp_TypeMeta := tm, mvp_Meta := me, mvp_Spec := sp, mvp_Status := st\<rparr>, h)
     }"

definition ModelValidation_DeepCopy :: "copy_lib \<Rightarrow> ptr copier" where
  "ModelValidation_DeepCopy L = copy_ptr ModelValidationCell model_validation_of (ModelValidation_DeepCopyInto L)"

text \<open>A \<open>runtime.Object\<close> is an interface: nil, or a type and a pointer.\<close>

datatype runtime_Object =
    ModelValidationObject nat
  | ModelValidationListObject nat
  | TelemetryConfigObject nat
  | TelemetryConfigListObject nat

definition ModelValidation_DeepCopyObject :: "copy_lib \<Rightarrow> ptr \<Rightarrow> memory \<Rightarrow> (runtime_Object option \<times> memory) option" where
  "ModelValidation_DeepCopyObject L p h =
     do {
       (c, h) \<leftarrow> ModelValidation_DeepCopy L p h;
       case c of Some a \<Rightarrow> Some (Some (ModelValidationObject a), h) | None \<Rightarrow> Some (None, h)
     }"

record ModelValidationList =
  mvl_TypeMeta :: TypeMeta
  mvl_ListMeta :: ListMeta
  mvl_Items :: "(TypeMeta \<times> ModelValidation) list"

definition read_ModelValidationList :: "(ModelValidationListP, ModelValidationList) reading" where
  "read_ModelValidationList h v =
     do {
       tm \<leftarrow> read_value h (mlp_TypeMeta v);
       lm \<leftarrow> read_ListMeta h (mlp_ListMeta v);
       it \<leftarrow> read_ptr model_validations_of (read_items read_ModelValidation) h (mlp_Items v);
       Some \<lparr>mvl_TypeMeta = tm, mvl_ListMeta = lm, mvl_Items = or_nil [] it\<rparr>
     }"

definition ModelValidationList_DeepCopyInto :: "copy_lib \<Rightarrow> ModelValidationListP copier" where
  "ModelValidationList_DeepCopyInto L v h =
     do {
       (tm, h) \<leftarrow> copy_value (mlp_TypeMeta v) h;
       (lm, h) \<leftarrow> cl_ListMeta L (mlp_ListMeta v) h;
       (it, h) \<leftarrow> copy_ptr ModelValidationsCell model_validations_of (copy_items (ModelValidation_DeepCopyInto L)) (mlp_Items v) h;
       Some (v\<lparr>mlp_TypeMeta := tm, mlp_ListMeta := lm, mlp_Items := it\<rparr>, h)
     }"

definition ModelValidationList_DeepCopy :: "copy_lib \<Rightarrow> ptr copier" where
  "ModelValidationList_DeepCopy L = copy_ptr ModelValidationListCell model_validation_list_of (ModelValidationList_DeepCopyInto L)"

definition ModelValidationList_DeepCopyObject :: "copy_lib \<Rightarrow> ptr \<Rightarrow> memory \<Rightarrow> (runtime_Object option \<times> memory) option" where
  "ModelValidationList_DeepCopyObject L p h =
     do {
       (c, h) \<leftarrow> ModelValidationList_DeepCopy L p h;
       case c of Some a \<Rightarrow> Some (Some (ModelValidationListObject a), h) | None \<Rightarrow> Some (None, h)
     }"

section \<open>TelemetryConfig\<close>

definition read_Tracing :: "(TracingP, TracingConfig) reading" where
  "read_Tracing h v =
     do {
       is \<leftarrow> read_ptr bool_of read_value h (trp_Insecure v);
       en \<leftarrow> read_ptr env_of (read_items read_value) h (trp_Env v);
       Some \<lparr>tr_Enabled = trp_Enabled v, tr_Endpoint = trp_Endpoint v, tr_Insecure = is,
             tr_Sampler = trp_Sampler v, tr_SamplerArg = trp_SamplerArg v, tr_Env = or_nil [] en\<rparr>
     }"

definition TracingConfig_DeepCopyInto :: "TracingP copier" where
  "TracingConfig_DeepCopyInto v h =
     do {
       (is, h) \<leftarrow> copy_ptr BoolCell bool_of copy_value (trp_Insecure v) h;
       (en, h) \<leftarrow> copy_ptr EnvCell env_of (copy_items copy_value) (trp_Env v) h;
       Some (v\<lparr>trp_Insecure := is, trp_Env := en\<rparr>, h)
     }"

definition TracingConfig_DeepCopy :: "ptr copier" where
  "TracingConfig_DeepCopy = copy_ptr TracingCell tracing_of TracingConfig_DeepCopyInto"

lemma copies_Tracing: "deep_copy read_Tracing TracingConfig_DeepCopyInto"
  by (rule copies_struct [where get = "\<lambda>v. (trp_Insecure v, trp_Env v)"
      and put = "\<lambda>v (is, en). v\<lparr>trp_Insecure := is, trp_Env := en\<rparr>"
      and mk = "\<lambda>v (is, en). \<lparr>tr_Enabled = trp_Enabled v, tr_Endpoint = trp_Endpoint v, tr_Insecure = is,
        tr_Sampler = trp_Sampler v, tr_SamplerArg = trp_SamplerArg v, tr_Env = or_nil [] en\<rparr>",
      OF copies_pair [OF copies_bool deep_copy.of_pointer [OF deep_copy.of_items [OF copies_value] cell_views_ok(17)]]])
    (auto simp: read_Tracing_def TracingConfig_DeepCopyInto_def copies_tuple intro!: bind_option_cong ext)

definition read_TelemetrySpec :: "(TelemetrySpecP, TelemetryConfigSpec) reading" where
  "read_TelemetrySpec h v =
     do {
       ns \<leftarrow> read_ptr selector_of read_Selector h (tsp_NamespaceSelector v);
       se \<leftarrow> read_ptr selector_of read_Selector h (tsp_Selector v);
       tr \<leftarrow> read_Tracing h (tsp_Tracing v);
       Some \<lparr>tcs_NamespaceSelector = ns, tcs_Selector = se, tcs_Tracing = tr\<rparr>
     }"

definition TelemetryConfigSpec_DeepCopyInto :: "copy_lib \<Rightarrow> TelemetrySpecP copier" where
  "TelemetryConfigSpec_DeepCopyInto L v h =
     do {
       (ns, h) \<leftarrow> copy_ptr SelectorCell selector_of (cl_Selector L) (tsp_NamespaceSelector v) h;
       (se, h) \<leftarrow> copy_ptr SelectorCell selector_of (cl_Selector L) (tsp_Selector v) h;
       (tr, h) \<leftarrow> TracingConfig_DeepCopyInto (tsp_Tracing v) h;
       Some (v\<lparr>tsp_NamespaceSelector := ns, tsp_Selector := se, tsp_Tracing := tr\<rparr>, h)
     }"

definition TelemetryConfigSpec_DeepCopy :: "copy_lib \<Rightarrow> ptr copier" where
  "TelemetryConfigSpec_DeepCopy L = copy_ptr TelemetrySpecCell telemetry_spec_of (TelemetryConfigSpec_DeepCopyInto L)"

definition read_TelemetryStatus :: "(TelemetryStatusP, TelemetryConfigStatus) reading" where
  "read_TelemetryStatus h v =
     do {
       la \<leftarrow> read_value h (ttp_LastApplied v);
       co \<leftarrow> read_ptr conditions_of (read_items read_value) h (ttp_Conditions v);
       Some \<lparr>tct_MatchedNamespaceCount = ttp_MatchedNamespaceCount v,
             tct_MatchedModelValidationCount = ttp_MatchedModelValidationCount v,
             tct_LastApplied = la, tct_Conditions = or_nil [] co\<rparr>
     }"

definition TelemetryConfigStatus_DeepCopyInto :: "TelemetryStatusP copier" where
  "TelemetryConfigStatus_DeepCopyInto v h =
     do {
       (la, h) \<leftarrow> copy_value (ttp_LastApplied v) h;
       (co, h) \<leftarrow> copy_ptr ConditionsCell conditions_of (copy_items copy_value) (ttp_Conditions v) h;
       Some (v\<lparr>ttp_LastApplied := la, ttp_Conditions := co\<rparr>, h)
     }"

definition TelemetryConfigStatus_DeepCopy :: "ptr copier" where
  "TelemetryConfigStatus_DeepCopy = copy_ptr TelemetryStatusCell telemetry_status_of TelemetryConfigStatus_DeepCopyInto"

lemma copies_TelemetryStatus: "deep_copy read_TelemetryStatus TelemetryConfigStatus_DeepCopyInto"
  by (rule copies_struct [where get = "\<lambda>v. (ttp_LastApplied v, ttp_Conditions v)"
      and put = "\<lambda>v (la, co). v\<lparr>ttp_LastApplied := la, ttp_Conditions := co\<rparr>"
      and mk = "\<lambda>v (la, co). \<lparr>tct_MatchedNamespaceCount = ttp_MatchedNamespaceCount v,
        tct_MatchedModelValidationCount = ttp_MatchedModelValidationCount v, tct_LastApplied = la,
        tct_Conditions = or_nil [] co\<rparr>",
      OF copies_pair [OF copies_value deep_copy.of_pointer [OF deep_copy.of_items [OF copies_value] cell_views_ok(14)]]])
    (auto simp: read_TelemetryStatus_def TelemetryConfigStatus_DeepCopyInto_def copies_tuple intro!: bind_option_cong ext)

definition read_Telemetry :: "(TelemetryP, TypeMeta \<times> TelemetryConfig) reading" where
  "read_Telemetry h v =
     do {
       tm \<leftarrow> read_value h (tcp_TypeMeta v);
       me \<leftarrow> read_Meta h (tcp_Meta v);
       sp \<leftarrow> read_TelemetrySpec h (tcp_Spec v);
       st \<leftarrow> read_TelemetryStatus h (tcp_Status v);
       Some (tm, \<lparr>tc_Meta = me, tc_Spec = sp, tc_Status = st\<rparr>)
     }"

definition TelemetryConfig_DeepCopyInto :: "copy_lib \<Rightarrow> TelemetryP copier" where
  "TelemetryConfig_DeepCopyInto L v h =
     do {
       (tm, h) \<leftarrow> copy_value (tcp_TypeMeta v) h;
       (me, h) \<leftarrow> cl_Meta L (tcp_Meta v) h;
       (sp, h) \<leftarrow> TelemetryConfigSpec_DeepCopyInto L (tcp_Spec v) h;
       (st, h) \<leftarrow> TelemetryConfigStatus_DeepCopyInto (tcp_Status v) h;
       Some (v\<lparr>tcp_TypeMeta := tm, tcp_Meta := me, tcp_Spec := sp, tcp_Status := st\<rparr>, h)
     }"

definition TelemetryConfig_DeepCopy :: "copy_lib \<Rightarrow> ptr copier" where
  "TelemetryConfig_DeepCopy L = copy_ptr TelemetryCell telemetry_of (TelemetryConfig_DeepCopyInto L)"

definition TelemetryConfig_DeepCopyObject :: "copy_lib \<Rightarrow> ptr \<Rightarrow> memory \<Rightarrow> (runtime_Object option \<times> memory) option" where
  "TelemetryConfig_DeepCopyObject L p h =
     do {
       (c, h) \<leftarrow> TelemetryConfig_DeepCopy L p h;
       case c of Some a \<Rightarrow> Some (Some (TelemetryConfigObject a), h) | None \<Rightarrow> Some (None, h)
     }"

record TelemetryConfigList =
  tcl_TypeMeta :: TypeMeta
  tcl_ListMeta :: ListMeta
  tcl_Items :: "(TypeMeta \<times> TelemetryConfig) list"

definition read_TelemetryConfigList :: "(TelemetryListP, TelemetryConfigList) reading" where
  "read_TelemetryConfigList h v =
     do {
       tm \<leftarrow> read_value h (tlp_TypeMeta v);
       lm \<leftarrow> read_ListMeta h (tlp_ListMeta v);
       it \<leftarrow> read_ptr telemetries_of (read_items read_Telemetry) h (tlp_Items v);
       Some \<lparr>tcl_TypeMeta = tm, tcl_ListMeta = lm, tcl_Items = or_nil [] it\<rparr>
     }"

definition TelemetryConfigList_DeepCopyInto :: "copy_lib \<Rightarrow> TelemetryListP copier" where
  "TelemetryConfigList_DeepCopyInto L v h =
     do {
       (tm, h) \<leftarrow> copy_value (tlp_TypeMeta v) h;
       (lm, h) \<leftarrow> cl_ListMeta L (tlp_ListMeta v) h;
       (it, h) \<leftarrow> copy_ptr TelemetriesCell telemetries_of (copy_items (TelemetryConfig_DeepCopyInto L)) (tlp_Items v) h;
       Some (v\<lparr>tlp_TypeMeta := tm, tlp_ListMeta := lm, tlp_Items := it\<rparr>, h)
     }"

definition TelemetryConfigList_DeepCopy :: "copy_lib \<Rightarrow> ptr copier" where
  "TelemetryConfigList_DeepCopy L = copy_ptr TelemetryListCell telemetry_list_of (TelemetryConfigList_DeepCopyInto L)"

definition TelemetryConfigList_DeepCopyObject :: "copy_lib \<Rightarrow> ptr \<Rightarrow> memory \<Rightarrow> (runtime_Object option \<times> memory) option" where
  "TelemetryConfigList_DeepCopyObject L p h =
     do {
       (c, h) \<leftarrow> TelemetryConfigList_DeepCopy L p h;
       case c of Some a \<Rightarrow> Some (Some (TelemetryConfigListObject a), h) | None \<Rightarrow> Some (None, h)
     }"

section \<open>The resources are copied deeply\<close>

context library_copies
begin

lemma copies_Spec: "deep_copy read_Spec (ModelValidationSpec_DeepCopyInto L)"
  by (rule copies_struct [where get = "\<lambda>v. (sp_Model v, sp_Config v, sp_ContinuousValidation v, sp_Resources v)"
      and put = "\<lambda>v (mo, co, cv, rr). v\<lparr>sp_Model := mo, sp_Config := co, sp_ContinuousValidation := cv, sp_Resources := rr\<rparr>"
      and mk = "\<lambda>v (mo, co, cv, rr). \<lparr>mvs_Model = mo, mvs_Config = co, mvs_ImagePullPolicy = sp_ImagePullPolicy v,
        mvs_ContinuousValidation = cv, mvs_Resources = rr\<rparr>",
      OF copies_pair [OF copies_Model copies_pair [OF copies_ValidationConfig copies_pair [OF copies_continuous deep_copy.of_pointer [OF resources_copied cell_views_ok(12)]]]]])
    (auto simp: read_Spec_def ModelValidationSpec_DeepCopyInto_def copies_tuple intro!: bind_option_cong ext)

lemma copies_ModelValidation: "deep_copy read_ModelValidation (ModelValidation_DeepCopyInto L)"
  by (rule copies_struct [where get = "\<lambda>v. (mvp_TypeMeta v, mvp_Meta v, mvp_Spec v, mvp_Status v)"
      and put = "\<lambda>v (tm, me, sp, st). v\<lparr>mvp_TypeMeta := tm, mvp_Meta := me, mvp_Spec := sp, mvp_Status := st\<rparr>"
      and mk = "\<lambda>v (tm, me, sp, st). (tm, \<lparr>mv_Meta = me, mv_Spec = sp, mv_Status = st\<rparr>)",
      OF copies_pair [OF copies_value copies_pair [OF meta_copied copies_pair [OF copies_Spec copies_Status]]]])
    (auto simp: read_ModelValidation_def ModelValidation_DeepCopyInto_def copies_tuple intro!: bind_option_cong ext)

lemma copies_ModelValidationList: "deep_copy read_ModelValidationList (ModelValidationList_DeepCopyInto L)"
  by (rule copies_struct [where get = "\<lambda>v. (mlp_TypeMeta v, mlp_ListMeta v, mlp_Items v)"
      and put = "\<lambda>v (tm, lm, it). v\<lparr>mlp_TypeMeta := tm, mlp_ListMeta := lm, mlp_Items := it\<rparr>"
      and mk = "\<lambda>v (tm, lm, it). \<lparr>mvl_TypeMeta = tm, mvl_ListMeta = lm, mvl_Items = or_nil [] it\<rparr>",
      OF copies_pair [OF copies_value copies_pair [OF list_meta_copied deep_copy.of_pointer [OF deep_copy.of_items [OF copies_ModelValidation] cell_views_ok(23)]]]])
    (auto simp: read_ModelValidationList_def ModelValidationList_DeepCopyInto_def copies_tuple intro!: bind_option_cong ext)

lemma copies_TelemetrySpec: "deep_copy read_TelemetrySpec (TelemetryConfigSpec_DeepCopyInto L)"
  by (rule copies_struct [where get = "\<lambda>v. (tsp_NamespaceSelector v, tsp_Selector v, tsp_Tracing v)"
      and put = "\<lambda>v (ns, se, tr). v\<lparr>tsp_NamespaceSelector := ns, tsp_Selector := se, tsp_Tracing := tr\<rparr>"
      and mk = "\<lambda>v (ns, se, tr). \<lparr>tcs_NamespaceSelector = ns, tcs_Selector = se, tcs_Tracing = tr\<rparr>",
      OF copies_pair [OF deep_copy.of_pointer [OF selector_copied cell_views_ok(13)] copies_pair [OF deep_copy.of_pointer [OF selector_copied cell_views_ok(13)] copies_Tracing]]])
    (auto simp: read_TelemetrySpec_def TelemetryConfigSpec_DeepCopyInto_def copies_tuple intro!: bind_option_cong ext)

lemma copies_Telemetry: "deep_copy read_Telemetry (TelemetryConfig_DeepCopyInto L)"
  by (rule copies_struct [where get = "\<lambda>v. (tcp_TypeMeta v, tcp_Meta v, tcp_Spec v, tcp_Status v)"
      and put = "\<lambda>v (tm, me, sp, st). v\<lparr>tcp_TypeMeta := tm, tcp_Meta := me, tcp_Spec := sp, tcp_Status := st\<rparr>"
      and mk = "\<lambda>v (tm, me, sp, st). (tm, \<lparr>tc_Meta = me, tc_Spec = sp, tc_Status = st\<rparr>)",
      OF copies_pair [OF copies_value copies_pair [OF meta_copied copies_pair [OF copies_TelemetrySpec copies_TelemetryStatus]]]])
    (auto simp: read_Telemetry_def TelemetryConfig_DeepCopyInto_def copies_tuple intro!: bind_option_cong ext)

lemma copies_TelemetryConfigList: "deep_copy read_TelemetryConfigList (TelemetryConfigList_DeepCopyInto L)"
  by (rule copies_struct [where get = "\<lambda>v. (tlp_TypeMeta v, tlp_ListMeta v, tlp_Items v)"
      and put = "\<lambda>v (tm, lm, it). v\<lparr>tlp_TypeMeta := tm, tlp_ListMeta := lm, tlp_Items := it\<rparr>"
      and mk = "\<lambda>v (tm, lm, it). \<lparr>tcl_TypeMeta = tm, tcl_ListMeta = lm, tcl_Items = or_nil [] it\<rparr>",
      OF copies_pair [OF copies_value copies_pair [OF list_meta_copied deep_copy.of_pointer [OF deep_copy.of_items [OF copies_Telemetry] cell_views_ok(29)]]]])
    (auto simp: read_TelemetryConfigList_def TelemetryConfigList_DeepCopyInto_def copies_tuple intro!: bind_option_cong ext)

end

text \<open>The interface at the types the program copies through pointers.\<close>

interpretation model: deep_copy read_Model Model_DeepCopyInto
  by (rule copies_Model)

interpretation status: deep_copy read_Status ModelValidationStatus_DeepCopyInto
  by (rule copies_Status)

sublocale library_copies \<subseteq> mv: deep_copy read_ModelValidation "ModelValidation_DeepCopyInto L"
  by (rule copies_ModelValidation)

sublocale library_copies \<subseteq> telemetry: deep_copy read_Telemetry "TelemetryConfig_DeepCopyInto L"
  by (rule copies_Telemetry)

context library_copies
begin

lemma ModelValidation_DeepCopy_ok:
  "deep_copy (read_ptr model_validation_of read_ModelValidation) (ModelValidation_DeepCopy L)"
  unfolding ModelValidation_DeepCopy_def by (rule mv.of_pointer) simp

lemma TelemetryConfig_DeepCopy_ok:
  "deep_copy (read_ptr telemetry_of read_Telemetry) (TelemetryConfig_DeepCopy L)"
  unfolding TelemetryConfig_DeepCopy_def by (rule telemetry.of_pointer) simp

end

lemma read_ptr_Some_conv: "read_ptr proj rd h q = Some (Some x) \<Longrightarrow> \<exists>b. q = Some b"
  by (simp add: read_ptr_def split: option.splits)

lemma read_ptr_None_conv: "read_ptr proj rd h q = Some None \<longleftrightarrow> q = None"
  by (auto simp: read_ptr_def bind_eq_Some_conv split: option.splits)


definition sample_memory :: memory where
  "sample_memory =
    [StringsCell [''.git''], BoolCell True, PublicKeyCell \<lparr>pk_KeyPath = ''/keys/k.pub''\<rparr>,
     MapCell (fmupd ''app'' ''llm'' fmempty), PodsCell [\<lparr>pti_Name = ''p'', pti_UID = ''u'', pti_InjectedAt = 7\<rparr>],
     ModelValidationCell
       \<lparr>mvp_TypeMeta = (''ModelValidation'', ''v1alpha1''),
        mvp_Meta = \<lparr>mtp_Name = ''mv'', mtp_Namespace = ''prod'', mtp_UID = ''1'', mtp_Generation = 1,
          mtp_CreationTimestamp = 0, mtp_DeletionTimestamp = None, mtp_Labels = Some 3,
          mtp_Annotations = None, mtp_Finalizers = None\<rparr>,
        mvp_Spec = \<lparr>sp_Model = \<lparr>mp_Path = ''/m'', mp_SignaturePath = ''/m.sig'', mp_IgnorePaths = Some 0,
            mp_IgnoreGitPaths = Some 1, mp_IgnoreUnsignedFiles = None, mp_AllowSymlinks = Some 1\<rparr>,
          sp_Config = \<lparr>vcp_SigstoreConfig = None, vcp_PkiConfig = None, vcp_PublicKeyConfig = Some 2,
            vcp_ClientTrustConfig = None\<rparr>,
          sp_ImagePullPolicy = [], sp_ContinuousValidation = None, sp_Resources = None\<rparr>,
        mvp_Status = \<lparr>stp_Conditions = None, stp_InjectedPodCount = 1, stp_UninjectedPodCount = 0,
          stp_OrphanedPodCount = 0, stp_AuthMethod = ''public-key'', stp_InjectedPods = Some 4,
          stp_UninjectedPods = None, stp_OrphanedPods = None, stp_LastUpdated = 9\<rparr>\<rparr>]"

definition sample_value :: ModelValidation where
  "sample_value =
    \<lparr>mv_Meta = \<lparr>om_Name = ''mv'', om_Namespace = ''prod'', om_UID = ''1'', om_Generation = 1,
       om_CreationTimestamp = 0, om_DeletionTimestamp = None, om_Labels = fmupd ''app'' ''llm'' fmempty,
       om_Annotations = fmempty, om_Finalizers = []\<rparr>,
     mv_Spec = \<lparr>mvs_Model = \<lparr>m_Path = ''/m'', m_SignaturePath = ''/m.sig'', m_IgnorePaths = [''.git''],
         m_IgnoreGitPaths = Some True, m_IgnoreUnsignedFiles = None, m_AllowSymlinks = Some True\<rparr>,
       mvs_Config = \<lparr>vc_SigstoreConfig = None, vc_PkiConfig = None,
         vc_PublicKeyConfig = Some \<lparr>pk_KeyPath = ''/keys/k.pub''\<rparr>, vc_ClientTrustConfig = None\<rparr>,
       mvs_ImagePullPolicy = [], mvs_ContinuousValidation = None, mvs_Resources = None\<rparr>,
     mv_Status = \<lparr>st_Conditions = [], st_InjectedPodCount = 1, st_UninjectedPodCount = 0,
       st_OrphanedPodCount = 0, st_AuthMethod = ''public-key'',
       st_InjectedPods = [\<lparr>pti_Name = ''p'', pti_UID = ''u'', pti_InjectedAt = 7\<rparr>],
       st_UninjectedPods = [], st_OrphanedPods = [], st_LastUpdated = 9\<rparr>\<rparr>"

lemmas reading_defs = read_ptr_def load_def read_value_def or_nil_def cell_views
  read_ModelValidation_def read_Meta_def read_Spec_def read_Status_def read_Model_def read_ValidationConfig_def


section \<open>Merging in memory\<close>

text \<open>
  \<open>mergeModelWithAnnotations\<close> on memory.  The argument is a copy of the struct, which shares its
  slice and its flags with the cached resource; \<open>DeepCopy\<close> separates them, and each annotation
  allocates its value and redirects one field of \<open>merged\<close>.
\<close>

definition set_field :: "nat \<Rightarrow> (ModelP \<Rightarrow> ModelP) \<Rightarrow> memory \<Rightarrow> memory option" where
  "set_field m f h = do { v \<leftarrow> load model_of h m; Some (store m (ModelCell (f v)) h) }"

definition merge_paths :: "(string, string) fmap \<Rightarrow> nat \<Rightarrow> memory \<Rightarrow> memory option" where
  "merge_paths annotations m h =
     (case fmlookup annotations IgnorePathsAnnotationKey of
        Some ignorePathsStr \<Rightarrow>
          (if ignorePathsStr \<noteq> [] \<and> annotation_paths ignorePathsStr \<noteq> []
           then let (b, h) = alloc (StringsCell (annotation_paths ignorePathsStr)) h
                in set_field m (mp_IgnorePaths_update (\<lambda>_. Some b)) h
           else Some h)
      | None \<Rightarrow> Some h)"

definition merge_flag ::
  "(string, string) fmap \<Rightarrow> string \<Rightarrow> (ptr \<Rightarrow> ModelP \<Rightarrow> ModelP) \<Rightarrow> nat \<Rightarrow> memory \<Rightarrow> memory option" where
  "merge_flag annotations key f m h =
     (case parseBoolAnnotation annotations key of
        Some val \<Rightarrow> (let (b, h) = alloc (BoolCell val) h in set_field m (f (Some b)) h)
      | None \<Rightarrow> Some h)"

definition merge_in_memory :: "(string, string) fmap \<Rightarrow> ModelP copier" where
  "merge_in_memory annotations model h =
     do {
       let (arg, h) = alloc (ModelCell model) h;
       (merged, h) \<leftarrow> Model_DeepCopy (Some arg) h;
       m \<leftarrow> merged;
       h \<leftarrow> merge_paths annotations m h;
       h \<leftarrow> merge_flag annotations IgnoreGitPathsAnnotationKey (\<lambda>b. mp_IgnoreGitPaths_update (\<lambda>_. b)) m h;
       h \<leftarrow> merge_flag annotations IgnoreUnsignedFilesAnnotationKey (\<lambda>b. mp_IgnoreUnsignedFiles_update (\<lambda>_. b)) m h;
       h \<leftarrow> merge_flag annotations AllowSymlinksAnnotationKey (\<lambda>b. mp_AllowSymlinks_update (\<lambda>_. b)) m h;
       v \<leftarrow> load model_of h m;
       Some (v, h)
     }"

text \<open>The cell \<open>m\<close> holds a model whose value \<open>x\<close> lives from \<open>n\<close> on.\<close>

definition holds_model :: "nat \<Rightarrow> memory \<Rightarrow> nat \<Rightarrow> Model \<Rightarrow> bool" where
  "holds_model n h m x \<longleftrightarrow> n \<le> m \<and> n \<le> length h \<and> (\<exists>v. load model_of h m = Some v \<and> lives_from n read_Model h v x)"

lemma model_of_Some: "model_of c = Some v \<longleftrightarrow> c = ModelCell v"
  by (simp add: model_of_def split: cell.splits)

lemma read_Model_model_cell:
  assumes "h ! m = ModelCell w"
  shows "read_Model (h[m := ModelCell u]) v = read_Model h v"
proof -
  have "load strings_of (h[m := ModelCell u]) a = load strings_of h a"
    "load bool_of (h[m := ModelCell u]) a = load bool_of h a" for a
    using assms by (cases "a = m"; simp add: load_def cell_views)+
  then show ?thesis by (simp add: read_Model_def read_ptr_def read_value_def cong: option.case_cong)
qed

lemma holds_model_set:
  assumes "holds_model n h m x"
    and "\<And>h' v. length h < length h' \<Longrightarrow> h' ! length h = c \<Longrightarrow> read_Model h' v = Some x \<Longrightarrow> read_Model h' (f v) = Some y"
  shows "\<exists>h'. set_field m f (h @ [c]) = Some h' \<and> agree_below n h h' \<and> holds_model n h' m y"
proof -
  from assms(1) obtain v where v: "n \<le> m" "n \<le> length h" "m < length h" "h ! m = ModelCell v" "lives_from n read_Model h v x"
    by (auto simp: holds_model_def load_def model_of_Some split: if_splits)
  let ?h = "(h @ [c])[m := ModelCell (f v)]"
  have "lives_from n read_Model ?h (f v) y"
    unfolding lives_from_def
  proof (intro allI impI)
    fix h3 assume h3: "agree_from n ?h h3"
    then have m: "h3 ! m = ModelCell (f v)" and c: "length h < length h3" "h3 ! length h = c"
      using v by (auto simp: agree_from_def)
    have "agree_from n h (h3[m := ModelCell v])"
      using h3 v by (auto simp: agree_from_def nth_list_update nth_append split: if_splits)
    then have "read_Model h3 v = Some x" using v(5) read_Model_model_cell [OF m]
      unfolding lives_from_def by metis
    then show "read_Model h3 (f v) = Some y" using assms(2) c by simp
  qed
  moreover have "agree_below n h ?h" "set_field m f (h @ [c]) = Some ?h" "load model_of ?h m = Some (f v)"
    using v by (auto simp: agree_below_def set_field_def load_def store_def nth_append model_of_def)
  ultimately show ?thesis using v by (auto simp: holds_model_def)
qed

lemma lives_from_ptr:
  assumes "lives_from n (read_ptr proj rd) h (Some m) (Some x)" and "proj c = None"
  shows "n \<le> m" and "\<exists>v. load proj h m = Some v \<and> lives_from n rd h v x"
proof -
  obtain v where v: "load proj h m = Some v" "rd h v = Some x"
    using lives_from_now [OF assms(1)] by (auto simp: read_ptr_def bind_eq_Some_conv)
  show m: "n \<le> m"
  proof (rule ccontr)
    assume "\<not> n \<le> m"
    then have "agree_from n h (h[m := c])" by (auto simp: agree_from_def)
    then have "read_ptr proj rd (h[m := c]) (Some m) = Some (Some x)"
      using assms(1) by (simp add: lives_from_def)
    then show False using v(1) assms(2) by (auto simp: read_ptr_def load_def bind_eq_Some_conv split: if_splits)
  qed
  have "rd h' v = Some x" if "agree_from n h h'" for h'
  proof -
    have "read_ptr proj rd h' (Some m) = Some (Some x)" using assms(1) that by (simp add: lives_from_def)
    moreover have "load proj h' m = Some v" using that v(1) m by (auto simp: load_def agree_from_def split: if_splits)
    ultimately show ?thesis by (simp add: read_ptr_def bind_eq_Some_conv)
  qed
  then show "\<exists>v. load proj h m = Some v \<and> lives_from n rd h v x" using v(1) by (auto simp: lives_from_def)
qed

lemma read_Model_fields:
  assumes "read_Model h v = Some x"
  shows "load strings_of h b = Some ps \<Longrightarrow> read_Model h (v\<lparr>mp_IgnorePaths := Some b\<rparr>) = Some (x\<lparr>m_IgnorePaths := ps\<rparr>)"
    and "load bool_of h b = Some val \<Longrightarrow> read_Model h (v\<lparr>mp_IgnoreGitPaths := Some b\<rparr>) = Some (x\<lparr>m_IgnoreGitPaths := Some val\<rparr>)"
    and "load bool_of h b = Some val \<Longrightarrow> read_Model h (v\<lparr>mp_IgnoreUnsignedFiles := Some b\<rparr>) = Some (x\<lparr>m_IgnoreUnsignedFiles := Some val\<rparr>)"
    and "load bool_of h b = Some val \<Longrightarrow> read_Model h (v\<lparr>mp_AllowSymlinks := Some b\<rparr>) = Some (x\<lparr>m_AllowSymlinks := Some val\<rparr>)"
  using assms by (auto simp: read_Model_def bind_eq_Some_conv read_ptr_def [of _ _ _ "Some b"] read_value_def or_nil_def)

lemma holds_model_paths:
  assumes "holds_model n h m x"
  shows "\<exists>h'. merge_paths annotations m h = Some h' \<and> agree_below n h h' \<and>
    holds_model n h' m (case fmlookup annotations IgnorePathsAnnotationKey of
      Some s \<Rightarrow> if s \<noteq> [] \<and> annotation_paths s \<noteq> [] then x\<lparr>m_IgnorePaths := annotation_paths s\<rparr> else x
    | None \<Rightarrow> x)"
proof -
  have idle: "agree_below n h h" using assms by (simp add: agree_below_def holds_model_def)
  have "\<exists>h'. set_field m (mp_IgnorePaths_update (\<lambda>_. Some (length h))) (h @ [StringsCell ps]) = Some h' \<and>
      agree_below n h h' \<and> holds_model n h' m (x\<lparr>m_IgnorePaths := ps\<rparr>)" for ps
    by (rule holds_model_set [OF assms]) (auto intro!: read_Model_fields simp: load_def cell_views)
  then show ?thesis using assms idle by (auto simp: merge_paths_def alloc_def split: option.split)
qed

lemma holds_model_flag:
  assumes "holds_model n h m x"
    and "\<And>h b val v. read_Model h v = Some x \<Longrightarrow> load bool_of h b = Some val \<Longrightarrow>
      read_Model h (f (Some b) v) = Some (g val x)"
  shows "\<exists>h'. merge_flag annotations key f m h = Some h' \<and> agree_below n h h' \<and>
    holds_model n h' m (case parseBoolAnnotation annotations key of Some val \<Rightarrow> g val x | None \<Rightarrow> x)"
proof (cases "parseBoolAnnotation annotations key")
  case None
  then show ?thesis using assms(1) by (auto simp: merge_flag_def agree_below_def holds_model_def)
next
  case (Some val)
  show ?thesis
    using holds_model_set [OF assms(1), of "BoolCell val" "f (Some (length h))" "g val x"] assms(2) [of _ _ "length h" val] Some
    by (auto simp: merge_flag_def alloc_def load_def cell_views)
qed

lemma agree_below_trans: "agree_below n h h1 \<Longrightarrow> agree_below n h1 h2 \<Longrightarrow> agree_below n h h2"
  by (simp add: agree_below_def)

lemma holds_model_merge:
  assumes "holds_model n h m x"
  shows "\<exists>w h'. do {
       h \<leftarrow> merge_paths annotations m h;
       h \<leftarrow> merge_flag annotations IgnoreGitPathsAnnotationKey (\<lambda>b. mp_IgnoreGitPaths_update (\<lambda>_. b)) m h;
       h \<leftarrow> merge_flag annotations IgnoreUnsignedFilesAnnotationKey (\<lambda>b. mp_IgnoreUnsignedFiles_update (\<lambda>_. b)) m h;
       h \<leftarrow> merge_flag annotations AllowSymlinksAnnotationKey (\<lambda>b. mp_AllowSymlinks_update (\<lambda>_. b)) m h;
       v \<leftarrow> load model_of h m;
       Some (v, h)
     } = Some (w, h') \<and> agree_below n h h' \<and> lives_from n read_Model h' w (mergeModelWithAnnotations x annotations)"
proof -
  from holds_model_paths [OF assms, of annotations] obtain h1 x1 where h1: "merge_paths annotations m h = Some h1"
    "agree_below n h h1" "holds_model n h1 m x1" "x1 = (case fmlookup annotations IgnorePathsAnnotationKey of
      Some s \<Rightarrow> if s \<noteq> [] \<and> annotation_paths s \<noteq> [] then x\<lparr>m_IgnorePaths := annotation_paths s\<rparr> else x
    | None \<Rightarrow> x)" by blast
  from holds_model_flag [OF h1(3), of "\<lambda>b. mp_IgnoreGitPaths_update (\<lambda>_. b)" "\<lambda>val. m_IgnoreGitPaths_update (\<lambda>_. Some val)"]
  obtain h2 x2 where h2: "merge_flag annotations IgnoreGitPathsAnnotationKey (\<lambda>b. mp_IgnoreGitPaths_update (\<lambda>_. b)) m h1 = Some h2"
    "agree_below n h1 h2" "holds_model n h2 m x2"
    "x2 = (case parseBoolAnnotation annotations IgnoreGitPathsAnnotationKey of
      Some val \<Rightarrow> x1\<lparr>m_IgnoreGitPaths := Some val\<rparr> | None \<Rightarrow> x1)" using read_Model_fields(2) by blast
  from holds_model_flag [OF h2(3), of "\<lambda>b. mp_IgnoreUnsignedFiles_update (\<lambda>_. b)" "\<lambda>val. m_IgnoreUnsignedFiles_update (\<lambda>_. Some val)"]
  obtain h3 x3 where h3: "merge_flag annotations IgnoreUnsignedFilesAnnotationKey (\<lambda>b. mp_IgnoreUnsignedFiles_update (\<lambda>_. b)) m h2 = Some h3"
    "agree_below n h2 h3" "holds_model n h3 m x3"
    "x3 = (case parseBoolAnnotation annotations IgnoreUnsignedFilesAnnotationKey of
      Some val \<Rightarrow> x2\<lparr>m_IgnoreUnsignedFiles := Some val\<rparr> | None \<Rightarrow> x2)" using read_Model_fields(3) by blast
  from holds_model_flag [OF h3(3), of "\<lambda>b. mp_AllowSymlinks_update (\<lambda>_. b)" "\<lambda>val. m_AllowSymlinks_update (\<lambda>_. Some val)"]
  obtain h4 x4 where h4: "merge_flag annotations AllowSymlinksAnnotationKey (\<lambda>b. mp_AllowSymlinks_update (\<lambda>_. b)) m h3 = Some h4"
    "agree_below n h3 h4" "holds_model n h4 m x4"
    "x4 = (case parseBoolAnnotation annotations AllowSymlinksAnnotationKey of
      Some val \<Rightarrow> x3\<lparr>m_AllowSymlinks := Some val\<rparr> | None \<Rightarrow> x3)" using read_Model_fields(4) by blast
  have "x4 = mergeModelWithAnnotations x annotations"
    unfolding h1(4) h2(4) h3(4) h4(4) mergeModelWithAnnotations_def Let_def by (rule refl)
  moreover have "agree_below n h h4"
    using h1(2) h2(2) h3(2) h4(2) agree_below_trans by blast
  ultimately show ?thesis using h4(3) h1(1) h2(1) h3(1) h4(1) by (auto simp: holds_model_def)
qed

text \<open>
  C26: merging in memory refines the merge of values: it gives a model whose value is
  \<open>mergeModelWithAnnotations\<close> of the model's value, all of it in cells allocated by the call, so
  that the cached resource keeps its value and later writes to either do not show in the other.
\<close>

theorem merging_keeps_the_cache:
  assumes "read_Model h v = Some x"
  shows "\<exists>w h'. merge_in_memory annotations v h = Some (w, h') \<and>
    read_Model h' w = Some (mergeModelWithAnnotations x annotations) \<and>
    read_Model h' v = Some x \<and>
    (\<forall>a c. a < length h \<longrightarrow> read_Model (store a c h') w = Some (mergeModelWithAnnotations x annotations)) \<and>
    (\<forall>a c. length h \<le> a \<longrightarrow> read_Model (store a c h') v = Some x)"
proof -
  let ?n = "length h" and ?h = "h @ [ModelCell v]" and ?y = "mergeModelWithAnnotations x annotations"
  have "read_ptr model_of read_Model ?h (Some ?n) = Some (Some x)"
    using model.stays [OF assms grows_alloc] by (simp add: read_ptr_def load_def cell_views)
  from deep_copy.copies [OF model.of_pointer [OF cell_views_ok(18)] this]
  obtain q h2 where q: "Model_DeepCopy (Some ?n) ?h = Some (q, h2)" "grows ?h h2"
    "lives_from (length ?h) (read_ptr model_of read_Model) h2 q (Some x)" by (auto simp: Model_DeepCopy_def)
  then obtain m where m: "q = Some m" using lives_from_now read_ptr_Some_conv by metis
  have "holds_model ?n h2 m x"
    using lives_from_ptr [OF q(3) [unfolded m], of "BoolCell True"] lives_from_mono [of "length ?h" read_Model h2 _ x ?n]
      grows_length [OF q(2)] by (auto simp: holds_model_def cell_views)
  from holds_model_merge [OF this, of annotations] obtain w h'
    where w: "merge_in_memory annotations v h = Some (w, h')" "agree_below ?n h2 h'" "lives_from ?n read_Model h' w ?y"
    using q(1) m by (auto simp: merge_in_memory_def alloc_def)
  have below: "grows h h'" using agree_below_trans [OF grows_trans [OF grows_alloc q(2)] w(2)] .
  have "read_Model (store a c h') v = Some x" if "?n \<le> a" for a c
    using model.stays [OF assms grows_store [OF below that]] by (simp add: store_def)
  moreover have "read_Model (store a c h') w = Some ?y" if "a < ?n" for a c
    using w(3) that unfolding lives_from_def store_def by (auto simp: agree_from_def)
  ultimately show ?thesis
    using w(1) lives_from_now [OF w(3)] model.stays [OF assms below] by blast
qed

definition strict_symlinks :: "(string, string) fmap" where
  "strict_symlinks = fmupd AllowSymlinksAnnotationKey ''false'' fmempty"

theorem merging_keeps_the_cache_witness:
  "\<exists>w h'. merge_in_memory strict_symlinks
      \<lparr>mp_Path = ''/m'', mp_SignaturePath = [], mp_IgnorePaths = Some 0, mp_IgnoreGitPaths = Some 1,
       mp_IgnoreUnsignedFiles = None, mp_AllowSymlinks = Some 1\<rparr> sample_memory = Some (w, h') \<and>
    map_option m_AllowSymlinks (read_Model h' w) = Some (Some False) \<and>
    load bool_of h' 1 = Some True"
proof -
  let ?v = "\<lparr>mp_Path = ''/m'', mp_SignaturePath = [], mp_IgnorePaths = Some 0, mp_IgnoreGitPaths = Some 1,
       mp_IgnoreUnsignedFiles = None, mp_AllowSymlinks = Some 1\<rparr>"
  let ?x = "\<lparr>m_Path = ''/m'', m_SignaturePath = [], m_IgnorePaths = [''.git''], m_IgnoreGitPaths = Some True,
       m_IgnoreUnsignedFiles = None, m_AllowSymlinks = Some True\<rparr>"
  have "read_Model sample_memory ?v = Some ?x"
    by (simp add: reading_defs sample_memory_def)
  from merging_keeps_the_cache [OF this, of strict_symlinks] obtain w h'
    where w: "merge_in_memory strict_symlinks ?v sample_memory = Some (w, h')"
      "read_Model h' w = Some (mergeModelWithAnnotations ?x strict_symlinks)" "read_Model h' ?v = Some ?x"
    by blast
  have "m_AllowSymlinks (mergeModelWithAnnotations ?x strict_symlinks) = Some False" by code_simp
  moreover have "load bool_of h' 1 = Some True"
    using w(3) by (auto simp: read_Model_def read_ptr_def read_value_def bind_eq_Some_conv)
  ultimately show ?thesis using w by auto
qed

end
