(* ===== verification/Test_Helpers.thy ===== *)
theory Test_Helpers
  imports Machine_Properties
begin

text \<open>
  \<open>internal/testutil/testutil.go\<close>: the builders of the objects the repository's tests start from,
  and the client whose status updates fail a given number of times.  A name made of the current
  time is an argument; the fake client of controller-runtime behind the failing one is a function.
\<close>

section \<open>Builders\<close>

definition DefaultNamespace :: string where
  "DefaultNamespace = ''default''"

definition or_default :: "string \<Rightarrow> string \<Rightarrow> string" where
  "or_default s d = (if s = [] then d else s)"

record TestModelValidationOptions =
  to_Name :: string
  to_Namespace :: string
  to_DeletionTimestamp :: "timestamp option"
  to_Finalizers :: "string list"
  to_ConfigType :: string
  to_CertificateCA :: string
  to_CertIdentity :: string
  to_CertOidcIssuer :: string
  to_ModelPath :: string
  to_SignaturePath :: string
  to_TrustConfigPath :: string
  to_IgnorePaths :: "string list"
  to_IgnoreGitPaths :: "bool option"
  to_IgnoreUnsignedFiles :: "bool option"
  to_AllowSymlinks :: "bool option"
  to_Resources :: "ResourceRequirements option"

record TestPodOptions =
  tp_Name :: string
  tp_Namespace :: string
  tp_UID :: string
  tp_Labels :: labels
  tp_Annotations :: labels
  tp_Finalizers :: "string list"
  tp_DeletionTimestamp :: "timestamp option"

definition built_meta ::
  "string \<Rightarrow> string \<Rightarrow> string \<Rightarrow> timestamp option \<Rightarrow> labels \<Rightarrow> labels \<Rightarrow> string list \<Rightarrow> ObjectMeta" where
  "built_meta name ns uid deleted ls as fs =
     \<lparr>om_Name = name, om_Namespace = ns, om_UID = uid, om_Generation = 0, om_CreationTimestamp = 0,
      om_DeletionTimestamp = deleted, om_Labels = ls, om_Annotations = as, om_Finalizers = fs\<rparr>"

definition empty_status :: ModelValidationStatus where
  "empty_status =
     \<lparr>st_Conditions = [], st_InjectedPodCount = 0, st_UninjectedPodCount = 0, st_OrphanedPodCount = 0,
      st_AuthMethod = [], st_InjectedPods = [], st_UninjectedPods = [], st_OrphanedPods = [], st_LastUpdated = 0\<rparr>"

definition test_config :: "TestModelValidationOptions \<Rightarrow> ValidationConfig" where
  "test_config opts =
     (let c = (if or_default (to_ConfigType opts) ''sigstore'' = ''pki''
        then \<lparr>vc_SigstoreConfig = None,
              vc_PkiConfig = Some \<lparr>pc_CertificateAuthority = or_default (to_CertificateCA opts) ''test-ca''\<rparr>,
              vc_PublicKeyConfig = None, vc_ClientTrustConfig = None\<rparr>
        else \<lparr>vc_SigstoreConfig = Some
                \<lparr>sc_CertificateIdentity = or_default (to_CertIdentity opts) ''test@example.com'',
                 sc_CertificateOidcIssuer = or_default (to_CertOidcIssuer opts) ''https://accounts.google.com''\<rparr>,
              vc_PkiConfig = None, vc_PublicKeyConfig = None, vc_ClientTrustConfig = None\<rparr>)
      in if to_TrustConfigPath opts \<noteq> []
         then c\<lparr>vc_ClientTrustConfig := Some \<lparr>ct_TrustConfigPath = to_TrustConfigPath opts\<rparr>\<rparr>
         else c)"

definition CreateTestModelValidation :: "string \<Rightarrow> TestModelValidationOptions \<Rightarrow> ModelValidation" where
  "CreateTestModelValidation fresh opts =
     \<lparr>mv_Meta = built_meta (or_default (to_Name opts) (''test-mv-'' @ fresh))
        (or_default (to_Namespace opts) DefaultNamespace) [] (to_DeletionTimestamp opts) fmempty fmempty
        (to_Finalizers opts),
      mv_Spec =
        \<lparr>mvs_Model =
           \<lparr>m_Path = or_default (to_ModelPath opts) ''/test-model'',
            m_SignaturePath = or_default (to_SignaturePath opts) ''/test-signature'',
            m_IgnorePaths = to_IgnorePaths opts, m_IgnoreGitPaths = to_IgnoreGitPaths opts,
            m_IgnoreUnsignedFiles = to_IgnoreUnsignedFiles opts, m_AllowSymlinks = to_AllowSymlinks opts\<rparr>,
         mvs_Config = test_config opts, mvs_ImagePullPolicy = [], mvs_ContinuousValidation = None,
         mvs_Resources = to_Resources opts\<rparr>,
      mv_Status = empty_status\<rparr>"

definition CreateTestPod :: "string \<Rightarrow> string \<Rightarrow> TestPodOptions \<Rightarrow> Pod" where
  "CreateTestPod fresh freshUID opts =
     \<lparr>pod_Meta = built_meta (or_default (tp_Name opts) (''test-pod-'' @ fresh))
        (or_default (tp_Namespace opts) DefaultNamespace) (or_default (tp_UID opts) (''uid-'' @ freshUID))
        (tp_DeletionTimestamp opts) (tp_Labels opts) (tp_Annotations opts) (tp_Finalizers opts),
      pod_Spec = \<lparr>ps_InitContainers = [],
        ps_Containers =
          [\<lparr>c_Name = ''test-container'', c_Image = ''test-image'', c_ImagePullPolicy = [], c_Command = [],
            c_Args = [], c_VolumeMounts = [], c_RestartPolicy = None, c_ReadinessProbe = None,
            c_LivenessProbe = None, c_Resources = \<lparr>rr_Requests = fmempty, rr_Limits = fmempty\<rparr>,
            c_Env = [], c_SecurityContext = None\<rparr>],
        ps_Volumes = []\<rparr>\<rparr>"

definition CreateTestNamespacedName :: "string \<Rightarrow> string \<Rightarrow> string \<Rightarrow> NamespacedName" where
  "CreateTestNamespacedName fresh name ns =
     \<lparr>nn_Namespace = or_default ns DefaultNamespace, nn_Name = or_default name (''test-name-'' @ fresh)\<rparr>"

definition CreateReconcileRequest :: "string \<Rightarrow> string \<Rightarrow> NamespacedName" where
  "CreateReconcileRequest ns name = \<lparr>nn_Namespace = ns, nn_Name = name\<rparr>"

definition GetModelValidationFromClient ::
  "(NamespacedName \<Rightarrow> ModelValidation client_result) \<Rightarrow> NamespacedName \<Rightarrow> ModelValidation client_result" where
  "GetModelValidationFromClient get namespacedName = get namespacedName"

text \<open>The builders respect the admission rule of the CRD, whatever options they are given.\<close>

lemma built_config_admitted:
  "exactly_one_method (mv_Config (CreateTestModelValidation fresh opts))"
  "GetAuthMethod (CreateTestModelValidation fresh opts) =
     (if to_ConfigType opts = ''pki'' then ''pki'' else ''sigstore'')"
  by (auto simp: CreateTestModelValidation_def test_config_def exactly_one_method_def GetAuthMethod_def
      or_default_def Let_def)

section \<open>The failing client\<close>

record FailingClient =
  fc_Client :: "ModelValidation \<Rightarrow> client_error option"
  fc_FailureCount :: int
  fc_MaxFailures :: int
  fc_AttemptCount :: int

definition simulated_failure :: client_error where
  "simulated_failure = ApiError ''simulated status update failure''"

text \<open>The writer returned by \<open>Status\<close> shares the counters of its parent, under the parent's mutex.\<close>

definition FailingSubResourceWriter_Update ::
  "ModelValidation \<Rightarrow> FailingClient \<Rightarrow> client_error option \<times> FailingClient" where
  "FailingSubResourceWriter_Update obj f =
     (let f = f\<lparr>fc_AttemptCount := fc_AttemptCount f + 1\<rparr>
      in if fc_FailureCount f < fc_MaxFailures f
         then (Some simulated_failure, f\<lparr>fc_FailureCount := fc_FailureCount f + 1\<rparr>)
         else (fc_Client f obj, f))"

definition GetAttemptCount :: "FailingClient \<Rightarrow> int" where
  "GetAttemptCount f = fc_AttemptCount f"

definition GetFailureCount :: "FailingClient \<Rightarrow> int" where
  "GetFailureCount f = fc_FailureCount f"

text \<open>
  The assertions of \<open>ginkgo_utils.go\<close>, as whether they pass.  The last polls the counter every 10 ms
  for two seconds: \<open>polls\<close> are the clients it sees.
\<close>

definition ExpectModelValidationTracking :: "(NamespacedName \<Rightarrow> bool) \<Rightarrow> NamespacedName \<Rightarrow> bool \<Rightarrow> bool" where
  "ExpectModelValidationTracking isTracked namespacedName shouldBeTracked \<longleftrightarrow>
     isTracked namespacedName = shouldBeTracked"

definition ExpectAttemptCount :: "FailingClient list \<Rightarrow> int \<Rightarrow> bool" where
  "ExpectAttemptCount polls expectedAttempts \<longleftrightarrow> list_ex (\<lambda>f. GetAttemptCount f = expectedAttempts) polls"

definition CreateFailingClient :: "(ModelValidation \<Rightarrow> client_error option) \<Rightarrow> int \<Rightarrow> FailingClient" where
  "CreateFailingClient client maxFailures =
     \<lparr>fc_Client = client, fc_FailureCount = 0, fc_MaxFailures = maxFailures, fc_AttemptCount = 0\<rparr>"

section \<open>Retrying\<close>

text \<open>One status update through the client, and a number of them, each a retry of the one before.\<close>

definition update_through ::
  "update_env \<Rightarrow> NamespacedName \<Rightarrow> ModelValidation \<Rightarrow> StatusTrackerImpl \<Rightarrow> FailingClient \<Rightarrow>
   (update_error option \<times> ModelValidation option) \<times> FailingClient" where
  "update_through E k mv st f =
     (case doUpdateStatus (E\<lparr>ue_update := \<lambda>obj. fst (FailingSubResourceWriter_Update obj f)\<rparr>) k (Inr mv) st of
        (err, sent, _) \<Rightarrow>
          ((err, sent), case sent of Some obj \<Rightarrow> snd (FailingSubResourceWriter_Update obj f) | None \<Rightarrow> f))"

fun updates_through ::
  "nat \<Rightarrow> update_env \<Rightarrow> NamespacedName \<Rightarrow> ModelValidation \<Rightarrow> StatusTrackerImpl \<Rightarrow> FailingClient \<Rightarrow>
   (update_error option \<times> ModelValidation option) list \<times> FailingClient" where
  "updates_through 0 E k mv st f = ([], f)"
| "updates_through (Suc n) E k mv st f =
     (let (r, f) = update_through E k mv st f; (rs, f) = updates_through n E k mv st f in (r # rs, f))"

lemma update_through_stale:
  assumes "fmlookup (modelValidations st) k = Some i"
    and "mvi_ConfigHash i = GetConfigHash mv" "mvi_AuthMethod i = GetAuthMethod mv"
    and "\<not> statusEqual (mv_Status mv) (new_status E mv i)"
  shows "update_through E k mv st f =
    (case FailingSubResourceWriter_Update (mv\<lparr>mv_Status := new_status E mv i\<rparr>) f of
       (err, f') \<Rightarrow> ((map_option UpdateFailed err, Some (mv\<lparr>mv_Status := new_status E mv i\<rparr>)), f'))"
proof -
  have "new_status (E\<lparr>ue_update := u\<rparr>) mv i = new_status E mv i" for u by (simp add: new_status_def)
  then show ?thesis
    using assms by (simp add: update_through_def doUpdateStatus_def Let_def split: prod.splits option.splits)
qed

text \<open>
  An update that the API server refuses is not lost: when the first \<open>n\<close> writes fail, the
  update and its first \<open>n - 1\<close> retries return that error, and the next retry writes the same
  status; it takes \<open>n + 1\<close> writes, which is what the tests of the retries wait for.
\<close>

theorem retries_until_written:
  assumes "fmlookup (modelValidations st) k = Some i"
    and "mvi_ConfigHash i = GetConfigHash mv" "mvi_AuthMethod i = GetAuthMethod mv"
    and "\<not> statusEqual (mv_Status mv) (new_status E mv i)"
    and "client (mv\<lparr>mv_Status := new_status E mv i\<rparr>) = None"
  shows "\<exists>f. updates_through (Suc n) E k mv st (CreateFailingClient client (int n)) =
      (replicate n (Some (UpdateFailed simulated_failure), Some (mv\<lparr>mv_Status := new_status E mv i\<rparr>)) @
         [(None, Some (mv\<lparr>mv_Status := new_status E mv i\<rparr>))], f) \<and>
    GetAttemptCount f = int n + 1 \<and> GetFailureCount f = int n"
proof -
  note one = update_through_stale [OF assms(1-4)]
  have "\<exists>f'. updates_through (Suc m) E k mv st f =
      (replicate m (Some (UpdateFailed simulated_failure), Some (mv\<lparr>mv_Status := new_status E mv i\<rparr>)) @
         [(None, Some (mv\<lparr>mv_Status := new_status E mv i\<rparr>))], f') \<and>
      fc_AttemptCount f' = fc_AttemptCount f + int m + 1 \<and> fc_FailureCount f' = fc_FailureCount f + int m"
    if "fc_Client f = client" "fc_MaxFailures f = fc_FailureCount f + int m" for m f
    using that
  proof (induction m arbitrary: f)
    case 0
    then show ?case using assms(5) by (simp add: one FailingSubResourceWriter_Update_def)
  next
    case (Suc m)
    let ?f = "f\<lparr>fc_AttemptCount := fc_AttemptCount f + 1, fc_FailureCount := fc_FailureCount f + 1\<rparr>"
    have "update_through E k mv st f =
        ((Some (UpdateFailed simulated_failure), Some (mv\<lparr>mv_Status := new_status E mv i\<rparr>)), ?f)"
      using Suc.prems by (simp add: one FailingSubResourceWriter_Update_def)
    with Suc.IH [of ?f] Suc.prems show ?case
      by (subst updates_through.simps) (auto simp del: updates_through.simps)
  qed
  from this [of "CreateFailingClient client (int n)" n] show ?thesis
    by (simp add: CreateFailingClient_def GetAttemptCount_def GetFailureCount_def del: updates_through.simps)
qed

theorem retries_until_written_witness:
  "\<exists>f. snd (updates_through 4 sample_env sample_key sample_mv sample_tracker (CreateFailingClient (\<lambda>mv. None) 3)) = f \<and>
     GetAttemptCount f = 4 \<and> GetFailureCount f = 3"
proof -
  have "\<exists>f. updates_through (Suc 3) sample_env sample_key sample_mv sample_tracker
        (CreateFailingClient (\<lambda>mv. None) (int 3)) =
      (replicate 3 (Some (UpdateFailed simulated_failure), Some (sample_mv\<lparr>mv_Status := sample_written\<rparr>)) @
         [(None, Some (sample_mv\<lparr>mv_Status := sample_written\<rparr>))], f) \<and>
    GetAttemptCount f = int 3 + 1 \<and> GetFailureCount f = int 3"
    by (rule retries_until_written) (simp_all add: sample_info_simps sample_stale)
  then show ?thesis by (auto simp del: updates_through.simps simp: numeral_eq_Suc)
qed

end
