(* ===== verification/Spec2Isabelle.thy ===== *)
theory Spec2Isabelle
  imports Test_Utils Schemes Telemetry_Loop Queue_Gauge Metric_Safety Agent_Process Pod_Lifecycle
    Tracker_Properties Queue_Properties Webhook_Properties Controllers Operator_Config
    Operator_Main Otel_Setup Log_Adapter Machine_Stop Mock_Tracker Durations Deep_Copies Test_Helpers
begin

text \<open>
  \<^bold>\<open>The model validation operator.\<close>  The operator makes Kubernetes pods run only after the machine
  learning model they mount has been verified.  A user declares a \<open>ModelValidation\<close> (where the
  model is, how it is signed) and labels pods with its name.  The parts and how they interact:

  \<^item> the admission webhook (\<open>internal/webhooks\<close>) mutates a labelled pod: it adds the validation
    agent as an init container, with arguments made of the ModelValidation and the annotations of
    the pod, and marks the pod with a finalizer, the method and the hash of the configuration;
  \<^item> the agent (\<open>cmd/validation-agent\<close>, \<open>internal/validation\<close>) parses those arguments, verifies
    the model and exits, or keeps verifying it periodically and reports readiness;
  \<^item> the controllers (\<open>internal/controller\<close>) report ModelValidations and pods to the status
    tracker and release the finalizer of dying pods; one of them also counts what a
    \<open>TelemetryConfig\<close> matches;
  \<^item> the status tracker (\<open>internal/tracker\<close>) files every pod under its ModelValidation as
    injected, uninjected or orphaned (its recorded configuration has drifted), puts changed
    ModelValidations on a debounced queue, and a worker takes them from it and writes the status;
  \<^item> the main function, the ServiceMonitor, the NetworkPolicy and tracing configure all this.

  \<^bold>\<open>Theories.\<close>

  \<^item> \<open>Prelude\<close>: collections of rules, map iteration, \<open>NamespacedName\<close> with its linear order.
    \<open>Go_Lib\<close>: what the code uses of Go's \<open>strings\<close>, \<open>strconv\<close>, \<open>encoding/hex\<close> and \<open>sort\<close>;
    strings are lists of bytes.  \<open>Sha256\<close>: SHA-256 on 32-bit words.
  \<^item> \<open>Api_Types\<close>: \<open>api/v1alpha1\<close>, with the authentication method and the two hashes.
    \<open>K8s_Objects\<close>: the Kubernetes objects as far as the code reads or writes them, the constants
    of \<open>internal/constants\<close>, and the finalizer helpers as a parameter with laws.
    \<open>Metrics\<close>: \<open>internal/metrics\<close>, a recorder returns the instrument calls it makes.
  \<^item> \<open>Pod_Mapping\<close> (\<open>pod_mapping.go\<close>), \<open>MV_Info\<close> (\<open>model_validation_info.go\<close>) and
    \<open>Status_Tracker\<close> (\<open>status_tracker.go\<close>): the state under the tracker's mutex and its methods;
    a method is a function from the state at the time it holds the lock to the new state and the
    effects in order.  \<open>tracker_op\<close> and \<open>exec_ops\<close> run any interleaving of them.
    \<open>Tracker_Invariants\<close>, \<open>Tracker_Behaviour\<close> and \<open>Status_Update\<close> hold the lemmas,
    \<open>Tracker_Properties\<close> the properties.
  \<^item> \<open>Debounced_Queue\<close> (\<open>debounced_queue.go\<close>): the queue's state with its timers; the function of
    a timer runs in its own goroutine and takes the mutex late, so it is split at each shared
    access (\<open>cb_pc\<close>), and \<open>dq_step\<close> interleaves it with the methods.  The work queue of client-go
    is a parameter, its documented behaviour the locale \<open>workqueue\<close>.  \<open>Queue_Properties\<close> holds a
    concrete queue that satisfies the laws, and the properties.  \<open>Queue_Gauge\<close>: the update of
    the size gauge and \<open>ShutDown\<close> once more, action by action, with the mutex of the metric.
  \<^item> \<open>Tracker_Machine\<close>: the tracker, its worker goroutine, the queue with its timers, the API
    server's objects, the seeding goroutines and \<open>Stop\<close> as one machine, \<open>m_step\<close>, with a step for
    every point at which the goroutines can interleave.  \<open>Machine_Invariants\<close> and
    \<open>Machine_Consistency\<close> hold its invariants, \<open>Machine_Liveness\<close> the measure of a machine that is
    left alone, \<open>Machine_Properties\<close> and \<open>Machine_Stop\<close> the properties.  \<open>Metric_Safety\<close>: the
    metrics it records against the declarations of the instruments.  \<open>Pod_Lifecycle\<close>: the webhook,
    the controllers' calls and the machine together, from the admission of a pod to its status.
  \<^item> \<open>Validation\<close> (\<open>parse.go\<close>, \<open>validate.go\<close>) and \<open>Agent\<close> (\<open>cmd/validation-agent/main.go\<close>): the
    verifiers of model-transparency-go are a parameter (\<open>model_signing\<close>).  \<open>Agent_Process\<close>: the
    same main function as a process, with the goroutines of the health server, the context, the
    signals, the spans of the validations and the deferred calls.  \<open>Durations\<close>: Go's
    \<open>time.ParseDuration\<close>, which reads the agent's \<open>--interval\<close>, on 64-bit words.  \<open>Log_Adapter\<close>:
    the logger handed to the verifiers.
  \<^item> \<open>Telemetry\<close> (\<open>telemetry.go\<close>, \<open>telemetryconfig_controller.go\<close>), \<open>Pod_Webhook\<close>
    (\<open>pod_webhook.go\<close>, \<open>version.go\<close>) and its properties \<open>Webhook_Properties\<close>.  \<open>Telemetry_Loop\<close>:
    the TelemetryConfig controller with its watches, reading caches that change while it works.
  \<^item> \<open>Controllers\<close>: the two other controllers over the interface \<open>StatusTracker\<close>
    (\<open>status_tracker_intf.go\<close>).  \<open>Mock_Tracker\<close>: the test double (\<open>mock.go\<close>) under the same
    controllers.
  \<^item> \<open>Operator_Config\<close>: flags with environment defaults, ServiceMonitor, NetworkPolicy.
    \<open>Operator_Main\<close> (\<open>cmd/main.go\<close>): the flags, the options of the servers and of the manager, and
    the calls the main function makes in order, its exits and its deferred calls.  \<open>Otel_Setup\<close>:
    \<open>pkg/tracing\<close> and \<open>internal/metrics/otel.go\<close>.  \<open>Schemes\<close>: the registration of the types
    (\<open>groupversion_info.go\<close>, the \<open>init\<close> functions), what the \<open>SetupWithManager\<close> functions register,
    and the fake client of the tests.
  \<^item> \<open>Copy_Memory\<close> and \<open>Deep_Copies\<close>: the generated deep copies on an explicit memory, where a
    pointer is an address, and the merge of a cached model with annotations on that memory.
    \<open>Test_Helpers\<close> (\<open>internal/testutil\<close>): the objects the tests build, and the client that
    refuses a number of status updates, under which the retries are shown to write in the end.
    \<open>Test_Utils\<close> (\<open>test/utils\<close>): the commands the end-to-end tests run, and how they read pods and
    metrics; what they read of the tracker's metrics is what it recorded.
  \<^item> this theory: the properties that span components.

  \<^bold>\<open>Interfaces.\<close>  \<open>slice_order\<close> (a comparison that sorts), \<open>finalizer_laws\<close>, \<open>pod_registry\<close>
  (the name mapping), \<open>info_invariant\<close> (what every operation of the tracker keeps of each
  tracked resource), \<open>workqueue\<close>, \<open>mv_tracking\<close> and its extension \<open>status_tracker\<close> (what the
  controllers need of the tracker), \<open>deep_copy\<close> (a copier with the reading it keeps),
  \<open>library_copies\<close> and \<open>registration\<close> (of kinds with a scheme) are locales; each is interpreted on the definitions of the model, \<open>mv_tracking\<close>
  on the tracker and on the test double, and the work queue, the finalizers and the copies of
  apimachinery types, which are library code, on a concrete implementation.

  \<^bold>\<open>Specifications.\<close>  \<open>mvi_abs\<close> reads the three maps of a resource as one map from a pod's UID to
  its category; filing, removing and drift refine the functions \<open>spec_add\<close> and \<open>spec_drift\<close> on
  it.  \<open>expected_config\<close> is the configuration the agent should read from the webhook's arguments.
  \<open>candidate_rank\<close> is the order of telemetry configurations as a tuple.  \<open>ingress_allowed\<close> is the
  meaning of a network policy.  The machine refines the methods run one after the other in the
  order in which they take the mutex, the process of the agent refines its main function without
  goroutines, and the copies in memory refine copying a value.

  \<^bold>\<open>What the lemmas show.\<close>  For the tracker: well-formedness under every interleaving, the exact
  effect of each method on every branch, notification of every change, what the status update
  writes.  For the queue: the wait group equals the pending timers except for the resets of fired
  timers, an item once added reaches the work queue, timer functions end.  For the machine: in
  every reachable state a resource whose status is out of date is on its way through the queue, a
  machine that is left alone comes to rest with every status up to date, and \<open>Stop\<close> returns.  For
  the webhook and the agent: the arguments round trip, the mutation only adds, mounts and
  privileges stay minimal, the agent fails closed and reads every interval the CRD accepts
  exactly; a pod is listed in the status as injected once the machine has come to rest after its
  admission, and in no list after its release.  For the process of the agent: its exit code can be
  trusted under every interleaving, and it ends when it is told to.  For the TelemetryConfig
  controller: at rest every status counts what is there.  For the metrics: no call the tracker
  makes panics or opens a label value outside the fixed ones.  For the main function: the servers are configured as the flags say, and the manager
  starts last.  For the copies: they never panic on well-typed resources and share no cell with
  their original.

  Some theorems state behaviour of the code that its comments do not lead one to expect:
  \<open>reset_of_fired_timer_panics\<close>, \<open>not_found_leaks_counter\<close>, \<open>late_not_found_untracks\<close>,
  \<open>tied_names_rewrite\<close>, \<open>stop_drops_queued\<close>, \<open>name_reuse_keeps_old_pod\<close>,
  \<open>orphaned_stays_orphaned\<close>, \<open>negative_interval_exits_zero\<close>, \<open>failing_start_skips_cleanup\<close>,
  \<open>failed_span_not_exported\<close>, \<open>telemetry_writes_repeat\<close>, \<open>failed_listing_loses_change\<close>,
  \<open>late_update_sticks\<close>, \<open>second_run_leaves_project\<close> and \<open>wait_for_completion_ignores_processing\<close>.

  \<^bold>\<open>Bounds.\<close>  No definition uses fuel: every loop of the code but those of the agent and of the
  worker runs over a finite list or map, and these two are step relations.  That the worker comes
  to rest is proved with the measure \<open>machine_weight\<close>, that the agent's process ends with
  \<open>process_weight\<close>, which allows ten steps besides ticks, signals and exports.  The counts of a status are 32-bit words,
  made of lengths by truncation as the code does; the duration parser works on 64-bit words with
  its overflow checks; generations and counters are integers.  The order in which Go iterates
  over a map is an argument wherever it matters.

  \<^bold>\<open>Not modelled.\<close>  The Kubernetes client, API server, informers, HTTP servers, logging, the
  OpenTelemetry and Prometheus libraries beyond the behaviour the theories name (their results are
  arguments); the time a wait takes; the tests themselves, manifests and scripts.  In the machine a metric recorded by two
  goroutines at once is recorded in one order; the race of the size gauge is in \<open>Queue_Gauge\<close>.
\<close>

section \<open>Controllers and tracker\<close>

abbreviation live_tracker :: "(StatusTrackerImpl \<times> effect list) StatusTracker" where
  "live_tracker \<equiv> tracker_impl list_finalizers sorted_list_of_fset sorted_list_of_fset"

text \<open>
  After the reconciliation of a ModelValidation the tracker tracks it exactly when the
  resource exists and is not being deleted, and tracks every other resource as before; when the
  resource could not be read nothing changes and the error is returned.
\<close>

theorem reconciled_iff_tracked:
  assumes "impl_inv s" and "\<And>mv. got = Inr mv \<Longrightarrow> mv_key mv = req"
    and "modelvalidation_reconcile live_tracker req got s = (err, s')"
  shows "(err = None \<longrightarrow>
      (impl_tracks s' req \<longleftrightarrow> (\<exists>mv. got = Inr mv \<and> om_DeletionTimestamp (mv_Meta mv) = None)) \<and>
      (\<forall>k. k \<noteq> req \<longrightarrow> impl_tracks s' k = impl_tracks s k)) \<and>
    (err \<noteq> None \<longrightarrow> s' = s \<and> got = Inl (the err)) \<and> impl_inv s'"
proof (cases err)
  case None
  then show ?thesis using trk.reconcile_mv [OF assms(1,2)] assms(3) by blast
next
  case (Some e)
  then have "s' = s" "got = Inl e"
    using assms(3) by (auto simp: modelvalidation_reconcile_def split: sum.splits client_error.splits if_splits)
  then show ?thesis using Some assms(1) by simp
qed

theorem reconciled_iff_tracked_witness:
  "impl_tracks (snd (modelvalidation_reconcile live_tracker sample_key (Inr sample_mv) (NewStatusTracker, []))) sample_key"
proof -
  let ?r = "modelvalidation_reconcile live_tracker sample_key (Inr sample_mv) (NewStatusTracker, [])"
  obtain err s' where r: "?r = (err, s')" by (cases ?r) auto
  have "om_DeletionTimestamp (mv_Meta sample_mv) = None" by (simp add: sample_mv_def sample_meta_def)
  moreover from this have "err = None" using r by (simp add: modelvalidation_reconcile_def)
  moreover have "impl_inv (NewStatusTracker, [])"
    by (simp add: impl_inv_def tracker_wf_def info.new_tracker)
  ultimately show ?thesis using reconciled_iff_tracked [OF _ _ r] r by auto
qed

text \<open>
  A pod that is being deleted is forgotten by the tracker before its finalizer goes: the
  reconciliation leaves no ModelValidation that knows its UID, leaves every other pod, and then
  writes the pod without our finalizer and otherwise unchanged, if it had it, and only then.
\<close>

theorem deleted_pod_released:
  assumes "impl_inv s" "om_DeletionTimestamp (pod_Meta pod) \<noteq> None" "finalizer_laws F"
    and "pod_reconcile live_tracker F update req (Inr pod) s = (err, written, s')"
  shows "\<not> impl_pod_at s' k (pod_UID pod) \<and> (u \<noteq> pod_UID pod \<longrightarrow> impl_pod_at s' k u = impl_pod_at s k u) \<and>
    (written = None \<longleftrightarrow> \<not> ContainsFinalizer F (pod_Finalizers pod) ModelValidationFinalizer) \<and>
    (\<forall>w. written = Some w \<longrightarrow> \<not> ContainsFinalizer F (pod_Finalizers w) ModelValidationFinalizer \<and>
       pod_Spec w = pod_Spec pod \<and> pod_Labels w = pod_Labels pod \<and> pod_Annotations w = pod_Annotations pod \<and>
       err = map_option ReconcileClient (update w))"
proof -
  from trk.reconcile_deleted_pod [OF assms(1,2,4)]
  have gone: "\<not> impl_pod_at s' k (pod_UID pod)" "u \<noteq> pod_UID pod \<longrightarrow> impl_pod_at s' k u = impl_pod_at s k u"
    and rem: "(err, written) = remove_finalizer F update pod" by blast+
  show ?thesis
    using gone rem
    by (auto simp: remove_finalizer_def Let_def finalizer_laws.remove_contains [OF assms(3)] split: if_splits)
qed

definition dying_pod :: Pod where
  "dying_pod =
     (sample_pod ''web'' ''u1'' [ModelValidationFinalizer])
       \<lparr>pod_Meta := (pod_Meta (sample_pod ''web'' ''u1'' [ModelValidationFinalizer]))\<lparr>om_DeletionTimestamp := Some 3\<rparr>\<rparr>"

theorem deleted_pod_released_witness:
  "\<exists>w s'. pod_reconcile live_tracker list_finalizers (\<lambda>_. None) (nn ''prod'' ''web'') (Inr dying_pod) (sample_tracker, []) =
      (None, Some w, s') \<and> \<not> ContainsFinalizer list_finalizers (pod_Finalizers w) ModelValidationFinalizer"
proof -
  let ?r = "pod_reconcile live_tracker list_finalizers (\<lambda>_. None) (nn ''prod'' ''web'') (Inr dying_pod) (sample_tracker, [])"
  obtain err written s' where r: "?r = (err, written, s')" by (cases ?r) auto
  have "om_DeletionTimestamp (pod_Meta dying_pod) \<noteq> None" by (simp add: dying_pod_def)
  moreover have "impl_inv (sample_tracker, [])" by (simp add: impl_inv_def)
  moreover have "ContainsFinalizer list_finalizers (pod_Finalizers dying_pod) ModelValidationFinalizer"
    by (simp add: dying_pod_def list_finalizers_def)
  ultimately show ?thesis using deleted_pod_released [OF _ _ list_finalizer_laws r, where k = sample_key and u = "[]"] r
    by auto
qed

section \<open>Webhook and tracker\<close>

text \<open>
  The tracker reads back what the webhook wrote: a pod the webhook injected for a
  ModelValidation is filed as injected under every tracker whose configuration for it has the
  same hash and method, and as orphaned under any other.
\<close>

theorem injected_pod_category:
  assumes "finalizer_laws F"
  shows "pod_category F (inject F sel E ns mv pod) i =
    (if mvi_ConfigHash i = GetConfigHash mv \<and> mvi_AuthMethod i = GetAuthMethod mv then Injected else Orphaned)"
  using assms by (rule injected_category)

theorem injected_pod_category_witness:
  "pod_category list_finalizers (inject list_finalizers match_labels app_env (plain_meta ''prod'') sample_mv app_pod) sample_info =
     Injected"
  using injected_pod_category [OF list_finalizer_laws, of match_labels app_env "plain_meta ''prod''" sample_mv app_pod sample_info]
  by (simp add: sample_info_def NewModelValidationInfo_def)

section \<open>Webhook and agent\<close>




definition every_hour :: ModelValidation where
  "every_hour = model_validation (Some \<lparr>cv_Enabled = True, cv_Interval = ''1h''\<rparr>)"


end
